(* ===== verification/Prelude.thy ===== *)
theory Prelude
  imports Main "HOL-Library.Multiset" "HOL-Library.List_Lexorder" "HOL-Library.Char_ord"
    "HOL-Library.Product_Lexorder"
begin

text \<open>
  Prelude of the whatsmeow-api development: the theorem collections the component
  theories fill, Go errors as values, and the generic lemmas on keyed lists that stand
  behind every SQL table of the model.
\<close>

named_theorems store_defs \<open>definitions of the store operations, to be unfolded together\<close>
named_theorems svc_defs \<open>definitions of the use-case layer, to be unfolded together\<close>

section \<open>Go errors\<close>

text \<open>
  A Go \<open>error\<close> is its message together with the sentinel it wraps, if any:
  \<open>errors.Is(err, service.ErrInvalidRequest)\<close> is \<open>is_err EInvalidRequest\<close> on the
  model's value. A function returning only an error has type \<open>goerr option\<close>
  (None is nil), one returning a value and an error has type \<open>goerr + 'a\<close>.
\<close>

datatype err_kind =
    EInvalidRequest | EForbidden | ENotFound
  | ELoginInProgress | EAlreadyLoggedIn | ENotLoggedIn | ENotConnected
  | EOther

datatype goerr = GoErr (err_kind_of: err_kind) (err_msg: string)

definition is_err :: "err_kind \<Rightarrow> goerr \<Rightarrow> bool" where
  "is_err k e \<longleftrightarrow> err_kind_of e = k"

text \<open>\<open>fmt.Errorf("ctx: %w", err)\<close> keeps the sentinel and prefixes the message.\<close>

definition wrapf :: "string \<Rightarrow> goerr \<Rightarrow> goerr" where
  "wrapf p e = GoErr (err_kind_of e) (p @ '': '' @ err_msg e)"

lemma is_err_simp [simp]: "is_err k (GoErr k' m) \<longleftrightarrow> k' = k"
  by (simp add: is_err_def)

lemma err_kind_wrapf [simp]: "err_kind_of (wrapf p e) = err_kind_of e"
  by (simp add: wrapf_def)

lemma is_err_wrapf [simp]: "is_err k (wrapf p e) \<longleftrightarrow> is_err k e"
  by (simp add: is_err_def)

section \<open>Rows of a table as a keyed list\<close>

text \<open>
  A table is the list of its rows in insertion order. \<open>upsert\<close> is
  \<open>INSERT ... ON CONFLICT(pk) DO UPDATE SET\<close> every other column: it replaces the row with
  the same key in place and appends a row with a new key.
\<close>

fun upsert :: "('r \<Rightarrow> 'k) \<Rightarrow> 'r \<Rightarrow> 'r list \<Rightarrow> 'r list" where
  "upsert key r [] = [r]"
| "upsert key r (x # xs) = (if key x = key r then r # xs else x # upsert key r xs)"

fun find_key :: "('r \<Rightarrow> 'k) \<Rightarrow> 'k \<Rightarrow> 'r list \<Rightarrow> 'r option" where
  "find_key key k [] = None"
| "find_key key k (x # xs) = (if key x = k then Some x else find_key key k xs)"

definition keyed :: "('r \<Rightarrow> 'k) \<Rightarrow> 'r list \<Rightarrow> bool" where
  "keyed key xs \<longleftrightarrow> distinct (map key xs)"

lemma keyed_Nil [simp]: "keyed key []"
  by (simp add: keyed_def)

lemma find_key_upsert [simp]:
  "find_key key k (upsert key r xs) = (if k = key r then Some r else find_key key k xs)"
  by (induction xs) auto

lemma find_key_SomeD: "find_key key k xs = Some r \<Longrightarrow> r \<in> set xs \<and> key r = k"
  by (induction xs) (auto split: if_splits)

lemma find_key_None_iff: "find_key key k xs = None \<longleftrightarrow> k \<notin> key ` set xs"
  by (induction xs) auto

lemma key_set_upsert [simp]: "key ` set (upsert key r xs) = insert (key r) (key ` set xs)"
  by (induction xs) auto

lemma keyed_upsert [simp, intro]: "keyed key xs \<Longrightarrow> keyed key (upsert key r xs)"
proof (induction xs)
  case Nil
  then show ?case by (simp add: keyed_def)
next
  case (Cons x xs)
  have "key ` set (upsert key r xs) = insert (key r) (key ` set xs)" by simp
  with Cons show ?case by (auto simp: keyed_def)
qed

lemma find_key_mem_iff:
  "keyed key xs \<Longrightarrow> find_key key k xs = Some r \<longleftrightarrow> r \<in> set xs \<and> key r = k"
  by (induction xs) (auto simp: keyed_def)

lemma set_upsert_subset: "set (upsert key r xs) \<subseteq> insert r (set xs)"
  by (induction xs) auto

lemma upsert_mem [simp]: "r \<in> set (upsert key r xs)"
  by (induction xs) auto

lemma set_upsert:
  "keyed key xs \<Longrightarrow> set (upsert key r xs) = insert r {x \<in> set xs. key x \<noteq> key r}"
  by (induction xs) (auto simp: keyed_def image_iff)

lemma length_upsert:
  "length (upsert key r xs) = (if key r \<in> key ` set xs then length xs else Suc (length xs))"
  by (induction xs) auto

lemma find_key_map_if:
  assumes "\<And>x. key (f x) = key x"
  shows "find_key key k (map f xs) = map_option f (find_key key k xs)"
  using assms by (induction xs) auto

lemma keyed_map_key:
  assumes "\<And>x. key (f x) = key x"
  shows "keyed key (map f xs) \<longleftrightarrow> keyed key xs"
  using assms by (simp add: keyed_def comp_def)

lemma image_key_map:
  assumes "\<And>x. key (f x) = key x"
  shows "key ` set (map f xs) = key ` set xs"
  using assms by (simp add: image_image)

lemma keyed_filter [simp, intro]: "keyed key xs \<Longrightarrow> keyed key (filter P xs)"
  by (induction xs) (auto simp: keyed_def)

lemma find_key_filter_key:
  "find_key key k (filter (\<lambda>x. P (key x)) xs) = (if P k then find_key key k xs else None)"
  by (induction xs) auto

section \<open>SQL \<open>LIMIT\<close>\<close>

text \<open>A negative \<open>LIMIT\<close> is no limit in SQLite.\<close>

definition sql_limit :: "int \<Rightarrow> 'a list \<Rightarrow> 'a list" where
  "sql_limit l xs = (if l < 0 then xs else take (nat l) xs)"

lemma set_sql_limit: "set (sql_limit l xs) \<subseteq> set xs"
  by (auto simp: sql_limit_def dest: in_set_takeD)

lemma length_sql_limit: "0 \<le> l \<Longrightarrow> length (sql_limit l xs) = min (length xs) (nat l)"
  by (simp add: sql_limit_def min.commute)

lemma sorted_sql_limit: "sorted (map f xs) \<Longrightarrow> sorted (map f (sql_limit l xs))"
  by (auto simp: sql_limit_def simp flip: take_map)

end
