(* ===== verification/Go_Strings.thy ===== *)
theory Go_Strings
  imports Prelude
begin

text \<open>
  The parts of Go's \<open>strings\<close>, \<open>unicode/utf8\<close>, \<open>strconv\<close> and \<open>regexp\<close> packages that the
  daemon uses, on Go strings. A Go string is a sequence of bytes, so it is a \<open>char list\<close>
  here (an Isabelle \<open>char\<close> is a byte) and \<open>length\<close> is Go's \<open>len\<close>.
\<close>

section \<open>UTF-8\<close>

definition byte :: "char \<Rightarrow> nat" where
  "byte c = of_char c"

definition is_cont :: "nat \<Rightarrow> bool" where
  "is_cont b \<longleftrightarrow> 128 \<le> b \<and> b < 192"

text \<open>
  \<open>utf8.DecodeRuneInString\<close>: the first rune and its width in bytes; an invalid encoding
  gives (U+FFFD, 1).
\<close>

definition decode_rune :: "nat list \<Rightarrow> nat \<times> nat" where
  "decode_rune bs = (case bs of
     [] \<Rightarrow> (65533, 0)
   | a # r1 \<Rightarrow>
      if a < 128 then (a, 1)
      else (case r1 of
         [] \<Rightarrow> (65533, 1)
       | b # r2 \<Rightarrow>
          if 194 \<le> a \<and> a < 224 then
            (if is_cont b then ((a - 192) * 64 + (b - 128), 2) else (65533, 1))
          else (case r2 of
             [] \<Rightarrow> (65533, 1)
           | c # r3 \<Rightarrow>
              if 224 \<le> a \<and> a < 240 then
                (if is_cont b \<and> is_cont c \<and> (a = 224 \<longrightarrow> 160 \<le> b) \<and> (a = 237 \<longrightarrow> b < 160)
                 then ((a - 224) * 4096 + (b - 128) * 64 + (c - 128), 3) else (65533, 1))
              else (case r3 of
                 [] \<Rightarrow> (65533, 1)
               | d # _ \<Rightarrow>
                  if 240 \<le> a \<and> a < 245 \<and> is_cont b \<and> is_cont c \<and> is_cont d
                     \<and> (a = 240 \<longrightarrow> 144 \<le> b) \<and> (a = 244 \<longrightarrow> b < 144)
                  then ((a - 240) * 262144 + (b - 128) * 4096 + (c - 128) * 64 + (d - 128), 4)
                  else (65533, 1)))))"

lemma decode_rune_width_pos: "bs \<noteq> [] \<Longrightarrow> 0 < snd (decode_rune bs)"
  by (auto simp: decode_rune_def split: list.splits)

lemma decode_rune_width_le: "snd (decode_rune bs) \<le> length bs"
  by (auto simp: decode_rune_def split: list.splits)

text \<open>A rune is either one ASCII byte or made of bytes with the high bit set.\<close>

lemma decode_rune_bytes:
  "decode_rune bs = (r, w) \<Longrightarrow>
     (\<exists>bs'. bs = r # bs' \<and> w = 1 \<and> r < 128) \<or> (\<forall>b\<in>set (take w bs). 128 \<le> b)"
  by (auto simp: decode_rune_def is_cont_def split: list.splits if_splits)

text \<open>The loop \<open>for i, r := range s\<close>: the runes of a string with the bytes each comes from.\<close>

function runes :: "string \<Rightarrow> (nat \<times> string) list" where
  "runes s = (if s = [] then []
     else (let (r, w) = decode_rune (map byte s) in (r, take w s) # runes (drop w s)))"
  by pat_completeness auto
termination
proof (relation "measure length", goal_cases)
  case 1
  then show ?case by simp
next
  case (2 s rw r w)
  then have "0 < w"
    using decode_rune_width_pos [of "map byte s"] by (metis map_is_Nil_conv snd_conv)
  with 2 show ?case by simp
qed

declare runes.simps [simp del]

lemma runes_Nil [simp]: "runes [] = []"
  by (simp add: runes.simps)

lemma concat_runes: "concat (map snd (runes s)) = s"
proof (induction s rule: runes.induct)
  case (1 s)
  show ?case
  proof (cases "s = []")
    case False
    obtain r w where rw: "decode_rune (map byte s) = (r, w)" by fastforce
    with "1.IH" [OF False] have "concat (map snd (runes (drop w s))) = drop w s" by simp
    with False rw show ?thesis by (subst runes.simps) simp
  qed simp
qed

lemma length_runes_le: "length (runes s) \<le> length s"
proof (induction s rule: runes.induct)
  case (1 s)
  show ?case
  proof (cases "s = []")
    case False
    obtain r w where rw: "decode_rune (map byte s) = (r, w)" by fastforce
    with False have w: "0 < w" using decode_rune_width_pos [of "map byte s"] by simp
    from rw "1.IH" [OF False] have "length (runes (drop w s)) \<le> length s - w" by simp
    moreover have "0 < length s" using False by simp
    ultimately have "Suc (length (runes (drop w s))) \<le> length s" using w by linarith
    with False rw show ?thesis by (subst runes.simps) simp
  qed simp
qed

lemma runes_bytes:
  "(r, bs) \<in> set (runes s) \<Longrightarrow>
     (\<exists>c. bs = [c] \<and> r = byte c \<and> r < 128) \<or> (\<forall>c\<in>set bs. 128 \<le> byte c)"
proof (induction s rule: runes.induct)
  case (1 s)
  show ?case
  proof (cases "s = []")
    case False
    obtain r' w where rw: "decode_rune (map byte s) = (r', w)" by fastforce
    from "1.prems" False rw have "(r, bs) = (r', take w s) \<or> (r, bs) \<in> set (runes (drop w s))"
      by (simp add: runes.simps [of s])
    then show ?thesis
    proof
      assume "(r, bs) = (r', take w s)"
      with decode_rune_bytes [OF rw] show ?thesis
        by (auto simp: take_map)
    qed (use "1.IH" [OF False rw [symmetric] refl] in simp)
  next
    case True
    with "1.prems" show ?thesis by simp
  qed
qed

definition RuneCountInString :: "string \<Rightarrow> nat" where
  "RuneCountInString s = length (runes s)"

lemma runes_ascii: "list_all (\<lambda>c. byte c < 128) s \<Longrightarrow> runes s = map (\<lambda>c. (byte c, [c])) s"
proof (induction s)
  case (Cons c s)
  then show ?case by (subst runes.simps) (simp add: decode_rune_def)
qed simp

section \<open>\<open>strings\<close>\<close>

text \<open>\<open>unicode.IsSpace\<close> (the White_Space property).\<close>

definition is_space :: "nat \<Rightarrow> bool" where
  "is_space r \<longleftrightarrow> (9 \<le> r \<and> r \<le> 13) \<or> r = 32 \<or> r = 133 \<or> r = 160 \<or> r = 5760
     \<or> (8192 \<le> r \<and> r \<le> 8202) \<or> r = 8232 \<or> r = 8233 \<or> r = 8239 \<or> r = 8287 \<or> r = 12288"

definition TrimSpace :: "string \<Rightarrow> string" where
  "TrimSpace s = (let sp = (\<lambda>x. is_space (fst x))
     in concat (map snd (rev (dropWhile sp (rev (dropWhile sp (runes s)))))))"

lemma dropWhile_both_Nil: "rev (dropWhile P (rev (dropWhile P xs))) = [] \<longleftrightarrow> (\<forall>x\<in>set xs. P x)"
proof
  assume "rev (dropWhile P (rev (dropWhile P xs))) = []"
  then have "\<forall>x\<in>set (dropWhile P xs). P x" by (simp add: dropWhile_eq_Nil_conv)
  then show "\<forall>x\<in>set xs. P x"
    by (metis Un_iff set_append set_takeWhileD takeWhile_dropWhile_id)
next
  assume "\<forall>x\<in>set xs. P x"
  then have "dropWhile P xs = []" by (simp only: dropWhile_eq_Nil_conv)
  then show "rev (dropWhile P (rev (dropWhile P xs))) = []" by (simp only: rev.simps dropWhile.simps)
qed

lemma TrimSpace_Nil [simp]: "TrimSpace [] = []"
  by (simp add: TrimSpace_def)

lemma runes_bytes_nonempty: "x \<in> set (runes s) \<Longrightarrow> snd x \<noteq> []"
proof (induction s rule: runes.induct)
  case (1 s)
  show ?case
  proof (cases "s = []")
    case False
    obtain r w where rw: "decode_rune (map byte s) = (r, w)" by fastforce
    with False have w: "0 < w" using decode_rune_width_pos [of "map byte s"] by simp
    from "1.prems" False rw have "x = (r, take w s) \<or> x \<in> set (runes (drop w s))"
      by (simp add: runes.simps [of s])
    with w False show ?thesis using "1.IH" [OF False rw [symmetric] refl] by auto
  next
    case True
    with "1.prems" show ?thesis by simp
  qed
qed

lemma all_none_Nil: "\<forall>x\<in>set xs. P x \<Longrightarrow> \<forall>x\<in>set xs. \<not> P x \<Longrightarrow> xs = []"
  by (cases xs) auto

lemma TrimSpace_empty_iff: "TrimSpace s = [] \<longleftrightarrow> (\<forall>x\<in>set (runes s). is_space (fst x))"
proof -
  define sp where "sp = (\<lambda>x::nat \<times> string. is_space (fst x))"
  define t where "t = rev (dropWhile sp (rev (dropWhile sp (runes s))))"
  have sub: "x \<in> set (runes s)" if "x \<in> set t" for x
    using that by (auto simp: t_def dest!: set_dropWhileD)
  have trim: "TrimSpace s = concat (map snd t)"
    by (simp add: TrimSpace_def t_def sp_def Let_def)
  have "concat (map snd t) = [] \<longleftrightarrow> t = []"
  proof
    assume "concat (map snd t) = []"
    then have "\<forall>x\<in>set t. snd x = []" by simp
    moreover have "\<forall>x\<in>set t. snd x \<noteq> []"
      using sub runes_bytes_nonempty by fast
    ultimately show "t = []" by (rule all_none_Nil [where P = "\<lambda>x. snd x = []"])
  qed simp
  then show ?thesis
    unfolding trim by (simp only: t_def dropWhile_both_Nil sp_def)
qed

text \<open>On ASCII strings \<open>TrimSpace\<close> works on bytes.\<close>

lemma TrimSpace_ascii:
  assumes "list_all (\<lambda>c. byte c < 128) s"
  shows "TrimSpace s = rev (dropWhile (\<lambda>c. is_space (byte c)) (rev (dropWhile (\<lambda>c. is_space (byte c)) s)))"
proof -
  have "concat (map snd (map (\<lambda>c. (byte c, [c])) cs)) = cs" for cs by (induction cs) simp_all
  moreover have "rev (dropWhile (\<lambda>x. is_space (fst x)) (rev (dropWhile (\<lambda>x. is_space (fst x)) (runes s))))
      = map (\<lambda>c. (byte c, [c])) (rev (dropWhile (\<lambda>c. is_space (byte c)) (rev (dropWhile (\<lambda>c. is_space (byte c)) s))))"
    unfolding runes_ascii [OF assms] by (simp add: dropWhile_map rev_map comp_def)
  ultimately show ?thesis unfolding TrimSpace_def Let_def by (simp only:)
qed

text \<open>These evaluate the functions on ASCII literals.\<close>

lemmas ascii_text = TrimSpace_ascii byte_def is_space_def RuneCountInString_def runes_ascii

lemma TrimSpace_nonblank: "TrimSpace s \<noteq> [] \<Longrightarrow> s \<noteq> []"
  by auto

definition HasPrefix :: "string \<Rightarrow> string \<Rightarrow> bool" where
  "HasPrefix s p \<longleftrightarrow> take (length p) s = p"

definition HasSuffix :: "string \<Rightarrow> string \<Rightarrow> bool" where
  "HasSuffix s p \<longleftrightarrow> length p \<le> length s \<and> drop (length s - length p) s = p"

lemma HasSuffix_iff: "HasSuffix s p \<longleftrightarrow> (\<exists>u. s = u @ p)"
proof
  assume "HasSuffix s p"
  then have "s = take (length s - length p) s @ p"
    by (metis HasSuffix_def append_take_drop_id)
  then show "\<exists>u. s = u @ p" by blast
qed (auto simp: HasSuffix_def)

definition ascii_lower :: "char \<Rightarrow> char" where
  "ascii_lower c = (if 65 \<le> byte c \<and> byte c \<le> 90 then char_of (byte c + 32) else c)"

text \<open>
  \<open>strings.ToLower\<close> on an ASCII string maps its letters; on any other string it goes
  through the Unicode tables, which are the parameter \<open>ul\<close>.
\<close>

definition ToLower :: "(string \<Rightarrow> string) \<Rightarrow> string \<Rightarrow> string" where
  "ToLower ul s = (if list_all (\<lambda>c. byte c < 128) s then map ascii_lower s else ul s)"

section \<open>Decimal printing (\<open>strconv\<close>, \<open>%d\<close>)\<close>

definition digit :: "nat \<Rightarrow> char" where
  "digit d = char_of (48 + d)"

fun show_nat :: "nat \<Rightarrow> string" where
  "show_nat n = (if n < 10 then [digit n] else show_nat (n div 10) @ [digit (n mod 10)])"

declare show_nat.simps [simp del]

definition show_int :: "int \<Rightarrow> string" where
  "show_int i = (if i < 0 then ''-'' @ show_nat (nat (- i)) else show_nat (nat i))"

text \<open>\<open>strconv.Atoi\<close> and \<open>strconv.ParseInt(s, 10, 64)\<close>: None is the error.\<close>

definition is_digit :: "char \<Rightarrow> bool" where
  "is_digit c \<longleftrightarrow> 48 \<le> byte c \<and> byte c \<le> 57"

fun read_nat :: "nat \<Rightarrow> string \<Rightarrow> nat" where
  "read_nat acc [] = acc"
| "read_nat acc (c # cs) = read_nat (10 * acc + (byte c - 48)) cs"

definition parse_int64 :: "string \<Rightarrow> int option" where
  "parse_int64 s =
     (let (neg, ds) = (case s of
            [] \<Rightarrow> (False, [])
          | c # cs \<Rightarrow> if c = CHR ''-'' then (True, cs) else if c = CHR ''+'' then (False, cs) else (False, s))
      in if ds = [] \<or> \<not> list_all is_digit ds then None
         else let n = int (read_nat 0 ds); v = (if neg then - n else n)
              in if - (2 ^ 63) \<le> v \<and> v < 2 ^ 63 then Some v else None)"

lemma parse_int64_range: "parse_int64 s = Some v \<Longrightarrow> - (2 ^ 63) \<le> v \<and> v < 2 ^ 63"
  by (auto simp: parse_int64_def Let_def split: list.splits if_splits)

lemma byte_digit: "d < 10 \<Longrightarrow> byte (digit d) = 48 + d"
  by (simp add: byte_def digit_def)

lemma read_nat_append: "read_nat a (xs @ ys) = read_nat (read_nat a xs) ys"
  by (induction xs arbitrary: a) auto

lemma read_show_nat: "read_nat 0 (show_nat n) = n"
proof (induction n rule: show_nat.induct)
  case (1 n)
  then show ?case
    by (subst show_nat.simps) (auto simp: read_nat_append byte_digit)
qed

lemma show_nat_digits: "show_nat n \<noteq> [] \<and> list_all is_digit (show_nat n)"
proof (induction n rule: show_nat.induct)
  case (1 n)
  then show ?case by (auto simp: show_nat.simps [of n] is_digit_def byte_digit)
qed

lemma show_nat_hd: "show_nat n = c # cs \<Longrightarrow> c \<noteq> CHR ''-'' \<and> c \<noteq> CHR ''+''"
  using show_nat_digits [of n] by (auto simp: is_digit_def byte_def)

lemma parse_show_nat: "int n < 2 ^ 63 \<Longrightarrow> parse_int64 (show_nat n) = Some (int n)"
  using show_nat_digits [of n] show_nat_hd [of n] read_show_nat [of n]
  by (auto simp: parse_int64_def Let_def split: list.splits)

lemma parse_show_int: "0 \<le> i \<Longrightarrow> i < 2 ^ 63 \<Longrightarrow> parse_int64 (show_int i) = Some i"
  using parse_show_nat [of "nat i"] by (simp add: show_int_def)

end
