(* ===== verification/Go_Time.thy ===== *)
theory Go_Time
  imports Go_Strings
begin

text \<open>
  Go's \<open>time.Time\<close> as the instant it denotes: nanoseconds since the Unix epoch. The daemon
  compares, truncates and prints times in UTC only, so the location carries no information
  and \<open>t.UTC()\<close> is the identity.
\<close>

type_synonym time = int

definition nanos :: int where
  "nanos = 1000000000"

text \<open>The zero \<open>time.Time\<close>: January 1 of year 1, 00:00:00 UTC.\<close>

definition time_zero :: time where
  "time_zero = - 62135596800 * nanos"

definition IsZero :: "time \<Rightarrow> bool" where
  "IsZero t \<longleftrightarrow> t = time_zero"

text \<open>\<open>t.Unix()\<close> rounds towards minus infinity, as \<open>div\<close> does; \<open>time.Unix(sec, 0)\<close> is its inverse on whole seconds.\<close>

definition Unix :: "time \<Rightarrow> int" where
  "Unix t = t div nanos"

definition time_of_unix :: "int \<Rightarrow> time" where
  "time_of_unix s = s * nanos"

lemma nanos_pos: "0 < nanos"
  by (simp add: nanos_def)

lemma Unix_time_of_unix [simp]: "Unix (time_of_unix s) = s"
  using nanos_pos by (simp add: Unix_def time_of_unix_def)

lemma time_of_unix_inj [simp]: "time_of_unix s = time_of_unix s' \<longleftrightarrow> s = s'"
  using nanos_pos by (simp add: time_of_unix_def)

lemma time_of_unix_le [simp]: "time_of_unix s \<le> time_of_unix s' \<longleftrightarrow> s \<le> s'"
  using nanos_pos by (simp add: time_of_unix_def)

text \<open>What a column of whole seconds remembers of a time.\<close>

definition to_seconds :: "time \<Rightarrow> time" where
  "to_seconds t = time_of_unix (Unix t)"

lemma to_seconds_idem [simp]: "to_seconds (to_seconds t) = to_seconds t"
  by (simp add: to_seconds_def)

lemma to_seconds_bounds: "to_seconds t \<le> t \<and> t < to_seconds t + nanos"
proof -
  have "t div nanos * nanos + t mod nanos = t" by (rule div_mult_mod_eq)
  moreover have "0 \<le> t mod nanos" "t mod nanos < nanos" using nanos_pos by simp_all
  ultimately have "t div nanos * nanos \<le> t \<and> t < t div nanos * nanos + nanos" by linarith
  then show ?thesis by (simp add: to_seconds_def time_of_unix_def Unix_def)
qed

lemma to_seconds_mono: "s \<le> t \<Longrightarrow> to_seconds s \<le> to_seconds t"
  using nanos_pos by (simp add: to_seconds_def Unix_def zdiv_mono1)

section \<open>\<open>t.UTC().Format(time.RFC3339)\<close>\<close>

text \<open>Year, month and day of a day number (days since January 1, 1970), Gregorian calendar.\<close>

definition civil_of_days :: "int \<Rightarrow> int \<times> int \<times> int" where
  "civil_of_days days =
     (let z = days + 719468;
          era = z div 146097;
          doe = z mod 146097;
          yoe = (doe - doe div 1460 + doe div 36524 - doe div 146096) div 365;
          doy = doe - (365 * yoe + yoe div 4 - yoe div 100);
          mp = (5 * doy + 2) div 153;
          d = doy - (153 * mp + 2) div 5 + 1;
          m = (if mp < 10 then mp + 3 else mp - 9)
      in (yoe + era * 400 + (if m \<le> 2 then 1 else 0), m, d))"

definition pad :: "nat \<Rightarrow> int \<Rightarrow> string" where
  "pad w i = (let ds = show_nat (nat (abs i))
     in (if i < 0 then ''-'' else '''') @ replicate (w - length ds) CHR ''0'' @ ds)"

definition format_seconds :: "time \<Rightarrow> string" where
  "format_seconds t =
     (let s = Unix t; days = s div 86400; r = s mod 86400; (y, m, d) = civil_of_days days
      in pad 4 y @ ''-'' @ pad 2 m @ ''-'' @ pad 2 d @ ''T'' @
         pad 2 (r div 3600) @ '':'' @ pad 2 (r mod 3600 div 60) @ '':'' @ pad 2 (r mod 60))"

definition format_rfc3339 :: "time \<Rightarrow> string" where
  "format_rfc3339 t = format_seconds t @ ''Z''"

text \<open>The layout with \<open>.999999999\<close>: a fraction without trailing zeros, none if it is zero.\<close>

definition format_rfc3339_nano :: "time \<Rightarrow> string" where
  "format_rfc3339_nano t =
     (let f = t mod nanos;
          ds = rev (dropWhile (\<lambda>c. c = CHR ''0'') (rev (pad 9 f)))
      in format_seconds t @ (if f = 0 then '''' else ''.'' @ ds) @ ''Z'')"

text \<open>The printed form depends on the second only.\<close>

lemma format_to_seconds: "format_rfc3339 (to_seconds t) = format_rfc3339 t"
  by (simp add: format_rfc3339_def format_seconds_def to_seconds_def)

lemma format_epoch: "format_rfc3339 0 = ''1970-01-01T00:00:00Z''"
  by code_simp

lemma format_leap_day: "format_rfc3339 (time_of_unix 951827696) = ''2000-02-29T12:34:56Z''"
  by code_simp

lemma format_zero_time: "format_rfc3339 time_zero = ''0001-01-01T00:00:00Z''"
  by code_simp

end
