(* ===== verification/Go_Json.thy ===== *)
theory Go_Json
  imports Go_Time
begin

text \<open>
  The JSON values the daemon produces and \<open>encoding/json\<close>'s \<open>Marshal\<close> on them. A
  \<open>map[string]any\<close> is printed with its keys sorted (\<open>go_map\<close>), a struct with its fields in
  declaration order.
\<close>

datatype json =
    JNull
  | JBool bool
  | JInt int
  | JStr string
  | JArr "json list"
  | JObj "(string \<times> json) list"

definition go_map :: "(string \<times> json) list \<Rightarrow> json" where
  "go_map kvs = JObj (sort_key fst kvs)"

definition hex_digit :: "nat \<Rightarrow> char" where
  "hex_digit d = (if d < 10 then char_of (48 + d) else char_of (87 + d))"

definition u00 :: "nat \<Rightarrow> string" where
  "u00 r = CHR 0x5C # ''u00'' @ [hex_digit (r div 16), hex_digit (r mod 16)]"

text \<open>
  One rune of a string literal, with HTML escaping on, as \<open>Marshal\<close> has it. An invalid
  byte (rune U+FFFD from one byte) becomes the escape of U+FFFD.
\<close>

definition quote_rune :: "nat \<times> string \<Rightarrow> string" where
  "quote_rune rb = (case rb of (r, bs) \<Rightarrow>
     if r = 34 then [CHR 0x5C, CHR 0x22]
     else if r = 92 then [CHR 0x5C, CHR 0x5C]
     else if r = 8 then CHR 0x5C # ''b''
     else if r = 12 then CHR 0x5C # ''f''
     else if r = 10 then CHR 0x5C # ''n''
     else if r = 13 then CHR 0x5C # ''r''
     else if r = 9 then CHR 0x5C # ''t''
     else if r < 32 \<or> r = 60 \<or> r = 62 \<or> r = 38 then u00 r
     else if r = 65533 \<and> length bs = 1 then CHR 0x5C # ''ufffd''
     else if r = 8232 then CHR 0x5C # ''u2028''
     else if r = 8233 then CHR 0x5C # ''u2029''
     else bs)"

definition quote_str :: "string \<Rightarrow> string" where
  "quote_str s = CHR 0x22 # concat (map quote_rune (runes s)) @ [CHR 0x22]"

fun join :: "string \<Rightarrow> string list \<Rightarrow> string" where
  "join sep [] = []"
| "join sep [x] = x"
| "join sep (x # y # ys) = x @ sep @ join sep (y # ys)"

fun marshal :: "json \<Rightarrow> string" where
  "marshal JNull = ''null''"
| "marshal (JBool b) = (if b then ''true'' else ''false'')"
| "marshal (JInt i) = show_int i"
| "marshal (JStr s) = quote_str s"
| "marshal (JArr xs) = ''['' @ join '','' (map marshal xs) @ '']''"
| "marshal (JObj kvs) =
     ''{'' @ join '','' (map (\<lambda>(k, v). quote_str k @ '':'' @ marshal v) kvs) @ ''}''"

section \<open>The output holds no line break\<close>

text \<open>
  The SSE frames put a marshalled value on one \<open>data:\<close> line; that is sound because no
  marshalled value contains a newline or carriage return.
\<close>

definition one_line :: "string \<Rightarrow> bool" where
  "one_line s \<longleftrightarrow> CHR 0x0A \<notin> set s \<and> CHR 0x0D \<notin> set s"

lemma one_line_append [simp]: "one_line (s @ t) \<longleftrightarrow> one_line s \<and> one_line t"
  by (auto simp: one_line_def)

lemma one_line_Nil [simp]: "one_line []"
  by (simp add: one_line_def)

lemma one_line_Cons: "one_line (c # s) \<longleftrightarrow> c \<noteq> CHR 0x0A \<and> c \<noteq> CHR 0x0D \<and> one_line s"
  by (auto simp: one_line_def)

lemma one_line_concat: "one_line (concat xs) \<longleftrightarrow> (\<forall>x\<in>set xs. one_line x)"
  by (auto simp: one_line_def)

lemma one_line_join: "one_line sep \<Longrightarrow> \<forall>x\<in>set xs. one_line x \<Longrightarrow> one_line (join sep xs)"
  by (induction sep xs rule: join.induct) auto

lemma one_line_digit: "one_line [digit d]" if "d < 10"
proof -
  have "byte (digit d) \<noteq> byte (CHR 0x0A)" "byte (digit d) \<noteq> byte (CHR 0x0D)"
    using that by (simp_all add: byte_digit) (simp_all add: byte_def)
  then show ?thesis by (auto simp: one_line_def)
qed

lemma one_line_show_nat: "one_line (show_nat n)"
proof (induction n rule: show_nat.induct)
  case (1 n)
  then show ?case by (auto simp: show_nat.simps [of n] one_line_digit)
qed

lemma one_line_show_int: "one_line (show_int i)"
  by (simp add: show_int_def one_line_show_nat one_line_Cons)

lemma one_line_hex_digits: "\<forall>d\<in>set [0..<16]. one_line [hex_digit d]"
  by code_simp

lemma one_line_u00: "r < 128 \<Longrightarrow> one_line (u00 r)"
  using one_line_hex_digits by (auto simp: u00_def one_line_Cons)

lemma one_line_quote_rune: "rb \<in> set (runes s) \<Longrightarrow> one_line (quote_rune rb)"
proof -
  assume rb: "rb \<in> set (runes s)"
  obtain r bs where [simp]: "rb = (r, bs)" by fastforce
  from rb runes_bytes [of r bs s]
  consider (ascii) c where "bs = [c]" "r = byte c" "r < 128"
    | (high) "\<forall>c\<in>set bs. 128 \<le> byte c" by auto
  then show ?thesis
  proof cases
    case ascii
    then have "one_line bs" if "r \<noteq> 10" "r \<noteq> 13"
      using that by (auto simp: one_line_def byte_def)
    with ascii show ?thesis
      by (simp add: quote_rune_def one_line_u00 one_line_Cons)
  next
    case high
    then have "one_line bs" by (auto simp: one_line_def byte_def)
    then show ?thesis
      by (simp add: quote_rune_def one_line_u00 one_line_Cons)
  qed
qed

lemma one_line_quote_str: "one_line (quote_str s)"
  by (simp add: quote_str_def one_line_Cons one_line_concat one_line_quote_rune)

lemma one_line_marshal: "one_line (marshal v)"
proof (induction v)
  case (JStr s)
  then show ?case by (simp add: one_line_quote_str)
next
  case (JArr xs)
  then show ?case by (simp add: one_line_Cons one_line_join)
next
  case (JObj kvs)
  then have "one_line (marshal v)" if "(k, v) \<in> set kvs" for k v
    using that by (metis snds.intros snd_conv)
  then show ?case
    by (auto simp: one_line_Cons one_line_quote_str intro!: one_line_join)
qed (simp_all add: one_line_Cons one_line_show_int)

end
