(* ===== verification/Domain.thy ===== *)
theory Domain
  imports Go_Json
begin

text \<open>
  The domain types of the daemon: the rows of the app store (internal/store/store.go) and
  the view of WhatsApp (internal/waclient/waclient.go), with the sentinel errors and the
  classification functions of the latter.
\<close>

section \<open>Sentinel errors\<close>

definition ErrInvalidRequest :: goerr where
  "ErrInvalidRequest = GoErr EInvalidRequest ''service: invalid request''"

definition ErrForbidden :: goerr where
  "ErrForbidden = GoErr EForbidden ''service: forbidden''"

definition ErrNotFound :: goerr where
  "ErrNotFound = GoErr ENotFound ''store: not found''"

definition ErrLoginInProgress :: goerr where
  "ErrLoginInProgress = GoErr ELoginInProgress ''waclient: login already in progress''"

definition ErrAlreadyLoggedIn :: goerr where
  "ErrAlreadyLoggedIn = GoErr EAlreadyLoggedIn ''waclient: already logged in''"

definition ErrNotLoggedIn :: goerr where
  "ErrNotLoggedIn = GoErr ENotLoggedIn ''waclient: not logged in''"

definition ErrNotConnected :: goerr where
  "ErrNotConnected = GoErr ENotConnected ''waclient: not connected''"

text \<open>\<open>fmt.Errorf("%w: detail", sentinel)\<close>.\<close>

definition errorf :: "goerr \<Rightarrow> string \<Rightarrow> goerr" where
  "errorf e d = GoErr (err_kind_of e) (err_msg e @ '': '' @ d)"

lemma is_err_errorf [simp]: "is_err k (errorf e d) \<longleftrightarrow> is_err k e"
  by (simp add: errorf_def is_err_def)

lemma sentinel_kinds [simp]:
  "is_err k ErrInvalidRequest \<longleftrightarrow> k = EInvalidRequest"
  "is_err k ErrForbidden \<longleftrightarrow> k = EForbidden"
  "is_err k ErrNotFound \<longleftrightarrow> k = ENotFound"
  "is_err k ErrLoginInProgress \<longleftrightarrow> k = ELoginInProgress"
  "is_err k ErrAlreadyLoggedIn \<longleftrightarrow> k = EAlreadyLoggedIn"
  "is_err k ErrNotLoggedIn \<longleftrightarrow> k = ENotLoggedIn"
  "is_err k ErrNotConnected \<longleftrightarrow> k = ENotConnected"
  by (auto simp: ErrInvalidRequest_def ErrForbidden_def ErrNotFound_def ErrLoginInProgress_def
      ErrAlreadyLoggedIn_def ErrNotLoggedIn_def ErrNotConnected_def)

section \<open>Rows of the app store\<close>

record chat =
  chat_JID :: string
  chat_Name :: string
  chat_Kind :: string
  chat_LastMsgAt :: time
  chat_UnreadCount :: int
  chat_Archived :: bool

record message =
  msg_ID :: string
  msg_ChatJID :: string
  msg_SenderJID :: string
  msg_Timestamp :: time
  msg_Kind :: string
  msg_Body :: string
  msg_ReplyTo :: string
  msg_EditedAt :: "time option"
  msg_DeletedAt :: "time option"
  msg_RawMeta :: string

record contact =
  con_JID :: string
  con_PushName :: string
  con_FullName :: string
  con_BusinessName :: string

record media_ref =
  med_MessageID :: string
  med_MIME :: string
  med_Size :: int
  med_SHA256 :: string
  med_Path :: string

record reaction =
  rea_MessageID :: string
  rea_SenderJID :: string
  rea_Emoji :: string
  rea_Timestamp :: time

record event_log_entry =
  ev_Seq :: int
  ev_Time :: time
  ev_Type :: string
  ev_Payload :: string

record receipt =
  rec_MessageID :: string
  rec_ReaderJID :: string
  rec_Type :: string
  rec_Timestamp :: time

text \<open>A composite literal leaves the fields it does not name at their zero values.\<close>

definition new_chat :: "string \<Rightarrow> string \<Rightarrow> chat" where
  "new_chat jid kind = \<lparr>chat_JID = jid, chat_Name = '''', chat_Kind = kind,
     chat_LastMsgAt = time_zero, chat_UnreadCount = 0, chat_Archived = False\<rparr>"

definition new_message :: "string \<Rightarrow> string \<Rightarrow> string \<Rightarrow> time \<Rightarrow> string \<Rightarrow> string \<Rightarrow> string \<Rightarrow> message" where
  "new_message mid chat sender ts kind body reply = \<lparr>msg_ID = mid, msg_ChatJID = chat,
     msg_SenderJID = sender, msg_Timestamp = ts, msg_Kind = kind, msg_Body = body,
     msg_ReplyTo = reply, msg_EditedAt = None, msg_DeletedAt = None, msg_RawMeta = ''''\<rparr>"

section \<open>WhatsApp as the daemon sees it\<close>

record status =
  st_Connected :: bool
  st_JID :: "string option"
  st_PushName :: "string option"
  st_Since :: "time option"

text \<open>The zero \<open>Status{}\<close>.\<close>

definition status_zero :: status where
  "status_zero = \<lparr>st_Connected = False, st_JID = None, st_PushName = None, st_Since = None\<rparr>"

record qr_event =
  qr_Code :: string
  qr_Terminal :: bool
  qr_Outcome :: string

record pair_event =
  pe_Code :: string
  pe_Terminal :: bool
  pe_Outcome :: string

record sent =
  sent_ID :: string
  sent_Timestamp :: time
  sent_SenderJID :: string

text \<open>
  \<open>MediaDownloader\<close> is a closure; what it will return when it is run, the bytes and the
  MIME type or an error, stands for it (None is the nil closure).
\<close>

record incoming_message =
  in_ID :: string
  in_ChatJID :: string
  in_ChatKind :: string
  in_SenderJID :: string
  in_Timestamp :: time
  in_Kind :: string
  in_Body :: string
  in_PushName :: string
  in_MediaDownloader :: "(goerr + string \<times> string) option"
  in_EditOfID :: string
  in_RevokeOfID :: string
  in_ReactionTargetID :: string
  in_ReactionEmoji :: string

record group_member =
  gm_JID :: string
  gm_IsAdmin :: bool
  gm_IsSuperAdmin :: bool

record wa_group =
  gr_JID :: string
  gr_Name :: string
  gr_OwnerJID :: string
  gr_CreatedAt :: time
  gr_Participants :: "group_member list"

record participant_change =
  pc_JID :: string
  pc_OK :: bool
  pc_Error :: string

record incoming_receipt =
  ir_MessageIDs :: "string list"
  ir_ChatJID :: string
  ir_ReaderJID :: string
  ir_Type :: string
  ir_Timestamp :: time

record connection_state_event =
  cs_Status :: status
  cs_Reason :: string

text \<open>
  The \<open>WAClient\<close> interface over a client state \<open>'w\<close>. The login channels are the sequences
  of events they deliver until they are closed.
\<close>

record 'w waclient =
  wa_Status :: "'w \<Rightarrow> status"
  wa_LoginQR :: "'w \<Rightarrow> (goerr + qr_event list) \<times> 'w"
  wa_LoginPhone :: "string \<Rightarrow> 'w \<Rightarrow> (goerr + pair_event list) \<times> 'w"
  wa_Logout :: "'w \<Rightarrow> goerr option \<times> 'w"
  wa_SendText :: "string \<Rightarrow> string \<Rightarrow> string \<Rightarrow> 'w \<Rightarrow> (goerr + sent) \<times> 'w"
  wa_SendMedia :: "string \<Rightarrow> string \<Rightarrow> string \<Rightarrow> string \<Rightarrow> string \<Rightarrow> string \<Rightarrow> 'w \<Rightarrow> (goerr + sent) \<times> 'w"
  wa_SendEdit :: "string \<Rightarrow> string \<Rightarrow> string \<Rightarrow> 'w \<Rightarrow> (goerr + sent) \<times> 'w"
  wa_SendRevoke :: "string \<Rightarrow> string \<Rightarrow> 'w \<Rightarrow> (goerr + sent) \<times> 'w"
  wa_SendReaction :: "string \<Rightarrow> string \<Rightarrow> string \<Rightarrow> 'w \<Rightarrow> goerr option \<times> 'w"
  wa_MarkRead :: "string \<Rightarrow> string \<Rightarrow> string \<Rightarrow> time \<Rightarrow> 'w \<Rightarrow> goerr option \<times> 'w"
  wa_SendChatPresence :: "string \<Rightarrow> string \<Rightarrow> 'w \<Rightarrow> goerr option \<times> 'w"
  wa_CreateGroup :: "string \<Rightarrow> string list \<Rightarrow> 'w \<Rightarrow> (goerr + wa_group) \<times> 'w"
  wa_GetGroupInfo :: "string \<Rightarrow> 'w \<Rightarrow> (goerr + wa_group) \<times> 'w"
  wa_UpdateGroupParticipants :: "string \<Rightarrow> string \<Rightarrow> string list \<Rightarrow> 'w \<Rightarrow> (goerr + participant_change list) \<times> 'w"
  wa_LeaveGroup :: "string \<Rightarrow> 'w \<Rightarrow> goerr option \<times> 'w"

text \<open>The regular expression \<open>^\+[0-9]{6,15}$\<close>.\<close>

definition IsValidPhoneNumber :: "string \<Rightarrow> bool" where
  "IsValidPhoneNumber s = (case s of
     [] \<Rightarrow> False
   | c # ds \<Rightarrow> c = CHR ''+'' \<and> 6 \<le> length ds \<and> length ds \<le> 15 \<and> list_all is_digit ds)"

definition ChatKindFromJID :: "string \<Rightarrow> string" where
  "ChatKindFromJID jid =
     (if HasSuffix jid ''@s.whatsapp.net'' then ''user''
      else if HasSuffix jid ''@g.us'' then ''group''
      else if HasSuffix jid ''@broadcast'' then ''broadcast''
      else if HasSuffix jid ''@newsletter'' then ''newsletter''
      else ''unknown'')"

lemma ChatKindFromJID_nonempty [simp]: "ChatKindFromJID jid \<noteq> []"
  by (simp add: ChatKindFromJID_def)

lemma IsValidPhoneNumber_plus: "IsValidPhoneNumber s \<Longrightarrow> hd s = CHR ''+'' \<and> 7 \<le> length s \<and> length s \<le> 16"
  by (auto simp: IsValidPhoneNumber_def split: list.splits)

text \<open>The suffixes exclude one another, so the order of the cases is irrelevant.\<close>

lemma HasSuffix_disjoint:
  "HasSuffix s p \<Longrightarrow> HasSuffix s q \<Longrightarrow> length q \<le> length p \<Longrightarrow> HasSuffix p q"
  by (auto simp: HasSuffix_iff append_eq_append_conv2)

end
