(* ===== verification/Sql.thy ===== *)
theory Sql
  imports Domain
begin

text \<open>
  The schema of internal/store/migrations and the meaning of the SQL statements the two
  dialects send, over tables as keyed lists of rows in insertion (rowid) order. Both
  migrations declare the same tables, keys and foreign keys; they differ in the type of
  the time columns (whole Unix seconds in SQLite, instants in Postgres, both an integer
  here) and of \<open>chats.archived\<close> (the type parameter \<open>'b\<close>). No statement of the program
  deletes a chat or a message, so ON DELETE CASCADE is never triggered.

  What the engines leave open is in the record \<open>engine\<close>, a parameter of the stores.
\<close>

section \<open>Tables\<close>

record 'b chat_row =
  cr_jid :: string
  cr_name :: "string option"
  cr_kind :: string
  cr_last :: "int option"
  cr_unread :: int
  cr_archived :: 'b

record message_row =
  mr_id :: string
  mr_chat_jid :: string
  mr_sender_jid :: string
  mr_ts :: int
  mr_kind :: string
  mr_body :: "string option"
  mr_reply_to :: "string option"
  mr_edited_at :: "int option"
  mr_deleted_at :: "int option"
  mr_raw_meta :: "string option"

record contact_row =
  or_jid :: string
  or_push_name :: "string option"
  or_full_name :: "string option"
  or_business_name :: "string option"

record media_row =
  dr_message_id :: string
  dr_mime :: string
  dr_size :: int
  dr_sha256 :: string
  dr_path :: string

record event_row =
  er_seq :: int
  er_ts :: int
  er_type :: string
  er_payload :: string

record reaction_row =
  rr_message_id :: string
  rr_sender_jid :: string
  rr_emoji :: string
  rr_ts :: int

record receipt_row =
  pr_message_id :: string
  pr_reader_jid :: string
  pr_type :: string
  pr_ts :: int

definition rr_key :: "reaction_row \<Rightarrow> string \<times> string" where
  "rr_key r = (rr_message_id r, rr_sender_jid r)"

definition pr_key :: "receipt_row \<Rightarrow> string \<times> string \<times> string" where
  "pr_key r = (pr_message_id r, pr_reader_jid r, pr_type r)"

text \<open>\<open>t_next_seq\<close> is the AUTOINCREMENT counter, the Postgres sequence behind BIGSERIAL.\<close>

record 'b db =
  t_chats :: "'b chat_row list"
  t_messages :: "message_row list"
  t_contacts :: "contact_row list"
  t_media :: "media_row list"
  t_events :: "event_row list"
  t_next_seq :: int
  t_kv :: "(string \<times> string) list"
  t_reactions :: "reaction_row list"
  t_receipts :: "receipt_row list"

definition empty_db :: "'b db" where
  "empty_db = \<lparr>t_chats = [], t_messages = [], t_contacts = [], t_media = [], t_events = [],
     t_next_seq = 1, t_kv = [], t_reactions = [], t_receipts = []\<rparr>"

section \<open>What the engines leave open\<close>

text \<open>
  \<^item> \<open>eng_scan\<close>: the order in which rows of \<open>messages\<close> that tie under ORDER BY come out;
  \<^item> \<open>eng_fts\<close>: full-text search: a query is rejected with a message, or gives each body the
    rank of its match (None: no match);
  \<^item> \<open>eng_collate\<close>: the sort key of a text under the Postgres database collation (SQLite
    compares bytes);
  \<^item> \<open>eng_lower\<close>: Postgres \<open>lower()\<close>; \<open>eng_ul\<close>: Go's \<open>strings.ToLower\<close> off ASCII;
  \<^item> \<open>eng_ts\<close>: what a TIMESTAMPTZ column keeps of an instant (microseconds);
  \<^item> \<open>eng_fk_msg\<close>, \<open>eng_range_msg\<close>, \<open>eng_limit_msg\<close>: the driver's messages.
\<close>

record engine =
  eng_scan :: "message_row list \<Rightarrow> message_row list"
  eng_fts :: "string \<Rightarrow> string + (string option \<Rightarrow> int option)"
  eng_collate :: "string \<Rightarrow> string"
  eng_lower :: "string \<Rightarrow> string"
  eng_ul :: "string \<Rightarrow> string"
  eng_ts :: "time \<Rightarrow> time"
  eng_fk_msg :: string
  eng_range_msg :: string
  eng_limit_msg :: string

text \<open>The documented behaviour the theorems on listings rely on: a scan reorders rows.\<close>

definition engine_ok :: "engine \<Rightarrow> bool" where
  "engine_ok eng \<longleftrightarrow> (\<forall>rows. mset (eng_scan eng rows) = mset rows)"

lemma set_eng_scan: "engine_ok eng \<Longrightarrow> set (eng_scan eng rows) = set rows"
  by (metis engine_ok_def set_mset_mset)

lemma distinct_eng_scan: "engine_ok eng \<Longrightarrow> distinct rows \<Longrightarrow> distinct (eng_scan eng rows)"
  by (metis engine_ok_def mset_eq_imp_distinct_iff)

section \<open>Statements\<close>

text \<open>Writes give Inl of the driver's message when a constraint refuses them.\<close>

definition upsert_chat :: "'b chat_row \<Rightarrow> 'b db \<Rightarrow> string + 'b db" where
  "upsert_chat r d = Inr (d\<lparr>t_chats := upsert cr_jid r (t_chats d)\<rparr>)"

definition chat_exists :: "'b db \<Rightarrow> string \<Rightarrow> bool" where
  "chat_exists d j \<longleftrightarrow> j \<in> cr_jid ` set (t_chats d)"

definition message_exists :: "'b db \<Rightarrow> string \<Rightarrow> bool" where
  "message_exists d i \<longleftrightarrow> i \<in> mr_id ` set (t_messages d)"

definition upsert_message :: "engine \<Rightarrow> message_row \<Rightarrow> 'b db \<Rightarrow> string + 'b db" where
  "upsert_message eng r d =
     (if chat_exists d (mr_chat_jid r)
      then Inr (d\<lparr>t_messages := upsert mr_id r (t_messages d)\<rparr>) else Inl (eng_fk_msg eng))"

definition upsert_contact :: "contact_row \<Rightarrow> 'b db \<Rightarrow> string + 'b db" where
  "upsert_contact r d = Inr (d\<lparr>t_contacts := upsert or_jid r (t_contacts d)\<rparr>)"

definition upsert_media :: "engine \<Rightarrow> media_row \<Rightarrow> 'b db \<Rightarrow> string + 'b db" where
  "upsert_media eng r d =
     (if message_exists d (dr_message_id r)
      then Inr (d\<lparr>t_media := upsert dr_message_id r (t_media d)\<rparr>) else Inl (eng_fk_msg eng))"

definition upsert_reaction :: "engine \<Rightarrow> reaction_row \<Rightarrow> 'b db \<Rightarrow> string + 'b db" where
  "upsert_reaction eng r d =
     (if message_exists d (rr_message_id r)
      then Inr (d\<lparr>t_reactions := upsert rr_key r (t_reactions d)\<rparr>) else Inl (eng_fk_msg eng))"

definition delete_reaction :: "string \<Rightarrow> string \<Rightarrow> 'b db \<Rightarrow> string + 'b db" where
  "delete_reaction mid sender d =
     Inr (d\<lparr>t_reactions := filter (\<lambda>r. rr_key r \<noteq> (mid, sender)) (t_reactions d)\<rparr>)"

definition upsert_receipt :: "engine \<Rightarrow> receipt_row \<Rightarrow> 'b db \<Rightarrow> string + 'b db" where
  "upsert_receipt eng r d =
     (if message_exists d (pr_message_id r)
      then Inr (d\<lparr>t_receipts := upsert pr_key r (t_receipts d)\<rparr>) else Inl (eng_fk_msg eng))"

definition update_archived :: "string \<Rightarrow> 'b \<Rightarrow> 'b db \<Rightarrow> string + 'b db" where
  "update_archived j a d =
     Inr (d\<lparr>t_chats := map (\<lambda>r. if cr_jid r = j then r\<lparr>cr_archived := a\<rparr> else r) (t_chats d)\<rparr>)"

definition update_deleted_at :: "string \<Rightarrow> int \<Rightarrow> 'b db \<Rightarrow> string + 'b db" where
  "update_deleted_at i t d =
     Inr (d\<lparr>t_messages :=
        map (\<lambda>r. if mr_id r = i then r\<lparr>mr_deleted_at := Some t\<rparr> else r) (t_messages d)\<rparr>)"

text \<open>The insert into \<open>events_log\<close> gives the new row's \<open>seq\<close>.\<close>

definition insert_event :: "int \<Rightarrow> string \<Rightarrow> string \<Rightarrow> 'b db \<Rightarrow> int \<times> 'b db" where
  "insert_event ts ty p d =
     (t_next_seq d,
      d\<lparr>t_events := t_events d @ [\<lparr>er_seq = t_next_seq d, er_ts = ts, er_type = ty, er_payload = p\<rparr>],
        t_next_seq := t_next_seq d + 1\<rparr>)"

definition upsert_kv :: "string \<Rightarrow> string \<Rightarrow> 'b db \<Rightarrow> string + 'b db" where
  "upsert_kv k v d = Inr (d\<lparr>t_kv := upsert fst (k, v) (t_kv d)\<rparr>)"

definition delete_kv :: "string \<Rightarrow> 'b db \<Rightarrow> string + 'b db" where
  "delete_kv k d = Inr (d\<lparr>t_kv := filter (\<lambda>kv. fst kv \<noteq> k) (t_kv d)\<rparr>)"

section \<open>ORDER BY keys\<close>

text \<open>\<open>ORDER BY last_msg_at DESC NULLS LAST, jid ASC\<close>.\<close>

definition chat_order :: "(string \<Rightarrow> 'k) \<Rightarrow> 'b chat_row \<Rightarrow> int \<times> int \<times> 'k" where
  "chat_order coll r = (case cr_last r of
     None \<Rightarrow> (1, 0, coll (cr_jid r)) | Some t \<Rightarrow> (0, - t, coll (cr_jid r)))"

text \<open>\<open>LIKE\<close> on code points: \<open>%\<close> any sequence, \<open>_\<close> any one, \<open>esc\<close> the escape character if the dialect has one.\<close>

fun like :: "nat option \<Rightarrow> nat list \<Rightarrow> nat list \<Rightarrow> bool" where
  "like esc [] s = (s = [])"
| "like esc (p # ps) [] = (esc \<noteq> Some p \<and> p = 37 \<and> like esc ps [])"
| "like esc (p # ps) (c # cs) =
     (if esc = Some p then
        (case ps of [] \<Rightarrow> False | q # qs \<Rightarrow> q = c \<and> like esc qs cs)
      else if p = 37 then like esc ps (c # cs) \<or> like esc (p # ps) cs
      else if p = 95 then like esc ps cs
      else p = c \<and> like esc ps cs)"

definition code_points :: "string \<Rightarrow> nat list" where
  "code_points s = map fst (runes s)"

section \<open>Connections and \<open>database/sql\<close> calls\<close>

text \<open>
  Every call on the pool may fail; which ones do is the script \<open>c_faults\<close>, one entry per
  call, an exhausted script meaning that no further call fails. A failed call has no effect
  on the tables. A query may fail when it is sent, while a row is scanned or at \<open>rows.Err()\<close>.
\<close>

datatype fault = FExec string | FScan string | FRows string

fun fault_msg :: "fault \<Rightarrow> string" where
  "fault_msg (FExec m) = m"
| "fault_msg (FScan m) = m"
| "fault_msg (FRows m) = m"

record 'b conn =
  c_db :: "'b db"
  c_faults :: "fault option list"

definition quiet :: "'b conn \<Rightarrow> bool" where
  "quiet c \<longleftrightarrow> (\<forall>f\<in>set (c_faults c). f = None)"

definition driver_err :: "string \<Rightarrow> goerr" where
  "driver_err m = GoErr EOther m"

definition next_fault :: "'b conn \<Rightarrow> fault option \<times> 'b conn" where
  "next_fault c = (case c_faults c of [] \<Rightarrow> (None, c) | f # fs \<Rightarrow> (f, c\<lparr>c_faults := fs\<rparr>))"

definition exec :: "string \<Rightarrow> ('b db \<Rightarrow> string + 'b db) \<Rightarrow> 'b conn \<Rightarrow> goerr option \<times> 'b conn" where
  "exec ctx f c = (case next_fault c of
     (Some e, c1) \<Rightarrow> (Some (wrapf ctx (driver_err (fault_msg e))), c1)
   | (None, c1) \<Rightarrow> (case f (c_db c1) of
        Inl m \<Rightarrow> (Some (wrapf ctx (driver_err m)), c1)
      | Inr d \<Rightarrow> (None, c1\<lparr>c_db := d\<rparr>)))"

definition exec_id :: "string \<Rightarrow> ('b db \<Rightarrow> int \<times> 'b db) \<Rightarrow> 'b conn \<Rightarrow> (goerr + int) \<times> 'b conn" where
  "exec_id ctx f c = (case next_fault c of
     (Some e, c1) \<Rightarrow> (Inl (wrapf ctx (driver_err (fault_msg e))), c1)
   | (None, c1) \<Rightarrow> (case f (c_db c1) of (i, d) \<Rightarrow> (Inr i, c1\<lparr>c_db := d\<rparr>)))"

text \<open>\<open>QueryRowContext(...).Scan\<close>, with \<open>sql.ErrNoRows\<close> turned into \<open>store.ErrNotFound\<close>.\<close>

definition query_row :: "string \<Rightarrow> ('b db \<Rightarrow> 'a option) \<Rightarrow> 'b conn \<Rightarrow> (goerr + 'a) \<times> 'b conn" where
  "query_row ctx f c = (case next_fault c of
     (Some e, c1) \<Rightarrow> (Inl (wrapf ctx (driver_err (fault_msg e))), c1)
   | (None, c1) \<Rightarrow> (case f (c_db c1) of
        None \<Rightarrow> (Inl ErrNotFound, c1)
      | Some x \<Rightarrow> (Inr x, c1)))"

text \<open>An aggregate query always has its one row.\<close>

definition query_val :: "string \<Rightarrow> ('b db \<Rightarrow> 'a) \<Rightarrow> 'b conn \<Rightarrow> (goerr + 'a) \<times> 'b conn" where
  "query_val ctx f c = query_row ctx (\<lambda>d. Some (f d)) c"

definition query_rows :: "string \<Rightarrow> ('b db \<Rightarrow> string + 'a list) \<Rightarrow> 'b conn \<Rightarrow> (goerr + 'a list) \<times> 'b conn" where
  "query_rows ctx f c = (case next_fault c of
     (Some (FScan m), c1) \<Rightarrow> (Inl (wrapf (ctx @ '' scan'') (driver_err m)), c1)
   | (Some (FRows m), c1) \<Rightarrow> (Inl (driver_err m), c1)
   | (Some (FExec m), c1) \<Rightarrow> (Inl (wrapf ctx (driver_err m)), c1)
   | (None, c1) \<Rightarrow> (case f (c_db c1) of
        Inl m \<Rightarrow> (Inl (wrapf ctx (driver_err m)), c1)
      | Inr xs \<Rightarrow> (Inr xs, c1)))"

section \<open>Lemmas on calls\<close>

lemma quiet_upd_db [simp]: "quiet (c\<lparr>c_db := d\<rparr>) = quiet c"
  by (simp add: quiet_def)

lemma next_faultE:
  assumes "next_fault c = (f, c1)"
  shows "c_db c1 = c_db c" and "quiet c \<Longrightarrow> f = None \<and> quiet c1"
  using assms by (auto simp: next_fault_def quiet_def split: list.splits)

lemma exec_cases:
  assumes "exec ctx f c = (r, c')"
  obtains (fail) e where "r = Some e" "c_db c' = c_db c" "err_kind_of e = EOther" "\<not> quiet c \<or> (\<exists>m. f (c_db c) = Inl m)" "quiet c \<longrightarrow> quiet c'"
    | (ok) d where "r = None" "f (c_db c) = Inr d" "c_db c' = d" "quiet c \<longrightarrow> quiet c'"
proof -
  obtain fo c1 where nf: "next_fault c = (fo, c1)" by fastforce
  note c1 = next_faultE [OF nf]
  show ?thesis
    using assms nf c1 fail that(2-) unfolding exec_def
    by (cases "quiet c") (auto simp: driver_err_def wrapf_def split: prod.splits option.splits sum.splits)
qed

lemma exec_id_cases:
  assumes "exec_id ctx f c = (r, c')"
  obtains (fail) e where "r = Inl e" "c_db c' = c_db c" "err_kind_of e = EOther" "\<not> quiet c"
    | (ok) i d where "r = Inr i" "f (c_db c) = (i, d)" "c_db c' = d" "quiet c \<longrightarrow> quiet c'"
proof -
  obtain fo c1 where nf: "next_fault c = (fo, c1)" by fastforce
  note c1 = next_faultE [OF nf]
  show ?thesis
    using assms nf c1 fail that(2-) unfolding exec_id_def
    by (cases "quiet c") (auto simp: driver_err_def wrapf_def split: prod.splits option.splits)
qed

lemma query_row_cases:
  assumes "query_row ctx f c = (r, c')"
  obtains (fail) e where "r = Inl e" "c_db c' = c_db c" "err_kind_of e = EOther" "\<not> quiet c"
    | (none) "r = Inl ErrNotFound" "f (c_db c) = None" "c_db c' = c_db c" "quiet c \<longrightarrow> quiet c'"
    | (some) x where "r = Inr x" "f (c_db c) = Some x" "c_db c' = c_db c" "quiet c \<longrightarrow> quiet c'"
proof -
  obtain fo c1 where nf: "next_fault c = (fo, c1)" by fastforce
  note c1 = next_faultE [OF nf]
  show ?thesis
    using assms nf c1 fail that(2-) unfolding query_row_def
    by (cases "quiet c") (auto simp: driver_err_def wrapf_def split: prod.splits option.splits)
qed

lemma query_val_cases:
  assumes "query_val ctx f c = (r, c')"
  obtains (fail) e where "r = Inl e" "c_db c' = c_db c" "\<not> quiet c"
    | (ok) "r = Inr (f (c_db c))" "c_db c' = c_db c" "quiet c \<longrightarrow> quiet c'"
  using assms unfolding query_val_def by (cases rule: query_row_cases) auto

lemma query_rows_cases:
  assumes "query_rows ctx f c = (r, c')"
  obtains (fail) e where "r = Inl e" "c_db c' = c_db c" "err_kind_of e = EOther" "\<not> quiet c \<or> (\<exists>m. f (c_db c) = Inl m)"
       "quiet c \<longrightarrow> quiet c'"
    | (ok) xs where "r = Inr xs" "f (c_db c) = Inr xs" "c_db c' = c_db c" "quiet c \<longrightarrow> quiet c'"
proof -
  obtain fo c1 where nf: "next_fault c = (fo, c1)" by fastforce
  note c1 = next_faultE [OF nf]
  show ?thesis
    using assms nf c1 fail that(2-) unfolding query_rows_def
    by (cases "quiet c") (auto simp: driver_err_def wrapf_def split: prod.splits option.splits sum.splits fault.splits)
qed

section \<open>Well-formed databases\<close>

text \<open>Primary keys are unique, foreign keys resolve, and \<open>seq\<close> grows along the log.\<close>

definition db_ok :: "'b db \<Rightarrow> bool" where
  "db_ok d \<longleftrightarrow>
     keyed cr_jid (t_chats d) \<and> keyed mr_id (t_messages d) \<and> keyed or_jid (t_contacts d)
   \<and> keyed dr_message_id (t_media d) \<and> keyed fst (t_kv d)
   \<and> keyed rr_key (t_reactions d) \<and> keyed pr_key (t_receipts d)
   \<and> (\<forall>r\<in>set (t_messages d). chat_exists d (mr_chat_jid r))
   \<and> (\<forall>r\<in>set (t_media d). message_exists d (dr_message_id r))
   \<and> (\<forall>r\<in>set (t_reactions d). message_exists d (rr_message_id r))
   \<and> (\<forall>r\<in>set (t_receipts d). message_exists d (pr_message_id r))
   \<and> sorted_wrt (<) (map er_seq (t_events d))
   \<and> (\<forall>r\<in>set (t_events d). 0 < er_seq r \<and> er_seq r < t_next_seq d) \<and> 0 < t_next_seq d"

lemma db_ok_empty: "db_ok empty_db"
  by (simp add: db_ok_def empty_db_def)

lemma db_ok_upsert_chat: "db_ok d \<Longrightarrow> upsert_chat r d = Inr d' \<Longrightarrow> db_ok d'"
  by (auto simp: db_ok_def upsert_chat_def chat_exists_def message_exists_def)

lemma db_ok_upsert_message: "db_ok d \<Longrightarrow> upsert_message eng r d = Inr d' \<Longrightarrow> db_ok d'"
  using set_upsert_subset [of mr_id r "t_messages d"]
  by (auto simp: db_ok_def upsert_message_def chat_exists_def message_exists_def split: if_splits)

lemma db_ok_upsert_contact: "db_ok d \<Longrightarrow> upsert_contact r d = Inr d' \<Longrightarrow> db_ok d'"
  by (auto simp: db_ok_def upsert_contact_def chat_exists_def message_exists_def)

lemma db_ok_upsert_media: "db_ok d \<Longrightarrow> upsert_media eng r d = Inr d' \<Longrightarrow> db_ok d'"
  using set_upsert_subset [of dr_message_id r "t_media d"]
  by (auto simp: db_ok_def upsert_media_def chat_exists_def message_exists_def split: if_splits)

lemma db_ok_upsert_reaction: "db_ok d \<Longrightarrow> upsert_reaction eng r d = Inr d' \<Longrightarrow> db_ok d'"
  using set_upsert_subset [of rr_key r "t_reactions d"]
  by (auto simp: db_ok_def upsert_reaction_def chat_exists_def message_exists_def split: if_splits)

lemma db_ok_delete_reaction: "db_ok d \<Longrightarrow> delete_reaction i s d = Inr d' \<Longrightarrow> db_ok d'"
  by (auto simp: db_ok_def delete_reaction_def chat_exists_def message_exists_def)

lemma db_ok_upsert_receipt: "db_ok d \<Longrightarrow> upsert_receipt eng r d = Inr d' \<Longrightarrow> db_ok d'"
  using set_upsert_subset [of pr_key r "t_receipts d"]
  by (auto simp: db_ok_def upsert_receipt_def chat_exists_def message_exists_def split: if_splits)

lemma db_ok_update_archived: "db_ok d \<Longrightarrow> update_archived j a d = Inr d' \<Longrightarrow> db_ok d'"
proof -
  assume ok: "db_ok d" and up: "update_archived j a d = Inr d'"
  let ?f = "\<lambda>r. if cr_jid r = j then r\<lparr>cr_archived := a\<rparr> else r"
  have "keyed cr_jid (map ?f (t_chats d)) = keyed cr_jid (t_chats d)"
    by (rule keyed_map_key) simp
  moreover have "cr_jid ` set (map ?f (t_chats d)) = cr_jid ` set (t_chats d)"
    by (rule image_key_map) simp
  ultimately show ?thesis using ok up
    by (auto simp: db_ok_def update_archived_def chat_exists_def message_exists_def)
qed

lemma db_ok_update_deleted_at: "db_ok d \<Longrightarrow> update_deleted_at i t d = Inr d' \<Longrightarrow> db_ok d'"
proof -
  assume ok: "db_ok d" and up: "update_deleted_at i t d = Inr d'"
  let ?f = "\<lambda>r. if mr_id r = i then r\<lparr>mr_deleted_at := Some t\<rparr> else r"
  have "keyed mr_id (map ?f (t_messages d)) = keyed mr_id (t_messages d)"
    by (rule keyed_map_key) simp
  moreover have "mr_id ` set (map ?f (t_messages d)) = mr_id ` set (t_messages d)"
    by (rule image_key_map) simp
  ultimately show ?thesis using ok up
    by (auto simp: db_ok_def update_deleted_at_def chat_exists_def message_exists_def)
qed

lemma db_ok_insert_event: "db_ok d \<Longrightarrow> db_ok (snd (insert_event ts ty p d))"
  by (auto simp: db_ok_def insert_event_def chat_exists_def message_exists_def sorted_wrt_append)

lemma db_ok_upsert_kv: "db_ok d \<Longrightarrow> upsert_kv k v d = Inr d' \<Longrightarrow> db_ok d'"
  by (auto simp: db_ok_def upsert_kv_def chat_exists_def message_exists_def)

lemma db_ok_delete_kv: "db_ok d \<Longrightarrow> delete_kv k d = Inr d' \<Longrightarrow> db_ok d'"
  by (auto simp: db_ok_def delete_kv_def chat_exists_def message_exists_def)

lemmas db_ok_intros =
  db_ok_upsert_chat db_ok_upsert_message db_ok_upsert_contact db_ok_upsert_media
  db_ok_upsert_reaction db_ok_delete_reaction db_ok_upsert_receipt db_ok_update_archived
  db_ok_update_deleted_at db_ok_upsert_kv db_ok_delete_kv

end
