(* ===== verification/Store_Api.thy ===== *)
theory Store_Api
  imports Sql
begin

text \<open>
  The persistence interfaces of internal/store/store.go as records of operations over a
  database state \<open>'d\<close>, the abstract store they promise (\<open>store_view\<close> with one abstract
  operation per interface method) and the locales that state the promise. The two dialects
  interpret the locales; the use-case layer is verified against them.
\<close>

section \<open>Interfaces\<close>

record 'd chat_store =
  cst_Put :: "chat \<Rightarrow> 'd \<Rightarrow> goerr option \<times> 'd"
  cst_Get :: "string \<Rightarrow> 'd \<Rightarrow> (goerr + chat) \<times> 'd"
  cst_List :: "time \<Rightarrow> int \<Rightarrow> bool \<Rightarrow> 'd \<Rightarrow> (goerr + chat list) \<times> 'd"
  cst_SetArchived :: "string \<Rightarrow> bool \<Rightarrow> 'd \<Rightarrow> goerr option \<times> 'd"
  cst_Count :: "'d \<Rightarrow> (goerr + int) \<times> 'd"
  cst_TotalUnread :: "'d \<Rightarrow> (goerr + int) \<times> 'd"

record 'd message_store =
  mst_Put :: "message \<Rightarrow> 'd \<Rightarrow> goerr option \<times> 'd"
  mst_Get :: "string \<Rightarrow> 'd \<Rightarrow> (goerr + message) \<times> 'd"
  mst_ListByChat :: "string \<Rightarrow> int \<Rightarrow> time \<Rightarrow> 'd \<Rightarrow> (goerr + message list) \<times> 'd"
  mst_Search :: "string \<Rightarrow> int \<Rightarrow> 'd \<Rightarrow> (goerr + message list) \<times> 'd"
  mst_SoftDelete :: "string \<Rightarrow> time \<Rightarrow> 'd \<Rightarrow> goerr option \<times> 'd"
  mst_Count :: "'d \<Rightarrow> (goerr + int) \<times> 'd"

record 'd contact_store =
  ost_Put :: "contact \<Rightarrow> 'd \<Rightarrow> goerr option \<times> 'd"
  ost_Get :: "string \<Rightarrow> 'd \<Rightarrow> (goerr + contact) \<times> 'd"
  ost_List :: "'d \<Rightarrow> (goerr + contact list) \<times> 'd"
  ost_Search :: "string \<Rightarrow> int \<Rightarrow> 'd \<Rightarrow> (goerr + contact list) \<times> 'd"
  ost_Count :: "'d \<Rightarrow> (goerr + int) \<times> 'd"

record 'd media_store =
  dst_Put :: "media_ref \<Rightarrow> 'd \<Rightarrow> goerr option \<times> 'd"
  dst_GetByMessageID :: "string \<Rightarrow> 'd \<Rightarrow> (goerr + media_ref) \<times> 'd"

record 'd events_log =
  est_Append :: "event_log_entry \<Rightarrow> 'd \<Rightarrow> (goerr + int) \<times> 'd"
  est_SinceSeq :: "int \<Rightarrow> int \<Rightarrow> 'd \<Rightarrow> (goerr + event_log_entry list) \<times> 'd"

record 'd kv_store =
  kst_Get :: "string \<Rightarrow> 'd \<Rightarrow> (goerr + string) \<times> 'd"
  kst_Set :: "string \<Rightarrow> string \<Rightarrow> 'd \<Rightarrow> goerr option \<times> 'd"
  kst_Delete :: "string \<Rightarrow> 'd \<Rightarrow> goerr option \<times> 'd"

record 'd reaction_store =
  rst_Put :: "reaction \<Rightarrow> 'd \<Rightarrow> goerr option \<times> 'd"
  rst_Delete :: "string \<Rightarrow> string \<Rightarrow> 'd \<Rightarrow> goerr option \<times> 'd"
  rst_ListByMessageID :: "string \<Rightarrow> 'd \<Rightarrow> (goerr + reaction list) \<times> 'd"

record 'd receipt_store =
  pst_Put :: "receipt \<Rightarrow> 'd \<Rightarrow> goerr option \<times> 'd"
  pst_ListByMessageID :: "string \<Rightarrow> 'd \<Rightarrow> (goerr + receipt list) \<times> 'd"

record 'd store_bundle =
  b_Chats :: "'d chat_store"
  b_Messages :: "'d message_store"
  b_Contacts :: "'d contact_store"
  b_Media :: "'d media_store"
  b_Events :: "'d events_log"
  b_KV :: "'d kv_store"
  b_Reactions :: "'d reaction_store"
  b_Receipts :: "'d receipt_store"

section \<open>The abstract store\<close>

record store_view =
  v_chats :: "string \<rightharpoonup> chat"
  v_messages :: "string \<rightharpoonup> message"
  v_contacts :: "string \<rightharpoonup> contact"
  v_media :: "string \<rightharpoonup> media_ref"
  v_log :: "event_log_entry list"
  v_next :: int
  v_kv :: "string \<rightharpoonup> string"
  v_reactions :: "string \<times> string \<rightharpoonup> reaction"
  v_receipts :: "string \<times> string \<times> string \<rightharpoonup> receipt"

text \<open>
  What a store keeps of a row depends on the precision \<open>nt\<close> of its time columns and on its
  treatment \<open>nopt\<close> of optional times.
\<close>

definition norm_chat :: "(time \<Rightarrow> time) \<Rightarrow> chat \<Rightarrow> chat" where
  "norm_chat nt c = c\<lparr>chat_LastMsgAt :=
     (if IsZero (chat_LastMsgAt c) then time_zero else nt (chat_LastMsgAt c))\<rparr>"

definition norm_message :: "(time \<Rightarrow> time) \<Rightarrow> (time option \<Rightarrow> time option) \<Rightarrow> message \<Rightarrow> message" where
  "norm_message nt nopt m = m\<lparr>msg_Timestamp := nt (msg_Timestamp m),
     msg_EditedAt := nopt (msg_EditedAt m), msg_DeletedAt := nopt (msg_DeletedAt m)\<rparr>"

definition norm_reaction :: "(time \<Rightarrow> time) \<Rightarrow> reaction \<Rightarrow> reaction" where
  "norm_reaction nt r = r\<lparr>rea_Timestamp := nt (rea_Timestamp r)\<rparr>"

definition norm_receipt :: "(time \<Rightarrow> time) \<Rightarrow> receipt \<Rightarrow> receipt" where
  "norm_receipt nt r = r\<lparr>rec_Timestamp := nt (rec_Timestamp r)\<rparr>"

definition norm_event :: "(time \<Rightarrow> time) \<Rightarrow> int \<Rightarrow> event_log_entry \<Rightarrow> event_log_entry" where
  "norm_event nt seq e = e\<lparr>ev_Seq := seq, ev_Time := nt (ev_Time e)\<rparr>"

definition abs_put_chat :: "(time \<Rightarrow> time) \<Rightarrow> chat \<Rightarrow> store_view \<Rightarrow> store_view" where
  "abs_put_chat nt c v = v\<lparr>v_chats := (v_chats v)(chat_JID c \<mapsto> norm_chat nt c)\<rparr>"

definition abs_put_message :: "(time \<Rightarrow> time) \<Rightarrow> (time option \<Rightarrow> time option) \<Rightarrow> message \<Rightarrow> store_view \<Rightarrow> store_view" where
  "abs_put_message nt nopt m v = v\<lparr>v_messages := (v_messages v)(msg_ID m \<mapsto> norm_message nt nopt m)\<rparr>"

definition abs_soft_delete :: "(time \<Rightarrow> time) \<Rightarrow> string \<Rightarrow> time \<Rightarrow> store_view \<Rightarrow> store_view" where
  "abs_soft_delete nt i t v = (case v_messages v i of
     None \<Rightarrow> v
   | Some m \<Rightarrow> v\<lparr>v_messages := (v_messages v)(i \<mapsto> m\<lparr>msg_DeletedAt := Some (nt t)\<rparr>)\<rparr>)"

definition abs_put_contact :: "contact \<Rightarrow> store_view \<Rightarrow> store_view" where
  "abs_put_contact c v = v\<lparr>v_contacts := (v_contacts v)(con_JID c \<mapsto> c)\<rparr>"

definition abs_put_media :: "media_ref \<Rightarrow> store_view \<Rightarrow> store_view" where
  "abs_put_media m v = v\<lparr>v_media := (v_media v)(med_MessageID m \<mapsto> m)\<rparr>"

definition abs_append :: "(time \<Rightarrow> time) \<Rightarrow> event_log_entry \<Rightarrow> store_view \<Rightarrow> store_view" where
  "abs_append nt e v = v\<lparr>v_log := v_log v @ [norm_event nt (v_next v) e], v_next := v_next v + 1\<rparr>"

definition abs_put_reaction :: "(time \<Rightarrow> time) \<Rightarrow> reaction \<Rightarrow> store_view \<Rightarrow> store_view" where
  "abs_put_reaction nt r v =
     v\<lparr>v_reactions := (v_reactions v)((rea_MessageID r, rea_SenderJID r) \<mapsto> norm_reaction nt r)\<rparr>"

definition abs_delete_reaction :: "string \<Rightarrow> string \<Rightarrow> store_view \<Rightarrow> store_view" where
  "abs_delete_reaction i s v = v\<lparr>v_reactions := (v_reactions v)((i, s) := None)\<rparr>"

definition abs_put_receipt :: "(time \<Rightarrow> time) \<Rightarrow> receipt \<Rightarrow> store_view \<Rightarrow> store_view" where
  "abs_put_receipt nt r v = v\<lparr>v_receipts :=
     (v_receipts v)((rec_MessageID r, rec_ReaderJID r, rec_Type r) \<mapsto> norm_receipt nt r)\<rparr>"

definition abs_set_archived :: "string \<Rightarrow> bool \<Rightarrow> store_view \<Rightarrow> store_view" where
  "abs_set_archived j a v = (case v_chats v j of
     None \<Rightarrow> v | Some c \<Rightarrow> v\<lparr>v_chats := (v_chats v)(j \<mapsto> c\<lparr>chat_Archived := a\<rparr>)\<rparr>)"

definition abs_set_kv :: "string \<Rightarrow> string \<Rightarrow> store_view \<Rightarrow> store_view" where
  "abs_set_kv k x v = v\<lparr>v_kv := (v_kv v)(k \<mapsto> x)\<rparr>"

definition abs_delete_kv :: "string \<Rightarrow> store_view \<Rightarrow> store_view" where
  "abs_delete_kv k v = v\<lparr>v_kv := (v_kv v)(k := None)\<rparr>"

definition lookup :: "'a option \<Rightarrow> goerr + 'a" where
  "lookup o' = (case o' of None \<Rightarrow> Inl ErrNotFound | Some x \<Rightarrow> Inr x)"

lemma lookup_simps [simp]: "lookup None = Inl ErrNotFound" "lookup (Some x) = Inr x"
  by (simp_all add: lookup_def)

lemma lookup_Inr_iff [simp]: "lookup o' = Inr x \<longleftrightarrow> o' = Some x"
  by (cases o') simp_all

section \<open>Referential integrity of the abstract store\<close>

definition view_ok :: "store_view \<Rightarrow> bool" where
  "view_ok v \<longleftrightarrow>
     (\<forall>j c. v_chats v j = Some c \<longrightarrow> chat_JID c = j)
   \<and> (\<forall>i m. v_messages v i = Some m \<longrightarrow> msg_ID m = i \<and> v_chats v (msg_ChatJID m) \<noteq> None)
   \<and> (\<forall>j c. v_contacts v j = Some c \<longrightarrow> con_JID c = j)
   \<and> (\<forall>i r. v_media v i = Some r \<longrightarrow> med_MessageID r = i \<and> v_messages v i \<noteq> None)
   \<and> (\<forall>k r. v_reactions v k = Some r \<longrightarrow>
          k = (rea_MessageID r, rea_SenderJID r) \<and> v_messages v (rea_MessageID r) \<noteq> None)
   \<and> (\<forall>k r. v_receipts v k = Some r \<longrightarrow>
          k = (rec_MessageID r, rec_ReaderJID r, rec_Type r) \<and> v_messages v (rec_MessageID r) \<noteq> None)
   \<and> sorted_wrt (<) (map ev_Seq (v_log v))
   \<and> (\<forall>e\<in>set (v_log v). 0 < ev_Seq e \<and> ev_Seq e < v_next v)"

section \<open>Laws\<close>

text \<open>
  A write implements the abstract operation \<open>upd\<close> guarded by \<open>pre\<close>: it succeeds only where
  the guard holds, a failure leaves the store as it was, and with no fault scheduled
  (\<open>calm\<close>) it fails only where the guard does not hold.
\<close>

definition write_law ::
  "('d \<Rightarrow> bool) \<Rightarrow> ('d \<Rightarrow> store_view) \<Rightarrow> ('d \<Rightarrow> bool) \<Rightarrow> ('d \<Rightarrow> goerr option \<times> 'd)
   \<Rightarrow> (store_view \<Rightarrow> bool) \<Rightarrow> (store_view \<Rightarrow> store_view) \<Rightarrow> bool" where
  "write_law dinv view calm W pre upd \<longleftrightarrow> (\<forall>d r d'. dinv d \<longrightarrow> W d = (r, d') \<longrightarrow>
     dinv d' \<and> (calm d \<longrightarrow> calm d') \<and>
     (case r of
        None \<Rightarrow> pre (view d) \<and> view d' = upd (view d)
      | Some e \<Rightarrow> view d' = view d \<and> err_kind_of e = EOther \<and> (calm d \<longrightarrow> \<not> pre (view d))))"

text \<open>A read returns what the view holds, or an error that is not one of the sentinels.\<close>

definition read_law ::
  "('d \<Rightarrow> bool) \<Rightarrow> ('d \<Rightarrow> store_view) \<Rightarrow> ('d \<Rightarrow> bool) \<Rightarrow> ('d \<Rightarrow> (goerr + 'a) \<times> 'd)
   \<Rightarrow> (store_view \<Rightarrow> goerr + 'a) \<Rightarrow> bool" where
  "read_law dinv view calm R g \<longleftrightarrow> (\<forall>d r d'. dinv d \<longrightarrow> R d = (r, d') \<longrightarrow>
     dinv d' \<and> view d' = view d \<and> (calm d \<longrightarrow> calm d') \<and>
     (r = g (view d) \<or> (\<not> calm d \<and> (\<exists>e. r = Inl e \<and> err_kind_of e = EOther))))"

text \<open>A listing returns a list the relation \<open>P\<close> allows.\<close>

definition list_law ::
  "('d \<Rightarrow> bool) \<Rightarrow> ('d \<Rightarrow> store_view) \<Rightarrow> ('d \<Rightarrow> bool) \<Rightarrow> ('d \<Rightarrow> (goerr + 'a) \<times> 'd)
   \<Rightarrow> (store_view \<Rightarrow> 'a \<Rightarrow> bool) \<Rightarrow> bool" where
  "list_law dinv view calm R P \<longleftrightarrow> (\<forall>d r d'. dinv d \<longrightarrow> R d = (r, d') \<longrightarrow>
     dinv d' \<and> view d' = view d \<and> (calm d \<longrightarrow> calm d') \<and>
     (case r of Inr x \<Rightarrow> P (view d) x | Inl e \<Rightarrow> err_kind_of e = EOther))"

lemma write_lawE:
  assumes "write_law dinv view calm W pre upd" "W d = (r, d')" "dinv d"
  obtains (ok) "r = None" "dinv d'" "calm d \<longrightarrow> calm d'" "pre (view d)" "view d' = upd (view d)"
    | (fail) e where "r = Some e" "dinv d'" "calm d \<longrightarrow> calm d'" "view d' = view d"
       "err_kind_of e = EOther" "calm d \<longrightarrow> \<not> pre (view d)"
  using assms unfolding write_law_def by (cases r) fastforce+

lemma read_lawE:
  assumes "read_law dinv view calm R g" "R d = (r, d')" "dinv d"
  obtains (ok) "r = g (view d)" "dinv d'" "calm d \<longrightarrow> calm d'" "view d' = view d"
    | (fail) e where "r = Inl e" "dinv d'" "\<not> calm d" "view d' = view d" "err_kind_of e = EOther"
  using assms unfolding read_law_def by blast

lemma list_lawE:
  assumes "list_law dinv view calm R P" "R d = (r, d')" "dinv d"
  obtains (ok) x where "r = Inr x" "P (view d) x" "dinv d'" "calm d \<longrightarrow> calm d'" "view d' = view d"
    | (fail) e where "r = Inl e" "dinv d'" "calm d \<longrightarrow> calm d'" "view d' = view d" "err_kind_of e = EOther"
  using assms unfolding list_law_def by (cases r) fastforce+

text \<open>
  A page of a set of rows: its \<open>n\<close> first elements under the key, without repetition.
\<close>

definition is_page :: "'a set \<Rightarrow> ('a \<Rightarrow> 'k::linorder) \<Rightarrow> nat \<Rightarrow> 'a list \<Rightarrow> bool" where
  "is_page A key n xs \<longleftrightarrow> distinct xs \<and> set xs \<subseteq> A \<and> length xs = min n (card A)
     \<and> sorted (map key xs) \<and> (\<forall>a\<in>A - set xs. \<forall>x\<in>set xs. key x \<le> key a)"

lemma is_page_take_sort:
  assumes "distinct ys" "set ys = A"
  shows "is_page A key n (take n (sort_key key ys))"
proof -
  let ?s = "sort_key key ys"
  have split: "sorted (map key (take n ?s) @ map key (drop n ?s))"
    by (metis append_take_drop_id map_append sorted_sort_key)
  have "set (take n ?s) \<union> set (drop n ?s) = A"
    using assms(2) by (metis append_take_drop_id set_append set_sort)
  moreover have "\<forall>x\<in>set (take n ?s). \<forall>a\<in>set (drop n ?s). key x \<le> key a"
    using split by (auto simp: sorted_append)
  moreover have "distinct (take n ?s)" using assms(1) by simp
  moreover have "length (take n ?s) = min n (card A)"
    using assms by (simp add: distinct_card min.commute flip: assms(2))
  moreover have "sorted (map key (take n ?s))" using split by (simp add: sorted_append)
  ultimately show ?thesis unfolding is_page_def by blast
qed

text \<open>The messages \<open>ListByChat\<close> chooses from.\<close>

definition listable :: "(time \<Rightarrow> time) \<Rightarrow> string \<Rightarrow> time \<Rightarrow> store_view \<Rightarrow> message set" where
  "listable nt chat before v = {m. v_messages v (msg_ID m) = Some m \<and> msg_ChatJID m = chat
     \<and> msg_DeletedAt m = None \<and> (IsZero before \<or> msg_Timestamp m < nt before)}"

section \<open>The interfaces as locales\<close>

locale db_state =
  fixes dinv :: "'d \<Rightarrow> bool"
    and view :: "'d \<Rightarrow> store_view"
    and calm :: "'d \<Rightarrow> bool"
    and nt :: "time \<Rightarrow> time"
  assumes inv_view_ok: "dinv d \<Longrightarrow> view_ok (view d)"

locale chat_laws = db_state dinv view calm nt
  for dinv :: "'d \<Rightarrow> bool" and view and calm and nt +
  fixes CS :: "'d chat_store" and chat_ok :: "chat \<Rightarrow> bool"
  assumes chat_put: "write_law dinv view calm (cst_Put CS c) (\<lambda>_. chat_ok c) (abs_put_chat nt c)"
    and chat_get: "read_law dinv view calm (cst_Get CS j) (\<lambda>v. lookup (v_chats v j))"
    and chat_archive: "write_law dinv view calm (cst_SetArchived CS j a) (\<lambda>_. True) (abs_set_archived j a)"
    and chat_list: "list_law dinv view calm (cst_List CS before l arch)
      (\<lambda>v cs. distinct cs \<and> (\<forall>c\<in>set cs. v_chats v (chat_JID c) = Some c))"
    and chat_count: "read_law dinv view calm (cst_Count CS) (\<lambda>v. Inr (int (card (dom (v_chats v)))))"
    and chat_unread: "read_law dinv view calm (cst_TotalUnread CS)
      (\<lambda>v. Inr (\<Sum>j\<in>dom (v_chats v). chat_UnreadCount (the (v_chats v j))))"

locale message_laws = db_state dinv view calm nt
  for dinv :: "'d \<Rightarrow> bool" and view and calm and nt +
  fixes MS :: "'d message_store" and nopt :: "time option \<Rightarrow> time option"
  assumes message_put: "write_law dinv view calm (mst_Put MS m)
      (\<lambda>v. v_chats v (msg_ChatJID m) \<noteq> None) (abs_put_message nt nopt m)"
    and message_get: "read_law dinv view calm (mst_Get MS i) (\<lambda>v. lookup (v_messages v i))"
    and message_delete: "write_law dinv view calm (mst_SoftDelete MS i t) (\<lambda>_. True) (abs_soft_delete nt i t)"
    and message_count: "read_law dinv view calm (mst_Count MS)
      (\<lambda>v. Inr (int (card {i. \<exists>m. v_messages v i = Some m \<and> msg_DeletedAt m = None})))"
    and message_list: "0 \<le> l \<Longrightarrow> list_law dinv view calm (mst_ListByChat MS chat l before)
      (\<lambda>v. is_page (listable nt chat before v) (\<lambda>m. - msg_Timestamp m) (nat l))"
    and message_search: "0 \<le> l \<Longrightarrow> list_law dinv view calm (mst_Search MS q l)
      (\<lambda>v ms. distinct ms \<and> length ms \<le> nat l \<and>
          (\<forall>m\<in>set ms. v_messages v (msg_ID m) = Some m \<and> msg_DeletedAt m = None))"

locale contact_laws = db_state dinv view calm nt
  for dinv :: "'d \<Rightarrow> bool" and view and calm and nt +
  fixes OS :: "'d contact_store"
  assumes contact_put: "write_law dinv view calm (ost_Put OS c) (\<lambda>_. True) (abs_put_contact c)"
    and contact_get: "read_law dinv view calm (ost_Get OS j) (\<lambda>v. lookup (v_contacts v j))"
    and contact_list: "list_law dinv view calm (ost_List OS)
      (\<lambda>v cs. distinct cs \<and> set cs = ran (v_contacts v))"
    and contact_search: "list_law dinv view calm (ost_Search OS q l)
      (\<lambda>v cs. distinct cs \<and> set cs \<subseteq> ran (v_contacts v))"
    and contact_count: "read_law dinv view calm (ost_Count OS) (\<lambda>v. Inr (int (card (dom (v_contacts v)))))"

locale media_laws = db_state dinv view calm nt
  for dinv :: "'d \<Rightarrow> bool" and view and calm and nt +
  fixes DS :: "'d media_store"
  assumes media_put: "write_law dinv view calm (dst_Put DS r)
      (\<lambda>v. v_messages v (med_MessageID r) \<noteq> None) (abs_put_media r)"
    and media_get: "read_law dinv view calm (dst_GetByMessageID DS i) (\<lambda>v. lookup (v_media v i))"

locale event_laws = db_state dinv view calm nt
  for dinv :: "'d \<Rightarrow> bool" and view and calm and nt +
  fixes ES :: "'d events_log"
  assumes event_append: "dinv d \<Longrightarrow> est_Append ES e d = (r, d') \<Longrightarrow>
      dinv d' \<and> (calm d \<longrightarrow> calm d') \<and>
      ((r = Inr (v_next (view d)) \<and> view d' = abs_append nt e (view d))
       \<or> (\<not> calm d \<and> view d' = view d \<and> (\<exists>er. r = Inl er \<and> err_kind_of er = EOther)))"
    and event_since: "0 \<le> l \<Longrightarrow> read_law dinv view calm (est_SinceSeq ES s l)
      (\<lambda>v. Inr (take (nat l) (filter (\<lambda>e. s < ev_Seq e) (v_log v))))"

locale kv_laws = db_state dinv view calm nt
  for dinv :: "'d \<Rightarrow> bool" and view and calm and nt +
  fixes KS :: "'d kv_store"
  assumes kv_get: "read_law dinv view calm (kst_Get KS k) (\<lambda>v. lookup (v_kv v k))"
    and kv_set: "write_law dinv view calm (kst_Set KS k x) (\<lambda>_. True) (abs_set_kv k x)"
    and kv_delete: "write_law dinv view calm (kst_Delete KS k) (\<lambda>_. True) (abs_delete_kv k)"

locale reaction_laws = db_state dinv view calm nt
  for dinv :: "'d \<Rightarrow> bool" and view and calm and nt +
  fixes RS :: "'d reaction_store"
  assumes reaction_put: "write_law dinv view calm (rst_Put RS r)
      (\<lambda>v. v_messages v (rea_MessageID r) \<noteq> None) (abs_put_reaction nt r)"
    and reaction_delete: "write_law dinv view calm (rst_Delete RS i s) (\<lambda>_. True) (abs_delete_reaction i s)"
    and reaction_list: "list_law dinv view calm (rst_ListByMessageID RS i)
      (\<lambda>v rs. distinct rs \<and> set rs = {r. \<exists>s. v_reactions v (i, s) = Some r})"

locale receipt_laws = db_state dinv view calm nt
  for dinv :: "'d \<Rightarrow> bool" and view and calm and nt +
  fixes PS :: "'d receipt_store"
  assumes receipt_put: "write_law dinv view calm (pst_Put PS r)
      (\<lambda>v. v_messages v (rec_MessageID r) \<noteq> None) (abs_put_receipt nt r)"
    and receipt_list: "list_law dinv view calm (pst_ListByMessageID PS i)
      (\<lambda>v rs. distinct rs \<and> set rs = {r. \<exists>j t. v_receipts v (i, j, t) = Some r})"

text \<open>The contract of a whole bundle.\<close>

locale bundle_laws =
  chat_laws dinv view calm nt "b_Chats B" chat_ok +
  message_laws dinv view calm nt "b_Messages B" nopt +
  contact_laws dinv view calm nt "b_Contacts B" +
  media_laws dinv view calm nt "b_Media B" +
  event_laws dinv view calm nt "b_Events B" +
  kv_laws dinv view calm nt "b_KV B" +
  reaction_laws dinv view calm nt "b_Reactions B" +
  receipt_laws dinv view calm nt "b_Receipts B"
  for dinv :: "'d \<Rightarrow> bool" and view and calm and nt and chat_ok and nopt and B :: "'d store_bundle"

end
