(* ===== verification/Broadcaster.thy ===== *)
theory Broadcaster
  imports Domain "HOL-Library.Word" "HOL-Library.Sublist"
begin

text \<open>
  internal/transport/sse/broadcaster.go: the in-process publisher. Channels live in a heap of
  buffered channels (\<open>bc_chans\<close>, a channel is its index), subscribers in the map \<open>bc_subs\<close> from
  64-bit ids to channels. Each operation runs under the mutex, so it is one step. Sending on
  or closing a closed channel panics in Go: the operations give None there, and the
  invariant shows that they never do.
\<close>

section \<open>State and operations\<close>

record sse_event =
  se_Seq :: int
  se_Kind :: string
  se_Payload :: string

record 'e chan =
  ch_buf :: "'e list"
  ch_closed :: bool

record broadcaster =
  bc_subs :: "(64 word \<times> nat) list"
  bc_next :: "64 word"
  bc_bufSize :: int
  bc_chans :: "sse_event chan list"

definition bc_New :: "int \<Rightarrow> broadcaster" where
  "bc_New bufSize = \<lparr>bc_subs = [], bc_next = 0, bc_bufSize = (if bufSize < 1 then 1 else bufSize), bc_chans = []\<rparr>"

definition chan_close :: "nat \<Rightarrow> 'e chan list \<Rightarrow> 'e chan list option" where
  "chan_close a cs = (if a < length cs \<and> \<not> ch_closed (cs ! a)
     then Some (cs[a := (cs ! a)\<lparr>ch_closed := True\<rparr>]) else None)"

definition Subscribe :: "broadcaster \<Rightarrow> (64 word \<times> nat) \<times> broadcaster" where
  "Subscribe b =
     (let i = bc_next b + 1; a = length (bc_chans b)
      in ((i, a), b\<lparr>bc_next := i, bc_chans := bc_chans b @ [\<lparr>ch_buf = [], ch_closed = False\<rparr>],
                    bc_subs := upsert fst (i, a) (bc_subs b)\<rparr>))"

definition delete_sub :: "64 word \<Rightarrow> broadcaster \<Rightarrow> broadcaster" where
  "delete_sub i b = b\<lparr>bc_subs := filter (\<lambda>s. fst s \<noteq> i) (bc_subs b)\<rparr>"

definition Unsubscribe :: "64 word \<Rightarrow> broadcaster \<Rightarrow> broadcaster option" where
  "Unsubscribe i b = (case find_key fst i (bc_subs b) of
     None \<Rightarrow> Some b
   | Some (_, a) \<Rightarrow> (case chan_close a (bc_chans b) of
        None \<Rightarrow> None | Some cs \<Rightarrow> Some ((delete_sub i b)\<lparr>bc_chans := cs\<rparr>)))"

text \<open>
  The \<open>select\<close> with a default: a full buffer takes the default. Go iterates over a map in an
  arbitrary order; each iteration touches its own channel only, so the order does not matter.
\<close>

fun publish_to :: "sse_event \<Rightarrow> (64 word \<times> nat) list \<Rightarrow> broadcaster \<Rightarrow> broadcaster option" where
  "publish_to ev [] b = Some b"
| "publish_to ev ((i, a) # rest) b =
     (let c = bc_chans b ! a
      in if ch_closed c then None
         else if int (length (ch_buf c)) < bc_bufSize b
         then publish_to ev rest (b\<lparr>bc_chans := (bc_chans b)[a := c\<lparr>ch_buf := ch_buf c @ [ev]\<rparr>]\<rparr>)
         else (case chan_close a (bc_chans b) of
            None \<Rightarrow> None
          | Some cs \<Rightarrow> publish_to ev rest ((delete_sub i b)\<lparr>bc_chans := cs\<rparr>)))"

definition Publish :: "sse_event \<Rightarrow> broadcaster \<Rightarrow> broadcaster option" where
  "Publish ev b = publish_to ev (bc_subs b) b"

text \<open>A receive: an event, or the closing of the channel; None while it would block.\<close>

datatype 'e received = Got 'e | Closed

definition Receive :: "nat \<Rightarrow> broadcaster \<Rightarrow> (sse_event received \<times> broadcaster) option" where
  "Receive a b =
     (let c = bc_chans b ! a
      in case ch_buf c of
           e # es \<Rightarrow> Some (Got e, b\<lparr>bc_chans := (bc_chans b)[a := c\<lparr>ch_buf := es\<rparr>]\<rparr>)
         | [] \<Rightarrow> if ch_closed c then Some (Closed, b) else None)"

section \<open>Invariant\<close>

text \<open>
  Subscriber \<open>i\<close> owns channel \<open>i - 1\<close>; exactly the channels of the map are open; no buffer
  exceeds its capacity. Ids do not repeat before \<open>2 ^ 64\<close> subscriptions, which no run reaches.
\<close>

definition bc_ok :: "broadcaster \<Rightarrow> bool" where
  "bc_ok b \<longleftrightarrow> 1 \<le> bc_bufSize b
   \<and> distinct (map fst (bc_subs b))
   \<and> unat (bc_next b) = length (bc_chans b)
   \<and> (\<forall>(i, a)\<in>set (bc_subs b). a < length (bc_chans b) \<and> unat i = Suc a)
   \<and> (\<forall>a<length (bc_chans b). ch_closed (bc_chans b ! a) \<longleftrightarrow> a \<notin> snd ` set (bc_subs b))
   \<and> (\<forall>c\<in>set (bc_chans b). int (length (ch_buf c)) \<le> bc_bufSize b)"

definition id_room :: "broadcaster \<Rightarrow> bool" where
  "id_room b \<longleftrightarrow> length (bc_chans b) < 2 ^ 64 - 1"

lemma bc_ok_New: "bc_ok (bc_New n)"
  by (simp add: bc_ok_def bc_New_def)

lemma bc_ok_open: "bc_ok b \<Longrightarrow> (i, a) \<in> set (bc_subs b) \<Longrightarrow> a < length (bc_chans b) \<and> \<not> ch_closed (bc_chans b ! a)"
  by (force simp: bc_ok_def)

lemma bc_ok_unat: "bc_ok b \<Longrightarrow> (i, a) \<in> set (bc_subs b) \<Longrightarrow> unat i = Suc a"
  by (auto simp: bc_ok_def)

lemma bc_ok_addr: "bc_ok b \<Longrightarrow> (i, a) \<in> set (bc_subs b) \<Longrightarrow> (j, a) \<in> set (bc_subs b) \<Longrightarrow> i = j"
  using bc_ok_unat [of b i a] bc_ok_unat [of b j a] by (simp add: word_unat_eq_iff)

lemma bc_ok_chan: "bc_ok b \<Longrightarrow> (i, a) \<in> set (bc_subs b) \<Longrightarrow> (i, a') \<in> set (bc_subs b) \<Longrightarrow> a = a'"
  using bc_ok_unat [of b i a] bc_ok_unat [of b i a'] by simp

lemma bc_ok_distinct_addr: "bc_ok b \<Longrightarrow> distinct (map snd (bc_subs b))"
proof -
  assume ok: "bc_ok b"
  have "inj_on snd (set (bc_subs b))" using bc_ok_addr [OF ok] by (auto simp: inj_on_def)
  moreover have "distinct (bc_subs b)" using ok distinct_map by (auto simp: bc_ok_def)
  ultimately show ?thesis by (simp add: distinct_map)
qed

lemma bc_ok_id_le: "bc_ok b \<Longrightarrow> (i, a) \<in> set (bc_subs b) \<Longrightarrow> unat i \<le> unat (bc_next b)"
  by (auto simp: bc_ok_def)

lemma bc_ok_Subscribe:
  assumes ok: "bc_ok b" and room: "id_room b" and s: "Subscribe b = ((i, a), b')"
  shows "bc_ok b' \<and> (i, a) \<in> set (bc_subs b') \<and> a = length (bc_chans b)"
proof -
  have nx: "unat (bc_next b + 1) = Suc (length (bc_chans b))"
    using ok room by (simp add: bc_ok_def id_room_def unat_word_ariths)
  have fresh: "bc_next b + 1 \<notin> fst ` set (bc_subs b)"
    using bc_ok_id_le [OF ok] nx ok by (fastforce simp: bc_ok_def)
  then have sub: "upsert fst (bc_next b + 1, length (bc_chans b)) (bc_subs b)
      = bc_subs b @ [(bc_next b + 1, length (bc_chans b))]"
  proof -
    have "upsert fst p ps = ps @ [p]" if "fst p \<notin> fst ` set ps" for p :: "64 word \<times> nat" and ps
      using that by (induction ps) auto
    then show ?thesis using fresh by simp
  qed
  have new: "length (bc_chans b) \<notin> snd ` set (bc_subs b)" using ok by (force simp: bc_ok_def)
  have b': "b' = b\<lparr>bc_next := bc_next b + 1, bc_chans := bc_chans b @ [\<lparr>ch_buf = [], ch_closed = False\<rparr>],
      bc_subs := bc_subs b @ [(bc_next b + 1, length (bc_chans b))]\<rparr>"
    and ia: "i = bc_next b + 1" "a = length (bc_chans b)"
    using s sub by (auto simp: Subscribe_def Let_def)
  have "bc_ok b'"
    using ok nx fresh new unfolding bc_ok_def b'
    by (auto simp: nth_append less_Suc_eq image_iff)
  then show ?thesis using b' ia by simp
qed

lemma snd_image_iff: "x \<in> snd ` S \<longleftrightarrow> (\<exists>j. (j, x) \<in> S)"
  by force

lemma bc_ok_Unsubscribe:
  assumes ok: "bc_ok b"
  obtains b' where "Unsubscribe i b = Some b'" "bc_ok b'" "\<forall>a. (i, a) \<notin> set (bc_subs b')"
    "\<forall>s\<in>set (bc_subs b). fst s \<noteq> i \<longrightarrow> s \<in> set (bc_subs b')"
    "length (bc_chans b') = length (bc_chans b)"
    "\<forall>a<length (bc_chans b). ch_buf (bc_chans b' ! a) = ch_buf (bc_chans b ! a)
       \<and> (ch_closed (bc_chans b ! a) \<longrightarrow> ch_closed (bc_chans b' ! a))"
proof (cases "find_key fst i (bc_subs b)")
  case None
  then have "\<forall>a. (i, a) \<notin> set (bc_subs b)" by (force simp: find_key_None_iff)
  with None that [of b] ok show ?thesis by (simp add: Unsubscribe_def)
next
  case (Some p)
  then obtain a where a: "find_key fst i (bc_subs b) = Some (i, a)" "(i, a) \<in> set (bc_subs b)"
    using find_key_SomeD [OF Some] by (cases p) auto
  note op = bc_ok_open [OF ok a(2)]
  let ?b = "(delete_sub i b)\<lparr>bc_chans := (bc_chans b)[a := (bc_chans b ! a)\<lparr>ch_closed := True\<rparr>]\<rparr>"
  have u: "Unsubscribe i b = Some ?b"
    using a op by (simp add: Unsubscribe_def chan_close_def)
  have snd_left: "x \<in> snd ` {s \<in> set (bc_subs b). fst s \<noteq> i} \<longleftrightarrow> x \<in> snd ` set (bc_subs b) \<and> x \<noteq> a" for x
  proof -
    have "j = i" if "(j, a) \<in> set (bc_subs b)" for j using bc_ok_addr [OF ok that a(2)] .
    then have 1: "x \<notin> snd ` {s \<in> set (bc_subs b). fst s \<noteq> i}" if "x = a" using that by auto
    have "x = a" if "(i, x) \<in> set (bc_subs b)" using bc_ok_chan [OF ok that a(2)] .
    then have 2: "x \<in> snd ` {s \<in> set (bc_subs b). fst s \<noteq> i}" if "x \<noteq> a" "(j, x) \<in> set (bc_subs b)" for j
      using that by force
    show ?thesis using 1 2 by (cases "x = a") auto
  qed
  have old: "\<forall>c\<in>set (bc_chans b). int (length (ch_buf c)) \<le> bc_bufSize b"
    using ok by (simp add: bc_ok_def)
  have "int (length (ch_buf c)) \<le> bc_bufSize b"
    if "c \<in> set ((bc_chans b)[a := (bc_chans b ! a)\<lparr>ch_closed := True\<rparr>])" for c
    using subsetD [OF set_update_subset_insert that] old op by auto
  then have buf: "\<forall>c\<in>set (bc_chans ?b). int (length (ch_buf c)) \<le> bc_bufSize b" by simp
  have subs: "bc_subs ?b = filter (\<lambda>s. fst s \<noteq> i) (bc_subs b)" "length (bc_chans ?b) = length (bc_chans b)"
    "bc_next ?b = bc_next b" "bc_bufSize ?b = bc_bufSize b" by (simp_all add: delete_sub_def)
  have closed: "ch_closed (bc_chans ?b ! x) \<longleftrightarrow> x \<notin> snd ` set (bc_subs ?b)" if "x < length (bc_chans b)" for x
  proof -
    have "ch_closed (bc_chans ?b ! x) \<longleftrightarrow> x = a \<or> ch_closed (bc_chans b ! x)"
      using that op by (simp add: nth_list_update)
    also have "\<dots> \<longleftrightarrow> x = a \<or> x \<notin> snd ` set (bc_subs b)" using ok that by (simp add: bc_ok_def)
    finally show ?thesis using snd_left unfolding subs by auto
  qed
  have "\<forall>(i, a)\<in>set (bc_subs ?b). a < length (bc_chans b) \<and> unat i = Suc a"
    using ok unfolding subs by (auto simp: bc_ok_def)
  moreover have "distinct (map fst (bc_subs ?b))" unfolding subs using ok by (simp add: bc_ok_def distinct_map_filter)
  ultimately have "bc_ok ?b"
    using ok closed buf unfolding bc_ok_def subs(2-4) by blast
  then show ?thesis using u that [of ?b] op by (auto simp: delete_sub_def nth_list_update)
qed

section \<open>What \<open>Publish\<close> does\<close>

definition is_full :: "broadcaster \<Rightarrow> nat \<Rightarrow> bool" where
  "is_full b a \<longleftrightarrow> \<not> int (length (ch_buf (bc_chans b ! a))) < bc_bufSize b"

definition deliver :: "sse_event \<Rightarrow> broadcaster \<Rightarrow> nat \<Rightarrow> sse_event chan" where
  "deliver ev b a = (let c = bc_chans b ! a
     in if is_full b a then c\<lparr>ch_closed := True\<rparr> else c\<lparr>ch_buf := ch_buf c @ [ev]\<rparr>)"

lemma publish_to_spec:
  assumes "distinct (map snd rest)" "\<forall>(i, a)\<in>set rest. a < length (bc_chans b) \<and> \<not> ch_closed (bc_chans b ! a)"
  shows "publish_to ev rest b = Some (b\<lparr>
      bc_chans := map (\<lambda>a. if a \<in> snd ` set rest then deliver ev b a else bc_chans b ! a) [0..<length (bc_chans b)],
      bc_subs := filter (\<lambda>s. \<forall>a. (fst s, a) \<in> set rest \<longrightarrow> \<not> is_full b a) (bc_subs b)\<rparr>)"
  using assms
proof (induction rest arbitrary: b)
  case Nil
  then show ?case by (simp add: map_nth)
next
  case (Cons p rest)
  obtain i a where p: "p = (i, a)" by fastforce
  have op: "a < length (bc_chans b)" "\<not> ch_closed (bc_chans b ! a)" using Cons.prems p by auto
  have notin: "a \<notin> snd ` set rest" using Cons.prems p by (simp add: image_iff)
  let ?b = "if is_full b a then (delete_sub i b)\<lparr>bc_chans := (bc_chans b)[a := deliver ev b a]\<rparr>
    else b\<lparr>bc_chans := (bc_chans b)[a := deliver ev b a]\<rparr>"
  have step: "publish_to ev (p # rest) b = publish_to ev rest ?b"
    using op by (simp add: p Let_def is_full_def deliver_def chan_close_def)
  have other: "bc_chans ?b ! x = bc_chans b ! x" "is_full ?b x = is_full b x" "deliver ev ?b x = deliver ev b x"
    if "x \<noteq> a" for x
    using that by (simp_all add: is_full_def deliver_def delete_sub_def Let_def)
  have ne: "x \<noteq> a" if "(j, x) \<in> set rest" for j x using that notin by force
  have len: "length (bc_chans ?b) = length (bc_chans b)" by simp
  have IH: "publish_to ev rest ?b = Some (?b\<lparr>
      bc_chans := map (\<lambda>a. if a \<in> snd ` set rest then deliver ev ?b a else bc_chans ?b ! a) [0..<length (bc_chans ?b)],
      bc_subs := filter (\<lambda>s. \<forall>a. (fst s, a) \<in> set rest \<longrightarrow> \<not> is_full ?b a) (bc_subs ?b)\<rparr>)"
  proof (rule Cons.IH)
    show "distinct (map snd rest)" using Cons.prems by simp
    show "\<forall>(j, x)\<in>set rest. x < length (bc_chans ?b) \<and> \<not> ch_closed (bc_chans ?b ! x)"
    proof clarify
      fix j x
      assume "(j, x) \<in> set rest"
      then show "x < length (bc_chans ?b) \<and> \<not> ch_closed (bc_chans ?b ! x)"
        using Cons.prems(2) other(1) [OF ne] len by auto
    qed
  qed
  have ch: "map (\<lambda>a. if a \<in> snd ` set rest then deliver ev ?b a else bc_chans ?b ! a) [0..<length (bc_chans ?b)]
      = map (\<lambda>a. if a \<in> snd ` set (p # rest) then deliver ev b a else bc_chans b ! a) [0..<length (bc_chans b)]"
  proof (rule map_cong)
    fix x
    assume "x \<in> set [0..<length (bc_chans b)]"
    show "(if x \<in> snd ` set rest then deliver ev ?b x else bc_chans ?b ! x)
      = (if x \<in> snd ` set (p # rest) then deliver ev b x else bc_chans b ! x)"
    proof (cases "x = a")
      case True
      then show ?thesis using notin op(1) by (simp add: p)
    next
      case False
      then show ?thesis using other [OF False] by (simp add: p)
    qed
  qed simp
  have su: "filter (\<lambda>s. \<forall>a. (fst s, a) \<in> set rest \<longrightarrow> \<not> is_full ?b a) (bc_subs ?b)
      = filter (\<lambda>s. \<forall>a. (fst s, a) \<in> set (p # rest) \<longrightarrow> \<not> is_full b a) (bc_subs b)"
    using other(2) ne by (cases "is_full b a") (auto simp: p delete_sub_def intro!: filter_cong)
  show ?case unfolding step IH ch su by (simp add: delete_sub_def)
qed

lemma Publish_spec:
  assumes "bc_ok b"
  shows "Publish ev b = Some (b\<lparr>
      bc_chans := map (\<lambda>a. if a \<in> snd ` set (bc_subs b) then deliver ev b a else bc_chans b ! a) [0..<length (bc_chans b)],
      bc_subs := filter (\<lambda>s. \<not> is_full b (snd s)) (bc_subs b)\<rparr>)"
proof -
  have "filter (\<lambda>s. \<forall>a. (fst s, a) \<in> set (bc_subs b) \<longrightarrow> \<not> is_full b a) (bc_subs b)
      = filter (\<lambda>s. \<not> is_full b (snd s)) (bc_subs b)"
    by (rule filter_cong) (auto dest: bc_ok_chan [OF assms])
  moreover have "\<forall>(i, a)\<in>set (bc_subs b). a < length (bc_chans b) \<and> \<not> ch_closed (bc_chans b ! a)"
    using bc_ok_open [OF assms] by blast
  ultimately show ?thesis
    using publish_to_spec [OF bc_ok_distinct_addr [OF assms], of b ev] by (simp add: Publish_def)
qed

lemma bc_ok_Publish:
  assumes ok: "bc_ok b"
  obtains b' where "Publish ev b = Some b'" "bc_ok b'"
proof -
  let ?b = "b\<lparr>
      bc_chans := map (\<lambda>a. if a \<in> snd ` set (bc_subs b) then deliver ev b a else bc_chans b ! a) [0..<length (bc_chans b)],
      bc_subs := filter (\<lambda>s. \<not> is_full b (snd s)) (bc_subs b)\<rparr>"
  have buf: "int (length (ch_buf (deliver ev b a))) \<le> bc_bufSize b" if "a < length (bc_chans b)" for a
    using ok that by (auto simp: bc_ok_def deliver_def Let_def is_full_def)
  have cl: "ch_closed (deliver ev b a) = (is_full b a \<or> ch_closed (bc_chans b ! a))" for a
    by (simp add: deliver_def Let_def)
  have "bc_ok ?b"
    using ok buf cl unfolding bc_ok_def by (auto simp: distinct_map_filter image_iff)
  then show ?thesis using that Publish_spec [OF ok] by blast
qed

section \<open>Runs\<close>

text \<open>
  A run with its history: everything published, the point at which each channel was
  subscribed, and what has been received from it.
\<close>

record bc_run =
  run_b :: broadcaster
  run_pub :: "sse_event list"
  run_start :: "nat list"
  run_got :: "sse_event list list"

inductive bc_step :: "bc_run \<Rightarrow> bc_run \<Rightarrow> bool" where
  subscribe: "id_room (run_b s) \<Longrightarrow> Subscribe (run_b s) = (ia, b') \<Longrightarrow>
    bc_step s (s\<lparr>run_b := b', run_start := run_start s @ [length (run_pub s)], run_got := run_got s @ [[]]\<rparr>)"
| unsubscribe: "Unsubscribe i (run_b s) = Some b' \<Longrightarrow> bc_step s (s\<lparr>run_b := b'\<rparr>)"
| publish: "Publish ev (run_b s) = Some b' \<Longrightarrow> bc_step s (s\<lparr>run_b := b', run_pub := run_pub s @ [ev]\<rparr>)"
| receive: "a < length (bc_chans (run_b s)) \<Longrightarrow> Receive a (run_b s) = Some (Got e, b') \<Longrightarrow>
    bc_step s (s\<lparr>run_b := b', run_got := (run_got s)[a := run_got s ! a @ [e]]\<rparr>)"

inductive bc_reach :: "int \<Rightarrow> bc_run \<Rightarrow> bool" for n where
  start: "bc_reach n \<lparr>run_b = bc_New n, run_pub = [], run_start = [], run_got = []\<rparr>"
| step: "bc_reach n s \<Longrightarrow> bc_step s s' \<Longrightarrow> bc_reach n s'"

text \<open>What channel \<open>a\<close> delivered and holds, against what was published since it was made.\<close>

definition chan_ok :: "bc_run \<Rightarrow> nat \<Rightarrow> bool" where
  "chan_ok s a \<longleftrightarrow>
     (let seen = run_got s ! a @ ch_buf (bc_chans (run_b s) ! a);
          since = drop (run_start s ! a) (run_pub s)
      in run_start s ! a \<le> length (run_pub s) \<and> prefix seen since
         \<and> (\<not> ch_closed (bc_chans (run_b s) ! a) \<longrightarrow> seen = since))"

definition run_ok :: "bc_run \<Rightarrow> bool" where
  "run_ok s \<longleftrightarrow> bc_ok (run_b s) \<and> length (run_start s) = length (bc_chans (run_b s))
     \<and> length (run_got s) = length (bc_chans (run_b s)) \<and> (\<forall>a<length (bc_chans (run_b s)). chan_ok s a)"

lemma bc_ok_Receive:
  assumes ok: "bc_ok b" and a: "a < length (bc_chans b)" and r: "Receive a b = Some (Got e, b')"
  shows "bc_ok b'" "length (bc_chans b') = length (bc_chans b)"
    "ch_buf (bc_chans b ! a) = e # ch_buf (bc_chans b' ! a)"
    "\<forall>x<length (bc_chans b). ch_closed (bc_chans b' ! x) = ch_closed (bc_chans b ! x)
       \<and> (x \<noteq> a \<longrightarrow> bc_chans b' ! x = bc_chans b ! x)"
proof -
  obtain es where es: "ch_buf (bc_chans b ! a) = e # es"
    and b': "b' = b\<lparr>bc_chans := (bc_chans b)[a := (bc_chans b ! a)\<lparr>ch_buf := es\<rparr>]\<rparr>"
    using r by (auto simp: Receive_def Let_def split: list.splits if_splits)
  show "length (bc_chans b') = length (bc_chans b)" by (simp add: b')
  show cl: "\<forall>x<length (bc_chans b). ch_closed (bc_chans b' ! x) = ch_closed (bc_chans b ! x)
       \<and> (x \<noteq> a \<longrightarrow> bc_chans b' ! x = bc_chans b ! x)"
  proof (intro allI impI)
    fix x
    assume "x < length (bc_chans b)"
    then show "ch_closed (bc_chans b' ! x) = ch_closed (bc_chans b ! x)
       \<and> (x \<noteq> a \<longrightarrow> bc_chans b' ! x = bc_chans b ! x)"
      by (cases "x = a") (simp_all add: b')
  qed
  show "ch_buf (bc_chans b ! a) = e # ch_buf (bc_chans b' ! a)" using es a by (simp add: b')
  have old: "\<forall>c\<in>set (bc_chans b). int (length (ch_buf c)) \<le> bc_bufSize b" using ok by (simp add: bc_ok_def)
  have "int (length (ch_buf (bc_chans b ! a))) \<le> bc_bufSize b" using old a by simp
  then have "int (length (ch_buf c)) \<le> bc_bufSize b" if "c \<in> set (bc_chans b')" for c
  proof -
    have "c = (bc_chans b ! a)\<lparr>ch_buf := es\<rparr> \<or> c \<in> set (bc_chans b)"
      using subsetD [OF set_update_subset_insert] that unfolding b' by fastforce
    then show ?thesis using old es \<open>int (length (ch_buf (bc_chans b ! a))) \<le> bc_bufSize b\<close> by auto
  qed
  moreover have "bc_subs b' = bc_subs b" "bc_next b' = bc_next b" "bc_bufSize b' = bc_bufSize b"
    "length (bc_chans b') = length (bc_chans b)" by (simp_all add: b')
  ultimately show "bc_ok b'" using ok cl unfolding bc_ok_def by simp
qed

lemma Publish_chan:
  assumes ok: "bc_ok b" and p: "Publish ev b = Some b'" and a: "a < length (bc_chans b)"
  shows "length (bc_chans b') = length (bc_chans b)"
    "bc_chans b' ! a = (if ch_closed (bc_chans b ! a) then bc_chans b ! a else deliver ev b a)"
proof -
  have b': "b' = b\<lparr>
      bc_chans := map (\<lambda>a. if a \<in> snd ` set (bc_subs b) then deliver ev b a else bc_chans b ! a) [0..<length (bc_chans b)],
      bc_subs := filter (\<lambda>s. \<not> is_full b (snd s)) (bc_subs b)\<rparr>"
    using p unfolding Publish_spec [OF ok] by simp
  then show "length (bc_chans b') = length (bc_chans b)" by simp
  have "ch_closed (bc_chans b ! a) \<longleftrightarrow> a \<notin> snd ` set (bc_subs b)" using ok a by (simp add: bc_ok_def)
  then show "bc_chans b' ! a = (if ch_closed (bc_chans b ! a) then bc_chans b ! a else deliver ev b a)"
    using a by (simp add: b')
qed

lemma chan_ok_publish:
  assumes ok: "bc_ok (run_b s)" and p: "Publish ev (run_b s) = Some b'" and a: "a < length (bc_chans (run_b s))"
    and c: "chan_ok s a"
  shows "chan_ok (s\<lparr>run_b := b', run_pub := run_pub s @ [ev]\<rparr>) a"
  using c Publish_chan(2) [OF ok p a]
  by (auto simp: chan_ok_def deliver_def Let_def prefix_def split: if_splits)

lemma run_ok_step: "bc_step s s' \<Longrightarrow> run_ok s \<Longrightarrow> run_ok s'"
proof (induction rule: bc_step.induct)
  case (subscribe s ia b')
  obtain i a where ia: "ia = (i, a)" by fastforce
  from subscribe have ok: "bc_ok (run_b s)" by (simp add: run_ok_def)
  have b': "bc_chans b' = bc_chans (run_b s) @ [\<lparr>ch_buf = [], ch_closed = False\<rparr>]"
    using subscribe by (auto simp: Subscribe_def Let_def)
  have "bc_ok b'" using bc_ok_Subscribe [OF ok] subscribe ia by blast
  with subscribe b' show ?case
    by (auto simp: run_ok_def chan_ok_def Let_def nth_append less_Suc_eq)
next
  case (unsubscribe i s b')
  from unsubscribe have ok: "bc_ok (run_b s)" by (simp add: run_ok_def)
  obtain b2 where b2: "Unsubscribe i (run_b s) = Some b2" "bc_ok b2"
    "length (bc_chans b2) = length (bc_chans (run_b s))"
    "\<forall>a<length (bc_chans (run_b s)). ch_buf (bc_chans b2 ! a) = ch_buf (bc_chans (run_b s) ! a)
       \<and> (ch_closed (bc_chans (run_b s) ! a) \<longrightarrow> ch_closed (bc_chans b2 ! a))"
    using bc_ok_Unsubscribe [OF ok, of i] by metis
  with unsubscribe have "b' = b2" by simp
  with unsubscribe b2 show ?case by (auto simp: run_ok_def chan_ok_def Let_def)
next
  case (publish ev s b')
  from publish have ok: "bc_ok (run_b s)" by (simp add: run_ok_def)
  then have "bc_ok b'" using bc_ok_Publish [OF ok, of ev] publish by (metis option.inject)
  moreover have "length (bc_chans b') = length (bc_chans (run_b s))"
    using publish ok Publish_spec [OF ok, of ev] by auto
  ultimately show ?case
    using publish chan_ok_publish [OF ok, of ev b'] by (simp add: run_ok_def)
next
  case (receive a s e b')
  from receive have ok: "bc_ok (run_b s)" by (simp add: run_ok_def)
  note r = bc_ok_Receive [OF ok \<open>a < _\<close> \<open>Receive a _ = _\<close>]
  have "chan_ok (s\<lparr>run_b := b', run_got := (run_got s)[a := run_got s ! a @ [e]]\<rparr>) x"
    if x: "x < length (bc_chans (run_b s))" for x
  proof -
    have "chan_ok s x" "length (run_got s) = length (bc_chans (run_b s))" using receive x by (auto simp: run_ok_def)
    then show ?thesis using r x by (cases "x = a") (auto simp: chan_ok_def Let_def)
  qed
  then show ?case using receive r(1,2) by (simp add: run_ok_def)
qed

lemma run_ok_reach: "bc_reach n s \<Longrightarrow> run_ok s"
proof (induction rule: bc_reach.induct)
  case start
  then show ?case using bc_ok_New [of n] by (simp add: run_ok_def) (simp add: bc_New_def)
next
  case (step s s')
  then show ?case using run_ok_step by blast
qed

end
