(* ===== verification/Mediastore.thy ===== *)
theory Mediastore
  imports Domain
begin

text \<open>
  internal/mediastore: the content-addressed files on disk, with the parts of
  \<open>path/filepath\<close> and \<open>os\<close> it uses. The hash (the hexadecimal SHA-256 digest) is a parameter
  \<open>sha\<close>; the theorems name what they need of it (\<open>hex_digest\<close>). Each \<open>os\<close> call may fail as the
  script \<open>fs_faults\<close> says; a write that fails half way leaves the bytes that reached the file.
\<close>

section \<open>\<open>path/filepath\<close> on Unix\<close>

fun split_slash :: "string \<Rightarrow> string list" where
  "split_slash [] = [[]]"
| "split_slash (c # cs) =
     (if c = CHR ''/'' then [] # split_slash cs
      else (case split_slash cs of [] \<Rightarrow> [[c]] | x # xs \<Rightarrow> (c # x) # xs))"

text \<open>The loop of \<open>Clean\<close> over the elements; the stack \<open>out\<close> holds the result reversed.\<close>

fun clean_elems :: "bool \<Rightarrow> string list \<Rightarrow> string list \<Rightarrow> string list" where
  "clean_elems rooted out [] = out"
| "clean_elems rooted out (e # es) =
     (if e = '''' \<or> e = ''.'' then clean_elems rooted out es
      else if e = ''..'' then
        (case out of
           [] \<Rightarrow> clean_elems rooted (if rooted then [] else [e]) es
         | x # xs \<Rightarrow> if x = ''..'' then clean_elems rooted (e # out) es else clean_elems rooted xs es)
      else clean_elems rooted (e # out) es)"

definition is_rooted :: "string \<Rightarrow> bool" where
  "is_rooted p \<longleftrightarrow> p \<noteq> [] \<and> hd p = CHR ''/''"

definition filepath_Clean :: "string \<Rightarrow> string" where
  "filepath_Clean p =
     (let out = rev (clean_elems (is_rooted p) [] (split_slash p))
      in if is_rooted p then ''/'' @ join ''/'' out
         else if out = [] then ''.'' else join ''/'' out)"

fun filepath_Join :: "string list \<Rightarrow> string" where
  "filepath_Join [] = ''''"
| "filepath_Join (e # es) = (if e = '''' then filepath_Join es else filepath_Clean (join ''/'' (e # es)))"

definition dir_part :: "string \<Rightarrow> string" where
  "dir_part p = rev (dropWhile (\<lambda>c. c \<noteq> CHR ''/'') (rev p))"

definition filepath_Dir :: "string \<Rightarrow> string" where
  "filepath_Dir p = filepath_Clean (dir_part p)"

section \<open>\<open>os\<close>\<close>

datatype fs_fault = FOpen string | FShort nat string

record fs =
  fs_files :: "string \<rightharpoonup> string"
  fs_dirs :: "string list"
  fs_faults :: "fs_fault option list"

definition fs_quiet :: "fs \<Rightarrow> bool" where
  "fs_quiet f \<longleftrightarrow> (\<forall>x\<in>set (fs_faults f). x = None)"

definition fs_fault :: "fs \<Rightarrow> fs_fault option \<times> fs" where
  "fs_fault f = (case fs_faults f of [] \<Rightarrow> (None, f) | x # xs \<Rightarrow> (x, f\<lparr>fs_faults := xs\<rparr>))"

fun os_err :: "fs_fault \<Rightarrow> goerr" where
  "os_err (FOpen m) = GoErr EOther m"
| "os_err (FShort n m) = GoErr EOther m"

lemma err_kind_os_err [simp]: "err_kind_of (os_err e) = EOther"
  by (cases e) simp_all

definition os_Stat_size :: "string \<Rightarrow> fs \<Rightarrow> nat option \<times> fs" where
  "os_Stat_size p f = (case fs_fault f of
     (Some e, f1) \<Rightarrow> (None, f1)
   | (None, f1) \<Rightarrow> (map_option length (fs_files f1 p), f1))"

definition os_MkdirAll :: "string \<Rightarrow> fs \<Rightarrow> goerr option \<times> fs" where
  "os_MkdirAll d f = (case fs_fault f of
     (Some e, f1) \<Rightarrow> (Some (os_err e), f1)
   | (None, f1) \<Rightarrow> (None, f1\<lparr>fs_dirs := d # fs_dirs f1\<rparr>))"

definition os_WriteFile :: "string \<Rightarrow> string \<Rightarrow> fs \<Rightarrow> goerr option \<times> fs" where
  "os_WriteFile p body f =
     (if filepath_Dir p \<notin> set (fs_dirs f) then (Some (GoErr EOther ''no such file or directory''), f)
      else case fs_fault f of
        (Some (FOpen m), f1) \<Rightarrow> (Some (GoErr EOther m), f1)
      | (Some (FShort n m), f1) \<Rightarrow> (Some (GoErr EOther m), f1\<lparr>fs_files := (fs_files f1)(p \<mapsto> take n body)\<rparr>)
      | (None, f1) \<Rightarrow> (None, f1\<lparr>fs_files := (fs_files f1)(p \<mapsto> body)\<rparr>))"

definition os_Rename :: "string \<Rightarrow> string \<Rightarrow> fs \<Rightarrow> goerr option \<times> fs" where
  "os_Rename src dst f = (case fs_fault f of
     (Some e, f1) \<Rightarrow> (Some (os_err e), f1)
   | (None, f1) \<Rightarrow> (case fs_files f1 src of
        None \<Rightarrow> (Some (GoErr EOther ''no such file or directory''), f1)
      | Some b \<Rightarrow> (None, f1\<lparr>fs_files := (fs_files f1)(src := None, dst \<mapsto> b)\<rparr>)))"

definition os_Remove :: "string \<Rightarrow> fs \<Rightarrow> goerr option \<times> fs" where
  "os_Remove p f = (case fs_fault f of
     (Some e, f1) \<Rightarrow> (Some (os_err e), f1)
   | (None, f1) \<Rightarrow> (None, f1\<lparr>fs_files := (fs_files f1)(p := None)\<rparr>))"

section \<open>mediastore.go\<close>

definition ExtFromMIME :: "string \<Rightarrow> string" where
  "ExtFromMIME mime =
     (if mime \<in> {''image/jpeg'', ''image/jpg''} then ''.jpg''
      else if mime = ''image/png'' then ''.png''
      else if mime = ''image/webp'' then ''.webp''
      else if mime = ''image/gif'' then ''.gif''
      else if mime = ''image/heic'' then ''.heic''
      else if mime = ''video/mp4'' then ''.mp4''
      else if mime = ''video/quicktime'' then ''.mov''
      else if mime = ''video/webm'' then ''.webm''
      else if mime \<in> {''audio/ogg'', ''audio/ogg; codecs=opus''} then ''.ogg''
      else if mime = ''audio/mpeg'' then ''.mp3''
      else if mime = ''audio/aac'' then ''.aac''
      else if mime = ''audio/wav'' then ''.wav''
      else if mime = ''application/pdf'' then ''.pdf''
      else if mime = ''application/zip'' then ''.zip''
      else if mime = ''application/x-tar'' then ''.tar''
      else if mime = ''text/plain'' then ''.txt''
      else ''.bin'')"

definition media_path :: "string \<Rightarrow> string \<Rightarrow> string \<Rightarrow> string" where
  "media_path root sha ext =
     filepath_Join [root, (if 2 \<le> length sha then take 2 sha else ''''), sha @ ext]"

definition media_write :: "(string \<Rightarrow> string) \<Rightarrow> string \<Rightarrow> string \<Rightarrow> string \<Rightarrow> fs
    \<Rightarrow> (goerr + string \<times> string) \<times> fs" where
  "media_write sha root body mime f =
     (let s = sha body;
          path = media_path root s (ExtFromMIME mime);
          tmp = path @ ''.tmp''
      in case os_Stat_size path f of
           (st, f1) \<Rightarrow>
             if st = Some (length body) then (Inr (s, path), f1)
             else case os_MkdirAll (filepath_Dir path) f1 of
               (Some e, f2) \<Rightarrow> (Inl (wrapf ''mediastore mkdir'' e), f2)
             | (None, f2) \<Rightarrow> (case os_WriteFile tmp body f2 of
                 (Some e, f3) \<Rightarrow> (Inl (wrapf ''mediastore write tmp'' e), f3)
               | (None, f3) \<Rightarrow> (case os_Rename tmp path f3 of
                   (Some e, f4) \<Rightarrow> (Inl (wrapf ''mediastore rename'' e), snd (os_Remove tmp f4))
                 | (None, f4) \<Rightarrow> (Inr (s, path), f4))))"

lemma media_path_example:
  "media_path ''/var/lib//wa/./media'' ''ab12'' ''.jpg'' = ''/var/lib/wa/media/ab/ab12.jpg''"
  by code_simp

section \<open>The shape of a path\<close>

definition plain :: "string \<Rightarrow> bool" where
  "plain e \<longleftrightarrow> CHR ''/'' \<notin> set e \<and> e \<noteq> '''' \<and> e \<noteq> ''.'' \<and> e \<noteq> ''..''"

lemma split_slash_nonempty: "split_slash p \<noteq> []"
  by (induction p) (auto split: list.splits)

lemma split_slash_append: "split_slash (a @ CHR ''/'' # b) = split_slash a @ split_slash b"
  using split_slash_nonempty by (induction a) (auto split: list.splits)

lemma split_slash_plain: "CHR ''/'' \<notin> set p \<Longrightarrow> split_slash p = [p]"
  by (induction p) auto

lemma clean_elems_append: "clean_elems r out (xs @ ys) = clean_elems r (clean_elems r out xs) ys"
  by (induction r out xs rule: clean_elems.induct) (auto split: list.splits)

lemma clean_elems_plain: "plain e \<Longrightarrow> clean_elems r out (e # es) = clean_elems r (e # out) es"
  by (simp add: plain_def)

lemma join_snoc: "xs \<noteq> [] \<Longrightarrow> join sep (xs @ [y]) = join sep xs @ sep @ y"
  by (induction sep xs rule: join.induct) (auto simp: neq_Nil_conv)

text \<open>A path that ends in two plain elements keeps them through \<open>Clean\<close>.\<close>

lemma Clean_snoc:
  assumes "plain d" "plain e" and r: "r = [] \<or> (\<exists>q. r = q @ ''/'')"
  shows "\<exists>pre. filepath_Clean (r @ d @ CHR ''/'' # e) = pre @ CHR ''/'' # e"
proof -
  let ?p = "r @ d @ CHR ''/'' # e"
  have "\<exists>xs. split_slash ?p = xs @ [d, e]"
  proof (cases "r = []")
    case True
    then show ?thesis using assms split_slash_append [of d e] by (simp add: split_slash_plain plain_def)
  next
    case False
    then obtain q where "r = q @ ''/''" using r by blast
    then show ?thesis
      using assms split_slash_append [of q "d @ CHR ''/'' # e"] split_slash_append [of d e]
      by (simp add: split_slash_plain plain_def)
  qed
  then obtain xs where "split_slash ?p = xs @ [d, e]" by blast
  then have "rev (clean_elems (is_rooted ?p) [] (split_slash ?p))
      = (rev (clean_elems (is_rooted ?p) [] xs) @ [d]) @ [e]"
    using clean_elems_plain [OF assms(1), of "is_rooted ?p" "clean_elems (is_rooted ?p) [] xs" "[e]"]
      clean_elems_plain [OF assms(2), of "is_rooted ?p" "d # clean_elems (is_rooted ?p) [] xs" "[]"]
    by (simp only: clean_elems_append clean_elems.simps(1)) simp
  then have "join ''/'' (rev (clean_elems (is_rooted ?p) [] (split_slash ?p)))
      = join ''/'' (rev (clean_elems (is_rooted ?p) [] xs) @ [d]) @ CHR ''/'' # e"
    and "rev (clean_elems (is_rooted ?p) [] (split_slash ?p)) \<noteq> []"
    using join_snoc [of "rev (clean_elems (is_rooted ?p) [] xs) @ [d]" "''/''" e] by simp_all
  then have "filepath_Clean ?p = ((if is_rooted ?p then ''/'' else [])
      @ join ''/'' (rev (clean_elems (is_rooted ?p) [] xs) @ [d])) @ CHR ''/'' # e"
    by (cases "is_rooted ?p") (simp_all add: filepath_Clean_def Let_def)
  then show ?thesis by blast
qed

lemma media_path_shape:
  assumes "plain (take 2 sha)" "plain (sha @ ext)" "2 \<le> length sha"
  shows "\<exists>pre. media_path root sha ext = pre @ CHR ''/'' # (sha @ ext)"
proof (cases "root = ''''")
  case True
  then show ?thesis
    using Clean_snoc [OF assms(1,2), of "[]"] assms by (auto simp: media_path_def plain_def)
next
  case False
  then show ?thesis
    using Clean_snoc [OF assms(1,2), of "root @ ''/''"] assms(3) by (auto simp: media_path_def)
qed

lemma Dir_suffix:
  assumes "CHR ''/'' \<notin> set e" "CHR ''/'' \<notin> set e'"
  shows "filepath_Dir (pre @ CHR ''/'' # e) = filepath_Dir (pre @ CHR ''/'' # e')"
proof -
  have "dropWhile (\<lambda>c. c \<noteq> CHR ''/'') (rev e @ CHR ''/'' # rev pre) = CHR ''/'' # rev pre"
    if "CHR ''/'' \<notin> set e" for e :: string
    using that by (subst dropWhile_append2) auto
  then show ?thesis using assms by (simp add: filepath_Dir_def dir_part_def)
qed

section \<open>Extensions and digests\<close>

definition extensions :: "string list" where
  "extensions = [''.jpg'', ''.png'', ''.webp'', ''.gif'', ''.heic'', ''.mp4'', ''.mov'', ''.webm'',
     ''.ogg'', ''.mp3'', ''.aac'', ''.wav'', ''.pdf'', ''.zip'', ''.tar'', ''.txt'', ''.bin'']"

lemma ExtFromMIME_range: "ExtFromMIME mime \<in> set extensions"
  by (simp add: ExtFromMIME_def extensions_def)

lemma extensions_shape: "\<forall>e\<in>set extensions. CHR ''/'' \<notin> set e \<and> 4 \<le> length e \<and> length e \<le> 5"
  by (simp add: extensions_def)

definition is_hex :: "char \<Rightarrow> bool" where
  "is_hex c \<longleftrightarrow> is_digit c \<or> c \<in> set ''abcdef''"

text \<open>What is known of the digest: 64 lower-case hexadecimal digits.\<close>

definition hex_digest :: "(string \<Rightarrow> string) \<Rightarrow> bool" where
  "hex_digest sha \<longleftrightarrow> (\<forall>b. length (sha b) = 64 \<and> list_all is_hex (sha b))"

lemma is_hex_char: "is_hex c \<Longrightarrow> c \<noteq> CHR ''/'' \<and> c \<noteq> CHR ''.''"
  by (auto simp: is_hex_def is_digit_def byte_def)

lemma final_path:
  assumes "hex_digest sha" "ext \<in> set extensions"
  shows "\<exists>pre. media_path root (sha b) ext = pre @ CHR ''/'' # (sha b @ ext)"
    and "CHR ''/'' \<notin> set (sha b @ ext)"
proof -
  have len: "length (sha b) = 64" and hex: "\<forall>c\<in>set (sha b). c \<noteq> CHR ''/'' \<and> c \<noteq> CHR ''.''"
    using assms(1) is_hex_char by (auto simp: hex_digest_def list_all_iff)
  then obtain c1 c2 cs where s: "sha b = c1 # c2 # cs"
    by (cases "sha b"; cases "tl (sha b)") auto
  show "CHR ''/'' \<notin> set (sha b @ ext)" using hex extensions_shape assms(2) by auto
  then have "plain (sha b @ ext)" using s hex by (auto simp: plain_def)
  moreover have "plain (take 2 (sha b))" using s hex by (auto simp: plain_def)
  ultimately show "\<exists>pre. media_path root (sha b) ext = pre @ CHR ''/'' # (sha b @ ext)"
    using media_path_shape len by simp
qed

lemma last_element_eq:
  "pre @ CHR ''/'' # e = pre' @ CHR ''/'' # e' \<Longrightarrow> CHR ''/'' \<notin> set e \<Longrightarrow> CHR ''/'' \<notin> set e' \<Longrightarrow> e = e'"
  by (auto simp: append_eq_append_conv2 append_eq_Cons_conv Cons_eq_append_conv)

lemma media_path_inj:
  assumes "hex_digest sha" "ext \<in> set extensions" "ext' \<in> set extensions"
    and "media_path root (sha b) ext = media_path root (sha c) ext'"
  shows "sha b = sha c \<and> ext = ext'"
proof -
  have "sha b @ ext = sha c @ ext'"
    using final_path(1) [OF assms(1,2), of root b] final_path(1) [OF assms(1,3), of root c] assms(4)
      final_path(2) [OF assms(1,2), of b] final_path(2) [OF assms(1,3), of c] last_element_eq by metis
  then show ?thesis using assms(1) by (simp add: hex_digest_def)
qed

lemma tmp_not_final:
  assumes "hex_digest sha" "ext \<in> set extensions" "ext' \<in> set extensions"
  shows "media_path root (sha b) ext @ ''.tmp'' \<noteq> media_path root (sha c) ext'"
proof
  assume eq: "media_path root (sha b) ext @ ''.tmp'' = media_path root (sha c) ext'"
  obtain pre where "media_path root (sha b) ext = pre @ CHR ''/'' # (sha b @ ext)"
    using final_path [OF assms(1,2)] by blast
  moreover obtain pre' where "media_path root (sha c) ext' = pre' @ CHR ''/'' # (sha c @ ext')"
    using final_path [OF assms(1,3)] by blast
  ultimately have "sha b @ ext @ ''.tmp'' = sha c @ ext'"
    using eq last_element_eq [of pre "sha b @ ext @ ''.tmp''" pre' "sha c @ ext'"]
      final_path(2) [OF assms(1,2)] final_path(2) [OF assms(1,3)] by simp
  then have "ext' = ext @ ''.tmp''" using assms(1) by (simp add: hex_digest_def)
  moreover have "4 \<le> length ext" "length ext' \<le> 5" using extensions_shape assms(2,3) by auto
  ultimately show False by simp
qed

lemma tmp_same_dir:
  assumes "hex_digest sha" "ext \<in> set extensions"
  shows "filepath_Dir (media_path root (sha b) ext @ ''.tmp'') = filepath_Dir (media_path root (sha b) ext)"
proof -
  obtain pre where p: "media_path root (sha b) ext = pre @ CHR ''/'' # (sha b @ ext)"
    using final_path(1) [OF assms] by blast
  show ?thesis
    unfolding p using Dir_suffix [of "(sha b @ ext) @ ''.tmp''" "sha b @ ext" pre] final_path(2) [OF assms, of b]
    by simp
qed

section \<open>\<open>Write\<close>\<close>

text \<open>Every final file of the store holds bytes with the digest its name claims.\<close>

definition content_addressed :: "(string \<Rightarrow> string) \<Rightarrow> string \<Rightarrow> fs \<Rightarrow> bool" where
  "content_addressed sha root f \<longleftrightarrow> (\<forall>c b. \<forall>ext\<in>set extensions.
     fs_files f (media_path root (sha c) ext) = Some b \<longrightarrow> sha b = sha c)"

lemma fs_faultE:
  assumes "fs_fault f = (x, f1)"
  shows "fs_files f1 = fs_files f" "fs_dirs f1 = fs_dirs f" "fs_quiet f \<Longrightarrow> x = None \<and> fs_quiet f1"
  using assms by (auto simp: fs_fault_def fs_quiet_def split: list.splits)

lemma os_Stat_cases:
  assumes "os_Stat_size p f = (st, f1)"
  shows "fs_files f1 = fs_files f" "st = Some n \<Longrightarrow> \<exists>b. fs_files f p = Some b \<and> length b = n"
    "fs_quiet f \<Longrightarrow> fs_quiet f1"
proof -
  obtain x g where g: "fs_fault f = (x, g)" by fastforce
  note fs_faultE [OF g]
  with assms g show "fs_files f1 = fs_files f" "st = Some n \<Longrightarrow> \<exists>b. fs_files f p = Some b \<and> length b = n"
    "fs_quiet f \<Longrightarrow> fs_quiet f1"
    by (cases x; simp add: os_Stat_size_def; blast)+
qed

lemma os_MkdirAll_cases:
  assumes "os_MkdirAll d f = (r, f1)"
  shows "fs_files f1 = fs_files f" "r = None \<Longrightarrow> d \<in> set (fs_dirs f1)"
    "fs_quiet f \<Longrightarrow> r = None \<and> fs_quiet f1"
proof -
  obtain x g where g: "fs_fault f = (x, g)" by fastforce
  note fs_faultE [OF g]
  with assms g show "fs_files f1 = fs_files f" "r = None \<Longrightarrow> d \<in> set (fs_dirs f1)"
    "fs_quiet f \<Longrightarrow> r = None \<and> fs_quiet f1"
    by (cases x; auto simp: os_MkdirAll_def fs_quiet_def)+
qed

lemma os_WriteFile_cases:
  assumes "os_WriteFile p body f = (r, f1)"
  shows "q \<noteq> p \<Longrightarrow> fs_files f1 q = fs_files f q" "r = None \<Longrightarrow> fs_files f1 p = Some body"
    "fs_quiet f \<Longrightarrow> filepath_Dir p \<in> set (fs_dirs f) \<Longrightarrow> r = None \<and> fs_quiet f1"
proof -
  obtain x g where g: "fs_fault f = (x, g)" by fastforce
  note fs_faultE [OF g]
  with assms g show "q \<noteq> p \<Longrightarrow> fs_files f1 q = fs_files f q" "r = None \<Longrightarrow> fs_files f1 p = Some body"
    "fs_quiet f \<Longrightarrow> filepath_Dir p \<in> set (fs_dirs f) \<Longrightarrow> r = None \<and> fs_quiet f1"
    by (auto simp: os_WriteFile_def fs_quiet_def split: if_splits option.splits fs_fault.splits)
qed

lemma os_Rename_cases:
  assumes "os_Rename src dst f = (r, f1)" "fs_files f src = Some b" "src \<noteq> dst"
  shows "q \<noteq> src \<Longrightarrow> q \<noteq> dst \<Longrightarrow> fs_files f1 q = fs_files f q"
    "r = None \<Longrightarrow> fs_files f1 dst = Some b"
    "r \<noteq> None \<Longrightarrow> fs_files f1 = fs_files f"
    "fs_quiet f \<Longrightarrow> r = None \<and> fs_quiet f1"
proof -
  obtain x g where g: "fs_fault f = (x, g)" by fastforce
  note g1 = fs_faultE [OF g]
  have "fs_files g src = Some b" using g1(1) assms(2) by simp
  with assms(1,3) g g1 show "q \<noteq> src \<Longrightarrow> q \<noteq> dst \<Longrightarrow> fs_files f1 q = fs_files f q"
    "r = None \<Longrightarrow> fs_files f1 dst = Some b" "r \<noteq> None \<Longrightarrow> fs_files f1 = fs_files f"
    "fs_quiet f \<Longrightarrow> r = None \<and> fs_quiet f1"
    by (cases x; auto simp: os_Rename_def fs_quiet_def)+
qed

lemma os_Remove_other: "q \<noteq> p \<Longrightarrow> fs_files (snd (os_Remove p f)) q = fs_files f q"
proof -
  assume "q \<noteq> p"
  obtain x g where g: "fs_fault f = (x, g)" by fastforce
  with \<open>q \<noteq> p\<close> fs_faultE(1) [OF g] show ?thesis by (cases x) (simp_all add: os_Remove_def)
qed

text \<open>
  \<open>Write\<close> whatever fails: only the destination and its temporary sibling are touched, the
  destination goes from its old state to the whole body in one step, and a success means it
  holds \<open>body\<close> or was there with the right size.
\<close>

lemma media_write_frame:
  fixes sha root body mime
  defines "path \<equiv> media_path root (sha body) (ExtFromMIME mime)"
  assumes "media_write sha root body mime f = (r, f')"
  shows "\<forall>q. q \<noteq> path \<and> q \<noteq> path @ ''.tmp'' \<longrightarrow> fs_files f' q = fs_files f q"
    and "fs_files f' path = fs_files f path \<or> fs_files f' path = Some body"
    and "\<forall>x. r = Inr x \<longrightarrow> x = (sha body, path) \<and> (fs_files f' path = Some body
        \<or> (fs_files f' path = fs_files f path \<and> (\<exists>b. fs_files f path = Some b \<and> length b = length body)))"
    and "\<forall>e. r = Inl e \<longrightarrow> fs_files f' path = fs_files f path \<and> err_kind_of e = EOther"
proof -
  obtain st f1 where st: "os_Stat_size path f = (st, f1)" by fastforce
  obtain e2 f2 where mk: "os_MkdirAll (filepath_Dir path) f1 = (e2, f2)" by fastforce
  obtain e3 f3 where wr: "os_WriteFile (path @ ''.tmp'') body f2 = (e3, f3)" by fastforce
  obtain e4 f4 where rn: "os_Rename (path @ ''.tmp'') path f3 = (e4, f4)" by fastforce
  note s = os_Stat_cases [OF st] note m = os_MkdirAll_cases [OF mk] note w = os_WriteFile_cases [OF wr]
  have tp: "path @ ''.tmp'' \<noteq> path" by simp
  note rn' = os_Rename_cases [OF rn _ tp]
  have err: "err_kind_of x = EOther" if "e2 = Some x \<or> e3 = Some x \<or> e4 = Some x" for x
    using that mk wr rn
    by (auto simp: os_MkdirAll_def os_WriteFile_def os_Rename_def
        split: prod.splits option.splits if_splits fs_fault.splits)
  have eq: "media_write sha root body mime f =
      (if st = Some (length body) then (Inr (sha body, path), f1)
       else case e2 of Some e \<Rightarrow> (Inl (wrapf ''mediastore mkdir'' e), f2)
         | None \<Rightarrow> (case e3 of Some e \<Rightarrow> (Inl (wrapf ''mediastore write tmp'' e), f3)
           | None \<Rightarrow> (case e4 of Some e \<Rightarrow> (Inl (wrapf ''mediastore rename'' e), snd (os_Remove (path @ ''.tmp'') f4))
             | None \<Rightarrow> (Inr (sha body, path), f4))))"
    using st mk wr rn by (simp add: media_write_def path_def Let_def split: option.splits)
  show "\<forall>q. q \<noteq> path \<and> q \<noteq> path @ ''.tmp'' \<longrightarrow> fs_files f' q = fs_files f q"
    using assms(2) eq s(1) m(1) w(1,2) rn'(1) os_Remove_other [of _ "path @ ''.tmp''" f4]
    by (auto split: if_splits option.splits)
  show "fs_files f' path = fs_files f path \<or> fs_files f' path = Some body"
    using assms(2) eq s(1) m(1) w(1,2) rn'(2,3) os_Remove_other [of path "path @ ''.tmp''" f4]
    by (auto split: if_splits option.splits)
  show "\<forall>x. r = Inr x \<longrightarrow> x = (sha body, path) \<and> (fs_files f' path = Some body
        \<or> (fs_files f' path = fs_files f path \<and> (\<exists>b. fs_files f path = Some b \<and> length b = length body)))"
    using assms(2) eq s(1) s(2) [of "length body"] w(2) rn'(2) by (auto split: if_splits option.splits)
  show "\<forall>e. r = Inl e \<longrightarrow> fs_files f' path = fs_files f path \<and> err_kind_of e = EOther"
    using assms(2) eq s(1) m(1) w(1,2) rn'(3) os_Remove_other [of path "path @ ''.tmp''" f4] err
    by (auto split: if_splits option.splits)
qed

lemma media_write_quiet:
  assumes "fs_quiet f" "hex_digest sha"
  shows "fst (media_write sha root body mime f) = Inr (sha body, media_path root (sha body) (ExtFromMIME mime))"
proof -
  let ?path = "media_path root (sha body) (ExtFromMIME mime)"
  obtain st f1 where st: "os_Stat_size ?path f = (st, f1)" by fastforce
  obtain e2 f2 where mk: "os_MkdirAll (filepath_Dir ?path) f1 = (e2, f2)" by fastforce
  obtain e3 f3 where wr: "os_WriteFile (?path @ ''.tmp'') body f2 = (e3, f3)" by fastforce
  obtain e4 f4 where rn: "os_Rename (?path @ ''.tmp'') ?path f3 = (e4, f4)" by fastforce
  have q1: "fs_quiet f1" using os_Stat_cases(3) [OF st] assms(1) by blast
  have e2: "e2 = None" "fs_quiet f2" using os_MkdirAll_cases(3) [OF mk q1] by auto
  have e3: "e3 = None" "fs_quiet f3"
    using os_WriteFile_cases(3) [OF wr e2(2)] os_MkdirAll_cases(2) [OF mk e2(1)]
      tmp_same_dir [OF assms(2) ExtFromMIME_range] by auto
  have "e4 = None"
    using os_Rename_cases(4) [OF rn os_WriteFile_cases(2) [OF wr e3(1)] _ e3(2)] by simp
  then show ?thesis using st mk wr rn e2 e3 by (simp add: media_write_def Let_def)
qed

lemma media_write_stays_quiet:
  assumes "fs_quiet f" "hex_digest sha"
  shows "fs_quiet (snd (media_write sha root body mime f))"
proof -
  let ?path = "media_path root (sha body) (ExtFromMIME mime)"
  obtain st f1 where st: "os_Stat_size ?path f = (st, f1)" by fastforce
  obtain e2 f2 where mk: "os_MkdirAll (filepath_Dir ?path) f1 = (e2, f2)" by fastforce
  obtain e3 f3 where wr: "os_WriteFile (?path @ ''.tmp'') body f2 = (e3, f3)" by fastforce
  obtain e4 f4 where rn: "os_Rename (?path @ ''.tmp'') ?path f3 = (e4, f4)" by fastforce
  have q1: "fs_quiet f1" using os_Stat_cases(3) [OF st] assms(1) by blast
  have e2: "e2 = None" "fs_quiet f2" using os_MkdirAll_cases(3) [OF mk q1] by auto
  have e3: "e3 = None" "fs_quiet f3"
    using os_WriteFile_cases(3) [OF wr e2(2)] os_MkdirAll_cases(2) [OF mk e2(1)]
      tmp_same_dir [OF assms(2) ExtFromMIME_range] by auto
  have "e4 = None" "fs_quiet f4"
    using os_Rename_cases(4) [OF rn os_WriteFile_cases(2) [OF wr e3(1)] _ e3(2)] by simp_all
  then show ?thesis using st mk wr rn e2 e3 q1 by (simp add: media_write_def Let_def)
qed

text \<open>With no other file under its digest, the file holds the body.\<close>

lemma media_write_holds:
  assumes "fs_quiet f" "hex_digest sha"
    and nc: "\<forall>b. fs_files f (media_path root (sha body) (ExtFromMIME mime)) = Some b \<longrightarrow> b = body"
  shows "fs_files (snd (media_write sha root body mime f)) (media_path root (sha body) (ExtFromMIME mime)) = Some body"
proof -
  obtain r f' where w: "media_write sha root body mime f = (r, f')" by fastforce
  with media_write_quiet [OF assms(1,2), of root body mime] have "r = Inr (sha body, media_path root (sha body) (ExtFromMIME mime))"
    by simp
  then show ?thesis using media_write_frame(3) [OF w] nc w by auto
qed

lemma media_write_content_addressed:
  assumes ca: "content_addressed sha root f" and hex: "hex_digest sha"
    and w: "media_write sha root body mime f = (r, f')"
  shows "content_addressed sha root f'"
  unfolding content_addressed_def
proof (intro allI ballI impI)
  fix c b ext
  assume ext: "ext \<in> set extensions" and b: "fs_files f' (media_path root (sha c) ext) = Some b"
  let ?path = "media_path root (sha body) (ExtFromMIME mime)"
  have nt: "media_path root (sha c) ext \<noteq> ?path @ ''.tmp''"
    using tmp_not_final [OF hex ExtFromMIME_range ext] by metis
  show "sha b = sha c"
  proof (cases "media_path root (sha c) ext = ?path")
    case True
    then have "sha c = sha body" using media_path_inj [OF hex ext ExtFromMIME_range] by blast
    then show ?thesis
      using media_write_frame(2) [OF w] b True ca ext unfolding content_addressed_def
      by (metis option.inject)
  next
    case False
    then show ?thesis
      using media_write_frame(1) [OF w] nt b ca ext unfolding content_addressed_def by metis
  qed
qed

end
