(* ===== verification/Events.thy ===== *)
theory Events
  imports Store_Api Broadcaster Mediastore
begin

text \<open>
  internal/service/events.go: the JSON payloads of the event stream and the emitter, over the
  state of the running daemon (\<open>world\<close>): database, WhatsApp client, media files,
  broadcaster, clock, the WARN lines logged so far, and the download goroutines started.
\<close>

section \<open>The state of the daemon\<close>

record ('d, 'w) world =
  w_db :: 'd
  w_wa :: 'w
  w_fs :: fs
  w_bc :: broadcaster
  w_clock :: "nat \<Rightarrow> time"
  w_tick :: nat
  w_warn :: "string list"
  w_tasks :: "(string \<times> (goerr + string \<times> string)) list"
  w_panic :: bool

definition on_db :: "('d \<Rightarrow> 'r \<times> 'd) \<Rightarrow> ('d, 'w) world \<Rightarrow> 'r \<times> ('d, 'w) world" where
  "on_db f w = (case f (w_db w) of (r, d) \<Rightarrow> (r, w\<lparr>w_db := d\<rparr>))"

definition on_wa :: "('w \<Rightarrow> 'r \<times> 'w) \<Rightarrow> ('d, 'w) world \<Rightarrow> 'r \<times> ('d, 'w) world" where
  "on_wa f w = (case f (w_wa w) of (r, x) \<Rightarrow> (r, w\<lparr>w_wa := x\<rparr>))"

definition on_fs :: "(fs \<Rightarrow> 'r \<times> fs) \<Rightarrow> ('d, 'w) world \<Rightarrow> 'r \<times> ('d, 'w) world" where
  "on_fs f w = (case f (w_fs w) of (r, x) \<Rightarrow> (r, w\<lparr>w_fs := x\<rparr>))"

text \<open>\<open>time.Now()\<close>: the readings of the clock are a sequence the model is given.\<close>

definition time_Now :: "('d, 'w) world \<Rightarrow> time \<times> ('d, 'w) world" where
  "time_Now w = (w_clock w (w_tick w), w\<lparr>w_tick := Suc (w_tick w)\<rparr>)"

definition warn :: "string \<Rightarrow> ('d, 'w) world \<Rightarrow> ('d, 'w) world" where
  "warn m w = w\<lparr>w_warn := w_warn w @ [m]\<rparr>"

section \<open>Payloads\<close>

definition payloadVersion :: int where
  "payloadVersion = 1"

definition opt_field :: "bool \<Rightarrow> string \<Rightarrow> json \<Rightarrow> (string \<times> json) list" where
  "opt_field c k v = (if c then [(k, v)] else [])"

definition media_zero :: media_ref where
  "media_zero = \<lparr>med_MessageID = '''', med_MIME = '''', med_Size = 0, med_SHA256 = '''', med_Path = ''''\<rparr>"

definition BuildMessageReceivedPayload :: "incoming_message \<Rightarrow> media_ref \<Rightarrow> json" where
  "BuildMessageReceivedPayload m media = go_map
     ([(''v'', JInt payloadVersion), (''message_id'', JStr (in_ID m)), (''chat_jid'', JStr (in_ChatJID m)),
       (''sender_jid'', JStr (in_SenderJID m)), (''kind'', JStr (in_Kind m)), (''body'', JStr (in_Body m)),
       (''timestamp'', JStr (format_rfc3339 (in_Timestamp m)))]
      @ opt_field (in_PushName m \<noteq> '''') ''push_name'' (JStr (in_PushName m))
      @ opt_field (med_MessageID media \<noteq> '''') ''media'' (go_map
          ([(''ref'', JStr (med_MessageID media)), (''mime_type'', JStr (med_MIME media)),
            (''size'', JInt (med_Size media)), (''sha256'', JStr (med_SHA256 media))]
           @ opt_field (in_Body m \<noteq> '''') ''caption'' (JStr (in_Body m)))))"

definition BuildMessageEditedPayload :: "string \<Rightarrow> string \<Rightarrow> string \<Rightarrow> time \<Rightarrow> json" where
  "BuildMessageEditedPayload messageID chatJID body editedAt = go_map
     [(''v'', JInt payloadVersion), (''message_id'', JStr messageID), (''chat_jid'', JStr chatJID),
      (''body'', JStr body), (''edited_at'', JStr (format_rfc3339 editedAt))]"

definition BuildMessageDeletedPayload :: "string \<Rightarrow> string \<Rightarrow> time \<Rightarrow> json" where
  "BuildMessageDeletedPayload messageID chatJID deletedAt = go_map
     [(''v'', JInt payloadVersion), (''message_id'', JStr messageID), (''chat_jid'', JStr chatJID),
      (''deleted_at'', JStr (format_rfc3339 deletedAt))]"

definition BuildReactionReceivedPayload :: "string \<Rightarrow> string \<Rightarrow> string \<Rightarrow> time \<Rightarrow> json" where
  "BuildReactionReceivedPayload targetMsgID senderJID emoji ts = go_map
     [(''v'', JInt payloadVersion), (''target_message_id'', JStr targetMsgID), (''sender_jid'', JStr senderJID),
      (''emoji'', JStr emoji), (''timestamp'', JStr (format_rfc3339 ts))]"

definition BuildReceiptReceivedPayload :: "incoming_receipt \<Rightarrow> json" where
  "BuildReceiptReceivedPayload r = go_map
     [(''v'', JInt payloadVersion), (''message_ids'', JArr (map JStr (ir_MessageIDs r))),
      (''chat_jid'', JStr (ir_ChatJID r)), (''reader_jid'', JStr (ir_ReaderJID r)),
      (''type'', JStr (ir_Type r)), (''timestamp'', JStr (format_rfc3339 (ir_Timestamp r)))]"

definition BuildTypingReceivedPayload :: "string \<Rightarrow> string \<Rightarrow> string \<Rightarrow> time \<Rightarrow> json" where
  "BuildTypingReceivedPayload chatJID senderJID st ts = go_map
     [(''v'', JInt payloadVersion), (''chat_jid'', JStr chatJID), (''sender_jid'', JStr senderJID),
      (''state'', JStr st), (''timestamp'', JStr (format_rfc3339 ts))]"

definition BuildConnectionStatePayload :: "status \<Rightarrow> string \<Rightarrow> json" where
  "BuildConnectionStatePayload s reason = go_map
     ([(''v'', JInt payloadVersion), (''connected'', JBool (st_Connected s))]
      @ (case st_JID s of None \<Rightarrow> [] | Some j \<Rightarrow> [(''jid'', JStr j)])
      @ (case st_Since s of None \<Rightarrow> [] | Some t \<Rightarrow> [(''since'', JStr (format_rfc3339 t))])
      @ opt_field (\<not> st_Connected s \<and> reason \<noteq> '''') ''reason'' (JStr reason))"

text \<open>\<open>mustMarshal\<close> drops the error \<open>json.Marshal\<close> never gives on these values.\<close>

definition mustMarshal :: "json \<Rightarrow> string" where
  "mustMarshal v = marshal v"

section \<open>The emitter\<close>

text \<open>\<open>em_live\<close>: the broadcaster is not nil.\<close>

record 'd emitter =
  em_log :: "'d events_log option"
  em_live :: bool

definition NewEmitter :: "'d events_log option \<Rightarrow> bool \<Rightarrow> 'd emitter" where
  "NewEmitter log broadcaster = \<lparr>em_log = log, em_live = broadcaster\<rparr>"

text \<open>A panic of \<open>Publish\<close> would unwind the goroutine; \<open>w_panic\<close> records it.\<close>

definition publish_event :: "sse_event \<Rightarrow> ('d, 'w) world \<Rightarrow> ('d, 'w) world" where
  "publish_event ev w = (case Publish ev (w_bc w) of
     None \<Rightarrow> w\<lparr>w_panic := True\<rparr> | Some b \<Rightarrow> w\<lparr>w_bc := b\<rparr>)"

datatype payload = PBytes string | PRaw string | PVal json

definition Emit :: "'d emitter option \<Rightarrow> string \<Rightarrow> payload \<Rightarrow> ('d, 'w) world \<Rightarrow> ('d, 'w) world" where
  "Emit e kind payload w = (case e of None \<Rightarrow> w | Some e \<Rightarrow> (case em_log e of None \<Rightarrow> w | Some log \<Rightarrow>
     (let body = (case payload of PBytes p \<Rightarrow> p | PRaw p \<Rightarrow> p | PVal v \<Rightarrow> marshal v)
      in case time_Now w of (now, w1) \<Rightarrow>
         (case on_db (est_Append log \<lparr>ev_Seq = 0, ev_Time = now, ev_Type = kind, ev_Payload = body\<rparr>) w1 of
            (Inl err, w2) \<Rightarrow> warn ''emit: append failed'' w2
          | (Inr seq, w2) \<Rightarrow>
              if em_live e then publish_event \<lparr>se_Seq = seq, se_Kind = kind, se_Payload = body\<rparr> w2 else w2))))"

section \<open>What an emission does to the store and the stream\<close>

text \<open>
  Either nothing is appended and nothing published, or the event is appended under the next
  sequence number and published under the same one.
\<close>

context event_laws
begin

lemma Emit_cases:
  assumes "dinv (w_db w)" and bc: "bc_ok (w_bc w)"
    and e: "e = Some \<lparr>em_log = Some ES, em_live = live\<rparr>"
  obtains (ok) b where "Emit e kind (PBytes body) w = w\<lparr>w_db := w_db (Emit e kind (PBytes body) w),
        w_bc := b, w_tick := Suc (w_tick w)\<rparr>"
      "dinv (w_db (Emit e kind (PBytes body) w))" "calm (w_db w) \<longrightarrow> calm (w_db (Emit e kind (PBytes body) w))"
      "view (w_db (Emit e kind (PBytes body) w)) = abs_append nt \<lparr>ev_Seq = 0, ev_Time = w_clock w (w_tick w),
         ev_Type = kind, ev_Payload = body\<rparr> (view (w_db w))"
      "(if live then Publish \<lparr>se_Seq = v_next (view (w_db w)), se_Kind = kind, se_Payload = body\<rparr> (w_bc w) = Some b
        else b = w_bc w)" "bc_ok b"
    | (fail) "Emit e kind (PBytes body) w = w\<lparr>w_db := w_db (Emit e kind (PBytes body) w),
        w_tick := Suc (w_tick w), w_warn := w_warn w @ [''emit: append failed'']\<rparr>"
      "dinv (w_db (Emit e kind (PBytes body) w))" "\<not> calm (w_db w)"
      "view (w_db (Emit e kind (PBytes body) w)) = view (w_db w)"
proof -
  let ?entry = "\<lparr>ev_Seq = 0, ev_Time = w_clock w (w_tick w), ev_Type = kind, ev_Payload = body\<rparr>"
  obtain r d where a: "est_Append ES ?entry (w_db w) = (r, d)" by fastforce
  note law = event_append [OF assms(1) a]
  show ?thesis
  proof (cases r)
    case (Inl er)
    then show ?thesis using fail law a e
      by (simp add: Emit_def time_Now_def on_db_def warn_def)
  next
    case (Inr seq)
    obtain b' where "Publish \<lparr>se_Seq = seq, se_Kind = kind, se_Payload = body\<rparr> (w_bc w) = Some b'" "bc_ok b'"
      using bc_ok_Publish [OF bc] by blast
    with bc obtain b where b: "if live then Publish \<lparr>se_Seq = seq, se_Kind = kind, se_Payload = body\<rparr> (w_bc w) = Some b
        else b = w_bc w" "bc_ok b"
      by (metis (full_types))
    show ?thesis
      by (rule ok [of b]; insert law a e Inr b; cases live;
          simp add: Emit_def time_Now_def on_db_def publish_event_def)
  qed
qed

end

end
