(* ===== verification/Service.thy ===== *)
theory Service
  imports Events
begin

text \<open>
  internal/service/service.go: the use cases. \<open>svc\<close> is the struct of the same name; each
  method of the interface is a definition over the \<open>world\<close>, with the validations, the calls
  on WhatsApp, store and media files, and the warnings in the order of the code. A method that
  gives a value and an error gives a sum, one that gives an error an option. \<open>ctx\<close> is not
  modelled: nothing in this layer looks at it.
\<close>

section \<open>The service\<close>

record ('d, 'w) svc =
  s_wa :: "'w waclient"
  s_bundle :: "'d store_bundle"
  s_root :: string
  s_sha :: "string \<Rightarrow> string"
  s_emitter :: "'d emitter option"

definition svc_New :: "'w waclient \<Rightarrow> 'd store_bundle \<Rightarrow> string \<Rightarrow> (string \<Rightarrow> string) \<Rightarrow> bool \<Rightarrow> ('d, 'w) svc" where
  "svc_New wa bundle root sha broadcaster = \<lparr>s_wa = wa, s_bundle = bundle, s_root = root, s_sha = sha,
     s_emitter = Some (NewEmitter (Some (b_Events bundle)) broadcaster)\<rparr>"

record Stats_t =
  stats_Chats :: int
  stats_Messages :: int
  stats_Contacts :: int
  stats_UnreadTotal :: int

record SendMediaRequest =
  smr_ChatJID :: string
  smr_Kind :: string
  smr_Caption :: string
  smr_Filename :: string
  smr_MIME :: string
  smr_Body :: string

definition maxTextLen :: nat where "maxTextLen = 4096"
definition minLimit :: int where "minLimit = 1"
definition maxLimit :: int where "maxLimit = 100"
definition maxGroupNameLen :: nat where "maxGroupNameLen = 25"

definition invalid :: "string \<Rightarrow> goerr" where
  "invalid d = errorf ErrInvalidRequest d"

definition forbidden :: "string \<Rightarrow> goerr" where
  "forbidden d = errorf ErrForbidden d"

definition validateLimit :: "int \<Rightarrow> goerr option" where
  "validateLimit limit = (if limit < minLimit \<or> maxLimit < limit
     then Some (invalid ''limit must be in [1, 100]'') else None)"

text \<open>\<open>if err := ...; err != nil { s.logger.Warn(m) }\<close>.\<close>

definition warn_if :: "string \<Rightarrow> goerr option \<times> ('d, 'w) world \<Rightarrow> ('d, 'w) world" where
  "warn_if m r = (case r of (None, w) \<Rightarrow> w | (Some e, w) \<Rightarrow> warn m w)"

section \<open>Pass-through\<close>

definition svc_Status :: "('d, 'w) svc \<Rightarrow> ('d, 'w) world \<Rightarrow> status" where
  "svc_Status S w = wa_Status (s_wa S) (w_wa w)"

definition svc_LoginQR :: "('d, 'w) svc \<Rightarrow> ('d, 'w) world \<Rightarrow> (goerr + qr_event list) \<times> ('d, 'w) world" where
  "svc_LoginQR S = on_wa (wa_LoginQR (s_wa S))"

definition svc_LoginPhone :: "('d, 'w) svc \<Rightarrow> string \<Rightarrow> ('d, 'w) world \<Rightarrow> (goerr + pair_event list) \<times> ('d, 'w) world" where
  "svc_LoginPhone S phoneNumber w =
     (if \<not> IsValidPhoneNumber phoneNumber then (Inl (GoErr EOther ''invalid phone number''), w)
      else on_wa (wa_LoginPhone (s_wa S) phoneNumber) w)"

definition svc_Logout :: "('d, 'w) svc \<Rightarrow> ('d, 'w) world \<Rightarrow> goerr option \<times> ('d, 'w) world" where
  "svc_Logout S = on_wa (wa_Logout (s_wa S))"

section \<open>Sending\<close>

text \<open>The chat row a send leaves behind: the end of \<open>SendText\<close> and of \<open>SendMedia\<close>.\<close>

definition upsert_chat_on_send :: "('d, 'w) svc \<Rightarrow> string \<Rightarrow> time \<Rightarrow> string \<Rightarrow> ('d, 'w) world \<Rightarrow> ('d, 'w) world" where
  "upsert_chat_on_send S chatJID ts m w =
     (case on_db (cst_Get (b_Chats (s_bundle S)) chatJID) w of (r, w) \<Rightarrow>
        let existing = (case r of Inl e \<Rightarrow> new_chat chatJID (ChatKindFromJID chatJID) | Inr c \<Rightarrow> c);
            existing = existing\<lparr>chat_LastMsgAt := ts\<rparr>;
            existing = (if chat_Kind existing = '''' then existing\<lparr>chat_Kind := ChatKindFromJID chatJID\<rparr> else existing)
        in warn_if m (on_db (cst_Put (b_Chats (s_bundle S)) existing) w))"

definition SendText :: "('d, 'w) svc \<Rightarrow> string \<Rightarrow> string \<Rightarrow> string \<Rightarrow> ('d, 'w) world \<Rightarrow> (goerr + message) \<times> ('d, 'w) world" where
  "SendText S chatJID txt replyTo w =
     (if TrimSpace chatJID = '''' then (Inl (invalid ''chat_jid is required''), w)
      else if txt = '''' then (Inl (invalid ''text is required''), w)
      else if maxTextLen < length txt then (Inl (invalid ''text exceeds 4096 bytes''), w)
      else case on_wa (wa_SendText (s_wa S) chatJID txt replyTo) w of
        (Inl e, w) \<Rightarrow> (Inl e, w)
      | (Inr sent, w) \<Rightarrow>
          let msg = new_message (sent_ID sent) chatJID (sent_SenderJID sent) (sent_Timestamp sent) ''text'' txt replyTo;
              w = warn_if ''persist outbound message failed; whatsmeow echo will heal''
                    (on_db (mst_Put (b_Messages (s_bundle S)) msg) w);
              w = upsert_chat_on_send S chatJID (sent_Timestamp sent) ''upsert chat on send failed'' w
          in (Inr msg, w))"

definition SendMedia :: "('d, 'w) svc \<Rightarrow> SendMediaRequest \<Rightarrow> ('d, 'w) world \<Rightarrow> (goerr + message) \<times> ('d, 'w) world" where
  "SendMedia S req w =
     (if TrimSpace (smr_ChatJID req) = '''' then (Inl (invalid ''chat_jid is required''), w)
      else if smr_Body req = '''' then (Inl (invalid ''body is required''), w)
      else if TrimSpace (smr_MIME req) = '''' then (Inl (invalid ''mime is required''), w)
      else if smr_Kind req \<noteq> ''image'' \<and> smr_Kind req \<noteq> ''document''
        then (Inl (invalid ''kind must be image or document''), w)
      else if smr_Kind req = ''document'' \<and> TrimSpace (smr_Filename req) = ''''
        then (Inl (invalid ''filename is required for documents''), w)
      else if maxTextLen < length (smr_Caption req) then (Inl (invalid ''caption exceeds 4096 bytes''), w)
      else case on_wa (wa_SendMedia (s_wa S) (smr_ChatJID req) (smr_Kind req) (smr_Caption req)
                        (smr_Filename req) (smr_MIME req) (smr_Body req)) w of
        (Inl e, w) \<Rightarrow> (Inl e, w)
      | (Inr sent, w) \<Rightarrow>
          case on_fs (media_write (s_sha S) (s_root S) (smr_Body req) (smr_MIME req)) w of (wr, w) \<Rightarrow>
          let (sha, path, w) = (case wr of
                 Inl e \<Rightarrow> ('''', '''', warn ''write media to disk failed'' w)
               | Inr (sha, path) \<Rightarrow> (sha, path, w));
              msg = new_message (sent_ID sent) (smr_ChatJID req) (sent_SenderJID sent) (sent_Timestamp sent)
                      (smr_Kind req) (smr_Caption req) '''';
              w = warn_if ''persist outbound media message failed'' (on_db (mst_Put (b_Messages (s_bundle S)) msg) w);
              w = (if path \<noteq> '''' then
                     warn_if ''persist media row failed'' (on_db (dst_Put (b_Media (s_bundle S))
                       \<lparr>med_MessageID = sent_ID sent, med_MIME = smr_MIME req,
                        med_Size = int (length (smr_Body req)), med_SHA256 = sha, med_Path = path\<rparr>) w)
                   else w);
              w = upsert_chat_on_send S (smr_ChatJID req) (sent_Timestamp sent) ''upsert chat on send media failed'' w
          in (Inr msg, w))"

section \<open>Reading\<close>

definition ListChats :: "('d, 'w) svc \<Rightarrow> time \<Rightarrow> int \<Rightarrow> bool \<Rightarrow> ('d, 'w) world \<Rightarrow> (goerr + chat list) \<times> ('d, 'w) world" where
  "ListChats S beforeMsgAt limit includeArchived w = (case validateLimit limit of
     Some e \<Rightarrow> (Inl e, w)
   | None \<Rightarrow> on_db (cst_List (b_Chats (s_bundle S)) beforeMsgAt limit includeArchived) w)"

definition GetChat :: "('d, 'w) svc \<Rightarrow> string \<Rightarrow> ('d, 'w) world \<Rightarrow> (goerr + chat) \<times> ('d, 'w) world" where
  "GetChat S jid w = (if TrimSpace jid = '''' then (Inl (invalid ''jid is required''), w)
     else on_db (cst_Get (b_Chats (s_bundle S)) jid) w)"

definition ListMessages :: "('d, 'w) svc \<Rightarrow> string \<Rightarrow> time \<Rightarrow> int \<Rightarrow> ('d, 'w) world \<Rightarrow> (goerr + message list) \<times> ('d, 'w) world" where
  "ListMessages S chatJID beforeTS limit w =
     (if TrimSpace chatJID = '''' then (Inl (invalid ''chat_jid is required''), w)
      else case validateLimit limit of
        Some e \<Rightarrow> (Inl e, w)
      | None \<Rightarrow> on_db (mst_ListByChat (b_Messages (s_bundle S)) chatJID limit beforeTS) w)"

definition SearchMessages :: "('d, 'w) svc \<Rightarrow> string \<Rightarrow> int \<Rightarrow> ('d, 'w) world \<Rightarrow> (goerr + message list) \<times> ('d, 'w) world" where
  "SearchMessages S query limit w =
     (if TrimSpace query = '''' then (Inl (invalid ''q is required''), w)
      else case validateLimit limit of
        Some e \<Rightarrow> (Inl e, w)
      | None \<Rightarrow> on_db (mst_Search (b_Messages (s_bundle S)) query limit) w)"

definition ListContacts :: "('d, 'w) svc \<Rightarrow> ('d, 'w) world \<Rightarrow> (goerr + contact list) \<times> ('d, 'w) world" where
  "ListContacts S = on_db (ost_List (b_Contacts (s_bundle S)))"

definition SearchContacts :: "('d, 'w) svc \<Rightarrow> string \<Rightarrow> int \<Rightarrow> ('d, 'w) world \<Rightarrow> (goerr + contact list) \<times> ('d, 'w) world" where
  "SearchContacts S query limit w =
     (if TrimSpace query = '''' then (Inl (invalid ''q is required''), w)
      else case validateLimit limit of
        Some e \<Rightarrow> (Inl e, w)
      | None \<Rightarrow> on_db (ost_Search (b_Contacts (s_bundle S)) query limit) w)"

definition Stats :: "('d, 'w) svc \<Rightarrow> ('d, 'w) world \<Rightarrow> (goerr + Stats_t) \<times> ('d, 'w) world" where
  "Stats S w = (case on_db (cst_Count (b_Chats (s_bundle S))) w of
     (Inl e, w) \<Rightarrow> (Inl (wrapf ''stats chats'' e), w)
   | (Inr chatsCount, w) \<Rightarrow> (case on_db (mst_Count (b_Messages (s_bundle S))) w of
     (Inl e, w) \<Rightarrow> (Inl (wrapf ''stats messages'' e), w)
   | (Inr msgsCount, w) \<Rightarrow> (case on_db (ost_Count (b_Contacts (s_bundle S))) w of
     (Inl e, w) \<Rightarrow> (Inl (wrapf ''stats contacts'' e), w)
   | (Inr contactsCount, w) \<Rightarrow> (case on_db (cst_TotalUnread (b_Chats (s_bundle S))) w of
     (Inl e, w) \<Rightarrow> (Inl (wrapf ''stats unread'' e), w)
   | (Inr unread, w) \<Rightarrow> (Inr \<lparr>stats_Chats = chatsCount, stats_Messages = msgsCount,
        stats_Contacts = contactsCount, stats_UnreadTotal = unread\<rparr>, w)))))"

definition GetMediaRef :: "('d, 'w) svc \<Rightarrow> string \<Rightarrow> ('d, 'w) world \<Rightarrow> (goerr + media_ref) \<times> ('d, 'w) world" where
  "GetMediaRef S messageID w = (if TrimSpace messageID = '''' then (Inl (invalid ''message_id is required''), w)
     else on_db (dst_GetByMessageID (b_Media (s_bundle S)) messageID) w)"

definition ListReactions :: "('d, 'w) svc \<Rightarrow> string \<Rightarrow> ('d, 'w) world \<Rightarrow> (goerr + reaction list) \<times> ('d, 'w) world" where
  "ListReactions S messageID w = (if TrimSpace messageID = '''' then (Inl (invalid ''message_id is required''), w)
     else on_db (rst_ListByMessageID (b_Reactions (s_bundle S)) messageID) w)"

definition ListReceipts :: "('d, 'w) svc \<Rightarrow> string \<Rightarrow> ('d, 'w) world \<Rightarrow> (goerr + receipt list) \<times> ('d, 'w) world" where
  "ListReceipts S messageID w = (if TrimSpace messageID = '''' then (Inl (invalid ''message_id is required''), w)
     else on_db (pst_ListByMessageID (b_Receipts (s_bundle S)) messageID) w)"

section \<open>Editing, deleting, reacting, reading\<close>

definition ownsMessage :: "('d, 'w) svc \<Rightarrow> message \<Rightarrow> ('d, 'w) world \<Rightarrow> bool" where
  "ownsMessage S m w = (case st_JID (wa_Status (s_wa S) (w_wa w)) of
     None \<Rightarrow> False | Some j \<Rightarrow> j = msg_SenderJID m)"

definition EditMessage :: "('d, 'w) svc \<Rightarrow> string \<Rightarrow> string \<Rightarrow> ('d, 'w) world \<Rightarrow> (goerr + message) \<times> ('d, 'w) world" where
  "EditMessage S messageID newText w =
     (if TrimSpace messageID = '''' then (Inl (invalid ''message_id is required''), w)
      else if newText = '''' then (Inl (invalid ''text is required''), w)
      else if maxTextLen < length newText then (Inl (invalid ''text exceeds 4096 bytes''), w)
      else case on_db (mst_Get (b_Messages (s_bundle S)) messageID) w of
        (Inl e, w) \<Rightarrow> (Inl e, w)
      | (Inr existing, w) \<Rightarrow>
          if \<not> ownsMessage S existing w then (Inl (forbidden ''not the message sender''), w)
          else if msg_DeletedAt existing \<noteq> None then (Inl (forbidden ''message is deleted''), w)
          else case on_wa (wa_SendEdit (s_wa S) (msg_ChatJID existing) messageID newText) w of
            (Inl e, w) \<Rightarrow> (Inl e, w)
          | (Inr sent, w) \<Rightarrow>
              let existing = existing\<lparr>msg_Body := newText, msg_EditedAt := Some (sent_Timestamp sent)\<rparr>
              in (Inr existing, warn_if ''persist edit failed'' (on_db (mst_Put (b_Messages (s_bundle S)) existing) w)))"

definition DeleteMessage :: "('d, 'w) svc \<Rightarrow> string \<Rightarrow> ('d, 'w) world \<Rightarrow> goerr option \<times> ('d, 'w) world" where
  "DeleteMessage S messageID w =
     (if TrimSpace messageID = '''' then (Some (invalid ''message_id is required''), w)
      else case on_db (mst_Get (b_Messages (s_bundle S)) messageID) w of
        (Inl e, w) \<Rightarrow> (Some e, w)
      | (Inr existing, w) \<Rightarrow>
          if \<not> ownsMessage S existing w then (Some (forbidden ''not the message sender''), w)
          else if msg_DeletedAt existing \<noteq> None then (Some (forbidden ''already deleted''), w)
          else case on_wa (wa_SendRevoke (s_wa S) (msg_ChatJID existing) messageID) w of
            (Inl e, w) \<Rightarrow> (Some e, w)
          | (Inr sent, w) \<Rightarrow> (case time_Now w of (now, w) \<Rightarrow>
              (None, warn_if ''soft-delete after revoke failed''
                (on_db (mst_SoftDelete (b_Messages (s_bundle S)) messageID now) w))))"

definition SendReaction :: "('d, 'w) svc \<Rightarrow> string \<Rightarrow> string \<Rightarrow> ('d, 'w) world \<Rightarrow> goerr option \<times> ('d, 'w) world" where
  "SendReaction S messageID emoji w =
     (if TrimSpace messageID = '''' then (Some (invalid ''message_id is required''), w)
      else case on_db (mst_Get (b_Messages (s_bundle S)) messageID) w of
        (Inl e, w) \<Rightarrow> (Some e, w)
      | (Inr existing, w) \<Rightarrow>
          (case on_wa (wa_SendReaction (s_wa S) (msg_ChatJID existing) messageID emoji) w of
            (Some e, w) \<Rightarrow> (Some e, w)
          | (None, w) \<Rightarrow>
              let ourJID = (case st_JID (wa_Status (s_wa S) (w_wa w)) of None \<Rightarrow> '''' | Some j \<Rightarrow> j)
              in if emoji = '''' then
                   (None, warn_if ''clear local reaction failed''
                     (on_db (rst_Delete (b_Reactions (s_bundle S)) messageID ourJID) w))
                 else (case time_Now w of (now, w) \<Rightarrow>
                   (None, warn_if ''persist local reaction failed''
                     (on_db (rst_Put (b_Reactions (s_bundle S)) \<lparr>rea_MessageID = messageID,
                        rea_SenderJID = ourJID, rea_Emoji = emoji, rea_Timestamp = now\<rparr>) w)))))"

definition MarkMessageRead :: "('d, 'w) svc \<Rightarrow> string \<Rightarrow> ('d, 'w) world \<Rightarrow> goerr option \<times> ('d, 'w) world" where
  "MarkMessageRead S messageID w =
     (if TrimSpace messageID = '''' then (Some (invalid ''message_id is required''), w)
      else case on_db (mst_Get (b_Messages (s_bundle S)) messageID) w of
        (Inl e, w) \<Rightarrow> (Some e, w)
      | (Inr existing, w) \<Rightarrow> (case time_Now w of (now, w) \<Rightarrow>
          (case on_wa (wa_MarkRead (s_wa S) (msg_ChatJID existing) (msg_SenderJID existing) messageID now) w of
            (Some e, w) \<Rightarrow> (Some e, w)
          | (None, w) \<Rightarrow> (case on_db (cst_Get (b_Chats (s_bundle S)) (msg_ChatJID existing)) w of
              (Inl e, w) \<Rightarrow> (None, w)
            | (Inr chat, w) \<Rightarrow>
                if 0 < chat_UnreadCount chat then
                  (None, warn_if ''decrement unread on mark-read failed''
                    (on_db (cst_Put (b_Chats (s_bundle S)) (chat\<lparr>chat_UnreadCount := chat_UnreadCount chat - 1\<rparr>)) w))
                else (None, w)))))"

definition SendTyping :: "('d, 'w) svc \<Rightarrow> string \<Rightarrow> string \<Rightarrow> ('d, 'w) world \<Rightarrow> goerr option \<times> ('d, 'w) world" where
  "SendTyping S chatJID st w =
     (if TrimSpace chatJID = '''' then (Some (invalid ''chat_jid is required''), w)
      else if st \<noteq> ''composing'' \<and> st \<noteq> ''paused'' then (Some (invalid ''state must be composing or paused''), w)
      else on_wa (wa_SendChatPresence (s_wa S) chatJID st) w)"

section \<open>Groups\<close>

definition CreateGroup :: "('d, 'w) svc \<Rightarrow> string \<Rightarrow> string list \<Rightarrow> ('d, 'w) world \<Rightarrow> (goerr + wa_group) \<times> ('d, 'w) world" where
  "CreateGroup S name participantJIDs w =
     (let trimmed = TrimSpace name in
      if trimmed = '''' then (Inl (invalid ''name is required''), w)
      else if maxGroupNameLen < RuneCountInString trimmed then (Inl (invalid ''name exceeds 25 runes''), w)
      else if participantJIDs = [] then (Inl (invalid ''at least one participant is required''), w)
      else case on_wa (wa_CreateGroup (s_wa S) trimmed participantJIDs) w of
        (Inl e, w) \<Rightarrow> (Inl e, w)
      | (Inr grp, w) \<Rightarrow> (case time_Now w of (now, w) \<Rightarrow>
          (Inr grp, warn_if ''upsert chat on group create failed''
            (on_db (cst_Put (b_Chats (s_bundle S))
               \<lparr>chat_JID = gr_JID grp, chat_Name = gr_Name grp, chat_Kind = ''group'', chat_LastMsgAt = now,
                chat_UnreadCount = 0, chat_Archived = False\<rparr>) w))))"

definition ListGroupMembers :: "('d, 'w) svc \<Rightarrow> string \<Rightarrow> ('d, 'w) world \<Rightarrow> (goerr + group_member list) \<times> ('d, 'w) world" where
  "ListGroupMembers S groupJID w =
     (if TrimSpace groupJID = '''' then (Inl (invalid ''group_jid is required''), w)
      else case on_wa (wa_GetGroupInfo (s_wa S) groupJID) w of
        (Inl e, w) \<Rightarrow> (Inl e, w)
      | (Inr grp, w) \<Rightarrow> (Inr (gr_Participants grp), w))"

definition UpdateGroupMembers :: "('d, 'w) svc \<Rightarrow> string \<Rightarrow> string \<Rightarrow> string list \<Rightarrow> ('d, 'w) world
    \<Rightarrow> (goerr + participant_change list) \<times> ('d, 'w) world" where
  "UpdateGroupMembers S groupJID action participantJIDs w =
     (if TrimSpace groupJID = '''' then (Inl (invalid ''group_jid is required''), w)
      else if action \<noteq> ''add'' \<and> action \<noteq> ''remove'' then (Inl (invalid ''action must be add or remove''), w)
      else if participantJIDs = [] then (Inl (invalid ''at least one participant is required''), w)
      else on_wa (wa_UpdateGroupParticipants (s_wa S) groupJID action participantJIDs) w)"

definition LeaveGroup :: "('d, 'w) svc \<Rightarrow> string \<Rightarrow> ('d, 'w) world \<Rightarrow> goerr option \<times> ('d, 'w) world" where
  "LeaveGroup S groupJID w =
     (if TrimSpace groupJID = '''' then (Some (invalid ''group_jid is required''), w)
      else on_wa (wa_LeaveGroup (s_wa S) groupJID) w)"

section \<open>Inbound events\<close>

definition emit_json :: "('d, 'w) svc \<Rightarrow> string \<Rightarrow> json \<Rightarrow> ('d, 'w) world \<Rightarrow> ('d, 'w) world" where
  "emit_json S kind v = Emit (s_emitter S) kind (PBytes (mustMarshal v))"

definition incoming_reaction :: "('d, 'w) svc \<Rightarrow> incoming_message \<Rightarrow> ('d, 'w) world \<Rightarrow> ('d, 'w) world" where
  "incoming_reaction S msg w =
     (let (persisted, w) =
        (if in_ReactionEmoji msg = '''' then
           (case on_db (rst_Delete (b_Reactions (s_bundle S)) (in_ReactionTargetID msg) (in_SenderJID msg)) w of
              (Some e, w) \<Rightarrow> (False, warn ''clear reaction on incoming failed'' w)
            | (None, w) \<Rightarrow> (True, w))
         else
           (case on_db (rst_Put (b_Reactions (s_bundle S)) \<lparr>rea_MessageID = in_ReactionTargetID msg,
                  rea_SenderJID = in_SenderJID msg, rea_Emoji = in_ReactionEmoji msg,
                  rea_Timestamp = in_Timestamp msg\<rparr>) w of
              (Some e, w) \<Rightarrow> (False, warn ''persist reaction on incoming failed'' w)
            | (None, w) \<Rightarrow> (True, w)))
      in if persisted then emit_json S ''reaction.received'' (BuildReactionReceivedPayload
             (in_ReactionTargetID msg) (in_SenderJID msg) (in_ReactionEmoji msg) (in_Timestamp msg)) w
         else w)"

definition incoming_revoke :: "('d, 'w) svc \<Rightarrow> incoming_message \<Rightarrow> ('d, 'w) world \<Rightarrow> ('d, 'w) world" where
  "incoming_revoke S msg w =
     (case on_db (mst_SoftDelete (b_Messages (s_bundle S)) (in_RevokeOfID msg) (in_Timestamp msg)) w of
        (Some e, w) \<Rightarrow> warn ''soft-delete on incoming revoke failed'' w
      | (None, w) \<Rightarrow> (case time_Now w of (now, w) \<Rightarrow>
          emit_json S ''message.deleted'' (BuildMessageDeletedPayload (in_RevokeOfID msg) (in_ChatJID msg) now) w))"

definition incoming_edit :: "('d, 'w) svc \<Rightarrow> incoming_message \<Rightarrow> ('d, 'w) world \<Rightarrow> ('d, 'w) world" where
  "incoming_edit S msg w =
     (case on_db (mst_Get (b_Messages (s_bundle S)) (in_EditOfID msg)) w of
        (Inl e, w) \<Rightarrow> warn ''incoming edit references unknown message'' w
      | (Inr existing, w) \<Rightarrow>
          (case on_db (mst_Put (b_Messages (s_bundle S))
                  (existing\<lparr>msg_Body := in_Body msg, msg_EditedAt := Some (in_Timestamp msg)\<rparr>)) w of
             (Some e, w) \<Rightarrow> warn ''persist incoming edit failed'' w
           | (None, w) \<Rightarrow> (case time_Now w of (now, w) \<Rightarrow>
               emit_json S ''message.edited''
                 (BuildMessageEditedPayload (in_EditOfID msg) (in_ChatJID msg) (in_Body msg) now) w)))"

text \<open>\<open>go s.downloadAndPersistMedia(...)\<close> starts a task that runs later.\<close>

definition incoming_plain :: "('d, 'w) svc \<Rightarrow> incoming_message \<Rightarrow> ('d, 'w) world \<Rightarrow> ('d, 'w) world" where
  "incoming_plain S msg w =
     (let w = (if in_PushName msg \<noteq> '''' then
                 warn_if ''upsert contact on incoming failed'' (on_db (ost_Put (b_Contacts (s_bundle S))
                   \<lparr>con_JID = in_SenderJID msg, con_PushName = in_PushName msg, con_FullName = '''',
                    con_BusinessName = ''''\<rparr>) w)
               else w)
      in case on_db (cst_Get (b_Chats (s_bundle S)) (in_ChatJID msg)) w of (r, w) \<Rightarrow>
         let chat = (case r of Inl e \<Rightarrow> new_chat (in_ChatJID msg) (in_ChatKind msg) | Inr c \<Rightarrow> c);
             chat = chat\<lparr>chat_LastMsgAt := in_Timestamp msg, chat_UnreadCount := chat_UnreadCount chat + 1\<rparr>;
             chat = (if chat_Kind chat = '''' then chat\<lparr>chat_Kind := in_ChatKind msg\<rparr> else chat);
             w = warn_if ''upsert chat on incoming failed'' (on_db (cst_Put (b_Chats (s_bundle S)) chat) w)
         in case on_db (mst_Put (b_Messages (s_bundle S)) (new_message (in_ID msg) (in_ChatJID msg)
                  (in_SenderJID msg) (in_Timestamp msg) (in_Kind msg) (in_Body msg) '''')) w of
              (Some e, w) \<Rightarrow> warn ''persist incoming message failed'' w
            | (None, w) \<Rightarrow>
                let w = (case in_MediaDownloader msg of None \<Rightarrow> w
                         | Some d \<Rightarrow> w\<lparr>w_tasks := w_tasks w @ [(in_ID msg, d)]\<rparr>)
                in emit_json S ''message.received'' (BuildMessageReceivedPayload msg media_zero) w)"

definition handleIncoming :: "('d, 'w) svc \<Rightarrow> incoming_message \<Rightarrow> ('d, 'w) world \<Rightarrow> ('d, 'w) world" where
  "handleIncoming S msg w =
     (if in_ReactionTargetID msg \<noteq> '''' then incoming_reaction S msg w
      else if in_RevokeOfID msg \<noteq> '''' then incoming_revoke S msg w
      else if in_EditOfID msg \<noteq> '''' then incoming_edit S msg w
      else incoming_plain S msg w)"

definition downloadAndPersistMedia :: "('d, 'w) svc \<Rightarrow> string \<Rightarrow> goerr + string \<times> string \<Rightarrow> ('d, 'w) world \<Rightarrow> ('d, 'w) world" where
  "downloadAndPersistMedia S messageID downloader w = (case downloader of
     Inl e \<Rightarrow> warn ''download media failed'' w
   | Inr (body, mime) \<Rightarrow> (case on_fs (media_write (s_sha S) (s_root S) body mime) w of
        (Inl e, w) \<Rightarrow> warn ''write media to disk failed'' w
      | (Inr (sha, path), w) \<Rightarrow>
          warn_if ''persist incoming media row failed'' (on_db (dst_Put (b_Media (s_bundle S))
            \<lparr>med_MessageID = messageID, med_MIME = mime, med_Size = int (length body),
             med_SHA256 = sha, med_Path = path\<rparr>) w)))"

fun put_receipts :: "('d, 'w) svc \<Rightarrow> incoming_receipt \<Rightarrow> string list \<Rightarrow> bool \<Rightarrow> ('d, 'w) world \<Rightarrow> bool \<times> ('d, 'w) world" where
  "put_receipts S r [] anyPersisted w = (anyPersisted, w)"
| "put_receipts S r (i # ids) anyPersisted w =
     (case on_db (pst_Put (b_Receipts (s_bundle S)) \<lparr>rec_MessageID = i, rec_ReaderJID = ir_ReaderJID r,
             rec_Type = ir_Type r, rec_Timestamp = ir_Timestamp r\<rparr>) w of
        (Some e, w) \<Rightarrow> put_receipts S r ids anyPersisted (warn ''persist receipt failed'' w)
      | (None, w) \<Rightarrow> put_receipts S r ids True w)"

definition handleReceipt :: "('d, 'w) svc \<Rightarrow> incoming_receipt \<Rightarrow> ('d, 'w) world \<Rightarrow> ('d, 'w) world" where
  "handleReceipt S r w = (case put_receipts S r (ir_MessageIDs r) False w of
     (anyPersisted, w) \<Rightarrow> if anyPersisted then emit_json S ''receipt.received'' (BuildReceiptReceivedPayload r) w else w)"

text \<open>The closure \<open>New\<close> registers with \<open>OnConnectionState\<close>.\<close>

definition handleConnectionState :: "('d, 'w) svc \<Rightarrow> connection_state_event \<Rightarrow> ('d, 'w) world \<Rightarrow> ('d, 'w) world" where
  "handleConnectionState S ev = emit_json S ''connection.state'' (BuildConnectionStatePayload (cs_Status ev) (cs_Reason ev))"

text \<open>A scheduler runs one of the pending downloads.\<close>

definition run_task :: "('d, 'w) svc \<Rightarrow> nat \<Rightarrow> ('d, 'w) world \<Rightarrow> ('d, 'w) world" where
  "run_task S k w = (if k < length (w_tasks w) then
     (let (i, d) = w_tasks w ! k
      in downloadAndPersistMedia S i d (w\<lparr>w_tasks := take k (w_tasks w) @ drop (Suc k) (w_tasks w)\<rparr>))
     else w)"

section \<open>Runs of the daemon\<close>

text \<open>
  One step is one request, one inbound event, one pending download, a change on the side of
  WhatsApp, or what the transports do besides: read the log for a stream, read a media file (which
  may use up a fault of the disk), write to the program's log.
\<close>

inductive svc_step :: "('d, 'w) svc \<Rightarrow> ('d, 'w) world \<Rightarrow> ('d, 'w) world \<Rightarrow> bool" for S where
  LoginQR: "svc_step S w (snd (svc_LoginQR S w))"
| LoginPhone: "svc_step S w (snd (svc_LoginPhone S p w))"
| Logout: "svc_step S w (snd (svc_Logout S w))"
| SendText: "svc_step S w (snd (SendText S j t rt w))"
| SendMedia: "svc_step S w (snd (SendMedia S req w))"
| ListChats: "svc_step S w (snd (ListChats S t0 l a w))"
| GetChat: "svc_step S w (snd (GetChat S j w))"
| ListMessages: "svc_step S w (snd (ListMessages S j t0 l w))"
| SearchMessages: "svc_step S w (snd (SearchMessages S q l w))"
| ListContacts: "svc_step S w (snd (ListContacts S w))"
| SearchContacts: "svc_step S w (snd (SearchContacts S q l w))"
| Stats: "svc_step S w (snd (Stats S w))"
| GetMediaRef: "svc_step S w (snd (GetMediaRef S i w))"
| EditMessage: "svc_step S w (snd (EditMessage S i t w))"
| DeleteMessage: "svc_step S w (snd (DeleteMessage S i w))"
| SendReaction: "svc_step S w (snd (SendReaction S i e w))"
| ListReactions: "svc_step S w (snd (ListReactions S i w))"
| MarkMessageRead: "svc_step S w (snd (MarkMessageRead S i w))"
| SendTyping: "svc_step S w (snd (SendTyping S j st w))"
| ListReceipts: "svc_step S w (snd (ListReceipts S i w))"
| CreateGroup: "svc_step S w (snd (CreateGroup S n ps w))"
| ListGroupMembers: "svc_step S w (snd (ListGroupMembers S j w))"
| UpdateGroupMembers: "svc_step S w (snd (UpdateGroupMembers S j act ps w))"
| LeaveGroup: "svc_step S w (snd (LeaveGroup S j w))"
| Incoming: "svc_step S w (handleIncoming S m w)"
| Receipt: "svc_step S w (handleReceipt S rc w)"
| ConnectionState: "svc_step S w (handleConnectionState S ev w)"
| Download: "svc_step S w (run_task S k w)"
| WhatsApp: "svc_step S w (w\<lparr>w_wa := x\<rparr>)"
| ReadLog: "0 \<le> l \<Longrightarrow> svc_step S w (snd (on_db (est_SinceSeq (b_Events (s_bundle S)) seq l) w))"
| ReadFile: "fs_files f = fs_files (w_fs w) \<Longrightarrow> svc_step S w (w\<lparr>w_fs := f\<rparr>)"
| Log: "svc_step S w (warn msg w)"

end
