(* ===== verification/Store_Codec.thy ===== *)
theory Store_Codec
  imports Store_Api
begin

text \<open>
  What the two dialects share. A dialect reads rows back with functions of its own
  (\<open>scanChat\<close>, \<open>scanMessage\<close>, \<open>scanContact\<close> and the conversion of the time columns);
  \<open>db_view\<close> is the abstract store they see in a database. The locale \<open>row_codec\<close> states what
  the proofs need of those functions, and proves each law of \<open>Store_Api\<close> for the statement
  both dialects send, so that a dialect only has to show that its functions fit.
\<close>

section \<open>Reading rows\<close>

definition scan_media :: "media_row \<Rightarrow> media_ref" where
  "scan_media r = \<lparr>med_MessageID = dr_message_id r, med_MIME = dr_mime r, med_Size = dr_size r,
     med_SHA256 = dr_sha256 r, med_Path = dr_path r\<rparr>"

definition bind_media :: "media_ref \<Rightarrow> media_row" where
  "bind_media m = \<lparr>dr_message_id = med_MessageID m, dr_mime = med_MIME m, dr_size = med_Size m,
     dr_sha256 = med_SHA256 m, dr_path = med_Path m\<rparr>"

lemma scan_bind_media [simp]: "scan_media (bind_media m) = m"
  by (simp add: scan_media_def bind_media_def)

definition scan_reaction :: "(int \<Rightarrow> time) \<Rightarrow> reaction_row \<Rightarrow> reaction" where
  "scan_reaction tm r = \<lparr>rea_MessageID = rr_message_id r, rea_SenderJID = rr_sender_jid r,
     rea_Emoji = rr_emoji r, rea_Timestamp = tm (rr_ts r)\<rparr>"

definition bind_reaction :: "(time \<Rightarrow> int) \<Rightarrow> reaction \<Rightarrow> reaction_row" where
  "bind_reaction conv r = \<lparr>rr_message_id = rea_MessageID r, rr_sender_jid = rea_SenderJID r,
     rr_emoji = rea_Emoji r, rr_ts = conv (rea_Timestamp r)\<rparr>"

definition scan_receipt :: "(int \<Rightarrow> time) \<Rightarrow> receipt_row \<Rightarrow> receipt" where
  "scan_receipt tm r = \<lparr>rec_MessageID = pr_message_id r, rec_ReaderJID = pr_reader_jid r,
     rec_Type = pr_type r, rec_Timestamp = tm (pr_ts r)\<rparr>"

definition bind_receipt :: "(time \<Rightarrow> int) \<Rightarrow> receipt \<Rightarrow> receipt_row" where
  "bind_receipt conv r = \<lparr>pr_message_id = rec_MessageID r, pr_reader_jid = rec_ReaderJID r,
     pr_type = rec_Type r, pr_ts = conv (rec_Timestamp r)\<rparr>"

definition scan_event :: "(int \<Rightarrow> time) \<Rightarrow> event_row \<Rightarrow> event_log_entry" where
  "scan_event tm r = \<lparr>ev_Seq = er_seq r, ev_Time = tm (er_ts r), ev_Type = er_type r,
     ev_Payload = er_payload r\<rparr>"

definition db_view :: "('b chat_row \<Rightarrow> chat) \<Rightarrow> (message_row \<Rightarrow> message) \<Rightarrow> (contact_row \<Rightarrow> contact)
    \<Rightarrow> (int \<Rightarrow> time) \<Rightarrow> 'b db \<Rightarrow> store_view" where
  "db_view sc sm so tm d = \<lparr>
     v_chats = (\<lambda>j. map_option sc (find_key cr_jid j (t_chats d))),
     v_messages = (\<lambda>i. map_option sm (find_key mr_id i (t_messages d))),
     v_contacts = (\<lambda>j. map_option so (find_key or_jid j (t_contacts d))),
     v_media = (\<lambda>i. map_option scan_media (find_key dr_message_id i (t_media d))),
     v_log = map (scan_event tm) (t_events d),
     v_next = t_next_seq d,
     v_kv = (\<lambda>k. map_option snd (find_key fst k (t_kv d))),
     v_reactions = (\<lambda>k. map_option (scan_reaction tm) (find_key rr_key k (t_reactions d))),
     v_receipts = (\<lambda>k. map_option (scan_receipt tm) (find_key pr_key k (t_receipts d)))\<rparr>"

definition conn_view :: "('b chat_row \<Rightarrow> chat) \<Rightarrow> (message_row \<Rightarrow> message) \<Rightarrow> (contact_row \<Rightarrow> contact)
    \<Rightarrow> (int \<Rightarrow> time) \<Rightarrow> 'b conn \<Rightarrow> store_view" where
  "conn_view sc sm so tm c = db_view sc sm so tm (c_db c)"

definition conn_inv :: "engine \<Rightarrow> 'b conn \<Rightarrow> bool" where
  "conn_inv eng c \<longleftrightarrow> engine_ok eng \<and> db_ok (c_db c)"

section \<open>From statements to laws\<close>

lemma exec_write_law:
  assumes "\<And>d d'. db_ok d \<Longrightarrow> f d = Inr d' \<Longrightarrow> db_ok d' \<and> pre (db_view sc sm so tm d)
        \<and> db_view sc sm so tm d' = upd (db_view sc sm so tm d)"
    and "\<And>d m. db_ok d \<Longrightarrow> f d = Inl m \<Longrightarrow> \<not> pre (db_view sc sm so tm d)"
  shows "write_law (conn_inv eng) (conn_view sc sm so tm) quiet (exec ctx f) pre upd"
  unfolding write_law_def conn_inv_def conn_view_def
proof (intro allI impI)
  fix c r c'
  assume ok: "engine_ok eng \<and> db_ok (c_db c)" and e: "exec ctx f c = (r, c')"
  from e show "(engine_ok eng \<and> db_ok (c_db c')) \<and> (quiet c \<longrightarrow> quiet c') \<and>
       (case r of
         None \<Rightarrow> pre (db_view sc sm so tm (c_db c)) \<and>
            db_view sc sm so tm (c_db c') = upd (db_view sc sm so tm (c_db c))
        | Some e \<Rightarrow> db_view sc sm so tm (c_db c') = db_view sc sm so tm (c_db c) \<and>
            err_kind_of e = EOther \<and> (quiet c \<longrightarrow> \<not> pre (db_view sc sm so tm (c_db c))))"
  proof (cases rule: exec_cases)
    case (fail e)
    then show ?thesis using ok assms(2) by auto
  next
    case (ok d)
    then show ?thesis using \<open>engine_ok eng \<and> db_ok (c_db c)\<close> assms(1) by auto
  qed
qed

lemma exec_guarded_law:
  assumes f: "\<And>d. f d = (if G d then Inr (g d) else Inl m)"
    and ok: "\<And>d d'. db_ok d \<Longrightarrow> f d = Inr d' \<Longrightarrow> db_ok d'"
    and pre: "\<And>d. G d \<longleftrightarrow> pre (db_view sc sm so tm d)"
    and upd: "\<And>d. db_view sc sm so tm (g d) = upd (db_view sc sm so tm d)"
  shows "write_law (conn_inv eng) (conn_view sc sm so tm) quiet (exec ctx f) pre upd"
proof (rule exec_write_law)
  fix d d'
  assume d: "db_ok d" "f d = Inr d'"
  then show "db_ok d' \<and> pre (db_view sc sm so tm d) \<and> db_view sc sm so tm d' = upd (db_view sc sm so tm d)"
    using ok [OF d] pre upd f [of d] by (auto split: if_splits)
qed (use f pre in \<open>auto split: if_splits\<close>)

lemma exec_total_law:
  assumes f: "\<And>d. f d = Inr (g d)"
    and ok: "\<And>d d'. db_ok d \<Longrightarrow> f d = Inr d' \<Longrightarrow> db_ok d'"
    and upd: "\<And>d. db_view sc sm so tm (g d) = upd (db_view sc sm so tm d)"
  shows "write_law (conn_inv eng) (conn_view sc sm so tm) quiet (exec ctx f) (\<lambda>_. True) upd"
  by (rule exec_write_law) (use f ok upd in auto)

lemma query_row_law:
  assumes "\<And>d. db_ok d \<Longrightarrow> f d = g (db_view sc sm so tm d)"
  shows "read_law (conn_inv eng) (conn_view sc sm so tm) quiet (query_row ctx f) (\<lambda>v. lookup (g v))"
  unfolding read_law_def conn_inv_def conn_view_def
proof (intro allI impI)
  fix c r c'
  assume ok: "engine_ok eng \<and> db_ok (c_db c)" and e: "query_row ctx f c = (r, c')"
  note f = assms [of "c_db c"]
  from e show "(engine_ok eng \<and> db_ok (c_db c')) \<and>
       db_view sc sm so tm (c_db c') = db_view sc sm so tm (c_db c) \<and> (quiet c \<longrightarrow> quiet c') \<and>
       (r = lookup (g (db_view sc sm so tm (c_db c))) \<or> (\<not> quiet c \<and> (\<exists>e. r = Inl e \<and> err_kind_of e = EOther)))"
  proof (cases rule: query_row_cases)
    case (fail e)
    then show ?thesis using ok by auto
  next
    case none
    then show ?thesis using ok f by (simp add: lookup_def split: option.splits)
  next
    case (some x)
    then show ?thesis using ok f by (simp add: lookup_def split: option.splits)
  qed
qed

lemma query_val_law:
  assumes "\<And>d. db_ok d \<Longrightarrow> f d = g (db_view sc sm so tm d)"
  shows "read_law (conn_inv eng) (conn_view sc sm so tm) quiet (query_val ctx f) (\<lambda>v. Inr (g v))"
proof -
  have "read_law (conn_inv eng) (conn_view sc sm so tm) quiet (query_row ctx (\<lambda>d. Some (f d)))
      (\<lambda>v. lookup (Some (g v)))"
    by (rule query_row_law) (simp add: assms)
  then show ?thesis by (simp add: query_val_def [abs_def])
qed

lemma query_rows_law:
  assumes "\<And>d xs. engine_ok eng \<Longrightarrow> db_ok d \<Longrightarrow> f d = Inr xs \<Longrightarrow> P (db_view sc sm so tm d) xs"
  shows "list_law (conn_inv eng) (conn_view sc sm so tm) quiet (query_rows ctx f) P"
  unfolding list_law_def conn_inv_def conn_view_def
proof (intro allI impI)
  fix c r c'
  assume ok: "engine_ok eng \<and> db_ok (c_db c)" and e: "query_rows ctx f c = (r, c')"
  from e show "(engine_ok eng \<and> db_ok (c_db c')) \<and>
       db_view sc sm so tm (c_db c') = db_view sc sm so tm (c_db c) \<and> (quiet c \<longrightarrow> quiet c') \<and>
       (case r of Inl e \<Rightarrow> err_kind_of e = EOther | Inr x \<Rightarrow> P (db_view sc sm so tm (c_db c)) x)"
    by (cases rule: query_rows_cases) (use ok assms in auto)
qed

text \<open>A query that cannot be refused is exact when nothing fails.\<close>

lemma query_rows_read_law:
  assumes "\<And>d. engine_ok eng \<Longrightarrow> db_ok d \<Longrightarrow> f d = Inr (g (db_view sc sm so tm d))"
  shows "read_law (conn_inv eng) (conn_view sc sm so tm) quiet (query_rows ctx f) (\<lambda>v. Inr (g v))"
  unfolding read_law_def conn_inv_def conn_view_def
proof (intro allI impI)
  fix c r c'
  assume ok: "engine_ok eng \<and> db_ok (c_db c)" and e: "query_rows ctx f c = (r, c')"
  from e show "(engine_ok eng \<and> db_ok (c_db c')) \<and>
       db_view sc sm so tm (c_db c') = db_view sc sm so tm (c_db c) \<and> (quiet c \<longrightarrow> quiet c') \<and>
       (r = Inr (g (db_view sc sm so tm (c_db c))) \<or> (\<not> quiet c \<and> (\<exists>e. r = Inl e \<and> err_kind_of e = EOther)))"
    by (cases rule: query_rows_cases) (use ok assms in auto)
qed

section \<open>Pages and cardinalities of keyed lists\<close>

lemma keyed_distinct: "keyed key xs \<Longrightarrow> distinct xs"
  by (simp add: keyed_def distinct_map)

lemma distinct_sql_limit: "distinct xs \<Longrightarrow> distinct (sql_limit l xs)"
  by (simp add: sql_limit_def)

lemma limited_rows:
  assumes "keyed key xs"
  shows "distinct (sql_limit l (sort_key k (filter P xs)))"
    "set (sql_limit l (sort_key k (filter P xs))) \<subseteq> {x \<in> set xs. P x}"
  using set_sql_limit [of l "sort_key k (filter P xs)"] keyed_distinct [OF assms]
  by (simp_all add: distinct_sql_limit)

lemma keyed_inj_on: "keyed key xs \<Longrightarrow> inj_on key (set xs)"
  by (simp add: keyed_def distinct_map)

lemma keyed_scan_inj_on:
  assumes "keyed key xs" "\<And>r. key' (f r) = key r"
  shows "inj_on f (set xs)"
  using keyed_inj_on [OF assms(1)] assms(2) by (metis inj_onD inj_onI)

lemma find_key_self: "keyed key xs \<Longrightarrow> r \<in> set xs \<Longrightarrow> find_key key (key r) xs = Some r"
  by (simp add: find_key_mem_iff)

lemma find_key_map_upd:
  assumes "\<And>r. key (g r) = key r"
  shows "find_key key k (map (\<lambda>r. if key r = j then g r else r) xs)
    = (if k = j then map_option g (find_key key j xs) else find_key key k xs)"
  using assms by (induction xs) auto

lemma dom_find_key: "dom (\<lambda>k. map_option f (find_key key k xs)) = key ` set xs"
  using find_key_None_iff [of key _ xs] by (auto simp: dom_def)

lemma card_dom_find_key: "keyed key xs \<Longrightarrow> card (dom (\<lambda>k. map_option f (find_key key k xs))) = length xs"
  by (simp add: dom_find_key keyed_def distinct_card flip: set_map)

lemma ran_find_key: "keyed key xs \<Longrightarrow> ran (\<lambda>k. map_option f (find_key key k xs)) = f ` set xs"
  by (auto simp: ran_def find_key_mem_iff)

lemma sum_find_key:
  "keyed key xs \<Longrightarrow> (\<Sum>k\<in>key ` set xs. h (the (map_option f (find_key key k xs)))) = sum_list (map (h \<circ> f) xs)"
proof -
  assume k: "keyed key xs"
  have "(\<Sum>k\<in>key ` set xs. h (the (map_option f (find_key key k xs))))
      = (\<Sum>r\<in>set xs. h (the (map_option f (find_key key (key r) xs))))"
    using keyed_inj_on [OF k] by (simp add: sum.reindex)
  also have "\<dots> = (\<Sum>r\<in>set xs. (h \<circ> f) r)"
    by (rule sum.cong) (use k in \<open>auto simp: find_key_self\<close>)
  finally show ?thesis using keyed_distinct [OF k] by (simp add: sum_list_distinct_conv_sum_set)
qed

lemma is_page_map:
  assumes p: "is_page A key n xs" and inj: "inj_on f A"
    and mono: "\<And>x y. x \<in> A \<Longrightarrow> y \<in> A \<Longrightarrow> key x \<le> key y \<Longrightarrow> key' (f x) \<le> key' (f y)"
  shows "is_page (f ` A) key' n (map f xs)"
proof -
  have sub: "set xs \<subseteq> A" and d: "distinct xs" and s: "sorted (map key xs)"
    and l: "length xs = min n (card A)" and far: "\<forall>a\<in>A - set xs. \<forall>x\<in>set xs. key x \<le> key a"
    using p unfolding is_page_def by auto
  have "sorted (map key' (map f xs))"
  proof -
    have "sorted_wrt (\<lambda>x y. key x \<le> key y) xs" using s by (simp add: sorted_wrt_map)
    then have "sorted_wrt (\<lambda>x y. key' (f x) \<le> key' (f y)) xs"
      by (rule sorted_wrt_mono_rel [rotated]) (use sub mono in blast)
    then show ?thesis by (simp add: sorted_wrt_map)
  qed
  moreover have "distinct (map f xs)" using d inj_on_subset [OF inj sub] by (simp add: distinct_map)
  moreover have "\<forall>a\<in>f ` A - f ` set xs. \<forall>x\<in>f ` set xs. key' x \<le> key' a"
    using far sub mono by blast
  ultimately show ?thesis
    using l sub card_image [OF inj] unfolding is_page_def by auto
qed

section \<open>The shared proofs\<close>

text \<open>\<open>conv\<close> is what a time column keeps of an instant, \<open>tm\<close> reads it back.\<close>

locale row_codec =
  fixes sc :: "'b chat_row \<Rightarrow> chat" and sm :: "message_row \<Rightarrow> message"
    and so :: "contact_row \<Rightarrow> contact" and tm :: "int \<Rightarrow> time" and conv :: "time \<Rightarrow> int"
    and nt :: "time \<Rightarrow> time"
  assumes sc_jid [simp]: "chat_JID (sc r) = cr_jid r"
    and sc_unread [simp]: "chat_UnreadCount (sc r) = cr_unread r"
    and sm_id [simp]: "msg_ID (sm m) = mr_id m"
    and sm_chat [simp]: "msg_ChatJID (sm m) = mr_chat_jid m"
    and sm_ts [simp]: "msg_Timestamp (sm m) = tm (mr_ts m)"
    and sm_deleted [simp]: "msg_DeletedAt (sm m) = map_option tm (mr_deleted_at m)"
    and sm_delete: "sm (m\<lparr>mr_deleted_at := Some t\<rparr>) = (sm m)\<lparr>msg_DeletedAt := Some (tm t)\<rparr>"
    and so_jid [simp]: "con_JID (so c) = or_jid c"
    and tm_less [simp]: "tm a < tm b \<longleftrightarrow> a < b"
    and tm_conv [simp]: "tm (conv t) = nt t"
begin

abbreviation V where "V \<equiv> db_view sc sm so tm"
abbreviation W where "W \<equiv> conn_view sc sm so tm"

lemma tm_le [simp]: "tm a \<le> tm b \<longleftrightarrow> a \<le> b"
  by (meson linorder_not_le tm_less)

lemma V_chat_exists: "v_chats (V d) j \<noteq> None \<longleftrightarrow> chat_exists d j"
  by (auto simp: db_view_def chat_exists_def find_key_None_iff)

lemma V_message_exists: "v_messages (V d) i \<noteq> None \<longleftrightarrow> message_exists d i"
  by (auto simp: db_view_def message_exists_def find_key_None_iff)

lemma view_ok_V:
  assumes "db_ok d"
  shows "view_ok (V d)"
proof -
  note k = assms [unfolded db_ok_def]
  have "sorted_wrt (<) (map ev_Seq (v_log (V d)))"
    using k by (simp add: db_view_def scan_event_def comp_def)
  moreover have "\<forall>e\<in>set (v_log (V d)). 0 < ev_Seq e \<and> ev_Seq e < v_next (V d)"
    using k by (auto simp: db_view_def scan_event_def)
  moreover have "v_chats (V d) (msg_ChatJID m) \<noteq> None" if "v_messages (V d) i = Some m" for i m
    using that k by (auto simp only: V_chat_exists) (auto simp: db_view_def dest: find_key_SomeD)
  moreover have "msg_ID m = i" if "v_messages (V d) i = Some m" for i m
    using that by (auto simp: db_view_def dest: find_key_SomeD)
  moreover have "chat_JID c = j" if "v_chats (V d) j = Some c" for j c
    using that by (auto simp: db_view_def dest: find_key_SomeD)
  moreover have "con_JID c = j" if "v_contacts (V d) j = Some c" for j c
    using that by (auto simp: db_view_def dest: find_key_SomeD)
  moreover have "med_MessageID r = i \<and> v_messages (V d) i \<noteq> None" if "v_media (V d) i = Some r" for i r
    using that k unfolding V_message_exists by (auto simp: db_view_def scan_media_def dest: find_key_SomeD)
  moreover have "x = (rea_MessageID r, rea_SenderJID r) \<and> v_messages (V d) (rea_MessageID r) \<noteq> None"
    if "v_reactions (V d) x = Some r" for x r
    using that k unfolding V_message_exists
    by (auto simp: db_view_def scan_reaction_def rr_key_def dest!: find_key_SomeD)
  moreover have "x = (rec_MessageID r, rec_ReaderJID r, rec_Type r) \<and> v_messages (V d) (rec_MessageID r) \<noteq> None"
    if "v_receipts (V d) x = Some r" for x r
    using that k unfolding V_message_exists
    by (auto simp: db_view_def scan_receipt_def pr_key_def dest!: find_key_SomeD)
  ultimately show ?thesis unfolding view_ok_def by blast
qed

lemma law_chat_put:
  assumes "sc r = norm_chat nt c" "cr_jid r = chat_JID c"
  shows "write_law (conn_inv eng) W quiet (exec ctx (\<lambda>d. if g then upsert_chat r d else Inl e))
    (\<lambda>_. g) (abs_put_chat nt c)"
  by (rule exec_write_law)
    (auto simp: upsert_chat_def db_ok_upsert_chat [unfolded upsert_chat_def] db_view_def abs_put_chat_def
      assms fun_eq_iff split: if_splits)

lemma law_chat_archive:
  assumes "\<And>r. sc (r\<lparr>cr_archived := b\<rparr>) = (sc r)\<lparr>chat_Archived := a\<rparr>"
  shows "write_law (conn_inv eng) W quiet (exec ctx (update_archived j b)) (\<lambda>_. True) (abs_set_archived j a)"
proof (rule exec_write_law)
  fix d d' :: "'b db"
  assume ok: "db_ok d" and u: "update_archived j b d = Inr d'"
  have "V d' = abs_set_archived j a (V d)"
    using u by (auto simp: update_archived_def db_view_def abs_set_archived_def find_key_map_upd assms
        fun_eq_iff split: option.splits)
  then show "db_ok d' \<and> True \<and> V d' = abs_set_archived j a (V d)"
    using db_ok_update_archived [OF ok u] by blast
qed (simp add: update_archived_def)

lemma law_message_put:
  assumes r: "sm r = norm_message nt nopt m"
  shows "write_law (conn_inv eng) W quiet (exec ctx (upsert_message eng r))
    (\<lambda>v. v_chats v (msg_ChatJID m) \<noteq> None) (abs_put_message nt nopt m)"
proof -
  have "mr_id r = msg_ID m" "mr_chat_jid r = msg_ChatJID m"
    using arg_cong [OF r, of msg_ID] arg_cong [OF r, of msg_ChatJID] by (simp_all add: norm_message_def)
  then show ?thesis
    by (intro exec_guarded_law [OF upsert_message_def db_ok_upsert_message])
      (simp_all only: V_chat_exists, simp_all add: db_view_def abs_put_message_def fun_eq_iff r)
qed

lemma law_soft_delete:
  "write_law (conn_inv eng) W quiet (exec ctx (update_deleted_at i (conv t))) (\<lambda>_. True) (abs_soft_delete nt i t)"
proof (rule exec_write_law)
  fix d d' :: "'b db"
  assume ok: "db_ok d" and u: "update_deleted_at i (conv t) d = Inr d'"
  have "V d' = abs_soft_delete nt i t (V d)"
    using u by (auto simp: update_deleted_at_def db_view_def abs_soft_delete_def find_key_map_upd sm_delete
        fun_eq_iff split: option.splits)
  then show "db_ok d' \<and> True \<and> V d' = abs_soft_delete nt i t (V d)"
    using db_ok_update_deleted_at [OF ok u] by blast
qed (simp add: update_deleted_at_def)

lemma law_contact_put:
  assumes "so r = c"
  shows "write_law (conn_inv eng) W quiet (exec ctx (upsert_contact r)) (\<lambda>_. True) (abs_put_contact c)"
  by (rule exec_total_law [OF upsert_contact_def db_ok_upsert_contact])
    (simp_all add: db_view_def abs_put_contact_def fun_eq_iff flip: assms)

lemma law_media_put:
  "write_law (conn_inv eng) W quiet (exec ctx (upsert_media eng (bind_media m)))
    (\<lambda>v. v_messages v (med_MessageID m) \<noteq> None) (abs_put_media m)"
proof -
  have "dr_message_id (bind_media m) = med_MessageID m" by (simp add: bind_media_def)
  then show ?thesis
    by (intro exec_guarded_law [OF upsert_media_def db_ok_upsert_media])
      (simp_all only: V_message_exists, simp_all add: db_view_def abs_put_media_def fun_eq_iff)
qed

lemma law_reaction_put:
  "write_law (conn_inv eng) W quiet (exec ctx (upsert_reaction eng (bind_reaction conv r)))
    (\<lambda>v. v_messages v (rea_MessageID r) \<noteq> None) (abs_put_reaction nt r)"
proof -
  have "rr_key (bind_reaction conv r) = (rea_MessageID r, rea_SenderJID r)"
    "rr_message_id (bind_reaction conv r) = rea_MessageID r"
    "scan_reaction tm (bind_reaction conv r) = norm_reaction nt r"
    by (simp_all add: bind_reaction_def rr_key_def scan_reaction_def norm_reaction_def)
  then show ?thesis
    by (intro exec_guarded_law [OF upsert_reaction_def db_ok_upsert_reaction])
      (simp_all only: V_message_exists, simp_all add: db_view_def abs_put_reaction_def fun_eq_iff)
qed

lemma law_reaction_delete:
  "write_law (conn_inv eng) W quiet (exec ctx (delete_reaction i s)) (\<lambda>_. True) (abs_delete_reaction i s)"
  by (rule exec_total_law [OF delete_reaction_def db_ok_delete_reaction])
    (simp_all add: db_view_def abs_delete_reaction_def fun_eq_iff
      find_key_filter_key [where P = "\<lambda>k. k \<noteq> (i, s)"])

lemma law_receipt_put:
  "write_law (conn_inv eng) W quiet (exec ctx (upsert_receipt eng (bind_receipt conv r)))
    (\<lambda>v. v_messages v (rec_MessageID r) \<noteq> None) (abs_put_receipt nt r)"
proof -
  have "pr_key (bind_receipt conv r) = (rec_MessageID r, rec_ReaderJID r, rec_Type r)"
    "pr_message_id (bind_receipt conv r) = rec_MessageID r"
    "scan_receipt tm (bind_receipt conv r) = norm_receipt nt r"
    by (simp_all add: bind_receipt_def pr_key_def scan_receipt_def norm_receipt_def)
  then show ?thesis
    by (intro exec_guarded_law [OF upsert_receipt_def db_ok_upsert_receipt])
      (simp_all only: V_message_exists, simp_all add: db_view_def abs_put_receipt_def fun_eq_iff)
qed

lemma law_kv_set:
  "write_law (conn_inv eng) W quiet (exec ctx (upsert_kv k x)) (\<lambda>_. True) (abs_set_kv k x)"
  by (rule exec_total_law [OF upsert_kv_def db_ok_upsert_kv])
    (simp_all add: db_view_def abs_set_kv_def fun_eq_iff)

lemma law_kv_delete:
  "write_law (conn_inv eng) W quiet (exec ctx (delete_kv k)) (\<lambda>_. True) (abs_delete_kv k)"
  by (rule exec_total_law [OF delete_kv_def db_ok_delete_kv])
    (simp_all add: db_view_def abs_delete_kv_def fun_eq_iff
      find_key_filter_key [where P = "\<lambda>x. x \<noteq> k"])

end

section \<open>The shared proofs: reads\<close>

context row_codec
begin

lemma law_chat_get:
  "read_law (conn_inv eng) W quiet (query_row ctx (\<lambda>d. map_option sc (find_key cr_jid j (t_chats d))))
    (\<lambda>v. lookup (v_chats v j))"
  by (rule query_row_law [where g = "\<lambda>v. v_chats v j"]) (simp add: db_view_def)

lemma law_message_get:
  "read_law (conn_inv eng) W quiet (query_row ctx (\<lambda>d. map_option sm (find_key mr_id i (t_messages d))))
    (\<lambda>v. lookup (v_messages v i))"
  by (rule query_row_law [where g = "\<lambda>v. v_messages v i"]) (simp add: db_view_def)

lemma law_contact_get:
  "read_law (conn_inv eng) W quiet (query_row ctx (\<lambda>d. map_option so (find_key or_jid j (t_contacts d))))
    (\<lambda>v. lookup (v_contacts v j))"
  by (rule query_row_law [where g = "\<lambda>v. v_contacts v j"]) (simp add: db_view_def)

lemma law_media_get:
  "read_law (conn_inv eng) W quiet (query_row ctx (\<lambda>d. map_option scan_media (find_key dr_message_id i (t_media d))))
    (\<lambda>v. lookup (v_media v i))"
  by (rule query_row_law [where g = "\<lambda>v. v_media v i"]) (simp add: db_view_def)

lemma law_kv_get:
  "read_law (conn_inv eng) W quiet (query_row ctx (\<lambda>d. map_option snd (find_key fst k (t_kv d))))
    (\<lambda>v. lookup (v_kv v k))"
  by (rule query_row_law [where g = "\<lambda>v. v_kv v k"]) (simp add: db_view_def)

lemma law_chat_count:
  "read_law (conn_inv eng) W quiet (query_val ctx (\<lambda>d. int (length (t_chats d))))
    (\<lambda>v. Inr (int (card (dom (v_chats v)))))"
  by (rule query_val_law) (simp add: db_view_def db_ok_def card_dom_find_key)

lemma law_contact_count:
  "read_law (conn_inv eng) W quiet (query_val ctx (\<lambda>d. int (length (t_contacts d))))
    (\<lambda>v. Inr (int (card (dom (v_contacts v)))))"
  by (rule query_val_law) (simp add: db_view_def db_ok_def card_dom_find_key)

lemma law_chat_unread:
  "read_law (conn_inv eng) W quiet (query_val ctx (\<lambda>d. sum_list (map cr_unread (t_chats d))))
    (\<lambda>v. Inr (\<Sum>j\<in>dom (v_chats v). chat_UnreadCount (the (v_chats v j))))"
proof (rule query_val_law)
  fix d :: "'b db"
  assume "db_ok d"
  then have "keyed cr_jid (t_chats d)" by (simp add: db_ok_def)
  from sum_find_key [OF this, of chat_UnreadCount sc]
  show "sum_list (map cr_unread (t_chats d))
      = (\<Sum>j\<in>dom (v_chats (V d)). chat_UnreadCount (the (v_chats (V d) j)))"
    by (simp add: db_view_def dom_find_key comp_def)
qed

lemma law_message_count:
  "read_law (conn_inv eng) W quiet
    (query_val ctx (\<lambda>d. int (length (filter (\<lambda>r. mr_deleted_at r = None) (t_messages d)))))
    (\<lambda>v. Inr (int (card {i. \<exists>m. v_messages v i = Some m \<and> msg_DeletedAt m = None})))"
proof (rule query_val_law)
  fix d :: "'b db"
  assume "db_ok d"
  then have k: "keyed mr_id (t_messages d)" by (simp add: db_ok_def)
  have "{i. \<exists>m. v_messages (V d) i = Some m \<and> msg_DeletedAt m = None}
      = mr_id ` set (filter (\<lambda>r. mr_deleted_at r = None) (t_messages d))"
    by (auto simp: db_view_def find_key_mem_iff [OF k])
  also have "card \<dots> = length (filter (\<lambda>r. mr_deleted_at r = None) (t_messages d))"
    using distinct_card [of "map mr_id (filter (\<lambda>r. mr_deleted_at r = None) (t_messages d))"]
      keyed_filter [OF k, unfolded keyed_def] by (simp del: set_filter)
  finally show "int (length (filter (\<lambda>r. mr_deleted_at r = None) (t_messages d)))
      = int (card {i. \<exists>m. v_messages (V d) i = Some m \<and> msg_DeletedAt m = None})" by simp
qed

text \<open>The rows \<open>ListByChat\<close> selects.\<close>

abbreviation chat_rows where
  "chat_rows chat before d \<equiv> filter (\<lambda>r. mr_chat_jid r = chat \<and> mr_deleted_at r = None
     \<and> (IsZero before \<or> mr_ts r < conv before)) (t_messages d)"

lemma listable_V:
  assumes "db_ok d"
  shows "listable nt chat before (V d) = sm ` set (chat_rows chat before d)"
proof -
  have k: "keyed mr_id (t_messages d)" using assms by (simp add: db_ok_def)
  have lt: "tm (mr_ts r) < nt before \<longleftrightarrow> mr_ts r < conv before" for r
    using tm_less [of "mr_ts r" "conv before"] by simp
  show ?thesis
    unfolding listable_def
    by (auto simp: db_view_def find_key_mem_iff [OF k] lt image_iff)
qed

lemma law_message_list:
  "list_law (conn_inv eng) W quiet
    (query_rows ctx (\<lambda>d. Inr (map sm (take n (sort_key (\<lambda>r. - mr_ts r) (eng_scan eng (chat_rows chat before d)))))))
    (\<lambda>v. is_page (listable nt chat before v) (\<lambda>m. - msg_Timestamp m) n)"
proof (rule query_rows_law)
  fix d :: "'b db" and xs
  assume e: "engine_ok eng" and ok: "db_ok d"
    and q: "Inr (map sm (take n (sort_key (\<lambda>r. - mr_ts r) (eng_scan eng (chat_rows chat before d))))) = Inr xs"
  let ?R = "chat_rows chat before d"
  have k: "keyed mr_id ?R" using ok by (simp add: db_ok_def)
  have dist: "distinct (eng_scan eng ?R)"
    by (rule distinct_eng_scan [OF e keyed_distinct [OF k]])
  have "is_page (set ?R) (\<lambda>r. - mr_ts r) n (take n (sort_key (\<lambda>r. - mr_ts r) (eng_scan eng ?R)))"
    by (rule is_page_take_sort [OF dist set_eng_scan [OF e]])
  then have "is_page (sm ` set ?R) (\<lambda>m. - msg_Timestamp m) n
      (map sm (take n (sort_key (\<lambda>r. - mr_ts r) (eng_scan eng ?R))))"
    by (rule is_page_map) (use keyed_scan_inj_on [OF k, of msg_ID sm] in auto)
  then show "is_page (listable nt chat before (V d)) (\<lambda>m. - msg_Timestamp m) n xs"
    using q listable_V [OF ok] by simp
qed

text \<open>Any rows of \<open>messages\<close> without repetition read back as stored messages.\<close>

lemma scan_messages:
  assumes ok: "db_ok d" and sub: "set rs \<subseteq> set (t_messages d)" and dist: "distinct rs"
  shows "distinct (map sm rs)" "\<forall>m\<in>set (map sm rs). v_messages (V d) (msg_ID m) = Some m"
proof -
  have k: "keyed mr_id (t_messages d)" using ok by (simp add: db_ok_def)
  have "inj_on sm (set rs)"
    using inj_on_subset [OF keyed_scan_inj_on [OF k, of msg_ID sm] sub] by simp
  then show "distinct (map sm rs)" using dist by (simp add: distinct_map)
  show "\<forall>m\<in>set (map sm rs). v_messages (V d) (msg_ID m) = Some m"
    using sub find_key_self [OF k] by (auto simp: db_view_def subset_iff)
qed

lemma scan_chats:
  assumes ok: "db_ok d" and sub: "set rs \<subseteq> set (t_chats d)" and dist: "distinct rs"
  shows "distinct (map sc rs)" "\<forall>c\<in>set (map sc rs). v_chats (V d) (chat_JID c) = Some c"
proof -
  have k: "keyed cr_jid (t_chats d)" using ok by (simp add: db_ok_def)
  have "inj_on sc (set rs)"
    using inj_on_subset [OF keyed_scan_inj_on [OF k, of chat_JID sc] sub] by simp
  then show "distinct (map sc rs)" using dist by (simp add: distinct_map)
  show "\<forall>c\<in>set (map sc rs). v_chats (V d) (chat_JID c) = Some c"
    using sub find_key_self [OF k] by (auto simp: db_view_def subset_iff)
qed

lemma scan_contacts:
  assumes ok: "db_ok d" and sub: "set rs \<subseteq> set (t_contacts d)" and dist: "distinct rs"
  shows "distinct (map so rs)" "set (map so rs) \<subseteq> ran (v_contacts (V d))"
proof -
  have k: "keyed or_jid (t_contacts d)" using ok by (simp add: db_ok_def)
  have "inj_on so (set rs)"
    using inj_on_subset [OF keyed_scan_inj_on [OF k, of con_JID so] sub] by simp
  then show "distinct (map so rs)" using dist by (simp add: distinct_map)
  show "set (map so rs) \<subseteq> ran (v_contacts (V d))"
    using sub by (auto simp: db_view_def ran_find_key [OF k])
qed

lemma law_message_search:
  assumes f: "\<And>d xs. engine_ok eng \<Longrightarrow> f d = Inr xs \<Longrightarrow> \<exists>P ys. xs = map sm (take n ys)
      \<and> mset ys = mset (filter (\<lambda>r. P r \<and> mr_deleted_at r = None) (t_messages d))"
  shows "list_law (conn_inv eng) W quiet (query_rows ctx f)
    (\<lambda>v ms. distinct ms \<and> length ms \<le> n \<and>
        (\<forall>m\<in>set ms. v_messages v (msg_ID m) = Some m \<and> msg_DeletedAt m = None))"
proof (rule query_rows_law)
  fix d :: "'b db" and xs
  assume eng: "engine_ok eng" and ok: "db_ok d" and q: "f d = Inr xs"
  from f [OF eng q] obtain P ys where xs: "xs = map sm (take n ys)"
    and m: "mset ys = mset (filter (\<lambda>r. P r \<and> mr_deleted_at r = None) (t_messages d))" by blast
  have sub: "set ys \<subseteq> {r \<in> set (t_messages d). mr_deleted_at r = None}"
    using mset_eq_setD [OF m] by auto
  have "distinct ys"
    using mset_eq_imp_distinct_iff [OF m] ok keyed_distinct [of mr_id "t_messages d"] by (simp add: db_ok_def)
  then have d: "distinct (take n ys)" by simp
  have s: "set (take n ys) \<subseteq> set (t_messages d)" "\<forall>r\<in>set (take n ys). mr_deleted_at r = None"
    using sub set_take_subset [of n ys] by auto
  note scan_messages [OF ok s(1) d]
  moreover have "\<forall>m\<in>set xs. msg_DeletedAt m = None" unfolding xs using s(2) by auto
  moreover have "length xs \<le> n" unfolding xs by simp
  ultimately show "distinct xs \<and> length xs \<le> n \<and>
      (\<forall>m\<in>set xs. v_messages (V d) (msg_ID m) = Some m \<and> msg_DeletedAt m = None)"
    unfolding xs by blast
qed

lemma law_contact_list:
  "list_law (conn_inv eng) W quiet
    (query_rows ctx (\<lambda>d. Inr (map so (sort_key key (t_contacts d)))))
    (\<lambda>v cs. distinct cs \<and> set cs = ran (v_contacts v))"
proof (rule query_rows_law)
  fix d :: "'b db" and xs
  assume ok: "db_ok d" and q: "Inr (map so (sort_key key (t_contacts d))) = Inr xs"
  have k: "keyed or_jid (t_contacts d)" using ok by (simp add: db_ok_def)
  then show "distinct xs \<and> set xs = ran (v_contacts (V d))"
    using q scan_contacts [OF ok, of "sort_key key (t_contacts d)"] keyed_distinct [OF k]
    by (auto simp: db_view_def ran_find_key [OF k])
qed

lemma law_event_since:
  "read_law (conn_inv eng) W quiet
    (query_rows ctx (\<lambda>d. Inr (map (scan_event tm) (take n (sort_key er_seq (filter (\<lambda>r. s < er_seq r) (t_events d)))))))
    (\<lambda>v. Inr (take n (filter (\<lambda>e. s < ev_Seq e) (v_log v))))"
proof (rule query_rows_read_law)
  fix d :: "'b db"
  assume "db_ok d"
  then have "sorted_wrt (\<lambda>a b. er_seq a < er_seq b) (t_events d)"
    by (simp add: db_ok_def sorted_wrt_map)
  then have "sorted (map er_seq (filter (\<lambda>r. s < er_seq r) (t_events d)))"
    by (simp add: sorted_wrt_map) (rule sorted_wrt_mono_rel [OF _ sorted_wrt_filter], auto)
  then show "Inr (map (scan_event tm) (take n (sort_key er_seq (filter (\<lambda>r. s < er_seq r) (t_events d)))))
      = Inr (take n (filter (\<lambda>e. s < ev_Seq e) (v_log (V d))))"
    by (simp add: sort_key_id_if_sorted db_view_def take_map filter_map comp_def scan_event_def)
qed

lemma law_event_append:
  assumes inv: "conn_inv eng c"
    and r: "exec_id ctx (insert_event (conv (ev_Time e)) (ev_Type e) (ev_Payload e)) c = (r, c')"
  shows "conn_inv eng c' \<and> (quiet c \<longrightarrow> quiet c') \<and>
      ((r = Inr (v_next (W c)) \<and> W c' = abs_append nt e (W c))
       \<or> (\<not> quiet c \<and> W c' = W c \<and> (\<exists>er. r = Inl er \<and> err_kind_of er = EOther)))"
  using r
proof (cases rule: exec_id_cases)
  case (fail er)
  then show ?thesis using inv by (auto simp: conn_inv_def conn_view_def)
next
  case (ok i d)
  have "db_ok (snd (insert_event (conv (ev_Time e)) (ev_Type e) (ev_Payload e) (c_db c)))"
    using inv by (intro db_ok_insert_event) (simp add: conn_inv_def)
  then have "conn_inv eng c'" using inv ok by (simp add: conn_inv_def)
  moreover have "i = t_next_seq (c_db c)" and d: "d = (c_db c)\<lparr>t_events := t_events (c_db c)
      @ [\<lparr>er_seq = t_next_seq (c_db c), er_ts = conv (ev_Time e), er_type = ev_Type e, er_payload = ev_Payload e\<rparr>],
      t_next_seq := t_next_seq (c_db c) + 1\<rparr>"
    using ok(2) by (auto simp: insert_event_def)
  moreover have "V d = abs_append nt e (V (c_db c))"
    unfolding d by (simp add: db_view_def abs_append_def scan_event_def norm_event_def)
  ultimately show ?thesis using ok by (simp add: conn_view_def db_view_def)
qed

lemma law_reaction_list:
  "list_law (conn_inv eng) W quiet
    (query_rows ctx (\<lambda>d. Inr (map (scan_reaction tm) (sort_key key (filter (\<lambda>r. rr_message_id r = i) (t_reactions d))))))
    (\<lambda>v rs. distinct rs \<and> set rs = {r. \<exists>s. v_reactions v (i, s) = Some r})"
proof (rule query_rows_law)
  fix d :: "'b db" and xs
  assume ok: "db_ok d" and q: "Inr (map (scan_reaction tm) (sort_key key (filter (\<lambda>r. rr_message_id r = i) (t_reactions d)))) = Inr xs"
  let ?R = "filter (\<lambda>r. rr_message_id r = i) (t_reactions d)"
  have k: "keyed rr_key (t_reactions d)" using ok by (simp add: db_ok_def)
  have "inj_on (scan_reaction tm) (set ?R)"
    by (rule keyed_scan_inj_on [OF keyed_filter [OF k], of "\<lambda>r. (rea_MessageID r, rea_SenderJID r)"])
      (simp add: scan_reaction_def rr_key_def)
  then have "distinct xs" using q keyed_distinct [OF keyed_filter [OF k]] by (auto simp: distinct_map)
  moreover have "set xs = {r. \<exists>s. v_reactions (V d) (i, s) = Some r}"
    using q by (auto simp: db_view_def find_key_mem_iff [OF k] rr_key_def)
  ultimately show "distinct xs \<and> set xs = {r. \<exists>s. v_reactions (V d) (i, s) = Some r}" by blast
qed

lemma law_receipt_list:
  "list_law (conn_inv eng) W quiet
    (query_rows ctx (\<lambda>d. Inr (map (scan_receipt tm) (sort_key key (filter (\<lambda>r. pr_message_id r = i) (t_receipts d))))))
    (\<lambda>v rs. distinct rs \<and> set rs = {r. \<exists>j t. v_receipts v (i, j, t) = Some r})"
proof (rule query_rows_law)
  fix d :: "'b db" and xs
  assume ok: "db_ok d" and q: "Inr (map (scan_receipt tm) (sort_key key (filter (\<lambda>r. pr_message_id r = i) (t_receipts d)))) = Inr xs"
  let ?R = "filter (\<lambda>r. pr_message_id r = i) (t_receipts d)"
  have k: "keyed pr_key (t_receipts d)" using ok by (simp add: db_ok_def)
  have "inj_on (scan_receipt tm) (set ?R)"
    by (rule keyed_scan_inj_on [OF keyed_filter [OF k], of "\<lambda>r. (rec_MessageID r, rec_ReaderJID r, rec_Type r)"])
      (simp add: scan_receipt_def pr_key_def)
  then have "distinct xs" using q keyed_distinct [OF keyed_filter [OF k]] by (auto simp: distinct_map)
  moreover have "set xs = {r. \<exists>j t. v_receipts (V d) (i, j, t) = Some r}"
    using q by (auto simp: db_view_def find_key_mem_iff [OF k] pr_key_def)
  ultimately show "distinct xs \<and> set xs = {r. \<exists>j t. v_receipts (V d) (i, j, t) = Some r}" by blast
qed

end

end
