(* ===== verification/Store_Sqlite.thy ===== *)
theory Store_Sqlite
  imports Store_Codec
begin

text \<open>
  internal/store/sqlite: the app store over SQLite. A time column is an INTEGER of whole Unix
  seconds, \<open>chats.archived\<close> an INTEGER, an empty optional text SQL NULL. Every operation of
  the eight stores is here, and \<open>sqlite_bundle\<close> is shown to obey the laws of \<open>Store_Api\<close>.
\<close>

section \<open>Conversions\<close>

definition unixOrNil :: "time \<Rightarrow> int option" where
  "unixOrNil t = (if IsZero t then None else Some (Unix t))"

definition unixToTime :: "int \<Rightarrow> time" where
  "unixToTime sec = time_of_unix sec"

definition boolToInt :: "bool \<Rightarrow> int" where
  "boolToInt b = (if b then 1 else 0)"

definition nullableString :: "string \<Rightarrow> string option" where
  "nullableString s = (if s = '''' then None else Some s)"

definition ptrUnix :: "time option \<Rightarrow> int option" where
  "ptrUnix t = (case t of None \<Rightarrow> None | Some t \<Rightarrow> Some (Unix t))"

text \<open>The \<open>String\<close> of a \<open>sql.NullString\<close>.\<close>

definition null_string :: "string option \<Rightarrow> string" where
  "null_string o' = (case o' of None \<Rightarrow> '''' | Some s \<Rightarrow> s)"

lemma null_string_nullable [simp]: "null_string (nullableString s) = s"
  by (simp add: null_string_def nullableString_def)

lemma null_string_Some [simp]: "null_string (Some s) = s"
  by (simp add: null_string_def)

lemma unixToTime_Unix [simp]: "unixToTime (Unix t) = to_seconds t"
  by (simp add: unixToTime_def to_seconds_def)

section \<open>chats.go\<close>

definition scanChat :: "int chat_row \<Rightarrow> chat" where
  "scanChat r = \<lparr>chat_JID = cr_jid r, chat_Name = null_string (cr_name r), chat_Kind = cr_kind r,
     chat_LastMsgAt = (case cr_last r of None \<Rightarrow> time_zero | Some s \<Rightarrow> unixToTime s),
     chat_UnreadCount = cr_unread r, chat_Archived = (cr_archived r \<noteq> 0)\<rparr>"

definition chat_args :: "chat \<Rightarrow> int chat_row" where
  "chat_args c = \<lparr>cr_jid = chat_JID c, cr_name = Some (chat_Name c), cr_kind = chat_Kind c,
     cr_last = unixOrNil (chat_LastMsgAt c), cr_unread = chat_UnreadCount c,
     cr_archived = boolToInt (chat_Archived c)\<rparr>"

definition ChatStore_Put :: "chat \<Rightarrow> int conn \<Rightarrow> goerr option \<times> int conn" where
  "ChatStore_Put c = exec ''chats put'' (upsert_chat (chat_args c))"

definition ChatStore_Get :: "string \<Rightarrow> int conn \<Rightarrow> (goerr + chat) \<times> int conn" where
  "ChatStore_Get jid = query_row ''chats get''
     (\<lambda>d. map_option scanChat (find_key cr_jid jid (t_chats d)))"

definition ChatStore_List :: "time \<Rightarrow> int \<Rightarrow> bool \<Rightarrow> int conn \<Rightarrow> (goerr + chat list) \<times> int conn" where
  "ChatStore_List beforeMsgAt limit includeArchived = query_rows ''chats list'' (\<lambda>d.
     Inr (map scanChat (sql_limit limit (sort_key (chat_order (\<lambda>s. s))
       (filter (\<lambda>r. (includeArchived \<or> cr_archived r = 0)
          \<and> (IsZero beforeMsgAt \<or> (case cr_last r of None \<Rightarrow> False | Some t \<Rightarrow> t < Unix beforeMsgAt)))
        (t_chats d))))))"

definition ChatStore_SetArchived :: "string \<Rightarrow> bool \<Rightarrow> int conn \<Rightarrow> goerr option \<times> int conn" where
  "ChatStore_SetArchived jid archived = exec ''chats set_archived'' (update_archived jid (boolToInt archived))"

definition ChatStore_Count :: "int conn \<Rightarrow> (goerr + int) \<times> int conn" where
  "ChatStore_Count = query_val ''chats count'' (\<lambda>d. int (length (t_chats d)))"

definition ChatStore_TotalUnread :: "int conn \<Rightarrow> (goerr + int) \<times> int conn" where
  "ChatStore_TotalUnread = query_val ''chats total_unread'' (\<lambda>d. sum_list (map cr_unread (t_chats d)))"

section \<open>contacts.go\<close>

definition scanContact :: "contact_row \<Rightarrow> contact" where
  "scanContact r = \<lparr>con_JID = or_jid r, con_PushName = null_string (or_push_name r),
     con_FullName = null_string (or_full_name r), con_BusinessName = null_string (or_business_name r)\<rparr>"

definition contact_args :: "contact \<Rightarrow> contact_row" where
  "contact_args c = \<lparr>or_jid = con_JID c, or_push_name = nullableString (con_PushName c),
     or_full_name = nullableString (con_FullName c), or_business_name = nullableString (con_BusinessName c)\<rparr>"

definition ContactStore_Put :: "contact \<Rightarrow> int conn \<Rightarrow> goerr option \<times> int conn" where
  "ContactStore_Put c = exec ''contacts put'' (upsert_contact (contact_args c))"

definition ContactStore_Get :: "string \<Rightarrow> int conn \<Rightarrow> (goerr + contact) \<times> int conn" where
  "ContactStore_Get jid = query_row ''contacts get''
     (\<lambda>d. map_option scanContact (find_key or_jid jid (t_contacts d)))"

definition ContactStore_List :: "int conn \<Rightarrow> (goerr + contact list) \<times> int conn" where
  "ContactStore_List = query_rows ''contacts list'' (\<lambda>d.
     Inr (map scanContact (sort_key or_jid (t_contacts d))))"

text \<open>SQLite's \<open>lower()\<close> is ASCII only; the pattern was lowered by Go.\<close>

definition contact_matches :: "string \<Rightarrow> contact_row \<Rightarrow> bool" where
  "contact_matches pat r =
     (let hit = (\<lambda>col. like None (code_points pat) (code_points (map ascii_lower (null_string col))))
      in hit (or_push_name r) \<or> hit (or_full_name r) \<or> hit (or_business_name r))"

definition ContactStore_Search :: "engine \<Rightarrow> string \<Rightarrow> int \<Rightarrow> int conn \<Rightarrow> (goerr + contact list) \<times> int conn" where
  "ContactStore_Search eng query limit =
     (let pat = ''%'' @ ToLower (eng_ul eng) query @ ''%'' in
      query_rows ''contacts search'' (\<lambda>d.
        Inr (map scanContact (sql_limit limit (sort_key or_jid
          (filter (contact_matches pat) (t_contacts d)))))))"

definition ContactStore_Count :: "int conn \<Rightarrow> (goerr + int) \<times> int conn" where
  "ContactStore_Count = query_val ''contacts count'' (\<lambda>d. int (length (t_contacts d)))"

section \<open>messages.go\<close>

definition messageColumns :: string where
  "messageColumns = ''id, chat_jid, sender_jid, ts, kind, body, reply_to, edited_at, deleted_at, raw_meta''"

text \<open>\<open>prefixCols\<close> on an ASCII column list: \<open>prev\<close> is the byte before.\<close>

fun prefix_from :: "char option \<Rightarrow> string \<Rightarrow> string \<Rightarrow> string" where
  "prefix_from prev prefix [] = []"
| "prefix_from prev prefix (c # cs) =
     (if prev = None \<or> prev = Some (CHR '' '') then prefix @ [c] else [c])
       @ prefix_from (Some c) prefix cs"

definition prefixCols :: "string \<Rightarrow> string \<Rightarrow> string" where
  "prefixCols cols prefix = prefix_from None prefix cols"

lemma prefixCols_messageColumns:
  "prefixCols messageColumns ''m.'' =
   ''m.id, m.chat_jid, m.sender_jid, m.ts, m.kind, m.body, m.reply_to, m.edited_at, m.deleted_at, m.raw_meta''"
  by code_simp

definition scanMessage :: "message_row \<Rightarrow> message" where
  "scanMessage r = \<lparr>msg_ID = mr_id r, msg_ChatJID = mr_chat_jid r, msg_SenderJID = mr_sender_jid r,
     msg_Timestamp = unixToTime (mr_ts r), msg_Kind = mr_kind r, msg_Body = null_string (mr_body r),
     msg_ReplyTo = null_string (mr_reply_to r),
     msg_EditedAt = (case mr_edited_at r of None \<Rightarrow> None | Some t \<Rightarrow> Some (unixToTime t)),
     msg_DeletedAt = (case mr_deleted_at r of None \<Rightarrow> None | Some t \<Rightarrow> Some (unixToTime t)),
     msg_RawMeta = null_string (mr_raw_meta r)\<rparr>"

definition message_args :: "message \<Rightarrow> message_row" where
  "message_args m = \<lparr>mr_id = msg_ID m, mr_chat_jid = msg_ChatJID m, mr_sender_jid = msg_SenderJID m,
     mr_ts = Unix (msg_Timestamp m), mr_kind = msg_Kind m, mr_body = nullableString (msg_Body m),
     mr_reply_to = nullableString (msg_ReplyTo m), mr_edited_at = ptrUnix (msg_EditedAt m),
     mr_deleted_at = ptrUnix (msg_DeletedAt m), mr_raw_meta = nullableString (msg_RawMeta m)\<rparr>"

definition MessageStore_Put :: "engine \<Rightarrow> message \<Rightarrow> int conn \<Rightarrow> goerr option \<times> int conn" where
  "MessageStore_Put eng m = exec ''messages put'' (upsert_message eng (message_args m))"

definition MessageStore_Get :: "string \<Rightarrow> int conn \<Rightarrow> (goerr + message) \<times> int conn" where
  "MessageStore_Get i = query_row ''messages get''
     (\<lambda>d. map_option scanMessage (find_key mr_id i (t_messages d)))"

definition MessageStore_ListByChat ::
    "engine \<Rightarrow> string \<Rightarrow> int \<Rightarrow> time \<Rightarrow> int conn \<Rightarrow> (goerr + message list) \<times> int conn" where
  "MessageStore_ListByChat eng chatJID limit beforeTS = query_rows ''messages list_by_chat'' (\<lambda>d.
     Inr (map scanMessage (sql_limit limit (sort_key (\<lambda>r. - mr_ts r) (eng_scan eng
       (filter (\<lambda>r. mr_chat_jid r = chatJID \<and> mr_deleted_at r = None
          \<and> (IsZero beforeTS \<or> mr_ts r < Unix beforeTS)) (t_messages d)))))))"

definition MessageStore_Search :: "engine \<Rightarrow> string \<Rightarrow> int \<Rightarrow> int conn \<Rightarrow> (goerr + message list) \<times> int conn" where
  "MessageStore_Search eng query limit = query_rows ''messages search'' (\<lambda>d.
     case eng_fts eng query of
       Inl e \<Rightarrow> Inl e
     | Inr match \<Rightarrow> Inr (map scanMessage (sql_limit limit (sort_key (\<lambda>r. - mr_ts r) (eng_scan eng
         (filter (\<lambda>r. match (mr_body r) \<noteq> None \<and> mr_deleted_at r = None) (t_messages d)))))))"

definition MessageStore_SoftDelete :: "string \<Rightarrow> time \<Rightarrow> int conn \<Rightarrow> goerr option \<times> int conn" where
  "MessageStore_SoftDelete i when = exec ''messages soft_delete'' (update_deleted_at i (Unix when))"

definition MessageStore_Count :: "int conn \<Rightarrow> (goerr + int) \<times> int conn" where
  "MessageStore_Count = query_val ''messages count''
     (\<lambda>d. int (length (filter (\<lambda>r. mr_deleted_at r = None) (t_messages d))))"

section \<open>media.go, events_log.go, kv.go, reactions.go, receipts.go\<close>

definition MediaStore_Put :: "engine \<Rightarrow> media_ref \<Rightarrow> int conn \<Rightarrow> goerr option \<times> int conn" where
  "MediaStore_Put eng m = exec ''media put'' (upsert_media eng (bind_media m))"

definition MediaStore_GetByMessageID :: "string \<Rightarrow> int conn \<Rightarrow> (goerr + media_ref) \<times> int conn" where
  "MediaStore_GetByMessageID messageID = query_row ''media get''
     (\<lambda>d. map_option scan_media (find_key dr_message_id messageID (t_media d)))"

definition EventsLog_Append :: "event_log_entry \<Rightarrow> int conn \<Rightarrow> (goerr + int) \<times> int conn" where
  "EventsLog_Append e = exec_id ''events_log append''
     (insert_event (Unix (ev_Time e)) (ev_Type e) (ev_Payload e))"

definition EventsLog_SinceSeq :: "int \<Rightarrow> int \<Rightarrow> int conn \<Rightarrow> (goerr + event_log_entry list) \<times> int conn" where
  "EventsLog_SinceSeq seq limit = query_rows ''events_log since_seq'' (\<lambda>d.
     Inr (map (scan_event unixToTime) (sql_limit limit (sort_key er_seq
       (filter (\<lambda>r. seq < er_seq r) (t_events d))))))"

definition KVStore_Get :: "string \<Rightarrow> int conn \<Rightarrow> (goerr + string) \<times> int conn" where
  "KVStore_Get key = query_row ''kv get'' (\<lambda>d. map_option snd (find_key fst key (t_kv d)))"

definition KVStore_Set :: "string \<Rightarrow> string \<Rightarrow> int conn \<Rightarrow> goerr option \<times> int conn" where
  "KVStore_Set key x = exec ''kv set'' (upsert_kv key x)"

definition KVStore_Delete :: "string \<Rightarrow> int conn \<Rightarrow> goerr option \<times> int conn" where
  "KVStore_Delete key = exec ''kv delete'' (delete_kv key)"

definition ReactionStore_Put :: "engine \<Rightarrow> reaction \<Rightarrow> int conn \<Rightarrow> goerr option \<times> int conn" where
  "ReactionStore_Put eng r = exec ''reactions put'' (upsert_reaction eng (bind_reaction Unix r))"

definition ReactionStore_Delete :: "string \<Rightarrow> string \<Rightarrow> int conn \<Rightarrow> goerr option \<times> int conn" where
  "ReactionStore_Delete messageID senderJID = exec ''reactions delete'' (delete_reaction messageID senderJID)"

definition ReactionStore_ListByMessageID :: "string \<Rightarrow> int conn \<Rightarrow> (goerr + reaction list) \<times> int conn" where
  "ReactionStore_ListByMessageID messageID = query_rows ''reactions list'' (\<lambda>d.
     Inr (map (scan_reaction unixToTime) (sort_key rr_sender_jid
       (filter (\<lambda>r. rr_message_id r = messageID) (t_reactions d)))))"

definition ReceiptStore_Put :: "engine \<Rightarrow> receipt \<Rightarrow> int conn \<Rightarrow> goerr option \<times> int conn" where
  "ReceiptStore_Put eng r = exec ''receipts put'' (upsert_receipt eng (bind_receipt Unix r))"

definition ReceiptStore_ListByMessageID :: "string \<Rightarrow> int conn \<Rightarrow> (goerr + receipt list) \<times> int conn" where
  "ReceiptStore_ListByMessageID messageID = query_rows ''receipts list'' (\<lambda>d.
     Inr (map (scan_receipt unixToTime) (sort_key (\<lambda>r. (pr_reader_jid r, pr_type r))
       (filter (\<lambda>r. pr_message_id r = messageID) (t_receipts d)))))"

section \<open>store.go\<close>

text \<open>\<open>Bundle\<close> hands out the eight stores.\<close>

definition sqlite_bundle :: "engine \<Rightarrow> int conn store_bundle" where
  "sqlite_bundle eng = \<lparr>
     b_Chats = \<lparr>cst_Put = ChatStore_Put, cst_Get = ChatStore_Get, cst_List = ChatStore_List,
       cst_SetArchived = ChatStore_SetArchived, cst_Count = ChatStore_Count,
       cst_TotalUnread = ChatStore_TotalUnread\<rparr>,
     b_Messages = \<lparr>mst_Put = MessageStore_Put eng, mst_Get = MessageStore_Get,
       mst_ListByChat = MessageStore_ListByChat eng, mst_Search = MessageStore_Search eng,
       mst_SoftDelete = MessageStore_SoftDelete, mst_Count = MessageStore_Count\<rparr>,
     b_Contacts = \<lparr>ost_Put = ContactStore_Put, ost_Get = ContactStore_Get, ost_List = ContactStore_List,
       ost_Search = ContactStore_Search eng, ost_Count = ContactStore_Count\<rparr>,
     b_Media = \<lparr>dst_Put = MediaStore_Put eng, dst_GetByMessageID = MediaStore_GetByMessageID\<rparr>,
     b_Events = \<lparr>est_Append = EventsLog_Append, est_SinceSeq = EventsLog_SinceSeq\<rparr>,
     b_KV = \<lparr>kst_Get = KVStore_Get, kst_Set = KVStore_Set, kst_Delete = KVStore_Delete\<rparr>,
     b_Reactions = \<lparr>rst_Put = ReactionStore_Put eng, rst_Delete = ReactionStore_Delete,
       rst_ListByMessageID = ReactionStore_ListByMessageID\<rparr>,
     b_Receipts = \<lparr>pst_Put = ReceiptStore_Put eng, pst_ListByMessageID = ReceiptStore_ListByMessageID\<rparr>\<rparr>"

definition sqlite_view :: "int conn \<Rightarrow> store_view" where
  "sqlite_view = conn_view scanChat scanMessage scanContact unixToTime"

section \<open>What a row gives back\<close>

lemma scanChat_args: "scanChat (chat_args c) = norm_chat to_seconds c"
  by (simp add: scanChat_def chat_args_def norm_chat_def unixOrNil_def boolToInt_def)

lemma scanMessage_args: "scanMessage (message_args m) = norm_message to_seconds (map_option to_seconds) m"
  by (simp add: scanMessage_def message_args_def norm_message_def ptrUnix_def split: option.splits)

lemma scanContact_args: "scanContact (contact_args c) = c"
  by (simp add: scanContact_def contact_args_def)

lemma unixToTime_less [simp]: "unixToTime a < unixToTime b \<longleftrightarrow> a < b"
  by (simp add: unixToTime_def time_of_unix_def nanos_def)

interpretation sq: row_codec scanChat scanMessage scanContact unixToTime Unix to_seconds
  by unfold_locales
    (simp_all add: scanChat_def scanMessage_def scanContact_def split: option.splits)

section \<open>The laws hold\<close>

lemmas sqlite_store_defs =
  ChatStore_Put_def ChatStore_Get_def ChatStore_List_def ChatStore_SetArchived_def ChatStore_Count_def
  ChatStore_TotalUnread_def MessageStore_Put_def MessageStore_Get_def MessageStore_ListByChat_def
  MessageStore_Search_def MessageStore_SoftDelete_def MessageStore_Count_def ContactStore_Put_def
  ContactStore_Get_def ContactStore_List_def ContactStore_Search_def ContactStore_Count_def
  MediaStore_Put_def MediaStore_GetByMessageID_def EventsLog_Append_def EventsLog_SinceSeq_def
  KVStore_Get_def KVStore_Set_def KVStore_Delete_def ReactionStore_Put_def ReactionStore_Delete_def
  ReactionStore_ListByMessageID_def ReceiptStore_Put_def ReceiptStore_ListByMessageID_def

lemma sqlite_chat_list:
  "list_law (conn_inv eng) sqlite_view quiet (ChatStore_List before l arch)
     (\<lambda>v cs. distinct cs \<and> (\<forall>c\<in>set cs. v_chats v (chat_JID c) = Some c))"
  unfolding ChatStore_List_def sqlite_view_def
proof (rule query_rows_law)
  fix d :: "int db" and xs
  let ?R = "sql_limit l (sort_key (chat_order (\<lambda>s. s)) (filter (\<lambda>r. (arch \<or> cr_archived r = 0)
      \<and> (IsZero before \<or> (case cr_last r of None \<Rightarrow> False | Some t \<Rightarrow> t < Unix before))) (t_chats d)))"
  assume ok: "db_ok d" and "Inr (map scanChat ?R) = Inr xs"
  moreover have k: "keyed cr_jid (t_chats d)" using ok by (simp add: db_ok_def)
  have "distinct ?R" "set ?R \<subseteq> set (t_chats d)"
    using limited_rows [OF k] by blast+
  ultimately show "distinct xs \<and> (\<forall>c\<in>set xs. v_chats (sq.V d) (chat_JID c) = Some c)"
    using sq.scan_chats [OF ok] by auto
qed

lemma sqlite_contact_search:
  "list_law (conn_inv eng) sqlite_view quiet (ContactStore_Search eng q l)
     (\<lambda>v cs. distinct cs \<and> set cs \<subseteq> ran (v_contacts v))"
  unfolding ContactStore_Search_def Let_def sqlite_view_def
proof (rule query_rows_law)
  fix d :: "int db" and xs
  let ?R = "sql_limit l (sort_key or_jid
      (filter (contact_matches (''%'' @ ToLower (eng_ul eng) q @ ''%'')) (t_contacts d)))"
  assume ok: "db_ok d" and "Inr (map scanContact ?R) = Inr xs"
  moreover have k: "keyed or_jid (t_contacts d)" using ok by (simp add: db_ok_def)
  have "distinct ?R" "set ?R \<subseteq> set (t_contacts d)"
    using limited_rows [OF k] by blast+
  ultimately show "distinct xs \<and> set xs \<subseteq> ran (v_contacts (sq.V d))"
    using sq.scan_contacts [OF ok, of ?R] by simp
qed

lemma sqlite_message_search:
  assumes "0 \<le> l"
  shows "list_law (conn_inv eng) sqlite_view quiet (MessageStore_Search eng q l)
     (\<lambda>v ms. distinct ms \<and> length ms \<le> nat l \<and>
        (\<forall>m\<in>set ms. v_messages v (msg_ID m) = Some m \<and> msg_DeletedAt m = None))"
  unfolding MessageStore_Search_def sqlite_view_def
proof (rule sq.law_message_search)
  fix d :: "int db" and xs
  assume eng: "engine_ok eng"
    and q: "(case eng_fts eng q of Inl e \<Rightarrow> Inl e
      | Inr match \<Rightarrow> Inr (map scanMessage (sql_limit l (sort_key (\<lambda>r. - mr_ts r) (eng_scan eng
         (filter (\<lambda>r. match (mr_body r) \<noteq> None \<and> mr_deleted_at r = None) (t_messages d))))))) = Inr xs"
  then obtain f where f: "eng_fts eng q = Inr f"
    by (cases "eng_fts eng q") simp_all
  let ?ys = "sort_key (\<lambda>r. - mr_ts r) (eng_scan eng
     (filter (\<lambda>r. f (mr_body r) \<noteq> None \<and> mr_deleted_at r = None) (t_messages d)))"
  have "xs = map scanMessage (take (nat l) ?ys)"
    using q assms unfolding f by (simp add: sql_limit_def del: not_None_eq)
  moreover have "mset ?ys = mset (filter (\<lambda>r. f (mr_body r) \<noteq> None \<and> mr_deleted_at r = None) (t_messages d))"
    using eng by (simp add: engine_ok_def del: not_None_eq)
  ultimately show "\<exists>P ys. xs = map scanMessage (take (nat l) ys)
      \<and> mset ys = mset (filter (\<lambda>r. P r \<and> mr_deleted_at r = None) (t_messages d))"
    by (intro exI [of _ "\<lambda>r. f (mr_body r) \<noteq> None"] exI [of _ ?ys] conjI)
qed

interpretation sqlite: bundle_laws "conn_inv eng" sqlite_view quiet to_seconds "\<lambda>_. True"
    "map_option to_seconds" "sqlite_bundle eng" for eng
proof unfold_locales
  show "view_ok (sqlite_view c)" if "conn_inv eng c" for c
    using that sq.view_ok_V by (simp add: conn_inv_def sqlite_view_def conn_view_def)
next
  show "write_law (conn_inv eng) sqlite_view quiet (cst_Put (b_Chats (sqlite_bundle eng)) c) (\<lambda>_. True)
      (abs_put_chat to_seconds c)" for c
    using sq.law_chat_put [OF scanChat_args, where g = True]
    by (simp add: sqlite_bundle_def sqlite_view_def ChatStore_Put_def chat_args_def)
next
  show "write_law (conn_inv eng) sqlite_view quiet (cst_SetArchived (b_Chats (sqlite_bundle eng)) j a) (\<lambda>_. True)
      (abs_set_archived j a)" for j a
    using sq.law_chat_archive [of "boolToInt a" a]
    by (simp add: sqlite_bundle_def sqlite_view_def ChatStore_SetArchived_def scanChat_def boolToInt_def)
next
  show "list_law (conn_inv eng) sqlite_view quiet (mst_ListByChat (b_Messages (sqlite_bundle eng)) chat l before)
      (\<lambda>v. is_page (listable to_seconds chat before v) (\<lambda>m. - msg_Timestamp m) (nat l))" if "0 \<le> l" for chat l before
    using that sq.law_message_list [of eng _ "nat l" chat before]
    by (simp add: sqlite_bundle_def sqlite_view_def MessageStore_ListByChat_def sql_limit_def)
next
  show "read_law (conn_inv eng) sqlite_view quiet (est_SinceSeq (b_Events (sqlite_bundle eng)) s l)
      (\<lambda>v. Inr (take (nat l) (filter (\<lambda>e. s < ev_Seq e) (v_log v))))" if "0 \<le> l" for s l
    using that sq.law_event_since [of eng _ "nat l" s]
    by (simp add: sqlite_bundle_def sqlite_view_def EventsLog_SinceSeq_def sql_limit_def)
next
  show "conn_inv eng c' \<and> (quiet c \<longrightarrow> quiet c') \<and>
      (r = Inr (v_next (sqlite_view c)) \<and> sqlite_view c' = abs_append to_seconds e (sqlite_view c)
       \<or> \<not> quiet c \<and> sqlite_view c' = sqlite_view c \<and> (\<exists>er. r = Inl er \<and> err_kind_of er = EOther))"
    if "conn_inv eng c" "est_Append (b_Events (sqlite_bundle eng)) e c = (r, c')" for c e r c'
    using that sq.law_event_append [of eng c _ e r c']
    by (simp add: sqlite_bundle_def sqlite_view_def EventsLog_Append_def)
qed (simp_all del: not_None_eq add: sqlite_bundle_def sqlite_chat_list sqlite_contact_search sqlite_message_search,
    simp_all del: not_None_eq add: sqlite_view_def sqlite_store_defs sq.law_chat_get sq.law_chat_count sq.law_chat_unread
      sq.law_message_put [OF scanMessage_args] sq.law_message_get sq.law_soft_delete sq.law_message_count
      sq.law_contact_put [OF scanContact_args] sq.law_contact_get sq.law_contact_list sq.law_contact_count
      sq.law_media_put sq.law_media_get sq.law_kv_get sq.law_kv_set sq.law_kv_delete
      sq.law_reaction_put sq.law_reaction_delete sq.law_reaction_list
      sq.law_receipt_put sq.law_receipt_list)

end
