(* ===== verification/Store_Postgres.thy ===== *)
theory Store_Postgres
  imports Store_Sqlite
begin

text \<open>
  internal/store/postgres: the app store over Postgres. A time column is a TIMESTAMPTZ, which
  keeps what \<open>eng_ts\<close> keeps of an instant; \<open>unread_count\<close> is an int4, which the driver refuses
  outside its range; a negative LIMIT is an error; ORDER BY on a text follows the collation
  of the database. \<open>postgres_bundle\<close> obeys the same laws as the SQLite one, with
  \<open>int4_range\<close> as the guard of a chat and \<open>pg_opt\<close> for optional times (\<open>ptrTimeOrNil\<close>
  also drops a zero time).
\<close>

section \<open>Conversions\<close>

definition timeOrNil :: "time \<Rightarrow> time option" where
  "timeOrNil t = (if IsZero t then None else Some t)"

definition ptrTimeOrNil :: "time option \<Rightarrow> time option" where
  "ptrTimeOrNil t = (case t of None \<Rightarrow> None | Some t \<Rightarrow> if IsZero t then None else Some t)"

text \<open>\<open>t.UTC()\<close> is the same instant.\<close>

definition UTC :: "time \<Rightarrow> time" where
  "UTC t = t"

definition pg_nullableString :: "string \<Rightarrow> string option" where
  "pg_nullableString s = (if s = '''' then None else Some s)"

definition int4_range :: "int \<Rightarrow> bool" where
  "int4_range n \<longleftrightarrow> - (2 ^ 31) \<le> n \<and> n < 2 ^ 31"

text \<open>A deterministic collation breaks ties on the bytes.\<close>

definition pg_order :: "engine \<Rightarrow> string \<Rightarrow> string \<times> string" where
  "pg_order eng s = (eng_collate eng s, s)"

definition pg_limit :: "engine \<Rightarrow> int \<Rightarrow> ('r \<Rightarrow> 'a) \<Rightarrow> 'r list \<Rightarrow> string + 'a list" where
  "pg_limit eng l f rows = (if l < 0 then Inl (eng_limit_msg eng) else Inr (map f (take (nat l) rows)))"

definition pg_opt :: "engine \<Rightarrow> time option \<Rightarrow> time option" where
  "pg_opt eng t = map_option (eng_ts eng) (ptrTimeOrNil t)"

section \<open>chats.go\<close>

definition pg_scanChat :: "bool chat_row \<Rightarrow> chat" where
  "pg_scanChat r = \<lparr>chat_JID = cr_jid r, chat_Name = null_string (cr_name r), chat_Kind = cr_kind r,
     chat_LastMsgAt = (case cr_last r of None \<Rightarrow> time_zero | Some t \<Rightarrow> UTC t),
     chat_UnreadCount = cr_unread r, chat_Archived = cr_archived r\<rparr>"

definition pg_chat_args :: "engine \<Rightarrow> chat \<Rightarrow> bool chat_row" where
  "pg_chat_args eng c = \<lparr>cr_jid = chat_JID c, cr_name = Some (chat_Name c), cr_kind = chat_Kind c,
     cr_last = map_option (eng_ts eng) (timeOrNil (chat_LastMsgAt c)), cr_unread = chat_UnreadCount c,
     cr_archived = chat_Archived c\<rparr>"

definition pg_ChatStore_Put :: "engine \<Rightarrow> chat \<Rightarrow> bool conn \<Rightarrow> goerr option \<times> bool conn" where
  "pg_ChatStore_Put eng c = exec ''chats put''
     (\<lambda>d. if int4_range (chat_UnreadCount c) then upsert_chat (pg_chat_args eng c) d else Inl (eng_range_msg eng))"

definition pg_ChatStore_Get :: "string \<Rightarrow> bool conn \<Rightarrow> (goerr + chat) \<times> bool conn" where
  "pg_ChatStore_Get jid = query_row ''chats get''
     (\<lambda>d. map_option pg_scanChat (find_key cr_jid jid (t_chats d)))"

definition pg_ChatStore_List :: "engine \<Rightarrow> time \<Rightarrow> int \<Rightarrow> bool \<Rightarrow> bool conn \<Rightarrow> (goerr + chat list) \<times> bool conn" where
  "pg_ChatStore_List eng beforeMsgAt limit includeArchived = query_rows ''chats list'' (\<lambda>d.
     pg_limit eng limit pg_scanChat (sort_key (chat_order (pg_order eng))
       (filter (\<lambda>r. (includeArchived \<or> \<not> cr_archived r)
          \<and> (IsZero beforeMsgAt \<or> (case cr_last r of None \<Rightarrow> False | Some t \<Rightarrow> t < eng_ts eng beforeMsgAt)))
        (t_chats d))))"

definition pg_ChatStore_SetArchived :: "string \<Rightarrow> bool \<Rightarrow> bool conn \<Rightarrow> goerr option \<times> bool conn" where
  "pg_ChatStore_SetArchived jid archived = exec ''chats set_archived'' (update_archived jid archived)"

definition pg_ChatStore_Count :: "bool conn \<Rightarrow> (goerr + int) \<times> bool conn" where
  "pg_ChatStore_Count = query_val ''chats count'' (\<lambda>d. int (length (t_chats d)))"

definition pg_ChatStore_TotalUnread :: "bool conn \<Rightarrow> (goerr + int) \<times> bool conn" where
  "pg_ChatStore_TotalUnread = query_val ''chats total_unread'' (\<lambda>d. sum_list (map cr_unread (t_chats d)))"

section \<open>contacts.go\<close>

definition pg_scanContact :: "contact_row \<Rightarrow> contact" where
  "pg_scanContact r = \<lparr>con_JID = or_jid r, con_PushName = null_string (or_push_name r),
     con_FullName = null_string (or_full_name r), con_BusinessName = null_string (or_business_name r)\<rparr>"

definition pg_contact_args :: "contact \<Rightarrow> contact_row" where
  "pg_contact_args c = \<lparr>or_jid = con_JID c, or_push_name = pg_nullableString (con_PushName c),
     or_full_name = pg_nullableString (con_FullName c), or_business_name = pg_nullableString (con_BusinessName c)\<rparr>"

definition pg_ContactStore_Put :: "contact \<Rightarrow> bool conn \<Rightarrow> goerr option \<times> bool conn" where
  "pg_ContactStore_Put c = exec ''contacts put'' (upsert_contact (pg_contact_args c))"

definition pg_ContactStore_Get :: "string \<Rightarrow> bool conn \<Rightarrow> (goerr + contact) \<times> bool conn" where
  "pg_ContactStore_Get jid = query_row ''contacts get''
     (\<lambda>d. map_option pg_scanContact (find_key or_jid jid (t_contacts d)))"

definition pg_ContactStore_List :: "engine \<Rightarrow> bool conn \<Rightarrow> (goerr + contact list) \<times> bool conn" where
  "pg_ContactStore_List eng = query_rows ''contacts list'' (\<lambda>d.
     Inr (map pg_scanContact (sort_key (\<lambda>r. pg_order eng (or_jid r)) (t_contacts d))))"

text \<open>In Postgres a backslash escapes in \<open>LIKE\<close>.\<close>

definition pg_contact_matches :: "engine \<Rightarrow> string \<Rightarrow> contact_row \<Rightarrow> bool" where
  "pg_contact_matches eng pat r =
     (let hit = (\<lambda>col. like (Some 92) (code_points pat) (code_points (eng_lower eng (null_string col))))
      in hit (or_push_name r) \<or> hit (or_full_name r) \<or> hit (or_business_name r))"

definition pg_ContactStore_Search :: "engine \<Rightarrow> string \<Rightarrow> int \<Rightarrow> bool conn \<Rightarrow> (goerr + contact list) \<times> bool conn" where
  "pg_ContactStore_Search eng query limit =
     (let pat = ''%'' @ ToLower (eng_ul eng) query @ ''%'' in
      query_rows ''contacts search'' (\<lambda>d.
        pg_limit eng limit pg_scanContact (sort_key (\<lambda>r. pg_order eng (or_jid r))
          (filter (pg_contact_matches eng pat) (t_contacts d)))))"

definition pg_ContactStore_Count :: "bool conn \<Rightarrow> (goerr + int) \<times> bool conn" where
  "pg_ContactStore_Count = query_val ''contacts count'' (\<lambda>d. int (length (t_contacts d)))"

section \<open>messages.go\<close>

definition pg_scanMessage :: "message_row \<Rightarrow> message" where
  "pg_scanMessage r = \<lparr>msg_ID = mr_id r, msg_ChatJID = mr_chat_jid r, msg_SenderJID = mr_sender_jid r,
     msg_Timestamp = UTC (mr_ts r), msg_Kind = mr_kind r, msg_Body = null_string (mr_body r),
     msg_ReplyTo = null_string (mr_reply_to r),
     msg_EditedAt = (case mr_edited_at r of None \<Rightarrow> None | Some t \<Rightarrow> Some (UTC t)),
     msg_DeletedAt = (case mr_deleted_at r of None \<Rightarrow> None | Some t \<Rightarrow> Some (UTC t)),
     msg_RawMeta = null_string (mr_raw_meta r)\<rparr>"

definition pg_message_args :: "engine \<Rightarrow> message \<Rightarrow> message_row" where
  "pg_message_args eng m = \<lparr>mr_id = msg_ID m, mr_chat_jid = msg_ChatJID m, mr_sender_jid = msg_SenderJID m,
     mr_ts = eng_ts eng (msg_Timestamp m), mr_kind = msg_Kind m, mr_body = pg_nullableString (msg_Body m),
     mr_reply_to = pg_nullableString (msg_ReplyTo m), mr_edited_at = map_option (eng_ts eng) (ptrTimeOrNil (msg_EditedAt m)),
     mr_deleted_at = map_option (eng_ts eng) (ptrTimeOrNil (msg_DeletedAt m)), mr_raw_meta = pg_nullableString (msg_RawMeta m)\<rparr>"

definition pg_MessageStore_Put :: "engine \<Rightarrow> message \<Rightarrow> bool conn \<Rightarrow> goerr option \<times> bool conn" where
  "pg_MessageStore_Put eng m = exec ''messages put'' (upsert_message eng (pg_message_args eng m))"

definition pg_MessageStore_Get :: "string \<Rightarrow> bool conn \<Rightarrow> (goerr + message) \<times> bool conn" where
  "pg_MessageStore_Get i = query_row ''messages get''
     (\<lambda>d. map_option pg_scanMessage (find_key mr_id i (t_messages d)))"

definition pg_MessageStore_ListByChat ::
    "engine \<Rightarrow> string \<Rightarrow> int \<Rightarrow> time \<Rightarrow> bool conn \<Rightarrow> (goerr + message list) \<times> bool conn" where
  "pg_MessageStore_ListByChat eng chatJID limit beforeTS = query_rows ''messages list_by_chat'' (\<lambda>d.
     pg_limit eng limit pg_scanMessage (sort_key (\<lambda>r. - mr_ts r) (eng_scan eng
       (filter (\<lambda>r. mr_chat_jid r = chatJID \<and> mr_deleted_at r = None
          \<and> (IsZero beforeTS \<or> mr_ts r < eng_ts eng beforeTS)) (t_messages d)))))"

definition pg_MessageStore_Search :: "engine \<Rightarrow> string \<Rightarrow> int \<Rightarrow> bool conn \<Rightarrow> (goerr + message list) \<times> bool conn" where
  "pg_MessageStore_Search eng query limit = query_rows ''messages search'' (\<lambda>d.
     case eng_fts eng query of
       Inl e \<Rightarrow> Inl e
     | Inr match \<Rightarrow> pg_limit eng limit pg_scanMessage
         (sort_key (\<lambda>r. (- the (match (mr_body r)), - mr_ts r)) (eng_scan eng
           (filter (\<lambda>r. match (mr_body r) \<noteq> None \<and> mr_deleted_at r = None) (t_messages d)))))"

definition pg_MessageStore_SoftDelete :: "engine \<Rightarrow> string \<Rightarrow> time \<Rightarrow> bool conn \<Rightarrow> goerr option \<times> bool conn" where
  "pg_MessageStore_SoftDelete eng i when = exec ''messages soft_delete'' (update_deleted_at i (eng_ts eng when))"

definition pg_MessageStore_Count :: "bool conn \<Rightarrow> (goerr + int) \<times> bool conn" where
  "pg_MessageStore_Count = query_val ''messages count''
     (\<lambda>d. int (length (filter (\<lambda>r. mr_deleted_at r = None) (t_messages d))))"

section \<open>media.go, events_log.go, kv.go, reactions.go, receipts.go\<close>

definition pg_MediaStore_Put :: "engine \<Rightarrow> media_ref \<Rightarrow> bool conn \<Rightarrow> goerr option \<times> bool conn" where
  "pg_MediaStore_Put eng m = exec ''media put'' (upsert_media eng (bind_media m))"

definition pg_MediaStore_GetByMessageID :: "string \<Rightarrow> bool conn \<Rightarrow> (goerr + media_ref) \<times> bool conn" where
  "pg_MediaStore_GetByMessageID messageID = query_row ''media get''
     (\<lambda>d. map_option scan_media (find_key dr_message_id messageID (t_media d)))"

definition pg_EventsLog_Append :: "engine \<Rightarrow> event_log_entry \<Rightarrow> bool conn \<Rightarrow> (goerr + int) \<times> bool conn" where
  "pg_EventsLog_Append eng e = exec_id ''events_log append''
     (insert_event (eng_ts eng (ev_Time e)) (ev_Type e) (ev_Payload e))"

definition pg_EventsLog_SinceSeq :: "engine \<Rightarrow> int \<Rightarrow> int \<Rightarrow> bool conn \<Rightarrow> (goerr + event_log_entry list) \<times> bool conn" where
  "pg_EventsLog_SinceSeq eng seq limit = query_rows ''events_log since_seq'' (\<lambda>d.
     pg_limit eng limit (scan_event UTC) (sort_key er_seq
       (filter (\<lambda>r. seq < er_seq r) (t_events d))))"

definition pg_KVStore_Get :: "string \<Rightarrow> bool conn \<Rightarrow> (goerr + string) \<times> bool conn" where
  "pg_KVStore_Get key = query_row ''kv get'' (\<lambda>d. map_option snd (find_key fst key (t_kv d)))"

definition pg_KVStore_Set :: "string \<Rightarrow> string \<Rightarrow> bool conn \<Rightarrow> goerr option \<times> bool conn" where
  "pg_KVStore_Set key x = exec ''kv set'' (upsert_kv key x)"

definition pg_KVStore_Delete :: "string \<Rightarrow> bool conn \<Rightarrow> goerr option \<times> bool conn" where
  "pg_KVStore_Delete key = exec ''kv delete'' (delete_kv key)"

definition pg_ReactionStore_Put :: "engine \<Rightarrow> reaction \<Rightarrow> bool conn \<Rightarrow> goerr option \<times> bool conn" where
  "pg_ReactionStore_Put eng r = exec ''reactions put'' (upsert_reaction eng (bind_reaction (eng_ts eng) r))"

definition pg_ReactionStore_Delete :: "string \<Rightarrow> string \<Rightarrow> bool conn \<Rightarrow> goerr option \<times> bool conn" where
  "pg_ReactionStore_Delete messageID senderJID = exec ''reactions delete'' (delete_reaction messageID senderJID)"

definition pg_ReactionStore_ListByMessageID :: "engine \<Rightarrow> string \<Rightarrow> bool conn \<Rightarrow> (goerr + reaction list) \<times> bool conn" where
  "pg_ReactionStore_ListByMessageID eng messageID = query_rows ''reactions list'' (\<lambda>d.
     Inr (map (scan_reaction UTC) (sort_key (\<lambda>r. pg_order eng (rr_sender_jid r))
       (filter (\<lambda>r. rr_message_id r = messageID) (t_reactions d)))))"

definition pg_ReceiptStore_Put :: "engine \<Rightarrow> receipt \<Rightarrow> bool conn \<Rightarrow> goerr option \<times> bool conn" where
  "pg_ReceiptStore_Put eng r = exec ''receipts put'' (upsert_receipt eng (bind_receipt (eng_ts eng) r))"

definition pg_ReceiptStore_ListByMessageID :: "engine \<Rightarrow> string \<Rightarrow> bool conn \<Rightarrow> (goerr + receipt list) \<times> bool conn" where
  "pg_ReceiptStore_ListByMessageID eng messageID = query_rows ''receipts list'' (\<lambda>d.
     Inr (map (scan_receipt UTC) (sort_key (\<lambda>r. (pg_order eng (pr_reader_jid r), pg_order eng (pr_type r)))
       (filter (\<lambda>r. pr_message_id r = messageID) (t_receipts d)))))"

section \<open>store.go\<close>

text \<open>\<open>Bundle\<close> hands out the eight stores.\<close>

definition postgres_bundle :: "engine \<Rightarrow> bool conn store_bundle" where
  "postgres_bundle eng = \<lparr>
     b_Chats = \<lparr>cst_Put = pg_ChatStore_Put eng, cst_Get = pg_ChatStore_Get, cst_List = pg_ChatStore_List eng,
       cst_SetArchived = pg_ChatStore_SetArchived, cst_Count = pg_ChatStore_Count,
       cst_TotalUnread = pg_ChatStore_TotalUnread\<rparr>,
     b_Messages = \<lparr>mst_Put = pg_MessageStore_Put eng, mst_Get = pg_MessageStore_Get,
       mst_ListByChat = pg_MessageStore_ListByChat eng, mst_Search = pg_MessageStore_Search eng,
       mst_SoftDelete = pg_MessageStore_SoftDelete eng, mst_Count = pg_MessageStore_Count\<rparr>,
     b_Contacts = \<lparr>ost_Put = pg_ContactStore_Put, ost_Get = pg_ContactStore_Get, ost_List = pg_ContactStore_List eng,
       ost_Search = pg_ContactStore_Search eng, ost_Count = pg_ContactStore_Count\<rparr>,
     b_Media = \<lparr>dst_Put = pg_MediaStore_Put eng, dst_GetByMessageID = pg_MediaStore_GetByMessageID\<rparr>,
     b_Events = \<lparr>est_Append = pg_EventsLog_Append eng, est_SinceSeq = pg_EventsLog_SinceSeq eng\<rparr>,
     b_KV = \<lparr>kst_Get = pg_KVStore_Get, kst_Set = pg_KVStore_Set, kst_Delete = pg_KVStore_Delete\<rparr>,
     b_Reactions = \<lparr>rst_Put = pg_ReactionStore_Put eng, rst_Delete = pg_ReactionStore_Delete,
       rst_ListByMessageID = pg_ReactionStore_ListByMessageID eng\<rparr>,
     b_Receipts = \<lparr>pst_Put = pg_ReceiptStore_Put eng, pst_ListByMessageID = pg_ReceiptStore_ListByMessageID eng\<rparr>\<rparr>"

definition postgres_view :: "bool conn \<Rightarrow> store_view" where
  "postgres_view = conn_view pg_scanChat pg_scanMessage pg_scanContact UTC"

section \<open>What a row gives back\<close>

lemma pg_scanChat_args: "pg_scanChat (pg_chat_args eng c) = norm_chat (eng_ts eng) c"
  by (simp add: pg_scanChat_def pg_chat_args_def norm_chat_def timeOrNil_def UTC_def)

lemma pg_scanMessage_args:
  "pg_scanMessage (pg_message_args eng m) = norm_message (eng_ts eng) (pg_opt eng) m"
  by (simp add: pg_scanMessage_def pg_message_args_def norm_message_def pg_opt_def UTC_def
      pg_nullableString_def null_string_def split: option.splits)

lemma pg_scanContact_args: "pg_scanContact (pg_contact_args c) = c"
  by (simp add: pg_scanContact_def pg_contact_args_def pg_nullableString_def null_string_def)

interpretation pgrow: row_codec pg_scanChat pg_scanMessage pg_scanContact UTC "eng_ts eng" "eng_ts eng" for eng
  by unfold_locales (simp_all add: pg_scanChat_def pg_scanMessage_def pg_scanContact_def UTC_def split: option.splits)

section \<open>The laws hold\<close>

lemmas pg_store_defs =
  pg_ChatStore_Get_def pg_ChatStore_Count_def
  pg_ChatStore_TotalUnread_def pg_MessageStore_Put_def pg_MessageStore_Get_def
  pg_MessageStore_SoftDelete_def pg_MessageStore_Count_def pg_ContactStore_Put_def
  pg_ContactStore_Get_def pg_ContactStore_List_def pg_ContactStore_Count_def
  pg_MediaStore_Put_def pg_MediaStore_GetByMessageID_def
  pg_KVStore_Get_def pg_KVStore_Set_def pg_KVStore_Delete_def pg_ReactionStore_Put_def
  pg_ReactionStore_Delete_def pg_ReactionStore_ListByMessageID_def pg_ReceiptStore_Put_def
  pg_ReceiptStore_ListByMessageID_def

lemma pg_limit_Inr: "pg_limit eng l f rows = Inr xs \<Longrightarrow> xs = map f (take (nat l) rows) \<and> 0 \<le> l"
  by (simp add: pg_limit_def split: if_splits)

lemma taken_rows:
  assumes "keyed key xs"
  shows "distinct (take n (sort_key k (filter P xs)))"
    "set (take n (sort_key k (filter P xs))) \<subseteq> set xs"
  using keyed_distinct [OF assms] by (auto dest: in_set_takeD)

lemma pg_chat_list:
  "list_law (conn_inv eng) postgres_view quiet (pg_ChatStore_List eng before l arch)
     (\<lambda>v cs. distinct cs \<and> (\<forall>c\<in>set cs. v_chats v (chat_JID c) = Some c))"
  unfolding pg_ChatStore_List_def postgres_view_def
proof (rule query_rows_law)
  fix d :: "bool db" and xs
  let ?P = "\<lambda>r. (arch \<or> \<not> cr_archived r)
      \<and> (IsZero before \<or> (case cr_last r of None \<Rightarrow> False | Some t \<Rightarrow> t < eng_ts eng before))"
  assume ok: "db_ok d"
    and "pg_limit eng l pg_scanChat (sort_key (chat_order (pg_order eng)) (filter ?P (t_chats d))) = Inr xs"
  then have xs: "xs = map pg_scanChat (take (nat l) (sort_key (chat_order (pg_order eng)) (filter ?P (t_chats d))))"
    using pg_limit_Inr by blast
  have k: "keyed cr_jid (t_chats d)" using ok by (simp add: db_ok_def)
  show "distinct xs \<and> (\<forall>c\<in>set xs. v_chats (pgrow.V d) (chat_JID c) = Some c)"
    unfolding xs using pgrow.scan_chats [OF ok taken_rows(2,1) [OF k]] by blast
qed

lemma pg_contact_search:
  "list_law (conn_inv eng) postgres_view quiet (pg_ContactStore_Search eng q l)
     (\<lambda>v cs. distinct cs \<and> set cs \<subseteq> ran (v_contacts v))"
  unfolding pg_ContactStore_Search_def Let_def postgres_view_def
proof (rule query_rows_law)
  fix d :: "bool db" and xs
  let ?P = "pg_contact_matches eng (''%'' @ ToLower (eng_ul eng) q @ ''%'')"
  let ?R = "take (nat l) (sort_key (\<lambda>r. pg_order eng (or_jid r)) (filter ?P (t_contacts d)))"
  assume ok: "db_ok d" and "pg_limit eng l pg_scanContact
      (sort_key (\<lambda>r. pg_order eng (or_jid r)) (filter ?P (t_contacts d))) = Inr xs"
  then have xs: "xs = map pg_scanContact ?R" using pg_limit_Inr by blast
  have k: "keyed or_jid (t_contacts d)" using ok by (simp add: db_ok_def)
  show "distinct xs \<and> set xs \<subseteq> ran (v_contacts (pgrow.V d))"
    unfolding xs using pgrow.scan_contacts [OF ok taken_rows(2,1) [OF k]] by blast
qed

lemma pg_message_search:
  "list_law (conn_inv eng) postgres_view quiet (pg_MessageStore_Search eng q l)
     (\<lambda>v ms. distinct ms \<and> length ms \<le> nat l \<and>
        (\<forall>m\<in>set ms. v_messages v (msg_ID m) = Some m \<and> msg_DeletedAt m = None))"
  unfolding pg_MessageStore_Search_def postgres_view_def
proof (rule pgrow.law_message_search)
  fix d :: "bool db" and xs
  assume eng: "engine_ok eng"
    and q: "(case eng_fts eng q of Inl e \<Rightarrow> Inl e
      | Inr match \<Rightarrow> pg_limit eng l pg_scanMessage
         (sort_key (\<lambda>r. (- the (match (mr_body r)), - mr_ts r)) (eng_scan eng
           (filter (\<lambda>r. match (mr_body r) \<noteq> None \<and> mr_deleted_at r = None) (t_messages d))))) = Inr xs"
  then obtain f where f: "eng_fts eng q = Inr f"
    by (cases "eng_fts eng q") simp_all
  let ?ys = "sort_key (\<lambda>r. (- the (f (mr_body r)), - mr_ts r)) (eng_scan eng
     (filter (\<lambda>r. f (mr_body r) \<noteq> None \<and> mr_deleted_at r = None) (t_messages d)))"
  have "pg_limit eng l pg_scanMessage ?ys = Inr xs"
    using q unfolding f by (simp del: not_None_eq)
  then have "xs = map pg_scanMessage (take (nat l) ?ys)" using pg_limit_Inr by blast
  moreover have "mset ?ys = mset (filter (\<lambda>r. f (mr_body r) \<noteq> None \<and> mr_deleted_at r = None) (t_messages d))"
    using eng by (simp add: engine_ok_def del: not_None_eq)
  ultimately show "\<exists>P ys. xs = map pg_scanMessage (take (nat l) ys)
      \<and> mset ys = mset (filter (\<lambda>r. P r \<and> mr_deleted_at r = None) (t_messages d))"
    by (intro exI [of _ "\<lambda>r. f (mr_body r) \<noteq> None"] exI [of _ ?ys] conjI)
qed

interpretation postgres: bundle_laws "conn_inv eng" postgres_view quiet "eng_ts eng"
    "\<lambda>c. int4_range (chat_UnreadCount c)" "pg_opt eng" "postgres_bundle eng" for eng
proof unfold_locales
  show "view_ok (postgres_view c)" if "conn_inv eng c" for c
    using that pgrow.view_ok_V by (simp add: conn_inv_def postgres_view_def conn_view_def)
next
  show "write_law (conn_inv eng) postgres_view quiet (cst_Put (b_Chats (postgres_bundle eng)) c)
      (\<lambda>_. int4_range (chat_UnreadCount c)) (abs_put_chat (eng_ts eng) c)" for c
    using pgrow.law_chat_put [OF pg_scanChat_args, where g = "int4_range (chat_UnreadCount c)"]
    by (simp add: postgres_bundle_def postgres_view_def pg_ChatStore_Put_def pg_chat_args_def)
next
  show "write_law (conn_inv eng) postgres_view quiet (cst_SetArchived (b_Chats (postgres_bundle eng)) j a) (\<lambda>_. True)
      (abs_set_archived j a)" for j a
    using pgrow.law_chat_archive [of a a]
    by (simp add: postgres_bundle_def postgres_view_def pg_ChatStore_SetArchived_def pg_scanChat_def)
next
  show "list_law (conn_inv eng) postgres_view quiet (mst_ListByChat (b_Messages (postgres_bundle eng)) chat l before)
      (\<lambda>v. is_page (listable (eng_ts eng) chat before v) (\<lambda>m. - msg_Timestamp m) (nat l))" if "0 \<le> l" for chat l before
    using that pgrow.law_message_list [where n = "nat l" and chat = chat and before = before]
    by (simp add: postgres_bundle_def postgres_view_def pg_MessageStore_ListByChat_def pg_limit_def)
next
  show "read_law (conn_inv eng) postgres_view quiet (est_SinceSeq (b_Events (postgres_bundle eng)) s l)
      (\<lambda>v. Inr (take (nat l) (filter (\<lambda>e. s < ev_Seq e) (v_log v))))" if "0 \<le> l" for s l
    using that pgrow.law_event_since [where n = "nat l" and s = s]
    by (simp add: postgres_bundle_def postgres_view_def pg_EventsLog_SinceSeq_def pg_limit_def)
next
  show "conn_inv eng c' \<and> (quiet c \<longrightarrow> quiet c') \<and>
      (r = Inr (v_next (postgres_view c)) \<and> postgres_view c' = abs_append (eng_ts eng) e (postgres_view c)
       \<or> \<not> quiet c \<and> postgres_view c' = postgres_view c \<and> (\<exists>er. r = Inl er \<and> err_kind_of er = EOther))"
    if "conn_inv eng c" "est_Append (b_Events (postgres_bundle eng)) e c = (r, c')" for c e r c'
    using that pgrow.law_event_append [where e = e and c = c and r = r and c' = c']
    by (simp add: postgres_bundle_def postgres_view_def pg_EventsLog_Append_def)
qed (simp_all del: not_None_eq add: postgres_bundle_def pg_chat_list pg_contact_search pg_message_search,
    simp_all del: not_None_eq add: postgres_view_def pg_store_defs pgrow.law_chat_get pgrow.law_chat_count
      pgrow.law_chat_unread pgrow.law_message_put [OF pg_scanMessage_args] pgrow.law_message_get
      pgrow.law_soft_delete pgrow.law_message_count
      pgrow.law_contact_put [OF pg_scanContact_args] pgrow.law_contact_get pgrow.law_contact_list
      pgrow.law_contact_count pgrow.law_media_put pgrow.law_media_get pgrow.law_kv_get pgrow.law_kv_set
      pgrow.law_kv_delete pgrow.law_reaction_put pgrow.law_reaction_delete pgrow.law_reaction_list
      pgrow.law_receipt_put pgrow.law_receipt_list)

end
