(* ===== verification/Service_Laws.thy ===== *)
theory Service_Laws
  imports Service Store_Postgres
begin

text \<open>
  What the use cases guarantee over any store that keeps the contract \<open>bundle_laws\<close>. The
  relation \<open>good\<close> is what every operation keeps, whatever WhatsApp, the disk and the database do:
  the store stays well formed, the broadcaster keeps its invariant and does not panic, and
  the events appended to the log are published, in order, under the numbers they got.
\<close>

section \<open>The service over a lawful store\<close>

definition event_of :: "event_log_entry \<Rightarrow> sse_event" where
  "event_of e = \<lparr>se_Seq = ev_Seq e, se_Kind = ev_Type e, se_Payload = ev_Payload e\<rparr>"

fun publish_all :: "sse_event list \<Rightarrow> broadcaster \<Rightarrow> broadcaster option" where
  "publish_all [] b = Some b"
| "publish_all (e # es) b = (case Publish e b of None \<Rightarrow> None | Some b' \<Rightarrow> publish_all es b')"

lemma publish_all_append:
  "publish_all (xs @ ys) b = (case publish_all xs b of None \<Rightarrow> None | Some b' \<Rightarrow> publish_all ys b')"
  by (induction xs arbitrary: b) (auto split: option.splits)

text \<open>No chat of the store has a negative unread count.\<close>

definition unread_ok :: "store_view \<Rightarrow> bool" where
  "unread_ok v \<longleftrightarrow> (\<forall>j c. v_chats v j = Some c \<longrightarrow> 0 \<le> chat_UnreadCount c)"

definition world_ok :: "('d \<Rightarrow> bool) \<Rightarrow> ('d \<Rightarrow> store_view) \<Rightarrow> ('d, 'w) world \<Rightarrow> bool" where
  "world_ok dinv view w \<longleftrightarrow> dinv (w_db w) \<and> bc_ok (w_bc w) \<and> \<not> w_panic w \<and> unread_ok (view (w_db w))"

text \<open>Between two states: what was appended to the log is what was published, in the same order.\<close>

definition in_step :: "('d \<Rightarrow> store_view) \<Rightarrow> bool \<Rightarrow> ('d, 'w) world \<Rightarrow> ('d, 'w) world \<Rightarrow> bool" where
  "in_step view live w w' \<longleftrightarrow> (\<exists>new. v_log (view (w_db w')) = v_log (view (w_db w)) @ new
     \<and> (if live then publish_all (map event_of new) (w_bc w) = Some (w_bc w') else w_bc w' = w_bc w))"

lemma in_step_refl: "in_step view live w w"
  by (auto simp: in_step_def)

lemma in_step_trans: "in_step view live w1 w2 \<Longrightarrow> in_step view live w2 w3 \<Longrightarrow> in_step view live w1 w3"
  unfolding in_step_def by (auto simp: publish_all_append split: if_splits)

locale use_cases = bundle_laws dinv view calm nt chat_ok nopt B
  for dinv :: "'d \<Rightarrow> bool" and view and calm and nt and chat_ok and nopt and B +
  fixes S :: "('d, 'w) svc" and live :: bool
  assumes S_bundle [simp]: "s_bundle S = B"
    and S_emitter [simp]: "s_emitter S = Some (NewEmitter (Some (b_Events B)) live)"
begin

abbreviation W_ok where "W_ok \<equiv> world_ok dinv view"

definition good :: "('d, 'w) world \<Rightarrow> ('d, 'w) world \<Rightarrow> bool" where
  "good w w' \<longleftrightarrow> (W_ok w \<longrightarrow> W_ok w' \<and> (calm (w_db w) \<longrightarrow> calm (w_db w')) \<and> in_step view live w w')"

lemma good_refl: "good w w"
  by (simp add: good_def in_step_refl)

lemma good_trans: "good w1 w2 \<Longrightarrow> good w2 w3 \<Longrightarrow> good w1 w3"
  unfolding good_def using in_step_trans by blast

text \<open>Calls on the store that leave the event log alone.\<close>

definition db_op :: "('d \<Rightarrow> 'r \<times> 'd) \<Rightarrow> bool" where
  "db_op f \<longleftrightarrow> (\<forall>d r d'. dinv d \<longrightarrow> f d = (r, d') \<longrightarrow> dinv d' \<and> (calm d \<longrightarrow> calm d')
     \<and> v_log (view d') = v_log (view d) \<and> (unread_ok (view d) \<longrightarrow> unread_ok (view d')))"

lemma write_db_op:
  assumes "write_law dinv view calm f pre upd"
    "\<And>v. v_log (upd v) = v_log v \<and> (unread_ok v \<longrightarrow> unread_ok (upd v))"
  shows "db_op f"
  unfolding db_op_def
proof (intro allI impI)
  fix d r d'
  assume d: "dinv d" "f d = (r, d')"
  show "dinv d' \<and> (calm d \<longrightarrow> calm d') \<and> v_log (view d') = v_log (view d)
      \<and> (unread_ok (view d) \<longrightarrow> unread_ok (view d'))"
    by (rule write_lawE [OF assms(1) d(2,1)]) (simp_all add: assms(2))
qed

lemma read_db_op: "read_law dinv view calm f g \<Longrightarrow> db_op f"
  unfolding db_op_def read_law_def by metis

lemma list_db_op: "list_law dinv view calm f P \<Longrightarrow> db_op f"
  unfolding db_op_def list_law_def by metis

lemma db_ops [simp]:
  "0 \<le> chat_UnreadCount c \<Longrightarrow> db_op (cst_Put (b_Chats B) c)" "db_op (cst_Get (b_Chats B) j)" "db_op (cst_List (b_Chats B) t l a)"
  "db_op (cst_Count (b_Chats B))" "db_op (cst_TotalUnread (b_Chats B))"
  "db_op (cst_SetArchived (b_Chats B) j ar)" "db_op (mst_Put (b_Messages B) m)" "db_op (mst_Get (b_Messages B) i)"
  "db_op (mst_SoftDelete (b_Messages B) i t)" "db_op (mst_Count (b_Messages B))"
  "db_op (ost_Put (b_Contacts B) co)" "db_op (ost_List (b_Contacts B))"
  "db_op (ost_Search (b_Contacts B) q l)" "db_op (ost_Count (b_Contacts B))"
  "db_op (dst_Put (b_Media B) r)" "db_op (dst_GetByMessageID (b_Media B) i)"
  "db_op (rst_Put (b_Reactions B) re)" "db_op (rst_Delete (b_Reactions B) i s)"
  "db_op (rst_ListByMessageID (b_Reactions B) i)"
  "db_op (pst_Put (b_Receipts B) rc)" "db_op (pst_ListByMessageID (b_Receipts B) i)"
  by (rule write_db_op [OF chat_put] write_db_op [OF chat_archive] write_db_op [OF message_put] write_db_op [OF message_delete]
      write_db_op [OF contact_put] write_db_op [OF media_put] write_db_op [OF reaction_put]
      write_db_op [OF reaction_delete] write_db_op [OF receipt_put]
      read_db_op [OF chat_get] read_db_op [OF chat_count] read_db_op [OF chat_unread]
      read_db_op [OF message_get] read_db_op [OF message_count] read_db_op [OF contact_count]
      read_db_op [OF media_get]
      list_db_op [OF chat_list] list_db_op [OF contact_list] list_db_op [OF contact_search]
      list_db_op [OF reaction_list] list_db_op [OF receipt_list];
      simp add: abs_put_chat_def abs_put_message_def abs_soft_delete_def abs_put_contact_def
        abs_put_media_def abs_put_reaction_def abs_delete_reaction_def abs_put_receipt_def
        abs_set_archived_def unread_ok_def norm_chat_def split: option.split)+

lemma list_db_ops [simp]:
  "0 \<le> l \<Longrightarrow> db_op (mst_ListByChat (b_Messages B) j l t)" "0 \<le> l \<Longrightarrow> db_op (mst_Search (b_Messages B) q l)"
  using list_db_op message_list message_search by blast+

lemma good_on_db: "on_db f w = (r, w') \<Longrightarrow> db_op f \<Longrightarrow> good w0 w \<Longrightarrow> good w0 w'"
proof -
  assume f: "on_db f w = (r, w')" and op: "db_op f" and g: "good w0 w"
  obtain d where fd: "f (w_db w) = (r, d)" and w': "w' = w\<lparr>w_db := d\<rparr>" using f by (auto simp: on_db_def split: prod.splits)
  show "good w0 w'"
  proof (cases "dinv (w_db w)")
    case True
    note keep = op [unfolded db_op_def, rule_format, OF True fd]
    have "in_step view live w0 w' = in_step view live w0 w" by (simp add: in_step_def w' keep cong: if_cong)
    then show ?thesis using g keep by (simp add: good_def world_ok_def w')
  next
    case False
    then have "\<not> W_ok w0" using g by (auto simp: good_def world_ok_def)
    then show ?thesis by (simp add: good_def)
  qed
qed

lemma good_on_wa: "on_wa f w = (r, w') \<Longrightarrow> good w0 w \<Longrightarrow> good w0 w'"
  by (cases "f (w_wa w)") (auto simp: good_def on_wa_def world_ok_def in_step_def)

lemma good_on_fs: "on_fs f w = (r, w') \<Longrightarrow> good w0 w \<Longrightarrow> good w0 w'"
  unfolding good_def on_fs_def world_ok_def in_step_def by (auto split: prod.splits)

lemma good_time_Now: "time_Now w = (t, w') \<Longrightarrow> good w0 w \<Longrightarrow> good w0 w'"
  unfolding good_def time_Now_def world_ok_def in_step_def by auto

lemma good_warn: "good w0 w \<Longrightarrow> good w0 (warn m w)"
  unfolding good_def warn_def world_ok_def in_step_def by auto

lemma good_warn_if: "db_op f \<Longrightarrow> good w0 w \<Longrightarrow> good w0 (warn_if m (on_db f w))"
  using good_on_db good_warn by (fastforce simp: warn_if_def split: prod.splits option.splits)

lemma good_tasks: "good w0 w \<Longrightarrow> good w0 (w\<lparr>w_tasks := ts\<rparr>)"
  unfolding good_def world_ok_def in_step_def by auto

lemma good_emit_step: "good w (emit_json S k v w)"
proof (cases "W_ok w")
  case True
  then have d: "dinv (w_db w)" and b: "bc_ok (w_bc w)" and p: "\<not> w_panic w" "unread_ok (view (w_db w))"
    by (auto simp: world_ok_def)
  let ?w = "Emit (s_emitter S) k (PBytes (mustMarshal v)) w"
  have em: "s_emitter S = Some \<lparr>em_log = Some (b_Events B), em_live = live\<rparr>" by (simp add: NewEmitter_def)
  have "good w ?w"
  proof (cases rule: Emit_cases [OF d b em, of k "mustMarshal v", case_names ok fail])
    case (ok b')
    let ?e = "norm_event nt (v_next (view (w_db w)))
      \<lparr>ev_Seq = 0, ev_Time = w_clock w (w_tick w), ev_Type = k, ev_Payload = mustMarshal v\<rparr>"
    have "v_log (view (w_db ?w)) = v_log (view (w_db w)) @ [?e]" using ok(4) by (simp add: abs_append_def)
    moreover have "w_bc ?w = b'" "w_panic ?w = w_panic w" by (subst ok(1); simp)+
    moreover have "if live then publish_all (map event_of [?e]) (w_bc w) = Some b' else b' = w_bc w"
      using ok(5) by (simp add: event_of_def norm_event_def split: if_splits)
    moreover have "unread_ok (view (w_db ?w))" using ok(4) p(2) by (simp add: abs_append_def unread_ok_def)
    ultimately show ?thesis using ok(2,3,6) p unfolding good_def world_ok_def in_step_def by metis
  next
    case fail
    have "w_bc ?w = w_bc w" "w_panic ?w = w_panic w" by (subst fail(1); simp)+
    then show ?thesis using fail(2-4) p b unfolding good_def world_ok_def in_step_def
      by (intro impI conjI exI [of _ "[]"]) auto
  qed
  then show ?thesis by (simp add: emit_json_def)
qed (simp add: good_def)

lemma good_emit: "good w0 w \<Longrightarrow> good w0 (emit_json S k v w)"
  using good_trans good_emit_step by blast

lemmas good_intros = good_refl good_on_db good_on_wa good_on_fs good_time_Now good_warn good_warn_if
  good_tasks good_emit

lemma good_get_unread:
  assumes "on_db (cst_Get (b_Chats B) j) w = (Inr c, w')" "good w0 w" "W_ok w0"
  shows "0 \<le> chat_UnreadCount c"
proof -
  have ok: "W_ok w" using assms(2,3) by (simp add: good_def)
  then have d: "dinv (w_db w)" and u: "unread_ok (view (w_db w))" by (auto simp: world_ok_def)
  obtain d' where g: "cst_Get (b_Chats B) j (w_db w) = (Inr c, d')"
    using assms(1) by (auto simp: on_db_def split: prod.splits)
  have "Inr c = lookup (v_chats (view (w_db w)) j)"
    using chat_get [of j] g d unfolding read_law_def by blast
  then have "v_chats (view (w_db w)) j = Some c" by (metis lookup_Inr_iff)
  then show ?thesis using u by (auto simp: unread_ok_def)
qed

lemma good_if_ok: "(W_ok w \<Longrightarrow> good w w') \<Longrightarrow> good w w'"
  by (simp add: good_def)

lemma good_upsert_chat_on_send: "good w0 w \<Longrightarrow> good w0 (upsert_chat_on_send S j t m w)"
proof (rule good_if_ok)
  assume g: "good w0 w" and ok: "W_ok w0"
  obtain r w1 where r: "on_db (cst_Get (b_Chats B) j) w = (r, w1)" by fastforce
  have "good w0 w1" by (rule good_on_db [OF r _ g]) simp
  moreover have "0 \<le> chat_UnreadCount (case r of Inl e \<Rightarrow> new_chat j (ChatKindFromJID j) | Inr c \<Rightarrow> c)"
    using good_get_unread [OF _ g ok] r by (auto simp: new_chat_def split: sum.splits)
  ultimately show "good w0 (upsert_chat_on_send S j t m w)"
    by (auto simp: upsert_chat_on_send_def r Let_def intro!: good_warn_if)
qed

text \<open>One rule per construct of the handlers' bodies.\<close>

lemma good_pair: "good w0 w \<Longrightarrow> good w0 (snd (r, w))"
  by simp

lemma good_bind_db:
  assumes f: "db_op f" and g: "good w0 w"
    and k: "\<And>r w1. on_db f w = (r, w1) \<Longrightarrow> good w0 w1 \<Longrightarrow> good w0 (snd (K r w1))"
  shows "good w0 (snd (case_prod K (on_db f w)))"
proof -
  obtain r w1 where e: "on_db f w = (r, w1)" by fastforce
  show ?thesis using k [OF e good_on_db [OF e f g]] e by simp
qed

lemma good_bind_db_w:
  assumes f: "db_op f" and g: "good w0 w"
    and k: "\<And>r w1. on_db f w = (r, w1) \<Longrightarrow> good w0 w1 \<Longrightarrow> good w0 (K r w1)"
  shows "good w0 (case_prod K (on_db f w))"
proof -
  obtain r w1 where e: "on_db f w = (r, w1)" by fastforce
  show ?thesis using k [OF e good_on_db [OF e f g]] e by simp
qed

lemma good_bind_wa:
  assumes g: "good w0 w" and k: "\<And>r w1. good w0 w1 \<Longrightarrow> good w0 (snd (K r w1))"
  shows "good w0 (snd (case_prod K (on_wa q w)))"
proof -
  obtain r w1 where e: "on_wa q w = (r, w1)" by fastforce
  show ?thesis using k [OF good_on_wa [OF e g]] e by simp
qed

lemma good_bind_wa_w:
  assumes g: "good w0 w" and k: "\<And>r w1. good w0 w1 \<Longrightarrow> good w0 (K r w1)"
  shows "good w0 (case_prod K (on_wa q w))"
proof -
  obtain r w1 where e: "on_wa q w = (r, w1)" by fastforce
  show ?thesis using k [OF good_on_wa [OF e g]] e by simp
qed

lemma good_bind_fs:
  assumes g: "good w0 w" and k: "\<And>r w1. good w0 w1 \<Longrightarrow> good w0 (snd (K r w1))"
  shows "good w0 (snd (case_prod K (on_fs q w)))"
proof -
  obtain r w1 where e: "on_fs q w = (r, w1)" by fastforce
  show ?thesis using k [OF good_on_fs [OF e g]] e by simp
qed

lemma good_bind_fs_w:
  assumes g: "good w0 w" and k: "\<And>r w1. good w0 w1 \<Longrightarrow> good w0 (K r w1)"
  shows "good w0 (case_prod K (on_fs q w))"
proof -
  obtain r w1 where e: "on_fs q w = (r, w1)" by fastforce
  show ?thesis using k [OF good_on_fs [OF e g]] e by simp
qed

lemma good_bind_time:
  assumes g: "good w0 w" and k: "\<And>r w1. good w0 w1 \<Longrightarrow> good w0 (snd (K r w1))"
  shows "good w0 (snd (case_prod K (time_Now w)))"
proof -
  obtain r w1 where e: "time_Now w = (r, w1)" by fastforce
  show ?thesis using k [OF good_time_Now [OF e g]] e by simp
qed

lemma good_bind_time_w:
  assumes g: "good w0 w" and k: "\<And>r w1. good w0 w1 \<Longrightarrow> good w0 (K r w1)"
  shows "good w0 (case_prod K (time_Now w))"
proof -
  obtain r w1 where e: "time_Now w = (r, w1)" by fastforce
  show ?thesis using k [OF good_time_Now [OF e g]] e by simp
qed

lemma good_ret_db: "db_op f \<Longrightarrow> good w0 w \<Longrightarrow> good w0 (snd (on_db f w))"
  using good_on_db [OF surjective_pairing] .

lemma good_ret_wa: "good w0 w \<Longrightarrow> good w0 (snd (on_wa f' w))"
  using good_on_wa [OF surjective_pairing] .

lemma good_if:
  "(c \<Longrightarrow> good w0 (snd a)) \<Longrightarrow> (\<not> c \<Longrightarrow> good w0 (snd b)) \<Longrightarrow> good w0 (snd (if c then a else b))"
  "(c \<Longrightarrow> good w0 a') \<Longrightarrow> (\<not> c \<Longrightarrow> good w0 b') \<Longrightarrow> good w0 (if c then a' else b')"
  by simp_all

lemma good_sum:
  "(\<And>e. r = Inl e \<Longrightarrow> good w0 (snd (f1 e))) \<Longrightarrow> (\<And>x. r = Inr x \<Longrightarrow> good w0 (snd (f2 x))) \<Longrightarrow> good w0 (snd (case_sum f1 f2 r))"
  "(\<And>e. r = Inl e \<Longrightarrow> good w0 (h1 e)) \<Longrightarrow> (\<And>x. r = Inr x \<Longrightarrow> good w0 (h2 x)) \<Longrightarrow> good w0 (case_sum h1 h2 r)"
  by (simp_all split: sum.splits)

lemma good_option:
  "(r = None \<Longrightarrow> good w0 (snd a)) \<Longrightarrow> (\<And>x. r = Some x \<Longrightarrow> good w0 (snd (f2 x))) \<Longrightarrow> good w0 (snd (case_option a f2 r))"
  "(r = None \<Longrightarrow> good w0 b) \<Longrightarrow> (\<And>x. r = Some x \<Longrightarrow> good w0 (h2 x)) \<Longrightarrow> good w0 (case_option b h2 r)"
  by (simp_all split: option.splits)

lemma good_prod:
  "(\<And>a b. r = (a, b) \<Longrightarrow> good w0 (snd (F a b))) \<Longrightarrow> good w0 (snd (case_prod F r))"
  "(\<And>a b. r = (a, b) \<Longrightarrow> good w0 (H a b)) \<Longrightarrow> good w0 (case_prod H r)"
  by (simp_all split: prod.splits)

lemma validateLimit_None: "validateLimit l = None \<Longrightarrow> 0 \<le> l"
  by (simp add: validateLimit_def minLimit_def split: if_splits)

lemmas good_rules = good_pair good_bind_db good_bind_db_w good_bind_wa good_bind_wa_w good_bind_fs good_bind_fs_w
  good_bind_time good_bind_time_w good_ret_db good_ret_wa
  good_if good_sum good_option good_upsert_chat_on_send good_warn_if good_warn good_emit good_tasks good_prod good_refl

lemma good_SendText: "good w (snd (SendText S j t rt w))"
  unfolding SendText_def Let_def S_bundle by (assumption | rule good_rules | simp)+

lemma good_written:
  "(case wr of Inl e \<Rightarrow> ([], [], warn m w1) | Inr (sha, path) \<Rightarrow> (sha, path, w1)) = (a, b, w2) \<Longrightarrow>
   good w0 w1 \<Longrightarrow> good w0 w2"
  by (auto split: sum.splits prod.splits intro: good_warn)

lemma good_SendMedia: "good w (snd (SendMedia S req w))"
  unfolding SendMedia_def Let_def S_bundle
  by (assumption | rule good_rules | hypsubst | (erule good_written, assumption) | simp)+

lemma good_EditMessage: "good w (snd (EditMessage S i t w))"
  unfolding EditMessage_def Let_def S_bundle by (assumption | rule good_rules | simp)+

lemma good_DeleteMessage: "good w (snd (DeleteMessage S i w))"
  unfolding DeleteMessage_def Let_def S_bundle by (assumption | rule good_rules | simp)+

lemma good_SendReaction: "good w (snd (SendReaction S i e w))"
  unfolding SendReaction_def Let_def S_bundle by (assumption | rule good_rules | simp)+

lemma good_SendTyping: "good w (snd (SendTyping S j st w))"
  unfolding SendTyping_def Let_def S_bundle by (assumption | rule good_rules | simp)+

lemma good_CreateGroup: "good w (snd (CreateGroup S n ps w))"
  unfolding CreateGroup_def Let_def S_bundle by (assumption | rule good_rules | simp)+

lemma good_ListGroupMembers: "good w (snd (ListGroupMembers S j w))"
  unfolding ListGroupMembers_def Let_def S_bundle by (assumption | rule good_rules | simp)+

lemma good_UpdateGroupMembers: "good w (snd (UpdateGroupMembers S j a ps w))"
  unfolding UpdateGroupMembers_def Let_def S_bundle by (assumption | rule good_rules | simp)+

lemma good_LeaveGroup: "good w (snd (LeaveGroup S j w))"
  unfolding LeaveGroup_def Let_def S_bundle by (assumption | rule good_rules | simp)+

lemma good_GetChat: "good w (snd (GetChat S j w))"
  unfolding GetChat_def Let_def S_bundle by (assumption | rule good_rules | simp)+

lemma good_ListContacts: "good w (snd (ListContacts S w))"
  unfolding ListContacts_def Let_def S_bundle by (assumption | rule good_rules | simp)+

lemma good_GetMediaRef: "good w (snd (GetMediaRef S i w))"
  unfolding GetMediaRef_def Let_def S_bundle by (assumption | rule good_rules | simp)+

lemma good_ListReactions: "good w (snd (ListReactions S i w))"
  unfolding ListReactions_def Let_def S_bundle by (assumption | rule good_rules | simp)+

lemma good_ListReceipts: "good w (snd (ListReceipts S i w))"
  unfolding ListReceipts_def Let_def S_bundle by (assumption | rule good_rules | simp)+

lemma good_Stats: "good w (snd (Stats S w))"
  unfolding Stats_def Let_def S_bundle by (assumption | rule good_rules | simp)+

lemma good_svc_LoginQR: "good w (snd (svc_LoginQR S w))"
  unfolding svc_LoginQR_def Let_def S_bundle by (assumption | rule good_rules | simp)+

lemma good_svc_LoginPhone: "good w (snd (svc_LoginPhone S p w))"
  unfolding svc_LoginPhone_def Let_def S_bundle by (assumption | rule good_rules | simp)+

lemma good_svc_Logout: "good w (snd (svc_Logout S w))"
  unfolding svc_Logout_def Let_def S_bundle by (assumption | rule good_rules | simp)+

lemma good_ListChats: "good w (snd (ListChats S t l a w))"
  unfolding ListChats_def Let_def S_bundle
  by (assumption | rule good_rules | simp add: validateLimit_None)+

lemma good_ListMessages: "good w (snd (ListMessages S j t l w))"
  unfolding ListMessages_def Let_def S_bundle
  by (assumption | rule good_rules | simp add: validateLimit_None)+

lemma good_SearchMessages: "good w (snd (SearchMessages S q l w))"
  unfolding SearchMessages_def Let_def S_bundle
  by (assumption | rule good_rules | simp add: validateLimit_None)+

lemma good_SearchContacts: "good w (snd (SearchContacts S q l w))"
  unfolding SearchContacts_def Let_def S_bundle
  by (assumption | rule good_rules | simp add: validateLimit_None)+

lemma good_MarkMessageRead: "good w (snd (MarkMessageRead S i w))"
  unfolding MarkMessageRead_def Let_def S_bundle by (assumption | rule good_rules | simp)+

lemma good_incoming_reaction: "good w (incoming_reaction S m w)"
proof -
  have fin: "good w (case (case (r :: goerr option, w1) of (Some e, w) \<Rightarrow> (False, warn tt w) | (None, w) \<Rightarrow> (True, w))
      of (persisted, w) \<Rightarrow> if persisted then emit_json S k v w else w)" if "good w w1" for r w1 tt k v
    using that by (cases r) (auto intro: good_warn good_emit)
  obtain r1 w1 where 1: "on_db (rst_Delete (b_Reactions B) (in_ReactionTargetID m) (in_SenderJID m)) w = (r1, w1)"
    by fastforce
  obtain r2 w2 where 2: "on_db (rst_Put (b_Reactions B) \<lparr>rea_MessageID = in_ReactionTargetID m,
      rea_SenderJID = in_SenderJID m, rea_Emoji = in_ReactionEmoji m, rea_Timestamp = in_Timestamp m\<rparr>) w = (r2, w2)"
    by fastforce
  have "good w w1" "good w w2" using good_on_db [OF 1 _ good_refl] good_on_db [OF 2 _ good_refl] by simp_all
  then show ?thesis
    unfolding incoming_reaction_def Let_def S_bundle 1 2
    by (cases "in_ReactionEmoji m = []") (simp_all only: if_True if_False simp_thms fin)
qed

lemma good_incoming_revoke: "good w (incoming_revoke S m w)"
  unfolding incoming_revoke_def Let_def S_bundle by (assumption | rule good_rules | simp)+

lemma good_incoming_edit: "good w (incoming_edit S m w)"
  unfolding incoming_edit_def Let_def S_bundle by (assumption | rule good_rules | simp)+

lemma good_incoming_plain: "good w (incoming_plain S m w)"
proof (rule good_if_ok)
  assume ok: "W_ok w"
  define w1 where "w1 = (if in_PushName m \<noteq> [] then
       warn_if ''upsert contact on incoming failed'' (on_db (ost_Put (b_Contacts B)
         \<lparr>con_JID = in_SenderJID m, con_PushName = in_PushName m, con_FullName = [],
          con_BusinessName = []\<rparr>) w) else w)"
  have g1: "good w w1" unfolding w1_def by (assumption | rule good_rules | simp)+
  obtain r w2 where r: "on_db (cst_Get (b_Chats B) (in_ChatJID m)) w1 = (r, w2)" by fastforce
  have g2: "good w w2" by (rule good_on_db [OF r _ g1]) simp
  have u: "0 \<le> chat_UnreadCount (case r of Inl e \<Rightarrow> new_chat (in_ChatJID m) (in_ChatKind m) | Inr c \<Rightarrow> c)"
    using good_get_unread [OF _ g1 ok] r by (auto simp: new_chat_def split: sum.splits)
  show "good w (incoming_plain S m w)"
    unfolding incoming_plain_def Let_def S_bundle w1_def [symmetric] r case_prod_conv
    by (assumption | rule good_rules g2 | simp add: u split: option.split)+
qed

lemma good_handleIncoming: "good w (handleIncoming S m w)"
  by (simp add: handleIncoming_def good_incoming_reaction good_incoming_revoke good_incoming_edit good_incoming_plain)

lemma good_download: "good w0 w \<Longrightarrow> good w0 (downloadAndPersistMedia S i d w)"
  unfolding downloadAndPersistMedia_def S_bundle by (assumption | rule good_rules | simp)+

lemma good_put_receipts: "good w0 w \<Longrightarrow> good w0 (snd (put_receipts S r ids p w))"
proof (induction ids arbitrary: p w)
  case (Cons i ids)
  show ?case
    unfolding put_receipts.simps S_bundle
    by (assumption | rule good_rules Cons | simp)+
qed simp

lemma good_handleReceipt: "good w (handleReceipt S r w)"
  using good_put_receipts [OF good_refl, of w r "ir_MessageIDs r" False]
  by (auto simp: handleReceipt_def split: prod.split intro: good_emit)

lemma good_handleConnectionState: "good w (handleConnectionState S e w)"
  unfolding handleConnectionState_def by (rule good_emit [OF good_refl])

lemma good_run_task: "good w (run_task S k w)"
  by (auto simp: run_task_def Let_def split: prod.split intro!: good_download good_tasks good_refl)

lemma good_whatsapp: "good w (w\<lparr>w_wa := x\<rparr>)"
  by (simp add: good_def world_ok_def in_step_def)

lemma good_read_log: "0 \<le> l \<Longrightarrow> good w (snd (on_db (est_SinceSeq (b_Events (s_bundle S)) seq l) w))"
  unfolding S_bundle by (rule good_ret_db [OF read_db_op [OF event_since] good_refl])

lemma good_read_file: "good w (w\<lparr>w_fs := f\<rparr>)"
  by (simp add: good_def world_ok_def in_step_def)

lemma step_good: "svc_step S w w' \<Longrightarrow> good w w'"
  by (induction rule: svc_step.induct)
    (assumption | rule good_svc_LoginQR good_svc_LoginPhone good_svc_Logout good_SendText good_SendMedia good_ListChats
      good_GetChat good_ListMessages good_SearchMessages good_ListContacts good_SearchContacts good_Stats
      good_GetMediaRef good_EditMessage good_DeleteMessage good_SendReaction good_ListReactions
      good_MarkMessageRead good_SendTyping good_ListReceipts good_CreateGroup good_ListGroupMembers
      good_UpdateGroupMembers good_LeaveGroup good_handleIncoming good_handleReceipt
      good_handleConnectionState good_run_task good_whatsapp good_read_log good_read_file good_warn good_refl)+

lemma run_good: "(svc_step S)\<^sup>*\<^sup>* w w' \<Longrightarrow> good w w'"
  by (induction rule: rtranclp_induct) (auto intro: good_refl good_trans step_good)

lemma run_world_ok: "(svc_step S)\<^sup>*\<^sup>* w w' \<Longrightarrow> W_ok w \<Longrightarrow> W_ok w'"
  using run_good by (simp add: good_def)

lemma run_in_step: "(svc_step S)\<^sup>*\<^sup>* w w' \<Longrightarrow> W_ok w \<Longrightarrow> in_step view live w w'"
  using run_good by (simp add: good_def)

end

section \<open>The service over the two dialects\<close>

interpretation svc_sqlite: use_cases "conn_inv eng" sqlite_view quiet to_seconds "\<lambda>_. True"
    "map_option to_seconds" "sqlite_bundle eng" "svc_New wa (sqlite_bundle eng) root sha live" live
  for eng wa root sha live
  by unfold_locales (simp_all add: svc_New_def)

interpretation svc_postgres: use_cases "conn_inv eng" postgres_view quiet "eng_ts eng"
    "\<lambda>c. int4_range (chat_UnreadCount c)" "pg_opt eng" "postgres_bundle eng"
    "svc_New wa (postgres_bundle eng) root sha live" live
  for eng wa root sha live
  by unfold_locales (simp_all add: svc_New_def)

end
