(* ===== verification/Service_Spec.thy ===== *)
theory Service_Spec
  imports Service_Laws
begin

text \<open>
  The functional behaviour of the use cases over any lawful store, in terms of the abstract
  store: what a request or an inbound event leaves behind when the database does not fail
  (\<open>calm\<close>), what it refuses, and what it never does.
\<close>

section \<open>The abstract effect of an inbound message\<close>

definition abs_emit :: "(time \<Rightarrow> time) \<Rightarrow> time \<Rightarrow> string \<Rightarrow> json \<Rightarrow> store_view \<Rightarrow> store_view" where
  "abs_emit nt now kind payload = abs_append nt
     \<lparr>ev_Seq = 0, ev_Time = now, ev_Type = kind, ev_Payload = mustMarshal payload\<rparr>"

definition chat_after :: "incoming_message \<Rightarrow> store_view \<Rightarrow> chat" where
  "chat_after m v =
     (let c = (case v_chats v (in_ChatJID m) of None \<Rightarrow> new_chat (in_ChatJID m) (in_ChatKind m) | Some c \<Rightarrow> c)
      in c\<lparr>chat_LastMsgAt := in_Timestamp m, chat_UnreadCount := chat_UnreadCount c + 1,
           chat_Kind := (if chat_Kind c = '''' then in_ChatKind m else chat_Kind c)\<rparr>)"

definition message_of :: "incoming_message \<Rightarrow> message" where
  "message_of m = new_message (in_ID m) (in_ChatJID m) (in_SenderJID m) (in_Timestamp m) (in_Kind m) (in_Body m) ''''"

definition abs_incoming :: "(time \<Rightarrow> time) \<Rightarrow> (time option \<Rightarrow> time option) \<Rightarrow> (nat \<Rightarrow> time)
    \<Rightarrow> incoming_message \<Rightarrow> store_view \<Rightarrow> store_view" where
  "abs_incoming nt nopt now m v =
    (if in_ReactionTargetID m \<noteq> '''' then
       (let p = BuildReactionReceivedPayload (in_ReactionTargetID m) (in_SenderJID m) (in_ReactionEmoji m) (in_Timestamp m)
        in if in_ReactionEmoji m = '''' then
             abs_emit nt (now 0) ''reaction.received'' p (abs_delete_reaction (in_ReactionTargetID m) (in_SenderJID m) v)
           else if v_messages v (in_ReactionTargetID m) = None then v
           else abs_emit nt (now 0) ''reaction.received'' p (abs_put_reaction nt
             \<lparr>rea_MessageID = in_ReactionTargetID m, rea_SenderJID = in_SenderJID m,
              rea_Emoji = in_ReactionEmoji m, rea_Timestamp = in_Timestamp m\<rparr> v))
     else if in_RevokeOfID m \<noteq> '''' then
       abs_emit nt (now 1) ''message.deleted'' (BuildMessageDeletedPayload (in_RevokeOfID m) (in_ChatJID m) (now 0))
         (abs_soft_delete nt (in_RevokeOfID m) (in_Timestamp m) v)
     else if in_EditOfID m \<noteq> '''' then
       (case v_messages v (in_EditOfID m) of None \<Rightarrow> v
        | Some m0 \<Rightarrow> abs_emit nt (now 1) ''message.edited''
            (BuildMessageEditedPayload (in_EditOfID m) (in_ChatJID m) (in_Body m) (now 0))
            (abs_put_message nt nopt (m0\<lparr>msg_Body := in_Body m, msg_EditedAt := Some (in_Timestamp m)\<rparr>) v))
     else
       abs_emit nt (now 0) ''message.received'' (BuildMessageReceivedPayload m media_zero)
         (abs_put_message nt nopt (message_of m) (abs_put_chat nt (chat_after m v)
           (if in_PushName m = '''' then v
            else abs_put_contact \<lparr>con_JID = in_SenderJID m, con_PushName = in_PushName m,
                                  con_FullName = '''', con_BusinessName = ''''\<rparr> v))))"

section \<open>Calls on a database that does not fail\<close>

context use_cases
begin

lemma calm_write:
  assumes "write_law dinv view calm f pre upd" "dinv (w_db w)" "calm (w_db w)" "pre (view (w_db w))"
  obtains d where "on_db f w = (None, w\<lparr>w_db := d\<rparr>)" "dinv d" "calm d" "view d = upd (view (w_db w))"
proof -
  obtain r d where e: "f (w_db w) = (r, d)" by fastforce
  note law = assms(1) [unfolded write_law_def, rule_format, OF assms(2) e]
  have "r = None" using law assms(3,4) by (cases r) auto
  then show ?thesis using law e assms(3) that [of d] by (simp add: on_db_def)
qed

lemma calm_write_fail:
  assumes "write_law dinv view calm f pre upd" "dinv (w_db w)" "calm (w_db w)" "\<not> pre (view (w_db w))"
  obtains d e where "on_db f w = (Some e, w\<lparr>w_db := d\<rparr>)" "dinv d" "calm d" "view d = view (w_db w)"
    "err_kind_of e = EOther"
proof -
  obtain r d where e: "f (w_db w) = (r, d)" by fastforce
  note law = assms(1) [unfolded write_law_def, rule_format, OF assms(2) e]
  obtain er where "r = Some er" using law assms(4) by (cases r) auto
  then show ?thesis using law e assms(3) that [of er d] by (simp add: on_db_def)
qed

lemma calm_read:
  assumes "read_law dinv view calm f g" "dinv (w_db w)" "calm (w_db w)"
  obtains d where "on_db f w = (g (view (w_db w)), w\<lparr>w_db := d\<rparr>)" "dinv d" "calm d" "view d = view (w_db w)"
proof -
  obtain r d where e: "f (w_db w) = (r, d)" by fastforce
  note law = assms(1) [unfolded read_law_def, rule_format, OF assms(2) e]
  then show ?thesis using e assms(3) that [of d] by (simp add: on_db_def)
qed

lemma calm_list:
  assumes "list_law dinv view calm f P" "dinv (w_db w)"
  obtains r d where "on_db f w = (r, w\<lparr>w_db := d\<rparr>)" "dinv d" "calm (w_db w) \<longrightarrow> calm d" "view d = view (w_db w)"
    "\<forall>x. r = Inr x \<longrightarrow> P (view (w_db w)) x"
proof -
  obtain r d where e: "f (w_db w) = (r, d)" by fastforce
  note law = assms(1) [unfolded list_law_def, rule_format, OF assms(2) e]
  then show ?thesis using e that [of r d] by (cases r) (auto simp: on_db_def)
qed

lemma any_read:
  assumes "read_law dinv view calm f g" "dinv (w_db w)" "on_db f w = (Inr x, w')"
  obtains d where "w' = w\<lparr>w_db := d\<rparr>" "dinv d" "view d = view (w_db w)" "g (view (w_db w)) = Inr x"
    "calm (w_db w) \<longrightarrow> calm d"
proof -
  obtain r d where e: "f (w_db w) = (r, d)" by fastforce
  note law = assms(1) [unfolded read_law_def, rule_format, OF assms(2) e]
  then show ?thesis using e assms(3) that [of d] by (auto simp: on_db_def)
qed

section \<open>Requests that are refused\<close>

lemma SendText_invalid:
  assumes "TrimSpace j = [] \<or> t = [] \<or> 4096 < length t"
  shows "\<exists>e. SendText S j t rt w = (Inl e, w) \<and> is_err EInvalidRequest e"
  using assms by (auto simp: SendText_def invalid_def maxTextLen_def)

lemma edit_refused:
  assumes "W_ok w" "calm (w_db w)" and m: "v_messages (view (w_db w)) i = Some m"
    and args: "TrimSpace i \<noteq> []" "t \<noteq> []" "length t \<le> 4096"
    and no: "st_JID (wa_Status (s_wa S) (w_wa w)) \<noteq> Some (msg_SenderJID m) \<or> msg_DeletedAt m \<noteq> None"
  shows "\<exists>e w'. EditMessage S i t w = (Inl e, w') \<and> is_err EForbidden e \<and> w_wa w' = w_wa w
     \<and> view (w_db w') = view (w_db w)"
proof -
  have d: "dinv (w_db w)" using assms(1) by (simp add: world_ok_def)
  obtain d where g: "on_db (mst_Get (b_Messages B) i) w = (Inr m, w\<lparr>w_db := d\<rparr>)" "view d = view (w_db w)"
    using calm_read [OF message_get d assms(2)] m by (metis lookup_simps(2))
  show ?thesis
    using args no g by (auto simp: EditMessage_def maxTextLen_def ownsMessage_def forbidden_def split: option.splits)
qed

lemma delete_refused:
  assumes "W_ok w" "calm (w_db w)" and m: "v_messages (view (w_db w)) i = Some m"
    and args: "TrimSpace i \<noteq> []"
    and no: "st_JID (wa_Status (s_wa S) (w_wa w)) \<noteq> Some (msg_SenderJID m) \<or> msg_DeletedAt m \<noteq> None"
  shows "\<exists>e w'. DeleteMessage S i w = (Some e, w') \<and> is_err EForbidden e \<and> w_wa w' = w_wa w
     \<and> view (w_db w') = view (w_db w)"
proof -
  have d: "dinv (w_db w)" using assms(1) by (simp add: world_ok_def)
  obtain d where g: "on_db (mst_Get (b_Messages B) i) w = (Inr m, w\<lparr>w_db := d\<rparr>)" "view d = view (w_db w)"
    using calm_read [OF message_get d assms(2)] m by (metis lookup_simps(2))
  show ?thesis
    using args no g by (auto simp: DeleteMessage_def ownsMessage_def forbidden_def split: option.splits)
qed

text \<open>Whatever fails: an edit that succeeds was the daemon's own, live message.\<close>

lemma edit_authorised:
  assumes ok: "W_ok w" and e: "EditMessage S i t w = (Inr m', w')"
  shows "\<exists>m (s :: sent). v_messages (view (w_db w)) i = Some m
     \<and> st_JID (wa_Status (s_wa S) (w_wa w)) = Some (msg_SenderJID m) \<and> msg_DeletedAt m = None
     \<and> t \<noteq> [] \<and> length t \<le> 4096 \<and> m' = m\<lparr>msg_Body := t, msg_EditedAt := Some (sent_Timestamp s)\<rparr>"
proof -
  have d: "dinv (w_db w)" using ok by (simp add: world_ok_def)
  have args: "TrimSpace i \<noteq> []" "t \<noteq> []" "length t \<le> 4096"
    using e by (auto simp: EditMessage_def maxTextLen_def split: if_splits)
  obtain r w1 where g: "on_db (mst_Get (b_Messages B) i) w = (r, w1)" by fastforce
  obtain m where r: "r = Inr m" using e g args by (cases r) (auto simp: EditMessage_def maxTextLen_def)
  obtain dd where w1: "w1 = w\<lparr>w_db := dd\<rparr>" and m: "v_messages (view (w_db w)) i = Some m"
    using any_read [OF message_get d g [unfolded r]] by (metis lookup_Inr_iff)
  have own: "ownsMessage S m w1" "msg_DeletedAt m = None"
    using e g r args by (auto simp: EditMessage_def maxTextLen_def split: if_splits)
  obtain s w2 where "on_wa (wa_SendEdit (s_wa S) (msg_ChatJID m) i t) w1 = (s, w2)" by fastforce
  then have "\<exists>x :: sent. m' = m\<lparr>msg_Body := t, msg_EditedAt := Some (sent_Timestamp x)\<rparr>"
    using e g r args own by (cases s) (auto simp: EditMessage_def maxTextLen_def Let_def)
  then show ?thesis
    using m own args unfolding w1 by (auto simp: ownsMessage_def split: option.splits)
qed

end

section \<open>Sending\<close>

context use_cases
begin

lemma upsert_chat_calm:
  assumes "dinv (w_db w)" "calm (w_db w)"
    and c: "c = (case v_chats (view (w_db w)) j of None \<Rightarrow> new_chat j (ChatKindFromJID j) | Some c \<Rightarrow> c)"
    and c': "c' = (c\<lparr>chat_LastMsgAt := t, chat_Kind :=
      (if chat_Kind c = [] then ChatKindFromJID j else chat_Kind c)\<rparr>)"
    and ok: "chat_ok c'"
  obtains d where "upsert_chat_on_send S j t m w = w\<lparr>w_db := d\<rparr>" "dinv d" "calm d"
    "view d = abs_put_chat nt c' (view (w_db w))"
proof -
  obtain d where g: "on_db (cst_Get (b_Chats B) j) w = (lookup (v_chats (view (w_db w)) j), w\<lparr>w_db := d\<rparr>)"
    and d: "dinv d" "calm d" "view d = view (w_db w)"
    using calm_read [OF chat_get assms(1,2)] by blast
  obtain d2 where p: "on_db (cst_Put (b_Chats B) c') (w\<lparr>w_db := d\<rparr>) = (None, w\<lparr>w_db := d2\<rparr>)"
    and d2: "dinv d2" "calm d2" "view d2 = abs_put_chat nt c' (view d)"
    using calm_write [OF chat_put, of "w\<lparr>w_db := d\<rparr>" c'] d ok by auto
  have "upsert_chat_on_send S j t m w = warn_if m (on_db (cst_Put (b_Chats B) c') (w\<lparr>w_db := d\<rparr>))"
    unfolding upsert_chat_on_send_def S_bundle g case_prod_conv Let_def c' c
    by (cases "v_chats (view (w_db w)) j") simp_all
  then show ?thesis using that [of d2] p d2 d(3) by (simp add: warn_if_def)
qed

lemma SendText_sent:
  assumes "TrimSpace j \<noteq> []" "t \<noteq> []" "length t \<le> 4096"
    and s: "wa_SendText (s_wa S) j t rt (w_wa w) = (Inr s, x)"
  shows "SendText S j t rt w =
    (Inr (new_message (sent_ID s) j (sent_SenderJID s) (sent_Timestamp s) ''text'' t rt),
     upsert_chat_on_send S j (sent_Timestamp s) ''upsert chat on send failed''
       (warn_if ''persist outbound message failed; whatsmeow echo will heal''
         (on_db (mst_Put (b_Messages B)
           (new_message (sent_ID s) j (sent_SenderJID s) (sent_Timestamp s) ''text'' t rt)) (w\<lparr>w_wa := x\<rparr>))))"
  using assms by (simp add: SendText_def maxTextLen_def on_wa_def Let_def)

text \<open>To a chat the store knows, the message is kept.\<close>

lemma SendText_known_chat:
  assumes "W_ok w" "calm (w_db w)" and args: "TrimSpace j \<noteq> []" "t \<noteq> []" "length t \<le> 4096"
    and s: "wa_SendText (s_wa S) j t rt (w_wa w) = (Inr s, x)"
    and c: "v_chats (view (w_db w)) j = Some c" and k: "chat_Kind c \<noteq> []"
    and cok: "chat_ok (c\<lparr>chat_LastMsgAt := sent_Timestamp s\<rparr>)"
  shows "\<exists>d. SendText S j t rt w = (Inr (new_message (sent_ID s) j (sent_SenderJID s) (sent_Timestamp s) ''text'' t rt),
      w\<lparr>w_wa := x, w_db := d\<rparr>)
    \<and> view d = abs_put_chat nt (c\<lparr>chat_LastMsgAt := sent_Timestamp s\<rparr>)
        (abs_put_message nt nopt (new_message (sent_ID s) j (sent_SenderJID s) (sent_Timestamp s) ''text'' t rt)
          (view (w_db w)))"
proof -
  let ?m = "new_message (sent_ID s) j (sent_SenderJID s) (sent_Timestamp s) ''text'' t rt"
  have inv: "dinv (w_db w)" using assms(1) by (simp add: world_ok_def)
  obtain d where p: "on_db (mst_Put (b_Messages B) ?m) (w\<lparr>w_wa := x\<rparr>) = (None, w\<lparr>w_wa := x, w_db := d\<rparr>)"
    and d: "dinv d" "calm d" "view d = abs_put_message nt nopt ?m (view (w_db w))"
    using calm_write [OF message_put, of "w\<lparr>w_wa := x\<rparr>" ?m] inv assms(2) c by (auto simp: new_message_def)
  have vc: "v_chats (view d) j = Some c" using d(3) c by (simp add: abs_put_message_def)
  obtain d2 where u: "upsert_chat_on_send S j (sent_Timestamp s) ''upsert chat on send failed'' (w\<lparr>w_wa := x, w_db := d\<rparr>)
      = w\<lparr>w_wa := x, w_db := d2\<rparr>" and d2: "view d2 = abs_put_chat nt (c\<lparr>chat_LastMsgAt := sent_Timestamp s\<rparr>) (view d)"
    using upsert_chat_calm [of "w\<lparr>w_wa := x, w_db := d\<rparr>" c j "c\<lparr>chat_LastMsgAt := sent_Timestamp s\<rparr>"
        "sent_Timestamp s" "''upsert chat on send failed''"] d(1,2) vc k cok by auto
  show ?thesis
    using SendText_sent [OF args s] p u d2 d(3) by (intro exI [of _ d2]) (simp add: warn_if_def)
qed

text \<open>
  To a chat the store does not know, the message row comes before the chat row it refers to: the
  message is refused, the caller is told it was sent, and only the chat is kept.
\<close>

lemma SendText_new_chat:
  assumes "W_ok w" "calm (w_db w)" and args: "TrimSpace j \<noteq> []" "t \<noteq> []" "length t \<le> 4096"
    and s: "wa_SendText (s_wa S) j t rt (w_wa w) = (Inr s, x)"
    and c: "v_chats (view (w_db w)) j = None"
    and cok: "chat_ok ((new_chat j (ChatKindFromJID j))\<lparr>chat_LastMsgAt := sent_Timestamp s\<rparr>)"
  shows "\<exists>d. SendText S j t rt w = (Inr (new_message (sent_ID s) j (sent_SenderJID s) (sent_Timestamp s) ''text'' t rt),
      w\<lparr>w_wa := x, w_db := d, w_warn := w_warn w @ [''persist outbound message failed; whatsmeow echo will heal'']\<rparr>)
    \<and> view d = abs_put_chat nt ((new_chat j (ChatKindFromJID j))\<lparr>chat_LastMsgAt := sent_Timestamp s\<rparr>) (view (w_db w))"
proof -
  let ?m = "new_message (sent_ID s) j (sent_SenderJID s) (sent_Timestamp s) ''text'' t rt"
  let ?c = "(new_chat j (ChatKindFromJID j))\<lparr>chat_LastMsgAt := sent_Timestamp s\<rparr>"
  let ?warn = "w_warn w @ [''persist outbound message failed; whatsmeow echo will heal'']"
  have inv: "dinv (w_db w)" using assms(1) by (simp add: world_ok_def)
  have np: "\<not> v_chats (view (w_db (w\<lparr>w_wa := x\<rparr>))) (msg_ChatJID ?m) \<noteq> None" using c by (simp add: new_message_def)
  obtain d e where p: "on_db (mst_Put (b_Messages B) ?m) (w\<lparr>w_wa := x\<rparr>) = (Some e, w\<lparr>w_wa := x, w_db := d\<rparr>)"
    and d: "dinv d" "calm d" "view d = view (w_db w)"
    using calm_write_fail [OF message_put _ _ np] inv assms(2) by simp blast
  have kind: "?c = (new_chat j (ChatKindFromJID j))\<lparr>chat_LastMsgAt := sent_Timestamp s, chat_Kind :=
      (if chat_Kind (new_chat j (ChatKindFromJID j)) = [] then ChatKindFromJID j
       else chat_Kind (new_chat j (ChatKindFromJID j)))\<rparr>" by (simp add: new_chat_def)
  let ?w = "w\<lparr>w_wa := x, w_db := d, w_warn := ?warn\<rparr>"
  have vc: "new_chat j (ChatKindFromJID j) = (case v_chats (view (w_db ?w)) j of
      None \<Rightarrow> new_chat j (ChatKindFromJID j) | Some c \<Rightarrow> c)" using d(3) c by simp
  obtain d2 where u: "upsert_chat_on_send S j (sent_Timestamp s) ''upsert chat on send failed'' ?w = ?w\<lparr>w_db := d2\<rparr>"
    and d2: "view d2 = abs_put_chat nt ?c (view (w_db ?w))"
    using upsert_chat_calm [OF _ _ vc kind cok, of "''upsert chat on send failed''"] d(1,2) by simp metis
  show ?thesis
    using SendText_sent [OF args s] p u d2 d(3) by (intro exI [of _ d2]) (simp add: warn_if_def warn_def)
qed

end

section \<open>Inbound messages\<close>

context use_cases
begin

lemma emit_calm:
  assumes "dinv (w_db w)" "calm (w_db w)" "bc_ok (w_bc w)"
  obtains d b where "emit_json S k p w = w\<lparr>w_db := d, w_bc := b, w_tick := Suc (w_tick w)\<rparr>" "dinv d" "calm d"
    "view d = abs_emit nt (w_clock w (w_tick w)) k p (view (w_db w))" "bc_ok b"
proof -
  have em: "s_emitter S = Some \<lparr>em_log = Some (b_Events B), em_live = live\<rparr>" by (simp add: NewEmitter_def)
  show ?thesis
  proof (cases rule: Emit_cases [OF assms(1,3) em, of k "mustMarshal p", case_names ok fail])
    case (ok b)
    then show ?thesis using that assms(2) unfolding emit_json_def abs_emit_def by blast
  next
    case fail
    then show ?thesis using assms(2) by blast
  qed
qed

lemma incoming_reaction_calm:
  assumes ok: "W_ok w" and c: "calm (w_db w)" and t: "in_ReactionTargetID m \<noteq> []"
  shows "view (w_db (incoming_reaction S m w)) = abs_incoming nt nopt (\<lambda>k. w_clock w (w_tick w + k)) m (view (w_db w))"
proof (cases "in_ReactionEmoji m = []")
  case True
  obtain d where p: "on_db (rst_Delete (b_Reactions B) (in_ReactionTargetID m) (in_SenderJID m)) w
      = (None, w\<lparr>w_db := d\<rparr>)" and d: "dinv d" "calm d"
      "view d = abs_delete_reaction (in_ReactionTargetID m) (in_SenderJID m) (view (w_db w))"
    using calm_write [OF reaction_delete] ok c by (metis world_ok_def)
  obtain d2 b where "emit_json S ''reaction.received'' (BuildReactionReceivedPayload
             (in_ReactionTargetID m) (in_SenderJID m) (in_ReactionEmoji m) (in_Timestamp m)) (w\<lparr>w_db := d\<rparr>)
      = w\<lparr>w_db := d2, w_bc := b, w_tick := Suc (w_tick w)\<rparr>"
      "view d2 = abs_emit nt (w_clock w (w_tick w)) ''reaction.received'' (BuildReactionReceivedPayload
             (in_ReactionTargetID m) (in_SenderJID m) (in_ReactionEmoji m) (in_Timestamp m)) (view d)"
    using emit_calm [of "w\<lparr>w_db := d\<rparr>"] d ok by (simp add: world_ok_def) metis
  then show ?thesis
    using True t p d(3) by (simp add: incoming_reaction_def abs_incoming_def)
next
  case False
  let ?r = "\<lparr>rea_MessageID = in_ReactionTargetID m, rea_SenderJID = in_SenderJID m, rea_Emoji = in_ReactionEmoji m,
      rea_Timestamp = in_Timestamp m\<rparr>"
  show ?thesis
  proof (cases "v_messages (view (w_db w)) (in_ReactionTargetID m) = None")
    case True
    then have np: "\<not> v_messages (view (w_db w)) (rea_MessageID ?r) \<noteq> None" by simp
    obtain d e where "on_db (rst_Put (b_Reactions B) ?r) w = (Some e, w\<lparr>w_db := d\<rparr>)" "view d = view (w_db w)"
      using calm_write_fail [OF reaction_put _ _ np] ok c by (metis world_ok_def)
    then show ?thesis
      using True False t by (simp add: incoming_reaction_def abs_incoming_def warn_def)
  next
    case k: False
    then have np: "v_messages (view (w_db w)) (rea_MessageID ?r) \<noteq> None" by simp
    obtain d where p: "on_db (rst_Put (b_Reactions B) ?r) w = (None, w\<lparr>w_db := d\<rparr>)" and d: "dinv d" "calm d"
      "view d = abs_put_reaction nt ?r (view (w_db w))"
      using calm_write [OF reaction_put _ _ np] ok c by (metis world_ok_def)
    obtain d2 b where "emit_json S ''reaction.received'' (BuildReactionReceivedPayload
             (in_ReactionTargetID m) (in_SenderJID m) (in_ReactionEmoji m) (in_Timestamp m)) (w\<lparr>w_db := d\<rparr>)
      = w\<lparr>w_db := d2, w_bc := b, w_tick := Suc (w_tick w)\<rparr>"
      "view d2 = abs_emit nt (w_clock w (w_tick w)) ''reaction.received'' (BuildReactionReceivedPayload
             (in_ReactionTargetID m) (in_SenderJID m) (in_ReactionEmoji m) (in_Timestamp m)) (view d)"
      using emit_calm [of "w\<lparr>w_db := d\<rparr>"] d ok by (simp add: world_ok_def) metis
    then show ?thesis
      using False k t p d(3) by (auto simp: incoming_reaction_def abs_incoming_def)
  qed
qed

lemma incoming_revoke_calm:
  assumes ok: "W_ok w" and c: "calm (w_db w)" and t: "in_ReactionTargetID m = []" "in_RevokeOfID m \<noteq> []"
  shows "view (w_db (incoming_revoke S m w)) = abs_incoming nt nopt (\<lambda>k. w_clock w (w_tick w + k)) m (view (w_db w))"
proof -
  obtain d where p: "on_db (mst_SoftDelete (b_Messages B) (in_RevokeOfID m) (in_Timestamp m)) w
      = (None, w\<lparr>w_db := d\<rparr>)" and d: "dinv d" "calm d"
      "view d = abs_soft_delete nt (in_RevokeOfID m) (in_Timestamp m) (view (w_db w))"
    using calm_write [OF message_delete] ok c by (metis world_ok_def)
  let ?p = "BuildMessageDeletedPayload (in_RevokeOfID m) (in_ChatJID m) (w_clock w (w_tick w))"
  let ?w = "w\<lparr>w_db := d, w_tick := Suc (w_tick w)\<rparr>"
  obtain d2 b where "emit_json S ''message.deleted'' ?p ?w = ?w\<lparr>w_db := d2, w_bc := b, w_tick := Suc (w_tick ?w)\<rparr>"
      "view d2 = abs_emit nt (w_clock w (Suc (w_tick w))) ''message.deleted'' ?p (view d)"
    using emit_calm [of ?w] d ok by (simp add: world_ok_def) metis
  then show ?thesis
    using t p d(3) by (simp add: incoming_revoke_def abs_incoming_def time_Now_def)
qed

lemma incoming_edit_calm:
  assumes ok: "W_ok w" and c: "calm (w_db w)"
    and t: "in_ReactionTargetID m = []" "in_RevokeOfID m = []" "in_EditOfID m \<noteq> []"
  shows "view (w_db (incoming_edit S m w)) = abs_incoming nt nopt (\<lambda>k. w_clock w (w_tick w + k)) m (view (w_db w))"
proof -
  obtain d where g: "on_db (mst_Get (b_Messages B) (in_EditOfID m)) w
      = (lookup (v_messages (view (w_db w)) (in_EditOfID m)), w\<lparr>w_db := d\<rparr>)" and d: "dinv d" "calm d" "view d = view (w_db w)"
    using calm_read [OF message_get] ok c by (metis world_ok_def)
  show ?thesis
  proof (cases "v_messages (view (w_db w)) (in_EditOfID m)")
    case None
    then show ?thesis using t g d(3) by (simp add: incoming_edit_def abs_incoming_def warn_def)
  next
    case (Some m0)
    let ?m = "m0\<lparr>msg_Body := in_Body m, msg_EditedAt := Some (in_Timestamp m)\<rparr>"
    have np: "v_chats (view (w_db (w\<lparr>w_db := d\<rparr>))) (msg_ChatJID ?m) \<noteq> None"
      using inv_view_ok [OF d(1)] Some d(3) by (simp add: view_ok_def del: not_None_eq)
    obtain d1 where p: "on_db (mst_Put (b_Messages B) ?m) (w\<lparr>w_db := d\<rparr>) = (None, w\<lparr>w_db := d1\<rparr>)"
      and d1: "dinv d1" "calm d1" "view d1 = abs_put_message nt nopt ?m (view (w_db w))"
      using calm_write [OF message_put _ _ np] d by simp metis
    let ?p = "BuildMessageEditedPayload (in_EditOfID m) (in_ChatJID m) (in_Body m) (w_clock w (w_tick w))"
    let ?w = "w\<lparr>w_db := d1, w_tick := Suc (w_tick w)\<rparr>"
    obtain d2 b where "emit_json S ''message.edited'' ?p ?w = ?w\<lparr>w_db := d2, w_bc := b, w_tick := Suc (w_tick ?w)\<rparr>"
      "view d2 = abs_emit nt (w_clock w (Suc (w_tick w))) ''message.edited'' ?p (view d1)"
      using emit_calm [of ?w] d1 ok by (simp add: world_ok_def) metis
    then show ?thesis
      using t g p d1(3) Some by (simp add: incoming_edit_def abs_incoming_def time_Now_def)
  qed
qed

end

context use_cases
begin

lemma incoming_plain_calm:
  assumes ok: "W_ok w" and c: "calm (w_db w)"
    and t: "in_ReactionTargetID m = []" "in_RevokeOfID m = []" "in_EditOfID m = []"
    and cok: "chat_ok (chat_after m (view (w_db w)))"
  shows "view (w_db (incoming_plain S m w)) = abs_incoming nt nopt (\<lambda>k. w_clock w (w_tick w + k)) m (view (w_db w))"
    and "w_tasks (incoming_plain S m w) = w_tasks w @ (case in_MediaDownloader m of None \<Rightarrow> [] | Some d \<Rightarrow> [(in_ID m, d)])"
    and "w_warn (incoming_plain S m w) = w_warn w"
proof -
  let ?co = "\<lparr>con_JID = in_SenderJID m, con_PushName = in_PushName m, con_FullName = [], con_BusinessName = []\<rparr>"
  let ?v1 = "if in_PushName m = [] then view (w_db w) else abs_put_contact ?co (view (w_db w))"
  have inv: "dinv (w_db w)" "bc_ok (w_bc w)" using ok by (auto simp: world_ok_def)
  obtain d1 where p1: "(if in_PushName m \<noteq> [] then warn_if ''upsert contact on incoming failed''
      (on_db (ost_Put (b_Contacts B) ?co) w) else w) = w\<lparr>w_db := d1\<rparr>"
    and d1: "dinv d1" "calm d1" "view d1 = ?v1"
  proof (cases "in_PushName m = []")
    case True
    then show ?thesis using that [of "w_db w"] inv c by simp
  next
    case False
    obtain d where "on_db (ost_Put (b_Contacts B) ?co) w = (None, w\<lparr>w_db := d\<rparr>)" "dinv d" "calm d"
      "view d = abs_put_contact ?co (view (w_db w))"
      using calm_write [OF contact_put inv(1) c] by blast
    then show ?thesis using False that [of d] by (simp add: warn_if_def)
  qed
  have ch1: "v_chats (view d1) = v_chats (view (w_db w))" using d1(3) by (simp add: abs_put_contact_def)
  obtain d2 where p2: "on_db (cst_Get (b_Chats B) (in_ChatJID m)) (w\<lparr>w_db := d1\<rparr>)
      = (lookup (v_chats (view (w_db w)) (in_ChatJID m)), w\<lparr>w_db := d2\<rparr>)"
    and d2: "dinv d2" "calm d2" "view d2 = view d1"
    using calm_read [OF chat_get [of "in_ChatJID m"], of "w\<lparr>w_db := d1\<rparr>"] d1(1,2) ch1 by simp metis
  let ?c = "chat_after m (view (w_db w))"
  obtain d3 where p3: "on_db (cst_Put (b_Chats B) ?c) (w\<lparr>w_db := d2\<rparr>) = (None, w\<lparr>w_db := d3\<rparr>)"
    and d3: "dinv d3" "calm d3" "view d3 = abs_put_chat nt ?c ?v1"
    using calm_write [OF chat_put, of "w\<lparr>w_db := d2\<rparr>" ?c] d1(3) d2 cok by auto
  have cj: "chat_JID ?c = in_ChatJID m"
    using inv_view_ok [OF inv(1)] by (auto simp: chat_after_def new_chat_def Let_def view_ok_def split: option.splits)
  have np: "v_chats (view (w_db (w\<lparr>w_db := d3\<rparr>))) (msg_ChatJID (message_of m)) \<noteq> None"
    using d3(3) cj by (simp add: abs_put_chat_def message_of_def new_message_def)
  obtain d4 where p4: "on_db (mst_Put (b_Messages B) (message_of m)) (w\<lparr>w_db := d3\<rparr>) = (None, w\<lparr>w_db := d4\<rparr>)"
    and d4: "dinv d4" "calm d4" "view d4 = abs_put_message nt nopt (message_of m) (view d3)"
    using calm_write [OF message_put _ _ np] d3(1,2) by simp metis
  let ?tasks = "w_tasks w @ (case in_MediaDownloader m of None \<Rightarrow> [] | Some d \<Rightarrow> [(in_ID m, d)])"
  let ?w = "w\<lparr>w_db := d4, w_tasks := ?tasks\<rparr>"
  let ?p = "BuildMessageReceivedPayload m media_zero"
  obtain d5 b where p5: "emit_json S ''message.received'' ?p ?w = ?w\<lparr>w_db := d5, w_bc := b, w_tick := Suc (w_tick ?w)\<rparr>"
    and d5: "view d5 = abs_emit nt (w_clock w (w_tick w)) ''message.received'' ?p (view d4)"
    using emit_calm [of ?w] d4(1,2) inv(2) by simp metis
  have tasks: "(case in_MediaDownloader m of None \<Rightarrow> w\<lparr>w_db := d4\<rparr>
      | Some d \<Rightarrow> w\<lparr>w_db := d4, w_tasks := w_tasks (w\<lparr>w_db := d4\<rparr>) @ [(in_ID m, d)]\<rparr>) = ?w"
    by (simp split: option.split)
  have chat: "(let chat = (case lookup (v_chats (view (w_db w)) (in_ChatJID m)) of
        Inl e \<Rightarrow> new_chat (in_ChatJID m) (in_ChatKind m) | Inr c \<Rightarrow> c);
      chat = chat\<lparr>chat_LastMsgAt := in_Timestamp m, chat_UnreadCount := chat_UnreadCount chat + 1\<rparr>
      in (if chat_Kind chat = [] then chat\<lparr>chat_Kind := in_ChatKind m\<rparr> else chat)) = ?c"
    by (simp add: chat_after_def Let_def split: option.split)
  have eq: "incoming_plain S m w = ?w\<lparr>w_db := d5, w_bc := b, w_tick := Suc (w_tick ?w)\<rparr>"
    unfolding incoming_plain_def S_bundle p1 Let_def [of "w\<lparr>w_db := d1\<rparr>"] p2 prod.case
    using p3 p4 p5 tasks chat by (simp add: warn_if_def message_of_def Let_def)
  show "view (w_db (incoming_plain S m w)) = abs_incoming nt nopt (\<lambda>k. w_clock w (w_tick w + k)) m (view (w_db w))"
    unfolding eq using t d5 d4(3) d3(3) by (simp add: abs_incoming_def)
  show "w_tasks (incoming_plain S m w) = ?tasks" "w_warn (incoming_plain S m w) = w_warn w"
    unfolding eq by simp_all
qed

text \<open>On a database that does not fail, \<open>handleIncoming\<close> refines \<open>abs_incoming\<close>.\<close>

lemma handleIncoming_calm:
  assumes "W_ok w" "calm (w_db w)" "chat_ok (chat_after m (view (w_db w)))"
  shows "view (w_db (handleIncoming S m w)) = abs_incoming nt nopt (\<lambda>k. w_clock w (w_tick w + k)) m (view (w_db w))"
  using assms incoming_reaction_calm incoming_revoke_calm incoming_edit_calm incoming_plain_calm(1)
  by (simp add: handleIncoming_def)

end

end
