(* ===== verification/Service_Effects.thy ===== *)
theory Service_Effects
  imports Service_Spec
begin

text \<open>
  The effect of the remaining use cases over any lawful store that does not fail: deleting, marking
  as read, reacting, receipts, groups, statistics, listing, and media from the request to the file.
\<close>

section \<open>What the requests leave behind\<close>

definition our_jid :: "('d, 'w) svc \<Rightarrow> 'w \<Rightarrow> string" where
  "our_jid S x = (case st_JID (wa_Status (s_wa S) x) of None \<Rightarrow> '''' | Some j \<Rightarrow> j)"

fun abs_receipts :: "(time \<Rightarrow> time) \<Rightarrow> incoming_receipt \<Rightarrow> string list \<Rightarrow> store_view \<Rightarrow> store_view" where
  "abs_receipts nt r [] v = v"
| "abs_receipts nt r (i # ids) v = abs_receipts nt r ids (if v_messages v i = None then v
     else abs_put_receipt nt \<lparr>rec_MessageID = i, rec_ReaderJID = ir_ReaderJID r, rec_Type = ir_Type r,
            rec_Timestamp = ir_Timestamp r\<rparr> v)"

definition sent_media_ref :: "('d, 'w) svc \<Rightarrow> SendMediaRequest \<Rightarrow> sent \<Rightarrow> media_ref" where
  "sent_media_ref S req s = \<lparr>med_MessageID = sent_ID s, med_MIME = smr_MIME req, med_Size = int (length (smr_Body req)),
     med_SHA256 = s_sha S (smr_Body req), med_Path = media_path (s_root S) (s_sha S (smr_Body req)) (ExtFromMIME (smr_MIME req))\<rparr>"

definition sent_media_message :: "SendMediaRequest \<Rightarrow> sent \<Rightarrow> message" where
  "sent_media_message req s =
     new_message (sent_ID s) (smr_ChatJID req) (sent_SenderJID s) (sent_Timestamp s) (smr_Kind req) (smr_Caption req) ''''"

context use_cases
begin

section \<open>Editing\<close>

lemma EditMessage_calm:
  assumes "W_ok w" "calm (w_db w)" and m: "v_messages (view (w_db w)) i = Some m"
    and args: "TrimSpace i \<noteq> []" "t \<noteq> []" "length t \<le> 4096"
    and own: "st_JID (wa_Status (s_wa S) (w_wa w)) = Some (msg_SenderJID m)" "msg_DeletedAt m = None"
    and s: "wa_SendEdit (s_wa S) (msg_ChatJID m) i t (w_wa w) = (Inr s, x)"
  obtains d where "EditMessage S i t w = (Inr (m\<lparr>msg_Body := t, msg_EditedAt := Some (sent_Timestamp s)\<rparr>), w\<lparr>w_wa := x, w_db := d\<rparr>)"
    "dinv d" "calm d"
    "view d = abs_put_message nt nopt (m\<lparr>msg_Body := t, msg_EditedAt := Some (sent_Timestamp s)\<rparr>) (view (w_db w))"
proof -
  let ?m = "m\<lparr>msg_Body := t, msg_EditedAt := Some (sent_Timestamp s)\<rparr>"
  have inv: "dinv (w_db w)" using assms(1) by (simp add: world_ok_def)
  obtain d1 where g: "on_db (mst_Get (b_Messages B) i) w = (Inr m, w\<lparr>w_db := d1\<rparr>)"
    and d1: "dinv d1" "calm d1" "view d1 = view (w_db w)"
    using calm_read [OF message_get inv assms(2)] m by (metis lookup_simps(2))
  let ?w = "w\<lparr>w_db := d1, w_wa := x\<rparr>"
  have np: "v_chats (view (w_db ?w)) (msg_ChatJID ?m) \<noteq> None"
    using inv_view_ok [OF d1(1)] m d1(3) by (simp add: view_ok_def del: not_None_eq)
  obtain d where p: "on_db (mst_Put (b_Messages B) ?m) ?w = (None, ?w\<lparr>w_db := d\<rparr>)"
    and d: "dinv d" "calm d" "view d = abs_put_message nt nopt ?m (view d1)"
    using calm_write [OF message_put _ _ np] d1 by simp metis
  have "EditMessage S i t w = (Inr ?m, w\<lparr>w_wa := x, w_db := d\<rparr>)"
    using args g own s p by (simp add: EditMessage_def maxTextLen_def ownsMessage_def on_wa_def Let_def warn_if_def)
  then show ?thesis using that d d1(3) by simp
qed

section \<open>Deleting\<close>

lemma DeleteMessage_calm:
  assumes "W_ok w" "calm (w_db w)" and m: "v_messages (view (w_db w)) i = Some m" and i: "TrimSpace i \<noteq> []"
    and own: "st_JID (wa_Status (s_wa S) (w_wa w)) = Some (msg_SenderJID m)" "msg_DeletedAt m = None"
    and s: "wa_SendRevoke (s_wa S) (msg_ChatJID m) i (w_wa w) = (Inr s, x)"
  obtains d where "DeleteMessage S i w = (None, w\<lparr>w_wa := x, w_tick := Suc (w_tick w), w_db := d\<rparr>)"
    "dinv d" "calm d" "view d = abs_soft_delete nt i (w_clock w (w_tick w)) (view (w_db w))"
proof -
  have inv: "dinv (w_db w)" using assms(1) by (simp add: world_ok_def)
  obtain d1 where g: "on_db (mst_Get (b_Messages B) i) w = (Inr m, w\<lparr>w_db := d1\<rparr>)"
    and d1: "dinv d1" "calm d1" "view d1 = view (w_db w)"
    using calm_read [OF message_get inv assms(2)] m by (metis lookup_simps(2))
  let ?w = "w\<lparr>w_db := d1, w_wa := x, w_tick := Suc (w_tick w)\<rparr>"
  obtain d where p: "on_db (mst_SoftDelete (b_Messages B) i (w_clock w (w_tick w))) ?w = (None, ?w\<lparr>w_db := d\<rparr>)"
    and d: "dinv d" "calm d" "view d = abs_soft_delete nt i (w_clock w (w_tick w)) (view d1)"
    using calm_write [OF message_delete, of ?w] d1 by auto
  have "DeleteMessage S i w = (None, w\<lparr>w_wa := x, w_tick := Suc (w_tick w), w_db := d\<rparr>)"
    using i g own s p by (simp add: DeleteMessage_def ownsMessage_def on_wa_def time_Now_def warn_if_def)
  then show ?thesis using that d d1(3) by simp
qed

section \<open>Listing\<close>

lemma ListMessages_page:
  assumes "W_ok w" and l: "ListMessages S j t l w = (Inr ms, w')"
  shows "1 \<le> l \<and> l \<le> 100 \<and> TrimSpace j \<noteq> []
    \<and> is_page (listable nt j t (view (w_db w))) (\<lambda>m. - msg_Timestamp m) (nat l) ms \<and> view (w_db w') = view (w_db w)"
proof -
  have inv: "dinv (w_db w)" using assms(1) by (simp add: world_ok_def)
  have lim: "1 \<le> l" "l \<le> 100" "TrimSpace j \<noteq> []" and g: "on_db (mst_ListByChat (b_Messages B) j l t) w = (Inr ms, w')"
    using l by (auto simp: ListMessages_def validateLimit_def minLimit_def maxLimit_def split: if_splits option.splits)
  obtain r d where r: "on_db (mst_ListByChat (b_Messages B) j l t) w = (r, w\<lparr>w_db := d\<rparr>)" "view d = view (w_db w)"
    "\<forall>x. r = Inr x \<longrightarrow> is_page (listable nt j t (view (w_db w))) (\<lambda>m. - msg_Timestamp m) (nat l) x"
  proof (rule calm_list [OF message_list inv, of l j t])
    show "0 \<le> l" using lim(1) by simp
  qed (use that in blast)
  then show ?thesis using lim g by auto
qed

section \<open>Marking as read\<close>

lemma MarkMessageRead_calm:
  assumes "W_ok w" "calm (w_db w)" and m: "v_messages (view (w_db w)) i = Some m" and i: "TrimSpace i \<noteq> []"
    and s: "wa_MarkRead (s_wa S) (msg_ChatJID m) (msg_SenderJID m) i (w_clock w (w_tick w)) (w_wa w) = (None, x)"
    and c: "v_chats (view (w_db w)) (msg_ChatJID m) = Some c"
    and cok: "chat_ok (c\<lparr>chat_UnreadCount := chat_UnreadCount c - 1\<rparr>)"
  obtains d where "MarkMessageRead S i w = (None, w\<lparr>w_wa := x, w_tick := Suc (w_tick w), w_db := d\<rparr>)"
    "dinv d" "calm d"
    "view d = (if 0 < chat_UnreadCount c
      then abs_put_chat nt (c\<lparr>chat_UnreadCount := chat_UnreadCount c - 1\<rparr>) (view (w_db w)) else view (w_db w))"
proof -
  have inv: "dinv (w_db w)" using assms(1) by (simp add: world_ok_def)
  obtain d1 where g: "on_db (mst_Get (b_Messages B) i) w = (Inr m, w\<lparr>w_db := d1\<rparr>)"
    and d1: "dinv d1" "calm d1" "view d1 = view (w_db w)"
    using calm_read [OF message_get inv assms(2)] m by (metis lookup_simps(2))
  let ?w = "w\<lparr>w_db := d1, w_tick := Suc (w_tick w), w_wa := x\<rparr>"
  obtain d2 where g2: "on_db (cst_Get (b_Chats B) (msg_ChatJID m)) ?w = (Inr c, ?w\<lparr>w_db := d2\<rparr>)"
    and d2: "dinv d2" "calm d2" "view d2 = view (w_db w)"
    using calm_read [OF chat_get [of "msg_ChatJID m"], of ?w] d1 c by auto
  let ?c = "c\<lparr>chat_UnreadCount := chat_UnreadCount c - 1\<rparr>"
  obtain d3 where p: "on_db (cst_Put (b_Chats B) ?c) (?w\<lparr>w_db := d2\<rparr>) = (None, ?w\<lparr>w_db := d3\<rparr>)"
    and d3: "dinv d3" "calm d3" "view d3 = abs_put_chat nt ?c (view (w_db w))"
    using calm_write [OF chat_put [of ?c], of "?w\<lparr>w_db := d2\<rparr>"] d2 cok by auto
  show ?thesis
  proof (cases "0 < chat_UnreadCount c")
    case True
    then have "MarkMessageRead S i w = (None, w\<lparr>w_wa := x, w_tick := Suc (w_tick w), w_db := d3\<rparr>)"
      using i g s g2 p by (simp add: MarkMessageRead_def on_wa_def time_Now_def warn_if_def)
    then show ?thesis using that d3 True by simp
  next
    case False
    then have "MarkMessageRead S i w = (None, w\<lparr>w_wa := x, w_tick := Suc (w_tick w), w_db := d2\<rparr>)"
      using i g s g2 by (simp add: MarkMessageRead_def on_wa_def time_Now_def)
    then show ?thesis using that d2 False by simp
  qed
qed

section \<open>Reacting\<close>

lemma SendReaction_calm:
  assumes "W_ok w" "calm (w_db w)" and m: "v_messages (view (w_db w)) i = Some m" and i: "TrimSpace i \<noteq> []"
    and s: "wa_SendReaction (s_wa S) (msg_ChatJID m) i e (w_wa w) = (None, x)"
  obtains d w' where "SendReaction S i e w = (None, w')" "w_db w' = d" "dinv d" "calm d"
    "view d = (if e = [] then abs_delete_reaction i (our_jid S x) (view (w_db w))
       else abs_put_reaction nt \<lparr>rea_MessageID = i, rea_SenderJID = our_jid S x, rea_Emoji = e,
              rea_Timestamp = w_clock w (w_tick w)\<rparr> (view (w_db w)))"
proof -
  have inv: "dinv (w_db w)" using assms(1) by (simp add: world_ok_def)
  obtain d1 where g: "on_db (mst_Get (b_Messages B) i) w = (Inr m, w\<lparr>w_db := d1\<rparr>)"
    and d1: "dinv d1" "calm d1" "view d1 = view (w_db w)"
    using calm_read [OF message_get inv assms(2)] m by (metis lookup_simps(2))
  let ?w = "w\<lparr>w_db := d1, w_wa := x\<rparr>"
  show ?thesis
  proof (cases "e = []")
    case True
    obtain d where p: "on_db (rst_Delete (b_Reactions B) i (our_jid S x)) ?w = (None, ?w\<lparr>w_db := d\<rparr>)"
      and d: "dinv d" "calm d" "view d = abs_delete_reaction i (our_jid S x) (view (w_db w))"
      using calm_write [OF reaction_delete, of ?w] d1 by auto
    have "SendReaction S i e w = (None, ?w\<lparr>w_db := d\<rparr>)"
      using i g s p True by (simp add: SendReaction_def on_wa_def warn_if_def our_jid_def)
    then show ?thesis using that d True by simp
  next
    case False
    let ?r = "\<lparr>rea_MessageID = i, rea_SenderJID = our_jid S x, rea_Emoji = e, rea_Timestamp = w_clock w (w_tick w)\<rparr>"
    let ?w2 = "?w\<lparr>w_tick := Suc (w_tick w)\<rparr>"
    obtain d where p: "on_db (rst_Put (b_Reactions B) ?r) ?w2 = (None, ?w2\<lparr>w_db := d\<rparr>)"
      and d: "dinv d" "calm d" "view d = abs_put_reaction nt ?r (view (w_db w))"
      using calm_write [OF reaction_put [of ?r], of ?w2] d1 m by auto
    have "SendReaction S i e w = (None, ?w2\<lparr>w_db := d\<rparr>)"
      using i g s p False by (simp add: SendReaction_def on_wa_def time_Now_def warn_if_def our_jid_def)
    then show ?thesis using that d False by simp
  qed
qed

section \<open>Receipts\<close>

lemma abs_receipts_messages [simp]: "v_messages (abs_receipts nt r ids v) = v_messages v"
  by (induction nt r ids v rule: abs_receipts.induct) (simp_all add: abs_put_receipt_def)

lemma put_receipts_calm:
  assumes "dinv (w_db w)" "calm (w_db w)"
  shows "\<exists>d ws. put_receipts S r ids p w = (p \<or> (\<exists>i\<in>set ids. v_messages (view (w_db w)) i \<noteq> None), w\<lparr>w_db := d, w_warn := ws\<rparr>)
     \<and> dinv d \<and> calm d \<and> view d = abs_receipts nt r ids (view (w_db w))"
  using assms
proof (induction ids arbitrary: p w)
  case Nil
  then show ?case by (intro exI [of _ "w_db w"] exI [of _ "w_warn w"]) simp
next
  case (Cons i ids)
  let ?r = "\<lparr>rec_MessageID = i, rec_ReaderJID = ir_ReaderJID r, rec_Type = ir_Type r, rec_Timestamp = ir_Timestamp r\<rparr>"
  show ?case
  proof (cases "v_messages (view (w_db w)) i = None")
    case True
    then have np: "\<not> v_messages (view (w_db w)) (rec_MessageID ?r) \<noteq> None" by simp
    obtain d e where e: "on_db (pst_Put (b_Receipts B) ?r) w = (Some e, w\<lparr>w_db := d\<rparr>)" "dinv d" "calm d" "view d = view (w_db w)"
      by (rule calm_write_fail [OF receipt_put Cons.prems np])
    let ?w = "warn ''persist receipt failed'' (w\<lparr>w_db := d\<rparr>)"
    obtain d' ws where "put_receipts S r ids p ?w = (p \<or> (\<exists>i\<in>set ids. v_messages (view (w_db ?w)) i \<noteq> None), ?w\<lparr>w_db := d', w_warn := ws\<rparr>)"
      "dinv d'" "calm d'" "view d' = abs_receipts nt r ids (view (w_db ?w))"
      using Cons.IH [of ?w p] e(2,3) by (auto simp: warn_def)
    then show ?thesis using e True by (auto simp: warn_def)
  next
    case False
    obtain d where e: "on_db (pst_Put (b_Receipts B) ?r) w = (None, w\<lparr>w_db := d\<rparr>)" "dinv d" "calm d"
      "view d = abs_put_receipt nt ?r (view (w_db w))"
      using calm_write [OF receipt_put [of ?r] Cons.prems] False by auto
    obtain d' ws where "put_receipts S r ids True (w\<lparr>w_db := d\<rparr>) = (True, w\<lparr>w_db := d', w_warn := ws\<rparr>)"
      "dinv d'" "calm d'" "view d' = abs_receipts nt r ids (view d)"
      using Cons.IH [of "w\<lparr>w_db := d\<rparr>" True] e(2,3) by auto
    then show ?thesis using e False by auto
  qed
qed

lemma handleReceipt_calm:
  assumes "W_ok w" "calm (w_db w)"
  shows "view (w_db (handleReceipt S r w)) = (let v = abs_receipts nt r (ir_MessageIDs r) (view (w_db w))
    in if \<exists>i\<in>set (ir_MessageIDs r). v_messages (view (w_db w)) i \<noteq> None
       then abs_emit nt (w_clock w (w_tick w)) ''receipt.received'' (BuildReceiptReceivedPayload r) v else v)"
proof -
  have inv: "dinv (w_db w)" "bc_ok (w_bc w)" using assms(1) by (auto simp: world_ok_def)
  obtain d ws where p: "put_receipts S r (ir_MessageIDs r) False w =
      (\<exists>i\<in>set (ir_MessageIDs r). v_messages (view (w_db w)) i \<noteq> None, w\<lparr>w_db := d, w_warn := ws\<rparr>)"
    and d: "dinv d" "calm d" "view d = abs_receipts nt r (ir_MessageIDs r) (view (w_db w))"
    using put_receipts_calm [OF inv(1) assms(2), of r "ir_MessageIDs r" False] by auto
  let ?w = "w\<lparr>w_db := d, w_warn := ws\<rparr>"
  have pre: "dinv (w_db ?w)" "calm (w_db ?w)" "bc_ok (w_bc ?w)" using d inv by simp_all
  obtain d' b where "emit_json S ''receipt.received'' (BuildReceiptReceivedPayload r) ?w
      = ?w\<lparr>w_db := d', w_bc := b, w_tick := Suc (w_tick ?w)\<rparr>"
    "view d' = abs_emit nt (w_clock ?w (w_tick ?w)) ''receipt.received'' (BuildReceiptReceivedPayload r) (view (w_db ?w))"
    by (rule emit_calm [OF pre])
  then show ?thesis unfolding handleReceipt_def p using d(3) by (simp add: Let_def)
qed

section \<open>Groups\<close>

lemma CreateGroup_calm:
  assumes "W_ok w" "calm (w_db w)" and n: "TrimSpace n \<noteq> []" "RuneCountInString (TrimSpace n) \<le> 25" "ps \<noteq> []"
    and s: "wa_CreateGroup (s_wa S) (TrimSpace n) ps (w_wa w) = (Inr g, x)"
    and cok: "chat_ok \<lparr>chat_JID = gr_JID g, chat_Name = gr_Name g, chat_Kind = ''group'',
      chat_LastMsgAt = w_clock w (w_tick w), chat_UnreadCount = 0, chat_Archived = False\<rparr>"
  obtains d where "CreateGroup S n ps w = (Inr g, w\<lparr>w_wa := x, w_tick := Suc (w_tick w), w_db := d\<rparr>)" "dinv d" "calm d"
    "view d = abs_put_chat nt \<lparr>chat_JID = gr_JID g, chat_Name = gr_Name g, chat_Kind = ''group'',
      chat_LastMsgAt = w_clock w (w_tick w), chat_UnreadCount = 0, chat_Archived = False\<rparr> (view (w_db w))"
proof -
  have inv: "dinv (w_db w)" using assms(1) by (simp add: world_ok_def)
  let ?w = "w\<lparr>w_wa := x, w_tick := Suc (w_tick w)\<rparr>"
  obtain d where p: "on_db (cst_Put (b_Chats B) \<lparr>chat_JID = gr_JID g, chat_Name = gr_Name g, chat_Kind = ''group'',
      chat_LastMsgAt = w_clock w (w_tick w), chat_UnreadCount = 0, chat_Archived = False\<rparr>) ?w = (None, ?w\<lparr>w_db := d\<rparr>)"
    "dinv d" "calm d" "view d = abs_put_chat nt \<lparr>chat_JID = gr_JID g, chat_Name = gr_Name g, chat_Kind = ''group'',
      chat_LastMsgAt = w_clock w (w_tick w), chat_UnreadCount = 0, chat_Archived = False\<rparr> (view (w_db w))"
    using calm_write [OF chat_put, of ?w] inv assms(2) cok by auto
  then show ?thesis using that [of d] n s
    by (simp add: CreateGroup_def Let_def maxGroupNameLen_def on_wa_def time_Now_def warn_if_def)
qed

lemma CreateGroup_invalid:
  assumes "TrimSpace n = [] \<or> 25 < RuneCountInString (TrimSpace n) \<or> ps = []"
  shows "\<exists>e. CreateGroup S n ps w = (Inl e, w) \<and> is_err EInvalidRequest e"
  using assms by (auto simp: CreateGroup_def Let_def maxGroupNameLen_def invalid_def)

section \<open>Statistics\<close>

lemma Stats_calm:
  assumes "W_ok w" "calm (w_db w)"
  shows "fst (Stats S w) = Inr \<lparr>stats_Chats = int (card (dom (v_chats (view (w_db w))))),
     stats_Messages = int (card {i. \<exists>m. v_messages (view (w_db w)) i = Some m \<and> msg_DeletedAt m = None}),
     stats_Contacts = int (card (dom (v_contacts (view (w_db w))))),
     stats_UnreadTotal = (\<Sum>j\<in>dom (v_chats (view (w_db w))). chat_UnreadCount (the (v_chats (view (w_db w)) j)))\<rparr>"
proof -
  let ?v = "view (w_db w)"
  have inv: "dinv (w_db w)" using assms(1) by (simp add: world_ok_def)
  obtain d1 where 1: "on_db (cst_Count (b_Chats B)) w = (Inr (int (card (dom (v_chats ?v)))), w\<lparr>w_db := d1\<rparr>)"
    "dinv d1" "calm d1" "view d1 = ?v"
    by (rule calm_read [OF chat_count inv assms(2)])
  obtain d2 where 2: "on_db (mst_Count (b_Messages B)) (w\<lparr>w_db := d1\<rparr>) = (Inr (int (card {i. \<exists>m. v_messages ?v i = Some m \<and> msg_DeletedAt m = None})),
      w\<lparr>w_db := d2\<rparr>)" "dinv d2" "calm d2" "view d2 = ?v"
    using calm_read [OF message_count, of "w\<lparr>w_db := d1\<rparr>"] 1 by auto
  obtain d3 where 3: "on_db (ost_Count (b_Contacts B)) (w\<lparr>w_db := d2\<rparr>) = (Inr (int (card (dom (v_contacts ?v)))), w\<lparr>w_db := d3\<rparr>)"
    "dinv d3" "calm d3" "view d3 = ?v"
    using calm_read [OF contact_count, of "w\<lparr>w_db := d2\<rparr>"] 2 by auto
  obtain d4 where 4: "on_db (cst_TotalUnread (b_Chats B)) (w\<lparr>w_db := d3\<rparr>) = (Inr (\<Sum>j\<in>dom (v_chats ?v). chat_UnreadCount (the (v_chats ?v j))),
      w\<lparr>w_db := d4\<rparr>)"
    using calm_read [OF chat_unread, of "w\<lparr>w_db := d3\<rparr>"] 3 by auto
  show ?thesis unfolding Stats_def S_bundle 1(1) prod.case sum.case 2(1) 3(1) 4 by simp
qed

section \<open>Media\<close>

lemma on_fs_write:
  assumes "fs_quiet (w_fs w)" "hex_digest sha"
  shows "on_fs (media_write sha root body mime) w = (Inr (sha body, media_path root (sha body) (ExtFromMIME mime)),
    w\<lparr>w_fs := snd (media_write sha root body mime (w_fs w))\<rparr>)"
  using media_write_quiet [OF assms, of root body mime]
  by (cases "media_write sha root body mime (w_fs w)") (simp add: on_fs_def)

lemma SendMedia_calm:
  assumes "W_ok w" "calm (w_db w)" and fs: "fs_quiet (w_fs w)" "hex_digest (s_sha S)"
    and req: "TrimSpace (smr_ChatJID req) \<noteq> []" "smr_Body req \<noteq> []" "TrimSpace (smr_MIME req) \<noteq> []"
      "smr_Kind req = ''image'' \<or> smr_Kind req = ''document'' \<and> TrimSpace (smr_Filename req) \<noteq> []"
      "length (smr_Caption req) \<le> 4096"
    and s: "wa_SendMedia (s_wa S) (smr_ChatJID req) (smr_Kind req) (smr_Caption req) (smr_Filename req) (smr_MIME req)
        (smr_Body req) (w_wa w) = (Inr s, x)"
    and c: "v_chats (view (w_db w)) (smr_ChatJID req) = Some c" and k: "chat_Kind c \<noteq> []"
    and cok: "chat_ok (c\<lparr>chat_LastMsgAt := sent_Timestamp s\<rparr>)"
  obtains d where "SendMedia S req w = (Inr (sent_media_message req s), w\<lparr>w_wa := x, w_db := d,
        w_fs := snd (media_write (s_sha S) (s_root S) (smr_Body req) (smr_MIME req) (w_fs w))\<rparr>)" "dinv d" "calm d"
    "view d = abs_put_chat nt (c\<lparr>chat_LastMsgAt := sent_Timestamp s\<rparr>)
       (abs_put_media (sent_media_ref S req s) (abs_put_message nt nopt (sent_media_message req s) (view (w_db w))))"
proof -
  let ?m = "sent_media_message req s"
  let ?ref = "sent_media_ref S req s"
  let ?path = "media_path (s_root S) (s_sha S (smr_Body req)) (ExtFromMIME (smr_MIME req))"
  have inv: "dinv (w_db w)" using assms(1) by (simp add: world_ok_def)
  let ?fs = "snd (media_write (s_sha S) (s_root S) (smr_Body req) (smr_MIME req) (w_fs w))"
  let ?w1 = "w\<lparr>w_wa := x, w_fs := ?fs\<rparr>"
  obtain d1 where 1: "on_db (mst_Put (b_Messages B) ?m) ?w1 = (None, ?w1\<lparr>w_db := d1\<rparr>)"
    "dinv d1" "calm d1" "view d1 = abs_put_message nt nopt ?m (view (w_db w))"
    using calm_write [OF message_put [of ?m], of ?w1] inv assms(2) c by (auto simp: sent_media_message_def new_message_def)
  have "v_messages (view d1) (med_MessageID ?ref) \<noteq> None"
    by (simp add: 1(4) abs_put_message_def sent_media_ref_def sent_media_message_def new_message_def)
  then obtain d2 where 2: "on_db (dst_Put (b_Media B) ?ref) (?w1\<lparr>w_db := d1\<rparr>) = (None, ?w1\<lparr>w_db := d2\<rparr>)"
    "dinv d2" "calm d2" "view d2 = abs_put_media ?ref (view d1)"
    using calm_write [OF media_put [of ?ref], of "?w1\<lparr>w_db := d1\<rparr>"] 1 by auto
  have vc: "v_chats (view d2) (smr_ChatJID req) = Some c" using 2(4) 1(4) c by (simp add: abs_put_media_def abs_put_message_def)
  obtain d3 where 3: "upsert_chat_on_send S (smr_ChatJID req) (sent_Timestamp s) ''upsert chat on send media failed'' (?w1\<lparr>w_db := d2\<rparr>)
      = ?w1\<lparr>w_db := d3\<rparr>" "dinv d3" "calm d3" "view d3 = abs_put_chat nt (c\<lparr>chat_LastMsgAt := sent_Timestamp s\<rparr>) (view d2)"
    using upsert_chat_calm [of "?w1\<lparr>w_db := d2\<rparr>" c "smr_ChatJID req" "c\<lparr>chat_LastMsgAt := sent_Timestamp s\<rparr>"
        "sent_Timestamp s" "''upsert chat on send media failed''"] 2(2,3) vc k cok by auto
  obtain pre where "?path = pre @ CHR ''/'' # s_sha S (smr_Body req) @ ExtFromMIME (smr_MIME req)"
    using final_path(1) [OF fs(2) ExtFromMIME_range] by blast
  then have pne: "?path \<noteq> []" by simp
  have wr: "on_fs (media_write (s_sha S) (s_root S) (smr_Body req) (smr_MIME req)) (w\<lparr>w_wa := x\<rparr>)
      = (Inr (s_sha S (smr_Body req), ?path), ?w1)"
    using on_fs_write [of "w\<lparr>w_wa := x\<rparr>"] fs by simp
  have "SendMedia S req w = (Inr ?m, ?w1\<lparr>w_db := d3\<rparr>)"
    using req s wr 1(1) 2(1) 3(1) pne unfolding sent_media_ref_def sent_media_message_def
    by (auto simp: SendMedia_def maxTextLen_def on_wa_def warn_if_def Let_def)
  then have "SendMedia S req w = (Inr ?m, w\<lparr>w_wa := x, w_db := d3, w_fs := ?fs\<rparr>)" by simp
  then show ?thesis by (rule that) (use 1(4) 2(4) 3(2-4) in simp_all)
qed

lemma GetMediaRef_calm:
  assumes "W_ok w" "calm (w_db w)" "TrimSpace i \<noteq> []"
  obtains d where "GetMediaRef S i w = (lookup (v_media (view (w_db w)) i), w\<lparr>w_db := d\<rparr>)" "view d = view (w_db w)"
  using calm_read [OF media_get [of i], of w] assms by (auto simp: GetMediaRef_def world_ok_def)

section \<open>A read that fails\<close>

text \<open>
  \<open>handleIncoming\<close> takes any error of \<open>Chats.Get\<close> for a missing chat: what it puts then has lost the
  name, the unread count and the archived flag of the row it overwrites.
\<close>

lemma incoming_get_fails:
  assumes t: "in_ReactionTargetID m = []" "in_RevokeOfID m = []" "in_EditOfID m = []" "in_PushName m = []"
    and ok: "bc_ok (w_bc w)" and g: "on_db (cst_Get (b_Chats B) (in_ChatJID m)) w = (Inl e, w1)" "w_bc w1 = w_bc w"
    and w1: "dinv (w_db w1)" "calm (w_db w1)"
    and cok: "chat_ok (chat_after m (view (w_db w1)\<lparr>v_chats := Map.empty\<rparr>))"
  shows "v_chats (view (w_db (handleIncoming S m w))) = (v_chats (view (w_db w1)))(in_ChatJID m \<mapsto>
      norm_chat nt (chat_after m (view (w_db w1)\<lparr>v_chats := Map.empty\<rparr>)))"
proof -
  let ?c = "chat_after m (view (w_db w1)\<lparr>v_chats := Map.empty\<rparr>)"
  have cj: "chat_JID ?c = in_ChatJID m" by (simp add: chat_after_def new_chat_def Let_def)
  obtain d3 where p3: "on_db (cst_Put (b_Chats B) ?c) w1 = (None, w1\<lparr>w_db := d3\<rparr>)"
    and d3: "dinv d3" "calm d3" "view d3 = abs_put_chat nt ?c (view (w_db w1))"
    by (rule calm_write [OF chat_put w1]) (use cok in auto)
  have np: "v_chats (view (w_db (w1\<lparr>w_db := d3\<rparr>))) (msg_ChatJID (message_of m)) \<noteq> None"
    using d3(3) cj by (simp add: abs_put_chat_def message_of_def new_message_def)
  obtain d4 where p4: "on_db (mst_Put (b_Messages B) (message_of m)) (w1\<lparr>w_db := d3\<rparr>) = (None, w1\<lparr>w_db := d4\<rparr>)"
    and d4: "dinv d4" "calm d4" "view d4 = abs_put_message nt nopt (message_of m) (view d3)"
    using calm_write [OF message_put _ _ np] d3(1,2) by simp metis
  define w2 where "w2 = (case in_MediaDownloader m of None \<Rightarrow> w1\<lparr>w_db := d4\<rparr>
      | Some d \<Rightarrow> w1\<lparr>w_db := d4, w_tasks := w_tasks (w1\<lparr>w_db := d4\<rparr>) @ [(in_ID m, d)]\<rparr>)"
  have w2: "w_db w2 = d4" "w_bc w2 = w_bc w" using g(2) by (simp_all add: w2_def split: option.split)
  have pre: "dinv (w_db w2)" "calm (w_db w2)" "bc_ok (w_bc w2)" using w2 d4 ok by simp_all
  let ?p = "BuildMessageReceivedPayload m media_zero"
  obtain d5 b where p5: "emit_json S ''message.received'' ?p w2 = w2\<lparr>w_db := d5, w_bc := b, w_tick := Suc (w_tick w2)\<rparr>"
    and d5: "view d5 = abs_emit nt (w_clock w2 (w_tick w2)) ''message.received'' ?p (view (w_db w2))"
    by (rule emit_calm [OF pre])
  have chat: "(let chat = (case Inl e of Inl e \<Rightarrow> new_chat (in_ChatJID m) (in_ChatKind m) | Inr c \<Rightarrow> c);
      chat = chat\<lparr>chat_LastMsgAt := in_Timestamp m, chat_UnreadCount := chat_UnreadCount chat + 1\<rparr>;
      chat = (if chat_Kind chat = [] then chat\<lparr>chat_Kind := in_ChatKind m\<rparr> else chat)
      in F chat) = F ?c" for F :: "chat \<Rightarrow> ('d, 'w) world"
    by (simp add: chat_after_def Let_def)
  have name: "(if in_PushName m \<noteq> [] then x else y) = y" for x y :: "('d, 'w) world" using t(4) by simp
  have plain: "handleIncoming S m w = incoming_plain S m w" using t by (simp add: handleIncoming_def)
  have "incoming_plain S m w = w2\<lparr>w_db := d5, w_bc := b, w_tick := Suc (w_tick w2)\<rparr>"
    unfolding incoming_plain_def S_bundle name Let_def [of w] g(1) prod.case chat p3
    using p4 p5 by (simp add: warn_if_def message_of_def flip: w2_def)
  then have "view (w_db (handleIncoming S m w)) = view d5" unfolding plain by simp
  then show ?thesis using d5 w2(1) d4(3) d3(3) cj by (simp add: abs_emit_def abs_append_def abs_put_message_def abs_put_chat_def)
qed

end

end
