(* ===== verification/Samples.thy ===== *)
theory Samples
  imports Service_Effects
begin

text \<open>
  A concrete daemon: an engine, a WhatsApp client, a store with one chat and two messages, and
  a hash. The examples of the theorems are evaluated on it.
\<close>

definition demo_engine :: engine where
  "demo_engine = \<lparr>eng_scan = (\<lambda>rows. rows), eng_fts = (\<lambda>q. Inr (\<lambda>b. if b = Some q then Some 0 else None)),
     eng_collate = (\<lambda>s. s), eng_lower = (\<lambda>s. s), eng_ul = (\<lambda>s. s), eng_ts = (\<lambda>t. t div 1000 * 1000),
     eng_fk_msg = ''FOREIGN KEY constraint failed'', eng_range_msg = ''out of range'',
     eng_limit_msg = ''LIMIT must not be negative''\<rparr>"

lemma demo_engine_ok [simp]: "engine_ok demo_engine"
  by (simp add: engine_ok_def demo_engine_def)

definition demo_me :: string where
  "demo_me = ''49170@s.whatsapp.net''"

definition demo_peer :: string where
  "demo_peer = ''49171@s.whatsapp.net''"

definition demo_sent :: sent where
  "demo_sent = \<lparr>sent_ID = ''3EB0'', sent_Timestamp = time_of_unix 1700000100, sent_SenderJID = demo_me\<rparr>"

text \<open>A client that is logged in and whose every call succeeds; its state counts the calls.\<close>

definition demo_wa :: "nat waclient" where
  "demo_wa = \<lparr>wa_Status = (\<lambda>n. \<lparr>st_Connected = True, st_JID = Some demo_me, st_PushName = None, st_Since = None\<rparr>),
     wa_LoginQR = (\<lambda>n. (Inl ErrAlreadyLoggedIn, n)), wa_LoginPhone = (\<lambda>p n. (Inl ErrAlreadyLoggedIn, n)),
     wa_Logout = (\<lambda>n. (None, n)), wa_SendText = (\<lambda>j t rt n. (Inr demo_sent, Suc n)),
     wa_SendMedia = (\<lambda>j k cap fn mime body n. (Inr demo_sent, Suc n)),
     wa_SendEdit = (\<lambda>j i t n. (Inr demo_sent, Suc n)), wa_SendRevoke = (\<lambda>j i n. (Inr demo_sent, Suc n)),
     wa_SendReaction = (\<lambda>j i e n. (None, Suc n)), wa_MarkRead = (\<lambda>j s i t n. (None, Suc n)),
     wa_SendChatPresence = (\<lambda>j st n. (None, Suc n)),
     wa_CreateGroup = (\<lambda>nm ps n. (Inr \<lparr>gr_JID = ''1@g.us'', gr_Name = nm, gr_OwnerJID = demo_me,
        gr_CreatedAt = 0, gr_Participants = []\<rparr>, Suc n)),
     wa_GetGroupInfo = (\<lambda>j n. (Inr \<lparr>gr_JID = j, gr_Name = '''', gr_OwnerJID = demo_me,
        gr_CreatedAt = 0, gr_Participants = []\<rparr>, Suc n)),
     wa_UpdateGroupParticipants = (\<lambda>j a ps n. (Inr [], Suc n)), wa_LeaveGroup = (\<lambda>j n. (None, Suc n))\<rparr>"

text \<open>
  The chat with \<open>demo_peer\<close>, one message received (unread) and one sent; \<open>a\<close> is the dialect's false and
  \<open>u\<close> its units of time in a second.
\<close>

definition demo_chat_row :: "'b \<Rightarrow> int \<Rightarrow> 'b chat_row" where
  "demo_chat_row a u = \<lparr>cr_jid = demo_peer, cr_name = None, cr_kind = ''user'', cr_last = Some (1700000000 * u),
     cr_unread = 1, cr_archived = a\<rparr>"

definition demo_row :: "string \<Rightarrow> string \<Rightarrow> int \<Rightarrow> message_row" where
  "demo_row i from t = \<lparr>mr_id = i, mr_chat_jid = demo_peer, mr_sender_jid = from, mr_ts = t, mr_kind = ''text'',
     mr_body = Some ''hello'', mr_reply_to = None, mr_edited_at = None, mr_deleted_at = None, mr_raw_meta = None\<rparr>"

definition demo_db :: "'b \<Rightarrow> int \<Rightarrow> 'b db" where
  "demo_db a u = empty_db\<lparr>t_chats := [demo_chat_row a u],
     t_messages := [demo_row ''A1'' demo_peer (1700000000 * u), demo_row ''A2'' demo_me (1700000001 * u)]\<rparr>"

definition demo_conn :: "'b \<Rightarrow> int \<Rightarrow> 'b conn" where
  "demo_conn a u = \<lparr>c_db = demo_db a u, c_faults = []\<rparr>"

definition demo_world :: "'b \<Rightarrow> int \<Rightarrow> ('b conn, nat) world" where
  "demo_world a u = \<lparr>w_db = demo_conn a u, w_wa = 0,
     w_fs = \<lparr>fs_files = Map.empty, fs_dirs = [], fs_faults = []\<rparr>, w_bc = bc_New 256,
     w_clock = (\<lambda>n. time_of_unix (1700000200 + int n)), w_tick = 0, w_warn = [], w_tasks = [], w_panic = False\<rparr>"

lemma demo_db_ok [simp]: "db_ok (demo_db a u)"
  by (simp add: db_ok_def demo_db_def empty_db_def keyed_def demo_row_def demo_chat_row_def chat_exists_def)

lemma demo_quiet [simp]: "quiet (w_db (demo_world a u))"
  by (simp add: quiet_def demo_world_def demo_conn_def)

lemma demo_inv [simp]: "conn_inv demo_engine (w_db (demo_world a u))"
  by (simp add: conn_inv_def demo_world_def demo_conn_def)

text \<open>What the demo store holds, through either dialect.\<close>

definition demo_chat :: chat where
  "demo_chat = \<lparr>chat_JID = demo_peer, chat_Name = '''', chat_Kind = ''user'',
     chat_LastMsgAt = time_of_unix 1700000000, chat_UnreadCount = 1, chat_Archived = False\<rparr>"

definition demo_message :: "string \<Rightarrow> string \<Rightarrow> int \<Rightarrow> message" where
  "demo_message i from t = new_message i demo_peer from (time_of_unix t) ''text'' ''hello'' ''''"

abbreviation demo_lite :: "(int conn, nat) world" where
  "demo_lite \<equiv> demo_world 0 1"

abbreviation demo_pg :: "(bool conn, nat) world" where
  "demo_pg \<equiv> demo_world False nanos"

lemmas demo_defs = demo_world_def demo_conn_def demo_db_def demo_row_def demo_chat_row_def empty_db_def
  demo_chat_def demo_message_def demo_me_def demo_peer_def

lemma demo_lite_rows [simp]:
  "v_chats (sqlite_view (w_db demo_lite)) demo_peer = Some demo_chat"
  "v_messages (sqlite_view (w_db demo_lite)) ''A1'' = Some (demo_message ''A1'' demo_peer 1700000000)"
  "v_messages (sqlite_view (w_db demo_lite)) ''A2'' = Some (demo_message ''A2'' demo_me 1700000001)"
  by (simp_all add: sqlite_view_def conn_view_def db_view_def scanChat_def scanMessage_def demo_defs
      unixToTime_def null_string_def new_message_def)

lemma demo_pg_rows [simp]:
  "v_chats (postgres_view (w_db demo_pg)) demo_peer = Some demo_chat"
  "v_messages (postgres_view (w_db demo_pg)) ''A1'' = Some (demo_message ''A1'' demo_peer 1700000000)"
  "v_messages (postgres_view (w_db demo_pg)) ''A2'' = Some (demo_message ''A2'' demo_me 1700000001)"
  by (simp_all add: postgres_view_def conn_view_def db_view_def pg_scanChat_def pg_scanMessage_def demo_defs
      null_string_def new_message_def UTC_def time_of_unix_def)

lemma demo_lite_ok [simp]: "world_ok (conn_inv demo_engine) sqlite_view demo_lite"
  by (simp add: world_ok_def unread_ok_def bc_ok_New) (simp add: sqlite_view_def conn_view_def db_view_def
      demo_defs scanChat_def bc_ok_New)

lemma demo_pg_ok [simp]: "world_ok (conn_inv demo_engine) postgres_view demo_pg"
  by (simp add: world_ok_def unread_ok_def bc_ok_New) (simp add: postgres_view_def conn_view_def db_view_def
      demo_defs pg_scanChat_def bc_ok_New)

text \<open>A stand-in for the hash: 64 copies of one digit.\<close>

definition demo_sha :: "string \<Rightarrow> string" where
  "demo_sha b = replicate 64 CHR ''a''"

lemma demo_sha_hex [simp]: "hex_digest demo_sha"
  by (simp add: hex_digest_def demo_sha_def is_hex_def list_all_iff)

text \<open>The daemon over either dialect.\<close>

abbreviation demo_svc :: "(int conn, nat) svc" where
  "demo_svc \<equiv> svc_New demo_wa (sqlite_bundle demo_engine) ''/m'' demo_sha True"

abbreviation demo_pg_svc :: "(bool conn, nat) svc" where
  "demo_pg_svc \<equiv> svc_New demo_wa (postgres_bundle demo_engine) ''/m'' demo_sha True"

lemma demo_status [simp]: "st_JID (wa_Status demo_wa n) = Some demo_me"
  by (simp add: demo_wa_def)

lemma demo_ids_A1 [simp]: "TrimSpace ''A1'' \<noteq> []"
  by (simp add: ascii_text)

lemma demo_ids_A2 [simp]: "TrimSpace ''A2'' \<noteq> []"
  by (simp add: ascii_text)

lemma demo_ids_peer [simp]: "TrimSpace demo_peer \<noteq> []"
  by (simp add: demo_peer_def ascii_text)

lemma demo_peer_ne [simp]: "demo_peer \<noteq> []"
  by (simp add: demo_peer_def)

lemma demo_message_fields [simp]:
  "msg_ID (demo_message i from t) = i" "msg_SenderJID (demo_message i from t) = from"
  "msg_ChatJID (demo_message i from t) = demo_peer" "msg_DeletedAt (demo_message i from t) = None"
  by (simp_all add: demo_message_def new_message_def)

text \<open>Runs of one step.\<close>

lemma run_step: "svc_step S w w' \<Longrightarrow> (svc_step S)\<^sup>*\<^sup>* w w'"
  by (rule r_into_rtranclp)

lemmas run_SendText = run_step [OF svc_step.SendText]
lemmas run_Receipt = run_step [OF svc_step.Receipt]

end
