(* ===== verification/Service_Props.thy ===== *)
theory Service_Props
  imports Samples
begin

text \<open>
  The properties of the use-case layer over the two dialects of the store: each is the
  instance of a lemma of \<open>Service_Laws\<close> or \<open>Service_Spec\<close> at the service \<open>New\<close> builds, and
  each is followed by its example on the demo daemon.
\<close>

section \<open>Runs\<close>

text \<open>Property C1: over Postgres, every run of the daemon (any requests, inbound messages, receipts,
  downloads and failures of database, disk or WhatsApp, in any order) keeps the store well formed
  (unique keys, no message without its chat, no media, reaction or receipt without its message, a
  growing event log), keeps every unread count non-negative and never panics on a closed channel.\<close>

theorem daemon_invariant:
  assumes "(svc_step (svc_New wa (postgres_bundle eng) root sha live))\<^sup>*\<^sup>* w w'"
    and "world_ok (conn_inv eng) postgres_view w"
  shows "world_ok (conn_inv eng) postgres_view w' \<and> view_ok (postgres_view (w_db w'))"
  using svc_postgres.run_world_ok [OF assms] postgres.inv_view_ok by (auto simp: world_ok_def)

theorem daemon_invariant_witness:
  "world_ok (conn_inv demo_engine) postgres_view
     (snd (SendText (svc_New demo_wa (postgres_bundle demo_engine) ''/m'' demo_sha True) demo_peer ''hi'' '''' demo_pg))"
  using daemon_invariant [OF run_SendText demo_pg_ok] by blast




section \<open>Inbound messages\<close>

text \<open>Property C4: over Postgres that does not fail, handling an inbound message has exactly the effect of the
  abstract specification: a reaction is stored or cleared, a revoke marks its target deleted, an
  edit replaces the body of a known target and is ignored otherwise, and a plain message upserts
  the sender's contact, raises the chat's unread count by one and stores the message; each then
  appends one event to the log.\<close>

theorem incoming_refines:
  assumes "world_ok (conn_inv eng) postgres_view w" "quiet (w_db w)"
    and "int4_range (chat_UnreadCount (chat_after m (postgres_view (w_db w))))"
  shows "postgres_view (w_db (handleIncoming (svc_New wa (postgres_bundle eng) root sha live) m w))
     = abs_incoming (eng_ts eng) (pg_opt eng) (\<lambda>k. w_clock w (w_tick w + k)) m (postgres_view (w_db w))"
  by (rule svc_postgres.handleIncoming_calm [OF assms])

definition demo_incoming :: incoming_message where
  "demo_incoming = \<lparr>in_ID = ''A3'', in_ChatJID = demo_peer, in_ChatKind = ''user'', in_SenderJID = demo_peer,
     in_Timestamp = time_of_unix 1700000050, in_Kind = ''text'', in_Body = ''again'', in_PushName = ''Peer'',
     in_MediaDownloader = None, in_EditOfID = '''', in_RevokeOfID = '''', in_ReactionTargetID = '''',
     in_ReactionEmoji = ''''\<rparr>"

theorem incoming_refines_witness:
  "postgres_view (w_db (handleIncoming (svc_New demo_wa (postgres_bundle demo_engine) ''/m'' demo_sha True) demo_incoming demo_pg))
     = abs_incoming (eng_ts demo_engine) (pg_opt demo_engine) (\<lambda>k. w_clock demo_pg (w_tick demo_pg + k)) demo_incoming
         (postgres_view (w_db demo_pg))"
  by (rule incoming_refines) (simp_all add: chat_after_def demo_incoming_def demo_chat_def Let_def int4_range_def)

section \<open>Sending\<close>

text \<open>Property C5: over SQLite that does not fail, the first text sent to a chat the store does not know is
  delivered and reported as sent, but its row is not kept: the message is inserted before the chat
  it refers to, the foreign key refuses it, a warning is logged and only the chat row is written.\<close>

theorem first_message_not_kept:
  assumes "world_ok (conn_inv eng) sqlite_view w" "quiet (w_db w)"
    and "TrimSpace j \<noteq> []" "t \<noteq> []" "length t \<le> 4096"
    and "wa_SendText wa j t rt (w_wa w) = (Inr s, x)"
    and "v_chats (sqlite_view (w_db w)) j = None"
  shows "\<exists>d. SendText (svc_New wa (sqlite_bundle eng) root sha live) j t rt w =
      (Inr (new_message (sent_ID s) j (sent_SenderJID s) (sent_Timestamp s) ''text'' t rt),
       w\<lparr>w_wa := x, w_db := d, w_warn := w_warn w @ [''persist outbound message failed; whatsmeow echo will heal'']\<rparr>)
    \<and> sqlite_view d = abs_put_chat to_seconds ((new_chat j (ChatKindFromJID j))\<lparr>chat_LastMsgAt := sent_Timestamp s\<rparr>)
        (sqlite_view (w_db w))"
  by (rule svc_sqlite.SendText_new_chat) (use assms in \<open>simp_all add: svc_New_def\<close>)

theorem first_message_not_kept_witness:
  "v_messages (sqlite_view (w_db (snd (SendText (svc_New demo_wa (sqlite_bundle demo_engine) ''/m'' demo_sha True)
      ''4@s.whatsapp.net'' ''hi'' '''' demo_lite)))) ''3EB0'' = None"
proof -
  have "TrimSpace ''4@s.whatsapp.net'' \<noteq> []" by (simp add: ascii_text)
  moreover have "v_chats (sqlite_view (w_db demo_lite)) ''4@s.whatsapp.net'' = None"
    by (simp add: sqlite_view_def conn_view_def db_view_def demo_defs)
  moreover have "wa_SendText demo_wa ''4@s.whatsapp.net'' ''hi'' '''' (w_wa demo_lite) = (Inr demo_sent, Suc (w_wa demo_lite))"
    by (simp add: demo_wa_def)
  ultimately obtain d where d: "SendText (svc_New demo_wa (sqlite_bundle demo_engine) ''/m'' demo_sha True) ''4@s.whatsapp.net''
      ''hi'' '''' demo_lite = (Inr (new_message (sent_ID demo_sent) ''4@s.whatsapp.net'' (sent_SenderJID demo_sent)
        (sent_Timestamp demo_sent) ''text'' ''hi'' ''''), demo_lite\<lparr>w_wa := Suc (w_wa demo_lite), w_db := d,
        w_warn := w_warn demo_lite @ [''persist outbound message failed; whatsmeow echo will heal'']\<rparr>)"
    and v: "v_messages (sqlite_view d) = v_messages (sqlite_view (w_db demo_lite))"
    using first_message_not_kept [OF demo_lite_ok demo_quiet, of "''4@s.whatsapp.net''" "''hi''" demo_wa "''''" demo_sent
        "Suc (w_wa demo_lite)" "''/m''" demo_sha True] by (auto simp: abs_put_chat_def)
  show ?thesis unfolding d snd_conv by (simp add: v) (simp add: sqlite_view_def conn_view_def db_view_def demo_defs)
qed

end
