(* ===== verification/Message_Props.thy ===== *)
theory Message_Props
  imports Samples
begin

text \<open>
  Properties of the message requests: sending, editing, deleting, listing, marking as read,
  reacting and receipts, and the two ways an inbound message can damage stored rows. Each is the
  instance of a lemma of \<open>Service_Spec\<close> or \<open>Service_Effects\<close> at one dialect, with its example.
\<close>

section \<open>Sending\<close>

text \<open>Property C6: over SQLite that does not fail, a text sent to a chat the store knows is returned as WhatsApp
  reported it, kept as a message and moves the chat's last-message time, and nothing else of the
  store changes.\<close>

theorem sent_message_kept:
  assumes "world_ok (conn_inv eng) sqlite_view w" "quiet (w_db w)"
    and "TrimSpace j \<noteq> []" "t \<noteq> []" "length t \<le> 4096"
    and "wa_SendText wa j t rt (w_wa w) = (Inr s, x)"
    and "v_chats (sqlite_view (w_db w)) j = Some c" "chat_Kind c \<noteq> []"
  shows "\<exists>d. SendText (svc_New wa (sqlite_bundle eng) root sha live) j t rt w =
      (Inr (new_message (sent_ID s) j (sent_SenderJID s) (sent_Timestamp s) ''text'' t rt), w\<lparr>w_wa := x, w_db := d\<rparr>)
    \<and> sqlite_view d = abs_put_chat to_seconds (c\<lparr>chat_LastMsgAt := sent_Timestamp s\<rparr>)
        (abs_put_message to_seconds (map_option to_seconds)
          (new_message (sent_ID s) j (sent_SenderJID s) (sent_Timestamp s) ''text'' t rt) (sqlite_view (w_db w)))"
  by (rule svc_sqlite.SendText_known_chat) (use assms in \<open>simp_all add: svc_New_def\<close>)

theorem sent_message_kept_witness:
  "v_messages (sqlite_view (w_db (snd (SendText demo_svc demo_peer ''hi'' '''' demo_lite)))) ''3EB0'' \<noteq> None"
proof -
  have s: "wa_SendText demo_wa demo_peer ''hi'' '''' (w_wa demo_lite) = (Inr demo_sent, Suc (w_wa demo_lite))"
    by (simp add: demo_wa_def)
  show ?thesis
    using sent_message_kept [OF demo_lite_ok demo_quiet _ _ _ s demo_lite_rows(1), of "''/m''" demo_sha True]
    by (auto simp: demo_chat_def abs_put_chat_def abs_put_message_def new_message_def demo_sent_def)
qed

section \<open>Editing and deleting\<close>

text \<open>Property C7: whatever fails, an edit over Postgres that is reported as done was of a message the store held,
  sent by the account that is logged in and not deleted, with a text of 1 to 4096 bytes; what is
  returned is that message with the new body and an edit time.\<close>

theorem edit_only_own:
  assumes "world_ok (conn_inv eng) postgres_view w"
    and "EditMessage (svc_New wa (postgres_bundle eng) root sha live) i t w = (Inr m', w')"
  shows "\<exists>m (s :: sent). v_messages (postgres_view (w_db w)) i = Some m
     \<and> st_JID (wa_Status wa (w_wa w)) = Some (msg_SenderJID m) \<and> msg_DeletedAt m = None
     \<and> t \<noteq> [] \<and> length t \<le> 4096 \<and> m' = m\<lparr>msg_Body := t, msg_EditedAt := Some (sent_Timestamp s)\<rparr>"
  using svc_postgres.edit_authorised [OF assms] by (auto simp: svc_New_def)

theorem edit_only_own_witness:
  "\<exists>m' w'. EditMessage demo_pg_svc ''A2'' ''new'' demo_pg = (Inr m', w') \<and> length (msg_Body m') \<le> 4096"
proof -
  have s: "wa_SendEdit demo_wa demo_peer ''A2'' ''new'' (w_wa demo_pg) = (Inr demo_sent, Suc (w_wa demo_pg))"
    by (simp add: demo_wa_def)
  obtain m' w' where e: "EditMessage demo_pg_svc ''A2'' ''new'' demo_pg = (Inr m', w')"
    by (rule svc_postgres.EditMessage_calm [OF demo_pg_ok demo_quiet demo_pg_rows(3), where t = "''new''" and wa = demo_wa
          and root = "''/m''" and sha = demo_sha and live = True and s = demo_sent and x = "Suc (w_wa demo_pg)"])
       (use s in \<open>simp_all add: svc_New_def\<close>)
  then show ?thesis using edit_only_own [OF demo_pg_ok e] by auto
qed

lemma page_rows:
  assumes "is_page (listable nt j t v) key n ms" "m \<in> set ms"
  shows "v_messages v (msg_ID m) = Some m" "msg_ChatJID m = j" "msg_DeletedAt m = None"
  using assms by (auto simp: is_page_def listable_def)

text \<open>Property C8: over SQLite that does not fail, deleting one's own message revokes it on WhatsApp and marks it
  deleted at the clock's time; afterwards no page of the chat lists it, and a second deletion is
  refused as forbidden before anything is sent.\<close>

theorem delete_hides:
  assumes "world_ok (conn_inv eng) sqlite_view w" "quiet (w_db w)"
    and "v_messages (sqlite_view (w_db w)) i = Some m" "TrimSpace i \<noteq> []"
    and "st_JID (wa_Status wa (w_wa w)) = Some (msg_SenderJID m)" "msg_DeletedAt m = None"
    and "wa_SendRevoke wa (msg_ChatJID m) i (w_wa w) = (Inr s, x)"
  shows "let S = svc_New wa (sqlite_bundle eng) root sha live in \<exists>w1. DeleteMessage S i w = (None, w1) \<and> w_wa w1 = x
     \<and> v_messages (sqlite_view (w_db w1)) = (v_messages (sqlite_view (w_db w)))(i \<mapsto>
         m\<lparr>msg_DeletedAt := Some (to_seconds (w_clock w (w_tick w)))\<rparr>)
     \<and> (\<forall>j t l ms w2. ListMessages S j t l w1 = (Inr ms, w2) \<longrightarrow> i \<notin> msg_ID ` set ms)
     \<and> (\<exists>e w2. DeleteMessage S i w1 = (Some e, w2) \<and> is_err EForbidden e \<and> w_wa w2 = x)"
proof -
  define S where "S = svc_New wa (sqlite_bundle eng) root sha live"
  obtain d where del: "DeleteMessage S i w = (None, w\<lparr>w_wa := x, w_tick := Suc (w_tick w), w_db := d\<rparr>)"
    and d: "conn_inv eng d" "quiet d" "sqlite_view d = abs_soft_delete to_seconds i (w_clock w (w_tick w)) (sqlite_view (w_db w))"
    by (rule svc_sqlite.DeleteMessage_calm [OF assms(1-4), of wa root sha live s x])
       (use assms(5-7) in \<open>auto simp: svc_New_def S_def\<close>)
  let ?w1 = "w\<lparr>w_wa := x, w_tick := Suc (w_tick w), w_db := d\<rparr>"
  let ?m = "m\<lparr>msg_DeletedAt := Some (to_seconds (w_clock w (w_tick w)))\<rparr>"
  have rows: "v_messages (sqlite_view d) = (v_messages (sqlite_view (w_db w)))(i \<mapsto> ?m)"
    using d(3) assms(3) by (simp add: abs_soft_delete_def)
  have ok: "world_ok (conn_inv eng) sqlite_view ?w1"
    using assms(1) d by (auto simp: world_ok_def unread_ok_def abs_soft_delete_def split: option.splits)
  have "i \<notin> msg_ID ` set ms" if l: "ListMessages S j t l ?w1 = (Inr ms, w2)" for j t l ms w2
  proof
    have page: "is_page (listable to_seconds j t (sqlite_view d)) (\<lambda>m. - msg_Timestamp m) (nat l) ms"
      using svc_sqlite.ListMessages_page [OF ok l [unfolded S_def]] by simp
    assume "i \<in> msg_ID ` set ms"
    then obtain m' where "m' \<in> set ms" "msg_ID m' = i" by blast
    then show False using page_rows(1,3) [OF page, of m'] rows by auto
  qed
  moreover have "\<exists>e w2. DeleteMessage S i ?w1 = (Some e, w2) \<and> is_err EForbidden e \<and> w_wa w2 = x"
    using svc_sqlite.delete_refused [OF ok, of i ?m wa root sha live] d(2) rows assms(4) by (auto simp: S_def)
  ultimately show ?thesis unfolding S_def [symmetric] Let_def using del rows
    by (intro exI [of _ ?w1] conjI) (simp_all, blast?)
qed

theorem delete_hides_witness:
  "\<exists>w1. DeleteMessage demo_svc ''A2'' demo_lite = (None, w1)
     \<and> (\<forall>j t l ms w2. ListMessages demo_svc j t l w1 = (Inr ms, w2) \<longrightarrow> ''A2'' \<notin> msg_ID ` set ms)"
proof -
  have s: "wa_SendRevoke demo_wa (msg_ChatJID (demo_message ''A2'' demo_me 1700000001)) ''A2'' (w_wa demo_lite)
      = (Inr demo_sent, Suc (w_wa demo_lite))"
    by (simp add: demo_wa_def)
  show ?thesis
    using delete_hides [OF demo_lite_ok demo_quiet demo_lite_rows(3) _ _ _ s, of "''/m''" demo_sha True] by (auto simp: Let_def)
qed

section \<open>Listing\<close>

text \<open>Property C9: over Postgres, a page of messages that is returned was asked for with a limit between 1 and 100
  and a chat; it holds at most that many messages, all of the chat, live and (with a cursor) older
  than it, none twice, newest first, and no message left out is newer than one listed.\<close>

theorem message_page:
  assumes "world_ok (conn_inv eng) postgres_view w"
    and "ListMessages (svc_New wa (postgres_bundle eng) root sha live) j t l w = (Inr ms, w')"
  shows "1 \<le> l \<and> l \<le> 100 \<and> TrimSpace j \<noteq> []
    \<and> is_page (listable (eng_ts eng) j t (postgres_view (w_db w))) (\<lambda>m. - msg_Timestamp m) (nat l) ms
    \<and> postgres_view (w_db w') = postgres_view (w_db w)"
  by (rule svc_postgres.ListMessages_page [OF assms])

theorem message_page_witness:
  "\<exists>ms w'. ListMessages demo_pg_svc demo_peer time_zero 1 demo_pg = (Inr ms, w') \<and> length ms \<le> 1"
proof -
  have "\<not> isl (fst (ListMessages demo_pg_svc demo_peer time_zero 1 demo_pg))"
    by (simp add: ListMessages_def svc_New_def validateLimit_def minLimit_def maxLimit_def on_db_def postgres_bundle_def
        pg_MessageStore_ListByChat_def query_rows_def next_fault_def pg_limit_def demo_world_def demo_conn_def)
  then obtain ms w' where l: "ListMessages demo_pg_svc demo_peer time_zero 1 demo_pg = (Inr ms, w')"
    by (metis isl_def prod.exhaust_sel sum.exhaust_sel)
  then show ?thesis using message_page [OF demo_pg_ok l] by (auto simp: is_page_def)
qed

section \<open>Marking as read\<close>

lemma mark_read_once:
  assumes "world_ok (conn_inv eng) postgres_view w" "quiet (w_db w)"
    and m: "v_messages (postgres_view (w_db w)) i = Some m" "TrimSpace i \<noteq> []"
    and s: "\<And>y t. fst (wa_MarkRead wa (msg_ChatJID m) (msg_SenderJID m) i t y) = None"
    and c: "v_chats (postgres_view (w_db w)) (msg_ChatJID m) = Some c"
    and small: "int4_range (chat_UnreadCount c)"
  obtains w' c' where "MarkMessageRead (svc_New wa (postgres_bundle eng) root sha live) i w = (None, w')"
    "world_ok (conn_inv eng) postgres_view w'" "quiet (w_db w')"
    "v_messages (postgres_view (w_db w')) = v_messages (postgres_view (w_db w))"
    "v_chats (postgres_view (w_db w')) (msg_ChatJID m) = Some c'" "chat_UnreadCount c' = max 0 (chat_UnreadCount c - 1)"
proof -
  obtain x where x: "wa_MarkRead wa (msg_ChatJID m) (msg_SenderJID m) i (w_clock w (w_tick w)) (w_wa w) = (None, x)"
    using s by (metis prod.exhaust_sel)
  have pos: "0 \<le> chat_UnreadCount c" "chat_JID c = msg_ChatJID m"
    using assms(1) c postgres.inv_view_ok by (auto simp: world_ok_def unread_ok_def view_ok_def)
  then have less: "int4_range (chat_UnreadCount (c\<lparr>chat_UnreadCount := chat_UnreadCount c - 1\<rparr>))"
    using small by (simp add: int4_range_def)
  obtain d where r: "MarkMessageRead (svc_New wa (postgres_bundle eng) root sha live) i w
      = (None, w\<lparr>w_wa := x, w_tick := Suc (w_tick w), w_db := d\<rparr>)"
    and d: "conn_inv eng d" "quiet d" "postgres_view d = (if 0 < chat_UnreadCount c
      then abs_put_chat (eng_ts eng) (c\<lparr>chat_UnreadCount := chat_UnreadCount c - 1\<rparr>) (postgres_view (w_db w))
      else postgres_view (w_db w))"
    by (rule svc_postgres.MarkMessageRead_calm [OF assms(1-4) _ c less, where wa = wa and root = root and sha = sha
          and live = live and x = x])
       (use x in \<open>simp_all add: svc_New_def\<close>)
  have "unread_ok (postgres_view d)"
    using assms(1) d(3) by (auto simp: world_ok_def unread_ok_def abs_put_chat_def norm_chat_def split: if_splits)
  then show ?thesis
    using that [OF r, of "if 0 < chat_UnreadCount c
        then norm_chat (eng_ts eng) (c\<lparr>chat_UnreadCount := chat_UnreadCount c - 1\<rparr>) else c"] assms(1) d c pos
    by (auto simp: world_ok_def abs_put_chat_def norm_chat_def)
qed

text \<open>Property C10: over Postgres that does not fail, marking a message as read lowers its chat's unread count by
  one, never below zero, and touches nothing else; marking the same message again lowers it again,
  so the request is not idempotent.\<close>

theorem mark_read_twice:
  assumes "world_ok (conn_inv eng) postgres_view w" "quiet (w_db w)"
    and m: "v_messages (postgres_view (w_db w)) i = Some m" "TrimSpace i \<noteq> []"
    and s: "\<And>y t. fst (wa_MarkRead wa (msg_ChatJID m) (msg_SenderJID m) i t y) = None"
    and c: "v_chats (postgres_view (w_db w)) (msg_ChatJID m) = Some c"
    and small: "int4_range (chat_UnreadCount c)"
  shows "let S = svc_New wa (postgres_bundle eng) root sha live;
             once = MarkMessageRead S i w; twice = MarkMessageRead S i (snd once);
             unread = (\<lambda>w. map_option chat_UnreadCount (v_chats (postgres_view (w_db w)) (msg_ChatJID m)))
         in fst once = None \<and> unread (snd once) = Some (max 0 (chat_UnreadCount c - 1))
          \<and> fst twice = None \<and> unread (snd twice) = Some (max 0 (chat_UnreadCount c - 2))
          \<and> v_messages (postgres_view (w_db (snd twice))) = v_messages (postgres_view (w_db w))"
proof -
  define S where "S = svc_New wa (postgres_bundle eng) root sha live"
  obtain w1 c1 where 1: "MarkMessageRead S i w = (None, w1)" "world_ok (conn_inv eng) postgres_view w1" "quiet (w_db w1)"
    "v_messages (postgres_view (w_db w1)) = v_messages (postgres_view (w_db w))"
    "v_chats (postgres_view (w_db w1)) (msg_ChatJID m) = Some c1" "chat_UnreadCount c1 = max 0 (chat_UnreadCount c - 1)"
    unfolding S_def by (rule mark_read_once [OF assms, of root sha live])
  have m1: "v_messages (postgres_view (w_db w1)) i = Some m" using 1(4) m(1) by simp
  have small1: "int4_range (chat_UnreadCount c1)" using 1(6) small by (auto simp: int4_range_def)
  obtain w2 c2 where 2: "MarkMessageRead S i w1 = (None, w2)"
    "v_messages (postgres_view (w_db w2)) = v_messages (postgres_view (w_db w1))"
    "v_chats (postgres_view (w_db w2)) (msg_ChatJID m) = Some c2" "chat_UnreadCount c2 = max 0 (chat_UnreadCount c1 - 1)"
    unfolding S_def by (rule mark_read_once [OF 1(2,3) m1 m(2) s 1(5) small1, of root sha live])
  show ?thesis unfolding S_def [symmetric] Let_def 1(1) snd_conv fst_conv 2(1) using 1(4-6) 2(2-4) by simp
qed

theorem mark_read_twice_witness:
  "\<exists>w2. MarkMessageRead demo_pg_svc ''A1'' (snd (MarkMessageRead demo_pg_svc ''A1'' demo_pg)) = (None, w2)
     \<and> map_option chat_UnreadCount (v_chats (postgres_view (w_db w2)) demo_peer) = Some 0"
proof -
  have s: "fst (wa_MarkRead demo_wa (msg_ChatJID (demo_message ''A1'' demo_peer 1700000000))
      (msg_SenderJID (demo_message ''A1'' demo_peer 1700000000)) ''A1'' t y) = None" for t y
    by (simp add: demo_wa_def)
  have c: "v_chats (postgres_view (w_db demo_pg)) (msg_ChatJID (demo_message ''A1'' demo_peer 1700000000)) = Some demo_chat"
    by simp
  show ?thesis
    using mark_read_twice [OF demo_pg_ok demo_quiet demo_pg_rows(2) demo_ids_A1 s c, of "''/m''" demo_sha True]
    by (auto simp: Let_def demo_chat_def int4_range_def prod_eq_iff)
qed

section \<open>Reactions and receipts\<close>

text \<open>Property C11: over SQLite that does not fail, a reaction the daemon sends is what the store then holds for the
  message and the logged-in account, in place of an earlier one; sending the empty emoji removes it.\<close>

theorem reaction_set_and_clear:
  assumes "world_ok (conn_inv eng) sqlite_view w" "quiet (w_db w)"
    and "v_messages (sqlite_view (w_db w)) i = Some m" "TrimSpace i \<noteq> []"
    and "wa_SendReaction wa (msg_ChatJID m) i e (w_wa w) = (None, x)" "st_JID (wa_Status wa x) = Some me"
  shows "let r = SendReaction (svc_New wa (sqlite_bundle eng) root sha live) i e w
    in fst r = None \<and> v_reactions (sqlite_view (w_db (snd r))) = (v_reactions (sqlite_view (w_db w)))((i, me) :=
      if e = [] then None else Some \<lparr>rea_MessageID = i, rea_SenderJID = me, rea_Emoji = e,
        rea_Timestamp = to_seconds (w_clock w (w_tick w))\<rparr>)"
proof -
  let ?S = "svc_New wa (sqlite_bundle eng) root sha live"
  have me: "our_jid ?S x = me" using assms(6) by (simp add: our_jid_def svc_New_def)
  show ?thesis
    by (rule svc_sqlite.SendReaction_calm [OF assms(1-4), where wa = wa and root = root and sha = sha and live = live and e = e and x = x])
       (use assms(5) me in \<open>simp_all add: svc_New_def abs_delete_reaction_def abs_put_reaction_def norm_reaction_def\<close>)
qed

theorem reaction_set_and_clear_witness:
  "rea_Emoji (the (v_reactions (sqlite_view (w_db (snd (SendReaction demo_svc ''A1'' ''+'' demo_lite)))) (''A1'', demo_me))) = ''+''"
proof -
  have s: "wa_SendReaction demo_wa (msg_ChatJID (demo_message ''A1'' demo_peer 1700000000)) ''A1'' ''+'' (w_wa demo_lite)
      = (None, Suc (w_wa demo_lite))" by (simp add: demo_wa_def)
  show ?thesis
    using reaction_set_and_clear [OF demo_lite_ok demo_quiet demo_lite_rows(2) demo_ids_A1 s demo_status, of "''/m''" demo_sha True]
    by (simp add: Let_def)
qed

section \<open>Pages and seconds\<close>

text \<open>Two messages of one second: the cursor of the first page excludes the second from every later one.\<close>

definition tied_conn :: "int conn" where
  "tied_conn = \<lparr>c_db = empty_db\<lparr>t_chats := [demo_chat_row 0 1],
     t_messages := [demo_row ''A1'' demo_peer 1700000000, demo_row ''A2'' demo_peer 1700000000]\<rparr>, c_faults = []\<rparr>"

theorem pages_lose_ties:
  "\<exists>m. fst (MessageStore_ListByChat demo_engine demo_peer 1 time_zero tied_conn) = Inr [m] \<and> msg_ID m = ''A1''
    \<and> fst (MessageStore_ListByChat demo_engine demo_peer 1 (msg_Timestamp m) tied_conn) = Inr []
    \<and> fst (MessageStore_Count tied_conn) = Inr 2"
proof -
  let ?m = "scanMessage (demo_row ''A1'' demo_peer 1700000000)"
  have "fst (MessageStore_ListByChat demo_engine demo_peer 1 time_zero tied_conn) = Inr [?m]"
    by (simp add: MessageStore_ListByChat_def query_rows_def next_fault_def tied_conn_def demo_engine_def demo_row_def sql_limit_def IsZero_def)
  moreover have "msg_Timestamp ?m = time_of_unix 1700000000" "msg_ID ?m = ''A1''"
    by (simp_all add: scanMessage_def demo_row_def unixToTime_def)
  moreover have "fst (MessageStore_ListByChat demo_engine demo_peer 1 (time_of_unix 1700000000) tied_conn) = Inr []"
    by (simp add: MessageStore_ListByChat_def query_rows_def next_fault_def tied_conn_def demo_engine_def demo_row_def sql_limit_def
        IsZero_def time_zero_def time_of_unix_def Unix_def nanos_def)
  moreover have "fst (MessageStore_Count tied_conn) = Inr 2"
    by (simp add: MessageStore_Count_def query_val_def query_row_def next_fault_def tied_conn_def demo_row_def)
  ultimately show ?thesis by auto
qed

end
