(* ===== verification/Inbound_Props.thy ===== *)
theory Inbound_Props
  imports Samples
begin

text \<open>
  What inbound traffic leaves in the store: receipts, and the two ways a redelivered message or a
  failing read damages stored rows. Each is the instance of a lemma of \<open>Service_Spec\<close> or
  \<open>Service_Effects\<close> at one dialect, with its example.
\<close>

section \<open>Receipts\<close>

lemma abs_receipts_lookup:
  "v_receipts (abs_receipts nt r ids v) (i, ir_ReaderJID r, ir_Type r) =
     (if i \<in> set ids \<and> v_messages v i \<noteq> None
      then Some \<lparr>rec_MessageID = i, rec_ReaderJID = ir_ReaderJID r, rec_Type = ir_Type r, rec_Timestamp = nt (ir_Timestamp r)\<rparr>
      else v_receipts v (i, ir_ReaderJID r, ir_Type r))"
  by (induction nt r ids v rule: abs_receipts.induct) (auto simp: abs_put_receipt_def norm_receipt_def)

lemma abs_receipts_log [simp]: "v_log (abs_receipts nt r ids v) = v_log v"
  by (induction nt r ids v rule: abs_receipts.induct) (auto simp: abs_put_receipt_def)

text \<open>Property C12: over Postgres that does not fail, a receipt for several messages is stored for each of them the
  store knows and for no other; one event is appended to the log if any was stored, none otherwise.\<close>

theorem receipts_stored:
  assumes "world_ok (conn_inv eng) postgres_view w" "quiet (w_db w)"
  shows "let v = postgres_view (w_db w);
             v' = postgres_view (w_db (handleReceipt (svc_New wa (postgres_bundle eng) root sha live) r w));
             known = (\<lambda>i. i \<in> set (ir_MessageIDs r) \<and> v_messages v i \<noteq> None)
         in (\<forall>i. v_receipts v' (i, ir_ReaderJID r, ir_Type r) =
               (if known i then Some \<lparr>rec_MessageID = i, rec_ReaderJID = ir_ReaderJID r, rec_Type = ir_Type r,
                  rec_Timestamp = eng_ts eng (ir_Timestamp r)\<rparr>
                else v_receipts v (i, ir_ReaderJID r, ir_Type r)))
          \<and> length (v_log v') = length (v_log v) + (if \<exists>i. known i then 1 else 0)"
  using svc_postgres.handleReceipt_calm [OF assms, of wa root sha live r]
  by (auto simp: Let_def abs_receipts_lookup abs_emit_def abs_append_def)

definition demo_receipts :: incoming_receipt where
  "demo_receipts = \<lparr>ir_MessageIDs = [''A2'', ''Z9''], ir_ChatJID = demo_peer, ir_ReaderJID = demo_peer,
     ir_Type = ''read'', ir_Timestamp = time_of_unix 1700000300\<rparr>"

theorem receipts_stored_witness:
  "v_receipts (postgres_view (w_db (handleReceipt demo_pg_svc demo_receipts demo_pg))) (''A2'', demo_peer, ''read'') \<noteq> None
   \<and> length (v_log (postgres_view (w_db (handleReceipt demo_pg_svc demo_receipts demo_pg)))) =
      Suc (length (v_log (postgres_view (w_db demo_pg))))"
  using receipts_stored [OF demo_pg_ok demo_quiet, of demo_wa "''/m''" demo_sha True demo_receipts]
  by (auto simp: Let_def demo_receipts_def)

section \<open>Redelivery\<close>

text \<open>Over SQLite that does not fail, a plain message delivered again is written over the stored row:
  whatever edit or deletion the store had recorded for it is forgotten.\<close>

theorem redelivery_undeletes:
  assumes "world_ok (conn_inv eng) sqlite_view w" "quiet (w_db w)"
    and "in_ReactionTargetID m = []" "in_RevokeOfID m = []" "in_EditOfID m = []"
  shows "\<exists>m'. v_messages (sqlite_view (w_db (handleIncoming (svc_New wa (sqlite_bundle eng) root sha live) m w))) (in_ID m) = Some m'
     \<and> msg_DeletedAt m' = None \<and> msg_EditedAt m' = None \<and> msg_Body m' = in_Body m"
  using svc_sqlite.handleIncoming_calm [OF assms(1,2) TrueI, of wa root sha live m] assms(3-5)
  by (simp add: abs_incoming_def abs_emit_def abs_append_def abs_put_message_def message_of_def new_message_def
      norm_message_def)

definition demo_redelivery :: incoming_message where
  "demo_redelivery = \<lparr>in_ID = ''A2'', in_ChatJID = demo_peer, in_ChatKind = ''user'', in_SenderJID = demo_me,
     in_Timestamp = time_of_unix 1700000001, in_Kind = ''text'', in_Body = ''hello'', in_PushName = '''',
     in_MediaDownloader = None, in_EditOfID = '''', in_RevokeOfID = '''', in_ReactionTargetID = '''',
     in_ReactionEmoji = ''''\<rparr>"

theorem redelivery_undeletes_witness:
  "(\<exists>m. v_messages (sqlite_view (w_db (snd (DeleteMessage demo_svc ''A2'' demo_lite)))) ''A2'' = Some m \<and> msg_DeletedAt m \<noteq> None)
   \<and> (\<exists>m. v_messages (sqlite_view (w_db (handleIncoming demo_svc demo_redelivery
        (snd (DeleteMessage demo_svc ''A2'' demo_lite))))) ''A2'' = Some m \<and> msg_DeletedAt m = None)"
proof -
  have s: "wa_SendRevoke (s_wa demo_svc) (msg_ChatJID (demo_message ''A2'' demo_me 1700000001)) ''A2'' (w_wa demo_lite)
      = (Inr demo_sent, Suc (w_wa demo_lite))"
    by (simp add: demo_wa_def svc_New_def)
  obtain d where del: "DeleteMessage demo_svc ''A2'' demo_lite
      = (None, demo_lite\<lparr>w_wa := Suc (w_wa demo_lite), w_tick := Suc (w_tick demo_lite), w_db := d\<rparr>)"
    and d: "conn_inv demo_engine d" "quiet d"
      "sqlite_view d = abs_soft_delete to_seconds ''A2'' (w_clock demo_lite (w_tick demo_lite)) (sqlite_view (w_db demo_lite))"
    by (rule svc_sqlite.DeleteMessage_calm [OF demo_lite_ok demo_quiet demo_lite_rows(3) demo_ids_A2 _ _ s])
       (simp_all add: svc_New_def)
  let ?w = "demo_lite\<lparr>w_wa := Suc (w_wa demo_lite), w_tick := Suc (w_tick demo_lite), w_db := d\<rparr>"
  have ok: "world_ok (conn_inv demo_engine) sqlite_view ?w"
    using demo_lite_ok d by (auto simp: world_ok_def unread_ok_def abs_soft_delete_def)
  have q: "quiet (w_db ?w)" using d(2) by simp
  show ?thesis unfolding del snd_conv
    using redelivery_undeletes [OF ok q, of demo_redelivery demo_wa "''/m''" demo_sha True] d(3)
    by (auto simp: demo_redelivery_def abs_soft_delete_def)
qed

section \<open>A read that fails\<close>

text \<open>Over SQLite, when the read of the chat fails for whatever reason while a plain message is
  handled, the chat is taken for a new one: its name, its unread count and its archived flag are
  overwritten.\<close>

theorem failed_read_resets_chat:
  assumes "world_ok (conn_inv eng) sqlite_view w" "c_faults (w_db w) = [Some f]"
    and "in_ReactionTargetID m = []" "in_RevokeOfID m = []" "in_EditOfID m = []" "in_PushName m = []"
  shows "v_chats (sqlite_view (w_db (handleIncoming (svc_New wa (sqlite_bundle eng) root sha live) m w))) (in_ChatJID m) =
    Some (norm_chat to_seconds \<lparr>chat_JID = in_ChatJID m, chat_Name = '''', chat_Kind = in_ChatKind m,
      chat_LastMsgAt = in_Timestamp m, chat_UnreadCount = 1, chat_Archived = False\<rparr>)"
proof -
  let ?w1 = "w\<lparr>w_db := (w_db w)\<lparr>c_faults := []\<rparr>\<rparr>"
  have inv: "conn_inv eng (w_db w)" "bc_ok (w_bc w)" using assms(1) by (auto simp: world_ok_def)
  obtain e where g: "on_db (cst_Get (b_Chats (sqlite_bundle eng)) (in_ChatJID m)) w = (Inl e, ?w1)"
    using assms(2) by (auto simp: on_db_def sqlite_bundle_def ChatStore_Get_def query_row_def next_fault_def)
  have w1: "conn_inv eng (w_db ?w1)" "quiet (w_db ?w1)" using inv(1) by (simp_all add: conn_inv_def quiet_def)
  have bc: "w_bc ?w1 = w_bc w" by simp
  have v: "chat_after m (sqlite_view (w_db ?w1)\<lparr>v_chats := Map.empty\<rparr>) = \<lparr>chat_JID = in_ChatJID m, chat_Name = '''',
      chat_Kind = in_ChatKind m, chat_LastMsgAt = in_Timestamp m, chat_UnreadCount = 1, chat_Archived = False\<rparr>"
    by (simp add: chat_after_def new_chat_def)
  show ?thesis
    using svc_sqlite.incoming_get_fails [OF assms(3-6) inv(2) g bc w1 TrueI, of wa root sha live] unfolding v by simp
qed

definition demo_flaky :: "(int conn, nat) world" where
  "demo_flaky = demo_lite\<lparr>w_db := (w_db demo_lite)\<lparr>c_faults := [Some (FExec ''database is locked'')]\<rparr>\<rparr>"

theorem failed_read_resets_chat_witness:
  "chat_UnreadCount demo_chat = 1 \<and> chat_UnreadCount (the (v_chats (sqlite_view (w_db
     (handleIncoming demo_svc demo_redelivery demo_flaky))) demo_peer)) = 1"
proof -
  have ok: "world_ok (conn_inv demo_engine) sqlite_view demo_flaky"
    using demo_lite_ok by (simp add: demo_flaky_def world_ok_def conn_inv_def sqlite_view_def conn_view_def)
  have f: "c_faults (w_db demo_flaky) = [Some (FExec ''database is locked'')]" by (simp add: demo_flaky_def)
  show ?thesis
    using failed_read_resets_chat [OF ok f, of demo_redelivery demo_wa "''/m''" demo_sha True]
    by (simp add: demo_redelivery_def norm_chat_def demo_chat_def)
qed

end
