(* ===== verification/Http_Wire.thy ===== *)
theory Http_Wire
  imports Service "HOL-Library.Monad_Syntax"
begin

text \<open>
  What a handler sees of a request and makes of a response, and the parsing it does with the
  standard library: \<open>strconv\<close>, \<open>time.Parse\<close>, \<open>encoding/json\<close> into a struct, \<open>path/filepath\<close>.
\<close>

section \<open>\<open>time.Parse(time.RFC3339, s)\<close>\<close>

definition is_leap :: "int \<Rightarrow> bool" where
  "is_leap y \<longleftrightarrow> y mod 4 = 0 \<and> (y mod 100 \<noteq> 0 \<or> y mod 400 = 0)"

definition daysIn :: "int \<Rightarrow> int \<Rightarrow> int" where
  "daysIn m y = (if m = 2 then (if is_leap y then 29 else 28) else if m \<in> {4, 6, 9, 11} then 30 else 31)"

definition days_of_civil :: "int \<Rightarrow> int \<Rightarrow> int \<Rightarrow> int" where
  "days_of_civil y m d =
     (let y' = (if m \<le> 2 then y - 1 else y);
          yoe = y' mod 400;
          doy = (153 * ((m + 9) mod 12) + 2) div 5 + d - 1
      in y' div 400 * 146097 + yoe * 365 + yoe div 4 - yoe div 100 + doy - 719468)"

text \<open>\<open>getnum\<close>: one or two digits, exactly two if \<open>fixed\<close>.\<close>

definition getnum :: "bool \<Rightarrow> string \<Rightarrow> (int \<times> string) option" where
  "getnum fixed s = (case s of
     [] \<Rightarrow> None
   | a # r \<Rightarrow>
      if \<not> is_digit a then None
      else (case r of
          b # r' \<Rightarrow> if is_digit b then Some (int (read_nat 0 [a, b]), r')
                    else if fixed then None else Some (int (read_nat 0 [a]), r)
        | [] \<Rightarrow> if fixed then None else Some (int (read_nat 0 [a]), r)))"

definition skip_char :: "char \<Rightarrow> string \<Rightarrow> string option" where
  "skip_char c s = (case s of [] \<Rightarrow> None | a # r \<Rightarrow> if a = c then Some r else None)"

definition in_range :: "int \<Rightarrow> int \<Rightarrow> int \<times> string \<Rightarrow> (int \<times> string) option" where
  "in_range lo hi x = (if lo \<le> fst x \<and> fst x \<le> hi then Some x else None)"

definition get_year :: "string \<Rightarrow> (int \<times> string) option" where
  "get_year s = (if 4 \<le> length s \<and> list_all is_digit (take 4 s)
     then Some (int (read_nat 0 (take 4 s)), drop 4 s) else None)"

text \<open>A fraction the layout does not name: after a period or comma, cut to nanoseconds.\<close>

definition get_fraction :: "string \<Rightarrow> int \<times> string" where
  "get_fraction s = (case s of
     c # a # r \<Rightarrow>
       if (c = CHR ''.'' \<or> c = CHR '','') \<and> is_digit a then
         (let ds = take 9 (takeWhile is_digit (a # r))
          in (int (read_nat 0 ds) * 10 ^ (9 - length ds), dropWhile is_digit (a # r)))
       else (0, s)
   | _ \<Rightarrow> (0, s))"

definition get_zone :: "string \<Rightarrow> (int \<times> string) option" where
  "get_zone s = (case s of
     [] \<Rightarrow> None
   | c # r \<Rightarrow>
      if c = CHR ''Z'' then Some (0, r)
      else if length s < 6 \<or> s ! 3 \<noteq> CHR '':'' then None
      else do {
        (h, _) \<leftarrow> getnum True (take 2 (drop 1 s)) \<bind> in_range 0 24;
        (m, _) \<leftarrow> getnum True (take 2 (drop 4 s)) \<bind> in_range 0 60;
        let off = (h * 60 + m) * 60;
        if c = CHR ''+'' then Some (off, drop 6 s)
        else if c = CHR ''-'' then Some (- off, drop 6 s) else None })"

definition time_Parse :: "string \<Rightarrow> time option" where
  "time_Parse s = do {
     (y, s) \<leftarrow> get_year s;
     s \<leftarrow> skip_char CHR ''-'' s;
     (mo, s) \<leftarrow> getnum True s \<bind> in_range 1 12;
     s \<leftarrow> skip_char CHR ''-'' s;
     (d, s) \<leftarrow> getnum True s;
     s \<leftarrow> skip_char CHR ''T'' s;
     (h, s) \<leftarrow> getnum False s \<bind> in_range 0 23;
     s \<leftarrow> skip_char CHR '':'' s;
     (mi, s) \<leftarrow> getnum True s \<bind> in_range 0 59;
     s \<leftarrow> skip_char CHR '':'' s;
     (sec, s) \<leftarrow> getnum True s \<bind> in_range 0 59;
     let (ns, s) = get_fraction s;
     (off, s) \<leftarrow> get_zone s;
     if s \<noteq> [] \<or> d < 1 \<or> daysIn mo y < d then None
     else Some ((days_of_civil y mo d * 86400 + h * 3600 + mi * 60 + sec - off) * nanos + ns) }"

lemma time_Parse_examples:
  "time_Parse ''1970-01-01T00:00:00Z'' = Some 0"
  "time_Parse ''2000-02-29T12:34:56Z'' = Some (time_of_unix 951827696)"
  "time_Parse ''2000-02-29T14:34:56.5+02:00'' = Some (time_of_unix 951827696 + 500000000)"
  "time_Parse ''2001-02-29T12:34:56Z'' = None" "time_Parse ''2001-02-28 12:34:56Z'' = None"
  "time_Parse ''2001-02-28T12:34:56'' = None"
  by code_simp+

definition ParseBool :: "string \<Rightarrow> bool option" where
  "ParseBool s =
     (if s \<in> {''1'', ''t'', ''T'', ''TRUE'', ''true'', ''True''} then Some True
      else if s \<in> {''0'', ''f'', ''F'', ''FALSE'', ''false'', ''False''} then Some False
      else None)"

text \<open>\<open>filepath.Ext\<close>: from the last dot of the last element.\<close>

definition filepath_Ext :: "string \<Rightarrow> string" where
  "filepath_Ext p =
     (let base = rev (takeWhile (\<lambda>c. c \<noteq> CHR ''/'') (rev p));
          e = takeWhile (\<lambda>c. c \<noteq> CHR ''.'') (rev base)
      in if length e < length base then CHR ''.'' # rev e else '''')"

section \<open>Requests\<close>

text \<open>
  \<open>rq_body\<close> is the first JSON value of the body as the decoder's scanner reads it (None: a syntax
  error or an empty body), \<open>rq_form\<close> what \<open>ParseMultipartForm\<close> makes of the body under its limit.
\<close>

record form_file =
  ff_type :: string
  ff_body :: "goerr + string"

record form =
  fm_values :: "(string \<times> string) list"
  fm_file :: "form_file option"

record request =
  rq_auth :: string
  rq_last_id :: string
  rq_query :: "(string \<times> string) list"
  rq_body :: "json option"
  rq_form :: "goerr + form"

text \<open>\<open>url.Values.Get\<close> and \<open>FormValue\<close>: the first value of a key, empty if there is none.\<close>

definition values_get :: "(string \<times> string) list \<Rightarrow> string \<Rightarrow> string" where
  "values_get kvs k = (case map_of kvs k of None \<Rightarrow> '''' | Some v \<Rightarrow> v)"

section \<open>Decoding JSON into a struct\<close>

text \<open>
  A key of the object belongs to the field whose name it equals up to simple case folding; a
  later member overrides an earlier one, null leaves a field alone, a value of another type makes
  the decoding fail, unknown members are ignored. The value null leaves the whole struct alone.
\<close>

definition fold_rune :: "nat \<Rightarrow> nat" where
  "fold_rune r = (if 97 \<le> r \<and> r \<le> 122 then r - 32 else if r = 383 then 83 else if r = 8490 then 75 else r)"

definition fold_name :: "string \<Rightarrow> nat list" where
  "fold_name s = map (\<lambda>x. fold_rune (fst x)) (runes s)"

definition is_field :: "string \<Rightarrow> string \<Rightarrow> bool" where
  "is_field f k \<longleftrightarrow> fold_name k = fold_name f"

fun decode_string :: "string \<Rightarrow> json \<Rightarrow> string option" where
  "decode_string old (JStr s) = Some s"
| "decode_string old JNull = Some old"
| "decode_string old v = None"

fun decode_elems :: "string list \<Rightarrow> json list \<Rightarrow> string list option" where
  "decode_elems old [] = Some []"
| "decode_elems old (v # vs) = do {
     x \<leftarrow> decode_string (case old of [] \<Rightarrow> '''' | o' # _ \<Rightarrow> o') v;
     xs \<leftarrow> decode_elems (tl old) vs;
     Some (x # xs) }"

fun decode_strings :: "string list \<Rightarrow> json \<Rightarrow> string list option" where
  "decode_strings old (JArr vs) = decode_elems old vs"
| "decode_strings old JNull = Some []"
| "decode_strings old v = None"

fun field_members :: "('a \<Rightarrow> json \<Rightarrow> 'a option) \<Rightarrow> string \<Rightarrow> 'a \<Rightarrow> (string \<times> json) list \<Rightarrow> 'a option" where
  "field_members dec f old [] = Some old"
| "field_members dec f old ((k, v) # kvs) =
     (if is_field f k then dec old v \<bind> (\<lambda>x. field_members dec f x kvs) else field_members dec f old kvs)"

definition json_field :: "('a \<Rightarrow> json \<Rightarrow> 'a option) \<Rightarrow> string \<Rightarrow> 'a \<Rightarrow> json option \<Rightarrow> 'a option" where
  "json_field dec f z body = (case body of
     Some (JObj kvs) \<Rightarrow> field_members dec f z kvs
   | Some JNull \<Rightarrow> Some z
   | _ \<Rightarrow> None)"

abbreviation str_field :: "string \<Rightarrow> json option \<Rightarrow> string option" where
  "str_field f \<equiv> json_field decode_string f ''''"

abbreviation strs_field :: "string \<Rightarrow> json option \<Rightarrow> string list option" where
  "strs_field f \<equiv> json_field decode_strings f []"

section \<open>Responses\<close>

record response =
  rs_status :: nat
  rs_type :: string
  rs_length :: "int option"
  rs_body :: string

definition StatusText :: "nat \<Rightarrow> string" where
  "StatusText n =
     (if n = 400 then ''Bad Request'' else if n = 401 then ''Unauthorized''
      else if n = 403 then ''Forbidden'' else if n = 404 then ''Not Found''
      else if n = 409 then ''Conflict'' else if n = 500 then ''Internal Server Error'' else '''')"

definition newline :: string where
  "newline = [CHR 0x0A]"

text \<open>\<open>json.NewEncoder(w).Encode(v)\<close> ends the value with a newline.\<close>

definition encode_json :: "json \<Rightarrow> string" where
  "encode_json v = marshal v @ newline"

definition WriteProblem :: "nat \<Rightarrow> string \<Rightarrow> string \<Rightarrow> response" where
  "WriteProblem status code detail = \<lparr>rs_status = status, rs_type = ''application/problem+json'', rs_length = None,
     rs_body = encode_json (JObj ([(''type'', JStr ''about:blank''), (''title'', JStr (StatusText status)),
       (''status'', JInt (int status)), (''code'', JStr code)] @ opt_field (detail \<noteq> '''') ''detail'' (JStr detail)))\<rparr>"

definition writeJSON :: "nat \<Rightarrow> json \<Rightarrow> response" where
  "writeJSON status v = \<lparr>rs_status = status, rs_type = ''application/json'', rs_length = None, rs_body = encode_json v\<rparr>"

definition no_content :: response where
  "no_content = \<lparr>rs_status = 204, rs_type = '''', rs_length = None, rs_body = ''''\<rparr>"

text \<open>\<open>http/sse.go\<close>.\<close>

definition SSEWriteEvent :: "string \<Rightarrow> json \<Rightarrow> string" where
  "SSEWriteEvent name payload = ''event: '' @ name @ newline @ ''data: '' @ marshal payload @ newline @ newline"

definition SSEPrepare :: "string \<Rightarrow> response" where
  "SSEPrepare body = \<lparr>rs_status = 200, rs_type = ''text/event-stream'', rs_length = None, rs_body = body\<rparr>"

definition SSEWriteHeartbeat :: string where
  "SSEWriteHeartbeat = '': heartbeat'' @ newline @ newline"

end
