(* ===== verification/Http_Handlers.thy ===== *)
theory Http_Handlers
  imports Http_Wire
begin

text \<open>
  internal/transport/http: one definition per handler, in the order of the files. A handler gets the
  service, the URL parameters of its route, the request and the world, and gives the response. The
  router of the chi package is not modelled: \<open>endpoint\<close> is the route it has chosen.
\<close>

section \<open>auth.go\<close>

definition bearerToken :: "string \<Rightarrow> string option" where
  "bearerToken h =
     (if length h \<le> 7 then None
      else if map ascii_lower (take 7 h) \<noteq> ''bearer '' then None
      else let tok = dropWhile (\<lambda>c. c = CHR '' '') (drop 7 h)
           in if tok = '''' then None else Some tok)"

text \<open>None lets the request through.\<close>

definition RequireBearerToken :: "string \<Rightarrow> request \<Rightarrow> response option" where
  "RequireBearerToken token rq =
     (if token = '''' then None
      else case bearerToken (rq_auth rq) of
        None \<Rightarrow> Some (WriteProblem 401 ''auth.unauthorized'' ''missing bearer token'')
      | Some got \<Rightarrow> if got \<noteq> token then Some (WriteProblem 401 ''auth.unauthorized'' ''invalid bearer token'')
                    else None)"

section \<open>Query parameters\<close>

definition defaultLimit :: int where "defaultLimit = 50"
definition maxAPILimit :: int where "maxAPILimit = 100"

definition parseLimit :: "request \<Rightarrow> string + int" where
  "parseLimit rq = (let q = values_get (rq_query rq) ''limit'' in
     if q = '''' then Inr defaultLimit
     else case parse_int64 q of
       None \<Rightarrow> Inl ''limit must be an integer''
     | Some n \<Rightarrow> if n < 1 \<or> maxAPILimit < n then Inl ''limit must be in [1, 100]'' else Inr n)"

definition parseBefore :: "request \<Rightarrow> string + time" where
  "parseBefore rq = (let q = values_get (rq_query rq) ''before'' in
     if q = '''' then Inr time_zero
     else case time_Parse q of None \<Rightarrow> Inl ''before must be RFC 3339 timestamp'' | Some t \<Rightarrow> Inr t)"

definition parseIncludeArchived :: "request \<Rightarrow> string + bool" where
  "parseIncludeArchived rq = (let q = values_get (rq_query rq) ''include_archived'' in
     if q = '''' then Inr False
     else case ParseBool q of None \<Rightarrow> Inl ''include_archived must be true or false'' | Some b \<Rightarrow> Inr b)"

definition bad_request :: "string \<Rightarrow> response" where
  "bad_request d = WriteProblem 400 ''request.invalid'' d"

section \<open>JSON shapes\<close>

definition nilOrString :: "string option \<Rightarrow> json" where
  "nilOrString p = (case p of None \<Rightarrow> JNull | Some s \<Rightarrow> JStr s)"

definition nilOrTime :: "time option \<Rightarrow> json" where
  "nilOrTime p = (case p of None \<Rightarrow> JNull | Some t \<Rightarrow> JStr (format_rfc3339 t))"

definition strPtr :: "string \<Rightarrow> string option" where
  "strPtr s = (if s = '''' then None else Some s)"

definition timePtr :: "time \<Rightarrow> time option" where
  "timePtr t = (if IsZero t then None else Some t)"

definition encodeChat :: "chat \<Rightarrow> json" where
  "encodeChat c = go_map [(''jid'', JStr (chat_JID c)), (''name'', nilOrString (strPtr (chat_Name c))),
     (''kind'', JStr (chat_Kind c)), (''last_msg_at'', nilOrTime (timePtr (chat_LastMsgAt c))),
     (''unread_count'', JInt (chat_UnreadCount c)), (''archived'', JBool (chat_Archived c))]"

definition encodeChats :: "chat list \<Rightarrow> json" where
  "encodeChats cs = JArr (map encodeChat cs)"

definition encodeMessage :: "message \<Rightarrow> json" where
  "encodeMessage m = go_map [(''id'', JStr (msg_ID m)), (''chat_jid'', JStr (msg_ChatJID m)),
     (''sender_jid'', JStr (msg_SenderJID m)), (''ts'', JStr (format_rfc3339 (msg_Timestamp m))),
     (''kind'', JStr (msg_Kind m)), (''body'', JStr (msg_Body m)), (''reply_to'', nilOrString (strPtr (msg_ReplyTo m))),
     (''edited_at'', nilOrTime (msg_EditedAt m)), (''deleted_at'', nilOrTime (msg_DeletedAt m))]"

definition encodeMessages :: "message list \<Rightarrow> json" where
  "encodeMessages ms = JArr (map encodeMessage ms)"

definition encodeContact :: "contact \<Rightarrow> json" where
  "encodeContact c = go_map [(''jid'', JStr (con_JID c)), (''push_name'', nilOrString (strPtr (con_PushName c))),
     (''full_name'', nilOrString (strPtr (con_FullName c))),
     (''business_name'', nilOrString (strPtr (con_BusinessName c)))]"

definition encodeContacts :: "contact list \<Rightarrow> json" where
  "encodeContacts cs = JArr (map encodeContact cs)"

definition encodeReaction :: "reaction \<Rightarrow> json" where
  "encodeReaction r = go_map [(''message_id'', JStr (rea_MessageID r)), (''sender_jid'', JStr (rea_SenderJID r)),
     (''emoji'', JStr (rea_Emoji r)), (''ts'', JStr (format_rfc3339 (rea_Timestamp r)))]"

definition encodeReactions :: "reaction list \<Rightarrow> json" where
  "encodeReactions rs = JArr (map encodeReaction rs)"

definition encodeReceipt :: "receipt \<Rightarrow> json" where
  "encodeReceipt r = go_map [(''message_id'', JStr (rec_MessageID r)), (''reader_jid'', JStr (rec_ReaderJID r)),
     (''type'', JStr (rec_Type r)), (''ts'', JStr (format_rfc3339 (rec_Timestamp r)))]"

definition encodeReceipts :: "receipt list \<Rightarrow> json" where
  "encodeReceipts rs = JArr (map encodeReceipt rs)"

definition encodeMembers :: "group_member list \<Rightarrow> json" where
  "encodeMembers ms = JArr (map (\<lambda>m. go_map [(''jid'', JStr (gm_JID m)), (''is_admin'', JBool (gm_IsAdmin m)),
     (''is_super_admin'', JBool (gm_IsSuperAdmin m))]) ms)"

definition encodeGroup :: "wa_group \<Rightarrow> json" where
  "encodeGroup g = go_map [(''jid'', JStr (gr_JID g)), (''name'', JStr (gr_Name g)), (''owner_jid'', JStr (gr_OwnerJID g)),
     (''created_at'', JStr (format_rfc3339 (gr_CreatedAt g))), (''members'', encodeMembers (gr_Participants g))]"

definition encodeChanges :: "participant_change list \<Rightarrow> json" where
  "encodeChanges cs = JArr (map (\<lambda>c. go_map ([(''jid'', JStr (pc_JID c)), (''ok'', JBool (pc_OK c))]
     @ opt_field (pc_Error c \<noteq> '''') ''error'' (JStr (pc_Error c)))) cs)"

section \<open>Errors of the service as problems\<close>

text \<open>
  The \<open>switch\<close> of a handler over \<open>errors.Is\<close>: the table gives, in the order of the cases, the
  sentinel, the status, the code and what the detail is; the default comes last.
\<close>

type_synonym err_case = "err_kind \<times> nat \<times> string"

fun err_switch :: "err_case list \<Rightarrow> string \<Rightarrow> goerr \<Rightarrow> response" where
  "err_switch [] code e = WriteProblem 500 code (err_msg e)"
| "err_switch ((k, st, c) # cases) code e =
     (if is_err k e then WriteProblem st c (err_msg e) else err_switch cases code e)"

definition case_invalid :: err_case where "case_invalid = (EInvalidRequest, 400, ''request.invalid'')"
definition case_forbidden :: err_case where "case_forbidden = (EForbidden, 403, ''message.forbidden'')"
definition case_no_message :: err_case where "case_no_message = (ENotFound, 404, ''message.not_found'')"
definition case_not_connected :: err_case where "case_not_connected = (ENotConnected, 409, ''wa.not_connected'')"

lemmas case_defs = case_invalid_def case_forbidden_def case_no_message_def case_not_connected_def

section \<open>status.go, stats.go, health.go\<close>

definition StatusHandler :: "('d, 'w) svc \<Rightarrow> ('d, 'w) world \<Rightarrow> response \<times> ('d, 'w) world" where
  "StatusHandler S w =
     (let st = svc_Status S w
      in (writeJSON 200 (go_map [(''wa_connected'', JBool (st_Connected st)), (''jid'', nilOrString (st_JID st)),
           (''push_name'', nilOrString (st_PushName st)), (''since'', nilOrTime (st_Since st))]), w))"

definition StatsHandler :: "('d, 'w) svc \<Rightarrow> ('d, 'w) world \<Rightarrow> response \<times> ('d, 'w) world" where
  "StatsHandler S w =
     (case Stats S w of
       (Inl e, w) \<Rightarrow> (err_switch [] ''internal'' e, w)
     | (Inr s, w) \<Rightarrow> (writeJSON 200 (JObj [(''chats'', JInt (stats_Chats s)), (''messages'', JInt (stats_Messages s)),
          (''contacts'', JInt (stats_Contacts s)), (''unread_total'', JInt (stats_UnreadTotal s))]), w))"

definition HealthHandler :: response where
  "HealthHandler = writeJSON 200 (go_map [(''ok'', JBool True), (''db'', JNull), (''wa_connected'', JNull)])"

section \<open>chats.go\<close>

definition ListChatsHandler :: "('d, 'w) svc \<Rightarrow> request \<Rightarrow> ('d, 'w) world \<Rightarrow> response \<times> ('d, 'w) world" where
  "ListChatsHandler S rq w =
     (case parseLimit rq of
        Inl d \<Rightarrow> (bad_request d, w)
      | Inr limit \<Rightarrow> (case parseBefore rq of
       Inl d \<Rightarrow> (bad_request d, w)
     | Inr before \<Rightarrow> (case parseIncludeArchived rq of
       Inl d \<Rightarrow> (bad_request d, w)
     | Inr inclArch \<Rightarrow> (case ListChats S before limit inclArch w of
       (Inl e, w) \<Rightarrow> (err_switch [case_invalid] ''internal'' e, w)
     | (Inr chats, w) \<Rightarrow> (writeJSON 200 (go_map [(''chats'', encodeChats chats)]), w)))))"

definition GetChatHandler :: "('d, 'w) svc \<Rightarrow> string \<Rightarrow> ('d, 'w) world \<Rightarrow> response \<times> ('d, 'w) world" where
  "GetChatHandler S jid w = (case GetChat S jid w of
     (Inr c, w) \<Rightarrow> (writeJSON 200 (encodeChat c), w)
   | (Inl e, w) \<Rightarrow> (if is_err ENotFound e then WriteProblem 404 ''chat.not_found'' ''no chat with that jid''
                    else WriteProblem 500 ''internal'' (err_msg e), w))"

definition ListMessagesByChatHandler :: "('d, 'w) svc \<Rightarrow> string \<Rightarrow> request \<Rightarrow> ('d, 'w) world \<Rightarrow> response \<times> ('d, 'w) world" where
  "ListMessagesByChatHandler S jid rq w =
     (case parseLimit rq of
        Inl d \<Rightarrow> (bad_request d, w)
      | Inr limit \<Rightarrow> (case parseBefore rq of
       Inl d \<Rightarrow> (bad_request d, w)
     | Inr before \<Rightarrow> (case ListMessages S jid before limit w of
       (Inl e, w) \<Rightarrow> (err_switch [case_invalid] ''internal'' e, w)
     | (Inr msgs, w) \<Rightarrow> (writeJSON 200 (go_map [(''messages'', encodeMessages msgs)]), w))))"

section \<open>messages.go\<close>

definition SendTextHandler :: "('d, 'w) svc \<Rightarrow> request \<Rightarrow> ('d, 'w) world \<Rightarrow> response \<times> ('d, 'w) world" where
  "SendTextHandler S rq w =
     (case (str_field ''chat_jid'' (rq_body rq), str_field ''text'' (rq_body rq), str_field ''reply_to'' (rq_body rq)) of
        (Some chatJID, Some t, Some replyTo) \<Rightarrow>
          if chatJID = '''' then (bad_request ''chat_jid is required'', w)
          else if t = '''' then (bad_request ''text is required'', w)
          else if maxTextLen < length t then (bad_request ''text exceeds 4096 bytes'', w)
          else (case SendText S chatJID t replyTo w of
             (Inl e, w) \<Rightarrow> (err_switch [case_invalid, case_not_connected] ''wa.send_failed'' e, w)
           | (Inr msg, w) \<Rightarrow> (writeJSON 201 (go_map [(''id'', JStr (msg_ID msg)), (''chat_jid'', JStr (msg_ChatJID msg)),
               (''ts'', JStr (format_rfc3339_nano (msg_Timestamp msg)))]), w))
      | _ \<Rightarrow> (bad_request ''malformed JSON body'', w))"

definition EditMessageHandler :: "('d, 'w) svc \<Rightarrow> string \<Rightarrow> request \<Rightarrow> ('d, 'w) world \<Rightarrow> response \<times> ('d, 'w) world" where
  "EditMessageHandler S messageID rq w =
     (case str_field ''text'' (rq_body rq) of
        None \<Rightarrow> (bad_request ''malformed JSON body'', w)
      | Some t \<Rightarrow>
          if t = '''' then (bad_request ''text is required'', w)
          else (case EditMessage S messageID t w of
             (Inl e, w) \<Rightarrow> (err_switch [case_invalid, case_forbidden, case_no_message, case_not_connected] ''wa.send_failed'' e, w)
           | (Inr msg, w) \<Rightarrow> (writeJSON 200 (go_map ([(''id'', JStr (msg_ID msg)), (''chat_jid'', JStr (msg_ChatJID msg)),
               (''ts'', JStr (format_rfc3339 (msg_Timestamp msg)))]
               @ (case msg_EditedAt msg of None \<Rightarrow> [] | Some at \<Rightarrow> [(''edited_at'', JStr (format_rfc3339 at))]))), w)))"

definition DeleteMessageHandler :: "('d, 'w) svc \<Rightarrow> string \<Rightarrow> ('d, 'w) world \<Rightarrow> response \<times> ('d, 'w) world" where
  "DeleteMessageHandler S messageID w =
     (case DeleteMessage S messageID w of
       (Some e, w) \<Rightarrow> (err_switch [case_invalid, case_forbidden, case_no_message, case_not_connected] ''wa.send_failed'' e, w)
     | (None, w) \<Rightarrow> (no_content, w))"

definition SearchMessagesHandler :: "('d, 'w) svc \<Rightarrow> request \<Rightarrow> ('d, 'w) world \<Rightarrow> response \<times> ('d, 'w) world" where
  "SearchMessagesHandler S rq w =
     (let q = values_get (rq_query rq) ''q'' in
      if q = '''' then (bad_request ''q is required'', w) else
     (case parseLimit rq of
        Inl d \<Rightarrow> (bad_request d, w)
      | Inr limit \<Rightarrow> (case SearchMessages S q limit w of
       (Inl e, w) \<Rightarrow> (err_switch [case_invalid] ''internal'' e, w)
     | (Inr msgs, w) \<Rightarrow> (writeJSON 200 (go_map [(''messages'', encodeMessages msgs)]), w))))"

section \<open>contacts.go\<close>

definition ListContactsHandler :: "('d, 'w) svc \<Rightarrow> ('d, 'w) world \<Rightarrow> response \<times> ('d, 'w) world" where
  "ListContactsHandler S w =
     (case ListContacts S w of
       (Inl e, w) \<Rightarrow> (err_switch [] ''internal'' e, w)
     | (Inr contacts, w) \<Rightarrow> (writeJSON 200 (go_map [(''contacts'', encodeContacts contacts)]), w))"

definition SearchContactsHandler :: "('d, 'w) svc \<Rightarrow> request \<Rightarrow> ('d, 'w) world \<Rightarrow> response \<times> ('d, 'w) world" where
  "SearchContactsHandler S rq w =
     (let q = values_get (rq_query rq) ''q'' in
      if q = '''' then (bad_request ''q is required'', w) else
     (case parseLimit rq of
        Inl d \<Rightarrow> (bad_request d, w)
      | Inr limit \<Rightarrow> (case SearchContacts S q limit w of
       (Inl e, w) \<Rightarrow> (err_switch [case_invalid] ''internal'' e, w)
     | (Inr contacts, w) \<Rightarrow> (writeJSON 200 (go_map [(''contacts'', encodeContacts contacts)]), w))))"

section \<open>media.go\<close>

text \<open>\<open>mime.TypeByExtension\<close> reads the tables of the system: it is the parameter \<open>by_ext\<close>.\<close>

definition pickMIME :: "(string \<Rightarrow> string) \<Rightarrow> string \<Rightarrow> string \<Rightarrow> string" where
  "pickMIME by_ext ct filename =
     (if ct \<noteq> '''' \<and> ct \<noteq> ''application/octet-stream'' then ct
      else let ext = filepath_Ext filename; t = by_ext ext
           in if ext \<noteq> '''' \<and> t \<noteq> '''' then t else ''application/octet-stream'')"

definition SendMediaHandler :: "('d, 'w) svc \<Rightarrow> (string \<Rightarrow> string) \<Rightarrow> request \<Rightarrow> ('d, 'w) world \<Rightarrow> response \<times> ('d, 'w) world" where
  "SendMediaHandler S by_ext rq w = (case rq_form rq of
     Inl e \<Rightarrow> (bad_request (''multipart parse: '' @ err_msg e), w)
   | Inr fm \<Rightarrow> (case fm_file fm of
       None \<Rightarrow> (bad_request ''file is required'', w)
     | Some file \<Rightarrow> (case ff_body file of
         Inl e \<Rightarrow> (bad_request (''read file: '' @ err_msg e), w)
       | Inr body \<Rightarrow>
           (let filename = values_get (fm_values fm) ''filename'';
                req = \<lparr>smr_ChatJID = values_get (fm_values fm) ''chat_jid'', smr_Kind = values_get (fm_values fm) ''kind'',
                       smr_Caption = values_get (fm_values fm) ''caption'', smr_Filename = filename,
                       smr_MIME = pickMIME by_ext (ff_type file) filename, smr_Body = body\<rparr>
            in case SendMedia S req w of
              (Inl e, w) \<Rightarrow> (err_switch [case_invalid, case_not_connected] ''wa.send_failed'' e, w)
            | (Inr msg, w) \<Rightarrow> (writeJSON 201 (go_map [(''id'', JStr (msg_ID msg)), (''chat_jid'', JStr (msg_ChatJID msg)),
                (''ts'', JStr (format_rfc3339 (msg_Timestamp msg)))]), w)))))"

text \<open>\<open>os.Open\<close>: it may fail as the script of the file system says.\<close>

definition os_Open :: "string \<Rightarrow> fs \<Rightarrow> (goerr + string) \<times> fs" where
  "os_Open p f = (case fs_fault f of
     (Some e, f1) \<Rightarrow> (Inl (os_err e), f1)
   | (None, f1) \<Rightarrow> (case fs_files f1 p of
        None \<Rightarrow> (Inl (GoErr EOther ''no such file or directory''), f1)
      | Some b \<Rightarrow> (Inr b, f1)))"

definition GetMediaHandler :: "('d, 'w) svc \<Rightarrow> string \<Rightarrow> ('d, 'w) world \<Rightarrow> response \<times> ('d, 'w) world" where
  "GetMediaHandler S messageID w = (case GetMediaRef S messageID w of
     (Inl e, w) \<Rightarrow> (if is_err ENotFound e then WriteProblem 404 ''media.not_found'' ''no media for that message id''
                    else err_switch [case_invalid] ''internal'' e, w)
   | (Inr ref, w) \<Rightarrow> (case on_fs (os_Open (med_Path ref)) w of
        (Inl e, w) \<Rightarrow> (WriteProblem 500 ''media.read_failed'' (err_msg e), w)
      | (Inr b, w) \<Rightarrow> (\<lparr>rs_status = 200, rs_type = med_MIME ref, rs_length = Some (med_Size ref), rs_body = b\<rparr>, w)))"

section \<open>groups.go\<close>

definition CreateGroupHandler :: "('d, 'w) svc \<Rightarrow> request \<Rightarrow> ('d, 'w) world \<Rightarrow> response \<times> ('d, 'w) world" where
  "CreateGroupHandler S rq w =
     (case (str_field ''name'' (rq_body rq), strs_field ''participants'' (rq_body rq)) of
        (Some name, Some participants) \<Rightarrow> (case CreateGroup S name participants w of
       (Inl e, w) \<Rightarrow> (err_switch [case_invalid, case_not_connected] ''wa.send_failed'' e, w)
     | (Inr grp, w) \<Rightarrow> (writeJSON 201 (encodeGroup grp), w))
      | _ \<Rightarrow> (bad_request ''malformed JSON body'', w))"

definition ListGroupMembersHandler :: "('d, 'w) svc \<Rightarrow> string \<Rightarrow> ('d, 'w) world \<Rightarrow> response \<times> ('d, 'w) world" where
  "ListGroupMembersHandler S groupJID w =
     (case ListGroupMembers S groupJID w of
       (Inl e, w) \<Rightarrow> (err_switch [case_invalid, case_not_connected] ''internal'' e, w)
     | (Inr members, w) \<Rightarrow> (writeJSON 200 (go_map [(''members'', encodeMembers members)]), w))"

definition UpdateGroupMembersHandler :: "('d, 'w) svc \<Rightarrow> string \<Rightarrow> request \<Rightarrow> ('d, 'w) world \<Rightarrow> response \<times> ('d, 'w) world" where
  "UpdateGroupMembersHandler S groupJID rq w =
     (case (str_field ''action'' (rq_body rq), strs_field ''participants'' (rq_body rq)) of
        (Some action, Some participants) \<Rightarrow> (case UpdateGroupMembers S groupJID action participants w of
       (Inl e, w) \<Rightarrow> (err_switch [case_invalid, case_not_connected] ''wa.send_failed'' e, w)
     | (Inr results, w) \<Rightarrow> (writeJSON 200 (go_map [(''results'', encodeChanges results)]), w))
      | _ \<Rightarrow> (bad_request ''malformed JSON body'', w))"

definition LeaveGroupHandler :: "('d, 'w) svc \<Rightarrow> string \<Rightarrow> ('d, 'w) world \<Rightarrow> response \<times> ('d, 'w) world" where
  "LeaveGroupHandler S groupJID w =
     (case LeaveGroup S groupJID w of
       (Some e, w) \<Rightarrow> (err_switch [case_invalid, case_not_connected] ''wa.send_failed'' e, w)
     | (None, w) \<Rightarrow> (no_content, w))"

section \<open>reactions.go, receipts.go, typing.go\<close>

definition SendReactionHandler :: "('d, 'w) svc \<Rightarrow> string \<Rightarrow> request \<Rightarrow> ('d, 'w) world \<Rightarrow> response \<times> ('d, 'w) world" where
  "SendReactionHandler S messageID rq w =
     (case str_field ''emoji'' (rq_body rq) of
        None \<Rightarrow> (bad_request ''malformed JSON body'', w)
      | Some emoji \<Rightarrow> (case SendReaction S messageID emoji w of
       (Some e, w) \<Rightarrow> (err_switch [case_invalid, case_no_message, case_not_connected] ''wa.send_failed'' e, w)
     | (None, w) \<Rightarrow> (no_content, w)))"

definition ListReactionsHandler :: "('d, 'w) svc \<Rightarrow> string \<Rightarrow> ('d, 'w) world \<Rightarrow> response \<times> ('d, 'w) world" where
  "ListReactionsHandler S messageID w =
     (case ListReactions S messageID w of
       (Inl e, w) \<Rightarrow> (err_switch [case_invalid] ''internal'' e, w)
     | (Inr rs, w) \<Rightarrow> (writeJSON 200 (go_map [(''reactions'', encodeReactions rs)]), w))"

definition MarkReadHandler :: "('d, 'w) svc \<Rightarrow> string \<Rightarrow> ('d, 'w) world \<Rightarrow> response \<times> ('d, 'w) world" where
  "MarkReadHandler S messageID w =
     (case MarkMessageRead S messageID w of
       (Some e, w) \<Rightarrow> (err_switch [case_invalid, case_no_message, case_not_connected] ''wa.send_failed'' e, w)
     | (None, w) \<Rightarrow> (no_content, w))"

definition ListReceiptsHandler :: "('d, 'w) svc \<Rightarrow> string \<Rightarrow> ('d, 'w) world \<Rightarrow> response \<times> ('d, 'w) world" where
  "ListReceiptsHandler S messageID w =
     (case ListReceipts S messageID w of
       (Inl e, w) \<Rightarrow> (err_switch [case_invalid] ''internal'' e, w)
     | (Inr rs, w) \<Rightarrow> (writeJSON 200 (go_map [(''receipts'', encodeReceipts rs)]), w))"

definition SendTypingHandler :: "('d, 'w) svc \<Rightarrow> string \<Rightarrow> request \<Rightarrow> ('d, 'w) world \<Rightarrow> response \<times> ('d, 'w) world" where
  "SendTypingHandler S chatJID rq w =
     (case str_field ''state'' (rq_body rq) of
        None \<Rightarrow> (bad_request ''malformed JSON body'', w)
      | Some st \<Rightarrow> (case SendTyping S chatJID st w of
       (Some e, w) \<Rightarrow> (err_switch [case_invalid, case_not_connected] ''wa.send_failed'' e, w)
     | (None, w) \<Rightarrow> (no_content, w)))"

section \<open>login_qr.go, login_phone.go, logout.go\<close>

definition case_logged_in :: err_case where "case_logged_in = (EAlreadyLoggedIn, 409, ''wa.already_logged_in'')"
definition case_in_progress :: err_case where "case_in_progress = (ELoginInProgress, 409, ''wa.login_in_progress'')"
definition case_not_logged_in :: err_case where "case_not_logged_in = (ENotLoggedIn, 409, ''wa.not_logged_in'')"

text \<open>\<open>for evt := range ch\<close>: up to the first terminal event, or to the closing of the channel.\<close>

fun qr_frames :: "qr_event list \<Rightarrow> string" where
  "qr_frames [] = ''''"
| "qr_frames (e # es) =
     (if qr_Terminal e then SSEWriteEvent ''connection'' (go_map [(''outcome'', JStr (qr_Outcome e))])
      else SSEWriteEvent ''qr'' (go_map [(''code'', JStr (qr_Code e)), (''expires_in_s'', JInt 20)]) @ qr_frames es)"

definition LoginQRHandler :: "('d, 'w) svc \<Rightarrow> ('d, 'w) world \<Rightarrow> response \<times> ('d, 'w) world" where
  "LoginQRHandler S w = (case svc_LoginQR S w of
     (Inl e, w) \<Rightarrow> (err_switch [case_logged_in, case_in_progress] ''wa.login_failed'' e, w)
   | (Inr ch, w) \<Rightarrow> (SSEPrepare (qr_frames ch), w))"

fun pair_frames :: "pair_event list \<Rightarrow> string" where
  "pair_frames [] = ''''"
| "pair_frames (e # es) =
     (if pe_Terminal e then SSEWriteEvent ''connection'' (go_map [(''outcome'', JStr (pe_Outcome e))])
      else SSEWriteEvent ''pair_code'' (go_map [(''code'', JStr (pe_Code e)), (''expires_in_s'', JInt 120)]) @ pair_frames es)"

definition LoginPhoneHandler :: "('d, 'w) svc \<Rightarrow> request \<Rightarrow> ('d, 'w) world \<Rightarrow> response \<times> ('d, 'w) world" where
  "LoginPhoneHandler S rq w =
     (case str_field ''phone_number'' (rq_body rq) of
        None \<Rightarrow> (bad_request ''malformed JSON body'', w)
      | Some p \<Rightarrow>
          if \<not> IsValidPhoneNumber p then (bad_request ''phone_number must be E.164 (e.g. +27821234567)'', w)
          else (case svc_LoginPhone S p w of
             (Inl e, w) \<Rightarrow> (err_switch [case_logged_in, case_in_progress] ''wa.login_failed'' e, w)
           | (Inr ch, w) \<Rightarrow> (SSEPrepare (pair_frames ch), w)))"

definition LogoutHandler :: "('d, 'w) svc \<Rightarrow> ('d, 'w) world \<Rightarrow> response \<times> ('d, 'w) world" where
  "LogoutHandler S w =
     (case svc_Logout S w of
       (Some e, w) \<Rightarrow> (err_switch [case_not_logged_in] ''wa.internal'' e, w)
     | (None, w) \<Rightarrow> (no_content, w))"

section \<open>router.go\<close>

datatype endpoint =
    Ep_Health | Ep_Status | Ep_LoginQR | Ep_LoginPhone | Ep_Logout
  | Ep_SendText | Ep_EditMessage string | Ep_DeleteMessage string
  | Ep_ListChats | Ep_GetChat string | Ep_ListMessagesByChat string | Ep_SearchMessages
  | Ep_ListContacts | Ep_SearchContacts | Ep_Stats | Ep_SendMedia | Ep_GetMedia string
  | Ep_SendReaction string | Ep_ListReactions string | Ep_MarkRead string | Ep_ListReceipts string | Ep_SendTyping string
  | Ep_CreateGroup | Ep_ListGroupMembers string | Ep_UpdateGroupMembers string | Ep_LeaveGroup string
  | Ep_Events | Ep_Mcp

primrec route :: "endpoint \<Rightarrow> string \<times> string" where
  "route Ep_Health = (''GET'', ''/v1/health'')"
| "route Ep_Status = (''GET'', ''/v1/status'')"
| "route Ep_LoginQR = (''POST'', ''/v1/login/qr'')"
| "route Ep_LoginPhone = (''POST'', ''/v1/login/phone'')"
| "route Ep_Logout = (''POST'', ''/v1/logout'')"
| "route Ep_SendText = (''POST'', ''/v1/messages'')"
| "route (Ep_EditMessage i) = (''PATCH'', ''/v1/messages/{id}'')"
| "route (Ep_DeleteMessage i) = (''DELETE'', ''/v1/messages/{id}'')"
| "route Ep_ListChats = (''GET'', ''/v1/chats'')"
| "route (Ep_GetChat j) = (''GET'', ''/v1/chats/{jid}'')"
| "route (Ep_ListMessagesByChat j) = (''GET'', ''/v1/chats/{jid}/messages'')"
| "route Ep_SearchMessages = (''GET'', ''/v1/messages/search'')"
| "route Ep_ListContacts = (''GET'', ''/v1/contacts'')"
| "route Ep_SearchContacts = (''GET'', ''/v1/contacts/search'')"
| "route Ep_Stats = (''GET'', ''/v1/stats'')"
| "route Ep_SendMedia = (''POST'', ''/v1/media'')"
| "route (Ep_GetMedia i) = (''GET'', ''/v1/media/{message_id}'')"
| "route (Ep_SendReaction i) = (''POST'', ''/v1/messages/{id}/reactions'')"
| "route (Ep_ListReactions i) = (''GET'', ''/v1/messages/{id}/reactions'')"
| "route (Ep_MarkRead i) = (''POST'', ''/v1/messages/{id}/read'')"
| "route (Ep_ListReceipts i) = (''GET'', ''/v1/messages/{id}/receipts'')"
| "route (Ep_SendTyping j) = (''POST'', ''/v1/chats/{jid}/typing'')"
| "route Ep_CreateGroup = (''POST'', ''/v1/groups'')"
| "route (Ep_ListGroupMembers j) = (''GET'', ''/v1/groups/{jid}/members'')"
| "route (Ep_UpdateGroupMembers j) = (''POST'', ''/v1/groups/{jid}/members'')"
| "route (Ep_LeaveGroup j) = (''DELETE'', ''/v1/groups/{jid}/membership'')"
| "route Ep_Events = (''GET'', ''/v1/events'')"
| "route Ep_Mcp = ('''', ''/v1/mcp'')"

section \<open>events.go: the cursor\<close>

definition resolveLastSeq :: "request \<Rightarrow> string + int" where
  "resolveLastSeq rq =
     (let v = rq_last_id rq; s = values_get (rq_query rq) ''since''
      in if v \<noteq> '''' then
           (case parse_int64 v of
              None \<Rightarrow> Inl ''Last-Event-ID must be a non-negative integer''
            | Some n \<Rightarrow> if n < 0 then Inl ''Last-Event-ID must be a non-negative integer'' else Inr n)
         else if s \<noteq> '''' then
           (case parse_int64 s of
              None \<Rightarrow> Inl ''since must be a non-negative integer''
            | Some n \<Rightarrow> if n < 0 then Inl ''since must be a non-negative integer'' else Inr n)
         else Inr 0)"

text \<open>A plain reply, an event stream to be run from a cursor (\<open>Event_Stream\<close>), or the MCP handler's turn.\<close>

datatype reply = Plain response | EventStream int | McpTransport | NoRoute

definition handle :: "('d, 'w) svc \<Rightarrow> bool \<Rightarrow> (string \<Rightarrow> string) \<Rightarrow> endpoint \<Rightarrow> request \<Rightarrow> ('d, 'w) world
    \<Rightarrow> reply \<times> ('d, 'w) world" where
  "handle S mcp by_ext ep rq w =
     (let plain = (\<lambda>(r, w). (Plain r, w))
      in case ep of
           Ep_Health \<Rightarrow> (Plain HealthHandler, w)
         | Ep_Status \<Rightarrow> plain (StatusHandler S w)
         | Ep_LoginQR \<Rightarrow> plain (LoginQRHandler S w)
         | Ep_LoginPhone \<Rightarrow> plain (LoginPhoneHandler S rq w)
         | Ep_Logout \<Rightarrow> plain (LogoutHandler S w)
         | Ep_SendText \<Rightarrow> plain (SendTextHandler S rq w)
         | Ep_EditMessage i \<Rightarrow> plain (EditMessageHandler S i rq w)
         | Ep_DeleteMessage i \<Rightarrow> plain (DeleteMessageHandler S i w)
         | Ep_ListChats \<Rightarrow> plain (ListChatsHandler S rq w)
         | Ep_GetChat j \<Rightarrow> plain (GetChatHandler S j w)
         | Ep_ListMessagesByChat j \<Rightarrow> plain (ListMessagesByChatHandler S j rq w)
         | Ep_SearchMessages \<Rightarrow> plain (SearchMessagesHandler S rq w)
         | Ep_ListContacts \<Rightarrow> plain (ListContactsHandler S w)
         | Ep_SearchContacts \<Rightarrow> plain (SearchContactsHandler S rq w)
         | Ep_Stats \<Rightarrow> plain (StatsHandler S w)
         | Ep_SendMedia \<Rightarrow> plain (SendMediaHandler S by_ext rq w)
         | Ep_GetMedia i \<Rightarrow> plain (GetMediaHandler S i w)
         | Ep_SendReaction i \<Rightarrow> plain (SendReactionHandler S i rq w)
         | Ep_ListReactions i \<Rightarrow> plain (ListReactionsHandler S i w)
         | Ep_MarkRead i \<Rightarrow> plain (MarkReadHandler S i w)
         | Ep_ListReceipts i \<Rightarrow> plain (ListReceiptsHandler S i w)
         | Ep_SendTyping j \<Rightarrow> plain (SendTypingHandler S j rq w)
         | Ep_CreateGroup \<Rightarrow> plain (CreateGroupHandler S rq w)
         | Ep_ListGroupMembers j \<Rightarrow> plain (ListGroupMembersHandler S j w)
         | Ep_UpdateGroupMembers j \<Rightarrow> plain (UpdateGroupMembersHandler S j rq w)
         | Ep_LeaveGroup j \<Rightarrow> plain (LeaveGroupHandler S j w)
         | Ep_Events \<Rightarrow> (case resolveLastSeq rq of
               Inl d \<Rightarrow> (Plain (bad_request d), w) | Inr n \<Rightarrow> (EventStream n, w))
         | Ep_Mcp \<Rightarrow> (if mcp then McpTransport else NoRoute, w))"

definition NewRouter :: "('d, 'w) svc \<Rightarrow> string \<Rightarrow> bool \<Rightarrow> (string \<Rightarrow> string) \<Rightarrow> endpoint \<Rightarrow> request \<Rightarrow> ('d, 'w) world
    \<Rightarrow> reply \<times> ('d, 'w) world" where
  "NewRouter S token mcp by_ext ep rq w =
     (if ep = Ep_Health then handle S mcp by_ext ep rq w
      else case RequireBearerToken token rq of
        Some r \<Rightarrow> (Plain r, w)
      | None \<Rightarrow> handle S mcp by_ext ep rq w)"

end
