(* ===== verification/Http_Props.thy ===== *)
theory Http_Props
  imports Samples Http_Handlers
begin

text \<open>
  Properties of the HTTP transport over the service and the store: the authentication gate, which
  answers which statuses, the limits, and media from the upload to the download. Each is followed by
  its example on the demo daemon.
\<close>

section \<open>Authentication\<close>

lemma bearer_header:
  assumes "token \<noteq> []"
  shows "bearerToken (''Bearer '' @ token) = Some token \<longleftrightarrow> hd token \<noteq> CHR '' ''"
proof -
  have "map ascii_lower (take 7 (''Bearer '' @ token)) = map ascii_lower ''Bearer ''" by simp
  also have "\<dots> = ''bearer ''" by code_simp
  finally have drop: "bearerToken (''Bearer '' @ token) =
      (let tok = dropWhile (\<lambda>c. c = CHR '' '') token in if tok = '''' then None else Some tok)"
    using assms by (simp add: bearerToken_def)
  show ?thesis
  proof (cases token)
    case (Cons c cs)
    have "length (dropWhile (\<lambda>c. c = CHR '' '') cs) \<le> length cs" by (rule length_dropWhile_le)
    then show ?thesis unfolding drop using Cons by (auto simp: Let_def)
  qed (use assms(1) in simp)
qed

text \<open>Property C13: with a token configured, a request to any endpoint but the health check that does not carry
  exactly that token is answered 401 and has no effect at all; one that does is handled. The header
  ``Bearer <token>'' carries the token unless the token begins with a blank: then it never does.\<close>

theorem bearer_gate:
  assumes "token \<noteq> []" "ep \<noteq> Ep_Health"
  shows "(bearerToken (rq_auth rq) = Some token \<longrightarrow> NewRouter S token mcp by_ext ep rq w = handle S mcp by_ext ep rq w)
    \<and> (bearerToken (rq_auth rq) \<noteq> Some token \<longrightarrow>
        (\<exists>r. NewRouter S token mcp by_ext ep rq w = (Plain r, w) \<and> rs_status r = 401))
    \<and> (bearerToken (''Bearer '' @ token) = Some token \<longleftrightarrow> hd token \<noteq> CHR '' '')"
  using assms bearer_header [OF assms(1)] by (auto simp: NewRouter_def RequireBearerToken_def WriteProblem_def split: option.splits)

definition demo_request :: request where
  "demo_request = \<lparr>rq_auth = ''Bearer s3cret'', rq_last_id = '''', rq_query = [], rq_body = None, rq_form = Inl (GoErr EOther ''no form'')\<rparr>"

theorem bearer_gate_witness:
  "fst (NewRouter demo_svc ''s3cret'' True (\<lambda>_. '''') Ep_Mcp demo_request demo_lite) = McpTransport
   \<and> (\<exists>r. NewRouter demo_svc ''other'' True (\<lambda>_. '''') Ep_Logout demo_request demo_lite = (Plain r, demo_lite) \<and> rs_status r = 401)"
proof -
  have t: "bearerToken (rq_auth demo_request) = Some ''s3cret''"
    using bearer_header [of "''s3cret''"] by (simp add: demo_request_def)
  show ?thesis
    using bearer_gate [of "''s3cret''" Ep_Mcp demo_request demo_svc True "\<lambda>_. ''''" demo_lite]
      bearer_gate [of "''other''" Ep_Logout demo_request demo_svc True "\<lambda>_. ''''" demo_lite]
    by (simp add: t) (simp add: handle_def)
qed

section \<open>Statuses\<close>

lemma parseLimit_range: "parseLimit rq = Inr n \<Longrightarrow> 1 \<le> n \<and> n \<le> 100"
  by (auto simp: parseLimit_def Let_def defaultLimit_def maxAPILimit_def split: if_splits option.splits)

lemma validateLimit_ok: "parseLimit rq = Inr n \<Longrightarrow> validateLimit n = None"
  by (auto dest: parseLimit_range simp: validateLimit_def minLimit_def maxLimit_def)

lemma other_kind: "err_kind_of e = EOther \<Longrightarrow> is_err k e \<longleftrightarrow> k = EOther"
  by (auto simp: is_err_def)

text \<open>Property C14: the message listing answers 400 exactly when the limit or the cursor does not parse or the chat
  is blank (a limit the transport lets through is never refused by the service), 500 when the
  database fails, and 200 otherwise.\<close>

theorem list_messages_status:
  "let r = fst (ListMessagesByChatHandler (svc_New wa (sqlite_bundle eng) root sha live) j rq w)
    in rs_status r \<in> {200, 400, 500}
     \<and> (rs_status r = 400 \<longleftrightarrow> isl (parseLimit rq) \<or> isl (parseBefore rq) \<or> TrimSpace j = [])
     \<and> (quiet (w_db w) \<longrightarrow> rs_status r \<noteq> 500)"
proof (cases "parseLimit rq")
  case (Inr l)
  note limit = Inr
  show ?thesis
  proof (cases "parseBefore rq")
    case (Inr t)
    let ?S = "svc_New wa (sqlite_bundle eng) root sha live"
    have l0: "validateLimit l = None" by (rule validateLimit_ok [OF limit])
    obtain r d where r: "mst_ListByChat (b_Messages (sqlite_bundle eng)) j l t (w_db w) = (r, d)" by fastforce
    have "case r of Inl e \<Rightarrow> err_kind_of e = EOther \<and> \<not> quiet (w_db w) | Inr ms \<Rightarrow> True"
      using r by (auto simp: sqlite_bundle_def MessageStore_ListByChat_def elim: query_rows_cases)
    then show ?thesis
      using limit Inr l0 r
      by (cases r; cases "TrimSpace j = []")
         (auto simp: ListMessagesByChatHandler_def ListMessages_def invalid_def on_db_def svc_New_def
           case_defs writeJSON_def WriteProblem_def other_kind)
  qed (simp add: ListMessagesByChatHandler_def limit bad_request_def WriteProblem_def)
qed (simp add: ListMessagesByChatHandler_def bad_request_def WriteProblem_def)

theorem list_messages_status_witness:
  "rs_status (fst (ListMessagesByChatHandler demo_svc demo_peer demo_request demo_lite)) = 200"
proof -
  have "parseLimit demo_request = Inr 50" "parseBefore demo_request = Inr time_zero"
    by (simp_all add: parseLimit_def parseBefore_def demo_request_def values_get_def Let_def defaultLimit_def)
  then show ?thesis
    using list_messages_status [of demo_wa demo_engine "''/m''" demo_sha True demo_peer demo_request demo_lite]
    by (auto simp: Let_def)
qed

text \<open>The status of a delete request, from what the store and WhatsApp say.\<close>

definition delete_status :: "status \<Rightarrow> message option \<Rightarrow> string \<Rightarrow> goerr option \<Rightarrow> nat" where
  "delete_status st stored i wa_err =
     (if TrimSpace i = '''' then 400 else case stored of
        None \<Rightarrow> 404
      | Some m \<Rightarrow> if st_JID st \<noteq> Some (msg_SenderJID m) \<or> msg_DeletedAt m \<noteq> None then 403
          else case wa_err of None \<Rightarrow> 204
            | Some e \<Rightarrow> if is_err EInvalidRequest e then 400 else if is_err EForbidden e then 403
                else if is_err ENotFound e then 404 else if is_err ENotConnected e then 409 else 500)"

text \<open>Property C15: over Postgres that does not fail, a delete request is answered 400 for a blank id, 404 for an
  unknown message, 403 for a message of somebody else or already deleted, 409 when WhatsApp is not
  connected, 500 when it fails otherwise and 204 when it is done.\<close>

theorem delete_statuses:
  assumes "world_ok (conn_inv eng) postgres_view w" "quiet (w_db w)"
  shows "rs_status (fst (DeleteMessageHandler (svc_New wa (postgres_bundle eng) root sha live) i w)) =
    delete_status (wa_Status wa (w_wa w)) (v_messages (postgres_view (w_db w)) i) i
      (case v_messages (postgres_view (w_db w)) i of None \<Rightarrow> None
       | Some m \<Rightarrow> (case fst (wa_SendRevoke wa (msg_ChatJID m) i (w_wa w)) of Inl e \<Rightarrow> Some e | Inr s \<Rightarrow> None))"
proof -
  let ?S = "svc_New wa (postgres_bundle eng) root sha live"
  have inv: "conn_inv eng (w_db w)" using assms(1) by (simp add: world_ok_def)
  obtain d where g: "on_db (mst_Get (b_Messages (postgres_bundle eng)) i) w
      = (lookup (v_messages (postgres_view (w_db w)) i), w\<lparr>w_db := d\<rparr>)"
    using svc_postgres.calm_read [OF postgres.message_get inv assms(2), of i] by blast
  have S: "s_bundle ?S = postgres_bundle eng" "s_wa ?S = wa" by (simp_all add: svc_New_def)
  show ?thesis
  proof (cases "v_messages (postgres_view (w_db w)) i")
    case None
    then show ?thesis using g
      by (auto simp: DeleteMessageHandler_def DeleteMessage_def S delete_status_def case_defs WriteProblem_def invalid_def)
  next
    case (Some m)
    obtain r x where r: "wa_SendRevoke wa (msg_ChatJID m) i (w_wa w) = (r, x)" by fastforce
    show ?thesis using g Some r
      by (cases r) (auto simp: DeleteMessageHandler_def DeleteMessage_def S delete_status_def case_defs WriteProblem_def
        invalid_def forbidden_def ownsMessage_def on_wa_def no_content_def time_Now_def split: option.splits)
  qed
qed

theorem delete_statuses_witness:
  "rs_status (fst (DeleteMessageHandler demo_pg_svc ''A2'' demo_pg)) = 204
   \<and> rs_status (fst (DeleteMessageHandler demo_pg_svc ''A1'' demo_pg)) = 403"
proof -
  have revoke: "fst (wa_SendRevoke demo_wa j i n) = Inr demo_sent" for j i n by (simp add: demo_wa_def)
  show ?thesis
    using delete_statuses [OF demo_pg_ok demo_quiet, of demo_wa "''/m''" demo_sha True] 
    by (simp add: delete_status_def revoke) (simp add: demo_me_def demo_peer_def)
qed

text \<open>Asking for a chat with a blank JID is answered 500 ``internal'', although the service reports
  an invalid request and every other handler answers 400 for it.\<close>

theorem blank_chat_is_500:
  assumes "TrimSpace j = []"
  shows "rs_status (fst (GetChatHandler S j w)) = 500 \<and> (\<exists>e. fst (GetChat S j w) = Inl e \<and> is_err EInvalidRequest e)"
  using assms by (simp add: GetChatHandler_def GetChat_def invalid_def WriteProblem_def)

theorem blank_chat_is_500_witness:
  "rs_status (fst (GetChatHandler demo_svc '' '' demo_lite)) = 500"
proof -
  have "TrimSpace '' '' = []" by (simp add: ascii_text)
  then show ?thesis using blank_chat_is_500 by blast
qed

end
