(* ===== verification/Media_Props.thy ===== *)
theory Media_Props
  imports Samples Http_Handlers
begin

text \<open>
  Properties of media, groups and the statistics: what the store of files keeps whatever fails, the
  way of a medium from the upload request to the download, what a created group leaves behind and
  what the statistics count.
\<close>

section \<open>Files\<close>

text \<open>Property C16: whatever fails on the disk, writing a medium touches no file but its own path and the temporary one
  beside it, never leaves a partial file under its own path, and keeps every file that is stored
  under a digest a content with that digest.\<close>

theorem media_files_stay_true:
  assumes "hex_digest sha" "content_addressed sha root f"
  shows "let path = media_path root (sha body) (ExtFromMIME mime); f' = snd (media_write sha root body mime f)
    in content_addressed sha root f'
     \<and> (fs_files f' path = fs_files f path \<or> fs_files f' path = Some body)
     \<and> (\<forall>q. q \<noteq> path \<and> q \<noteq> path @ ''.tmp'' \<longrightarrow> fs_files f' q = fs_files f q)"
proof -
  obtain r f' where w: "media_write sha root body mime f = (r, f')" by fastforce
  show ?thesis
    using media_write_content_addressed [OF assms(2,1) w] media_write_frame(1,2) [OF w] w by (simp add: Let_def)
qed

theorem media_files_stay_true_witness:
  "content_addressed demo_sha ''/m'' (snd (media_write demo_sha ''/m'' ''body'' ''image/png''
     \<lparr>fs_files = Map.empty, fs_dirs = [], fs_faults = [None, None, Some (FShort 2 ''disk full'')]\<rparr>))"
proof -
  have "content_addressed demo_sha ''/m'' \<lparr>fs_files = Map.empty, fs_dirs = [], fs_faults = [None, None, Some (FShort 2 ''disk full'')]\<rparr>"
    by (simp add: content_addressed_def)
  from media_files_stay_true [OF demo_sha_hex this] show ?thesis by (simp add: Let_def)
qed

text \<open>Property C17: over SQLite with disk and database up, a medium sent to a known chat comes back from the
  download request with the same bytes, type and length, provided no other content lies under the
  path its digest gives.\<close>

theorem media_roundtrip:
  assumes "world_ok (conn_inv eng) sqlite_view w" "quiet (w_db w)" "fs_quiet (w_fs w)" "hex_digest sha"
    and "TrimSpace (smr_ChatJID req) \<noteq> []" "smr_Body req \<noteq> []" "TrimSpace (smr_MIME req) \<noteq> []"
    and "smr_Kind req = ''image'' \<or> smr_Kind req = ''document'' \<and> TrimSpace (smr_Filename req) \<noteq> []"
    and "length (smr_Caption req) \<le> 4096"
    and "wa_SendMedia wa (smr_ChatJID req) (smr_Kind req) (smr_Caption req) (smr_Filename req) (smr_MIME req)
        (smr_Body req) (w_wa w) = (Inr s, x)" "TrimSpace (sent_ID s) \<noteq> []"
    and "v_chats (sqlite_view (w_db w)) (smr_ChatJID req) = Some c" "chat_Kind c \<noteq> []"
    and "\<forall>b. fs_files (w_fs w) (media_path root (sha (smr_Body req)) (ExtFromMIME (smr_MIME req))) = Some b \<longrightarrow> b = smr_Body req"
  shows "let S = svc_New wa (sqlite_bundle eng) root sha live; r = SendMedia S req w
    in fst r = Inr (sent_media_message req s)
     \<and> fst (GetMediaHandler S (sent_ID s) (snd r)) =
         \<lparr>rs_status = 200, rs_type = smr_MIME req, rs_length = Some (int (length (smr_Body req))), rs_body = smr_Body req\<rparr>"
proof -
  define S where "S = svc_New wa (sqlite_bundle eng) root sha live"
  have S: "s_wa S = wa" "s_sha S = sha" "s_root S = root" "s_bundle S = sqlite_bundle eng" by (simp_all add: S_def svc_New_def)
  let ?fs = "snd (media_write sha root (smr_Body req) (smr_MIME req) (w_fs w))"
  obtain d where send: "SendMedia S req w = (Inr (sent_media_message req s), w\<lparr>w_wa := x, w_db := d, w_fs := ?fs\<rparr>)"
    and d: "conn_inv eng d" "quiet d" "sqlite_view d = abs_put_chat to_seconds (c\<lparr>chat_LastMsgAt := sent_Timestamp s\<rparr>)
       (abs_put_media (sent_media_ref S req s) (abs_put_message to_seconds (map_option to_seconds)
          (sent_media_message req s) (sqlite_view (w_db w))))"
    by (rule svc_sqlite.SendMedia_calm [OF assms(1,2), where wa = wa and root = root and sha = sha and live = live
          and req = req and s = s and x = x and c = c, folded S_def, unfolded S])
       (use assms in simp_all)
  let ?w = "w\<lparr>w_wa := x, w_db := d, w_fs := ?fs\<rparr>"
  let ?ref = "sent_media_ref S req s"
  have ref: "v_media (sqlite_view d) (sent_ID s) = Some ?ref"
    by (simp add: d(3) abs_put_chat_def abs_put_media_def sent_media_ref_def)
  obtain d2 where get: "on_db (dst_GetByMessageID (b_Media (sqlite_bundle eng)) (sent_ID s)) ?w = (Inr ?ref, ?w\<lparr>w_db := d2\<rparr>)"
    using svc_sqlite.calm_read [OF sqlite.media_get [of eng "sent_ID s"], of ?w] d(1,2) ref by auto
  have stored: "fs_files ?fs (med_Path ?ref) = Some (smr_Body req)"
    using media_write_holds [OF assms(3,4), of root "smr_Body req" "smr_MIME req"] assms(14) by (simp add: sent_media_ref_def S)
  obtain g where fault: "fs_fault ?fs = (None, g)" "fs_files g = fs_files ?fs"
    using media_write_stays_quiet [OF assms(3,4), of root "smr_Body req" "smr_MIME req"] fs_faultE(1,3)
    by (metis prod.exhaust_sel)
  show ?thesis
    unfolding S_def [symmetric] Let_def send
    using get stored fault assms(11) by (simp add: GetMediaHandler_def GetMediaRef_def S on_fs_def os_Open_def)
      (simp add: sent_media_ref_def)
qed

definition demo_upload :: SendMediaRequest where
  "demo_upload = \<lparr>smr_ChatJID = demo_peer, smr_Kind = ''image'', smr_Caption = '''', smr_Filename = '''',
     smr_MIME = ''image/png'', smr_Body = ''pixels''\<rparr>"

theorem media_roundtrip_witness:
  "rs_body (fst (GetMediaHandler demo_svc ''3EB0'' (snd (SendMedia demo_svc demo_upload demo_lite)))) = ''pixels''"
proof -
  have mime: "TrimSpace (smr_MIME demo_upload) \<noteq> []" by (simp add: demo_upload_def ascii_text)
  have sid: "TrimSpace (sent_ID demo_sent) \<noteq> []" by (simp add: demo_sent_def ascii_text)
  have s: "wa_SendMedia demo_wa (smr_ChatJID demo_upload) (smr_Kind demo_upload) (smr_Caption demo_upload) (smr_Filename demo_upload)
      (smr_MIME demo_upload) (smr_Body demo_upload) (w_wa demo_lite) = (Inr demo_sent, Suc (w_wa demo_lite))"
    by (simp add: demo_wa_def)
  have q: "fs_quiet (w_fs demo_lite)" by (simp add: demo_world_def fs_quiet_def)
  have c: "v_chats (sqlite_view (w_db demo_lite)) (smr_ChatJID demo_upload) = Some demo_chat" by (simp add: demo_upload_def)
  show ?thesis
    using media_roundtrip [OF demo_lite_ok demo_quiet q demo_sha_hex _ _ mime _ _ s sid c, of "''/m''" True]
    by (simp add: demo_upload_def demo_chat_def Let_def) (simp add: demo_sent_def demo_world_def)
qed

section \<open>Groups\<close>

text \<open>Property C19: over SQLite that does not fail, a group is created under the trimmed name only when that has 1 to
  25 characters and there is a participant; WhatsApp then sees the trimmed name, and the group's chat
  is in the store with no unread message.\<close>

theorem group_created:
  assumes "world_ok (conn_inv eng) sqlite_view w" "quiet (w_db w)"
    and "wa_CreateGroup wa (TrimSpace n) ps (w_wa w) = (Inr g, x)"
  shows "let r = CreateGroup (svc_New wa (sqlite_bundle eng) root sha live) n ps w
    in if 1 \<le> length (TrimSpace n) \<and> RuneCountInString (TrimSpace n) \<le> 25 \<and> ps \<noteq> []
       then fst r = Inr g \<and> w_wa (snd r) = x
         \<and> v_chats (sqlite_view (w_db (snd r))) (gr_JID g) = Some (norm_chat to_seconds \<lparr>chat_JID = gr_JID g,
             chat_Name = gr_Name g, chat_Kind = ''group'', chat_LastMsgAt = w_clock w (w_tick w),
             chat_UnreadCount = 0, chat_Archived = False\<rparr>)
       else snd r = w \<and> (\<exists>e. fst r = Inl e \<and> is_err EInvalidRequest e)"
proof (cases "1 \<le> length (TrimSpace n) \<and> RuneCountInString (TrimSpace n) \<le> 25 \<and> ps \<noteq> []")
  case True
  show ?thesis
    by (rule svc_sqlite.CreateGroup_calm [OF assms(1,2), where wa = wa and root = root and sha = sha and live = live
          and n = n and ps = ps and g = g and x = x])
       (use True assms(3) in \<open>auto simp: svc_New_def abs_put_chat_def\<close>)
next
  case False
  then show ?thesis
    using svc_sqlite.CreateGroup_invalid [of n ps wa eng root sha live w] by (auto simp: Suc_le_eq)
qed

theorem group_created_witness:
  "\<exists>c. v_chats (sqlite_view (w_db (snd (CreateGroup demo_svc ''  team'' [demo_peer] demo_lite)))) ''1@g.us'' = Some c
     \<and> chat_Name c = TrimSpace ''  team''"
proof -
  have "TrimSpace ''  team'' \<noteq> []" by (simp add: ascii_text)
  moreover have "RuneCountInString (TrimSpace ''  team'') \<le> 25" by (simp add: ascii_text)
  ultimately have len: "1 \<le> length (TrimSpace ''  team'') \<and> RuneCountInString (TrimSpace ''  team'') \<le> 25"
    by (simp add: Suc_le_eq)
  obtain g where g: "wa_CreateGroup demo_wa (TrimSpace ''  team'') [demo_peer] (w_wa demo_lite) = (Inr g, Suc (w_wa demo_lite))"
    "gr_JID g = ''1@g.us''" "gr_Name g = TrimSpace ''  team''" by (simp add: demo_wa_def)
  show ?thesis
    using group_created [OF demo_lite_ok demo_quiet g(1), of "''/m''" demo_sha True] len g(2,3)
    by (simp add: Let_def norm_chat_def)
qed

section \<open>Statistics\<close>

text \<open>Over Postgres that does not fail, the statistics are exact: the numbers of chats, of messages not
  deleted and of contacts, and the sum of the chats' unread counts.\<close>

theorem stats_exact:
  assumes "world_ok (conn_inv eng) postgres_view w" "quiet (w_db w)"
  shows "let v = postgres_view (w_db w)
    in fst (Stats (svc_New wa (postgres_bundle eng) root sha live) w) = Inr \<lparr>stats_Chats = int (card (dom (v_chats v))),
      stats_Messages = int (card {i. \<exists>m. v_messages v i = Some m \<and> msg_DeletedAt m = None}),
      stats_Contacts = int (card (dom (v_contacts v))),
      stats_UnreadTotal = (\<Sum>j\<in>dom (v_chats v). chat_UnreadCount (the (v_chats v j)))\<rparr>"
  using svc_postgres.Stats_calm [OF assms] by (simp add: Let_def)

theorem stats_exact_witness:
  "\<exists>s. fst (Stats demo_pg_svc demo_pg) = Inr s \<and> stats_Contacts s = 0"
proof -
  have "dom (v_contacts (postgres_view (w_db demo_pg))) = {}"
    by (simp add: postgres_view_def conn_view_def db_view_def demo_defs)
  then show ?thesis using stats_exact [OF demo_pg_ok demo_quiet, of demo_wa "''/m''" demo_sha True] by (simp add: Let_def)
qed

end
