(* ===== verification/Event_Stream.thy ===== *)
theory Event_Stream
  imports Http_Handlers Service_Laws
begin

text \<open>
  internal/transport/http/events.go after the cursor is resolved: one client's event stream, step by
  step, beside a daemon whose requests, inbound events and other streams run in between. The
  session subscribes first, replays the log in batches, then follows its channel. What it writes is a
  list of frames (\<open>item\<close>); \<open>item_bytes\<close> is the wire form. A step of the daemon is a whole
  operation: its appends and publications are not interleaved with those of another one (the last
  section shows what happens when they are).
\<close>

section \<open>Frames\<close>

definition writeFrame :: "string \<Rightarrow> string \<Rightarrow> string \<Rightarrow> string" where
  "writeFrame event i data =
     (if i \<noteq> '''' then ''id: '' @ i @ newline else '''') @
     (if event \<noteq> '''' then ''event: '' @ event @ newline else '''') @
     ''data: '' @ data @ newline @ newline"

datatype item =
    Ready
  | StateFrame string
  | LogFrame int string string
  | Ping
  | Lagged

definition lagged_data :: string where
  "lagged_data = marshal (JObj [(''v'', JInt 1), (''code'', JStr ''events.lagged''),
     (''detail'', JStr ''subscriber buffer overflowed; reconnect with Last-Event-ID'')])"

fun item_bytes :: "item \<Rightarrow> string" where
  "item_bytes Ready = '':ready'' @ newline @ newline"
| "item_bytes (StateFrame d) = writeFrame ''connection.state'' ''0'' d"
| "item_bytes (LogFrame s k d) = writeFrame k (show_int s) d"
| "item_bytes Ping = '':ping'' @ newline @ newline"
| "item_bytes Lagged = writeFrame ''error'' '''' lagged_data"

section \<open>The session\<close>

datatype phase = Replay | Live | Done

record session =
  sm_id :: "64 word"
  sm_chan :: nat
  sm_phase :: phase
  sm_from :: int
  sm_last :: int
  sm_out :: "item list"

definition replayBatch :: int where
  "replayBatch = 256"

definition event_frame :: "event_log_entry \<Rightarrow> item" where
  "event_frame e = LogFrame (ev_Seq e) (ev_Type e) (ev_Payload e)"

text \<open>Up to the replay: the header, the subscription, the synthetic frame.\<close>

definition stream_open :: "('d, 'w) svc \<Rightarrow> int \<Rightarrow> ('d, 'w) world \<Rightarrow> session \<times> ('d, 'w) world" where
  "stream_open S n w = (case Subscribe (w_bc w) of ((i, a), b) \<Rightarrow>
     (\<lparr>sm_id = i, sm_chan = a, sm_phase = Replay, sm_from = n, sm_last = n,
       sm_out = [Ready, StateFrame (mustMarshal (BuildConnectionStatePayload (svc_Status S w) ''''))]\<rparr>,
      w\<lparr>w_bc := b\<rparr>))"

text \<open>\<open>return\<close>: the deferred \<open>Unsubscribe\<close> runs.\<close>

definition stream_return :: "session \<Rightarrow> ('d, 'w) world \<Rightarrow> session \<times> ('d, 'w) world" where
  "stream_return sm w = (case Unsubscribe (sm_id sm) (w_bc w) of
     None \<Rightarrow> (sm\<lparr>sm_phase := Done\<rparr>, w\<lparr>w_panic := True\<rparr>)
   | Some b \<Rightarrow> (sm\<lparr>sm_phase := Done\<rparr>, w\<lparr>w_bc := b\<rparr>))"

text \<open>One turn of the replay loop.\<close>

definition stream_replay :: "('d, 'w) svc \<Rightarrow> session \<Rightarrow> ('d, 'w) world \<Rightarrow> session \<times> ('d, 'w) world" where
  "stream_replay S sm w = (case on_db (est_SinceSeq (b_Events (s_bundle S)) (sm_last sm) replayBatch) w of
     (Inl e, w) \<Rightarrow> stream_return sm w
   | (Inr rows, w) \<Rightarrow>
       (sm\<lparr>sm_out := sm_out sm @ map event_frame rows,
           sm_last := (if rows = [] then sm_last sm else ev_Seq (last rows)),
           sm_phase := (if int (length rows) < replayBatch then Live else Replay)\<rparr>, w))"

text \<open>One receive of the live loop; None while the channel is empty and open.\<close>

definition stream_recv :: "session \<Rightarrow> ('d, 'w) world \<Rightarrow> (session \<times> ('d, 'w) world) option" where
  "stream_recv sm w = (case Receive (sm_chan sm) (w_bc w) of
     None \<Rightarrow> None
   | Some (Closed, b) \<Rightarrow> Some (stream_return (sm\<lparr>sm_out := sm_out sm @ [Lagged]\<rparr>) w)
   | Some (Got ev, b) \<Rightarrow>
       Some (if se_Seq ev \<le> sm_last sm then sm
             else sm\<lparr>sm_out := sm_out sm @ [LogFrame (se_Seq ev) (se_Kind ev) (se_Payload ev)],
                     sm_last := se_Seq ev\<rparr>, w\<lparr>w_bc := b\<rparr>))"

section \<open>Runs\<close>

inductive stream_step :: "('d, 'w) svc \<Rightarrow> session \<times> ('d, 'w) world \<Rightarrow> session \<times> ('d, 'w) world \<Rightarrow> bool" for S where
  replay: "sm_phase sm = Replay \<Longrightarrow> stream_step S (sm, w) (stream_replay S sm w)"
| recv: "sm_phase sm = Live \<Longrightarrow> stream_recv sm w = Some x \<Longrightarrow> stream_step S (sm, w) x"
| ping: "sm_phase sm = Live \<Longrightarrow> stream_step S (sm, w) (sm\<lparr>sm_out := sm_out sm @ [Ping]\<rparr>, w)"
| gone: "sm_phase sm = Live \<Longrightarrow> stream_step S (sm, w) (stream_return sm w)"
| daemon: "svc_step S w w' \<Longrightarrow> stream_step S (sm, w) (sm, w')"
| other_subscribes: "id_room (w_bc w) \<Longrightarrow> stream_step S (sm, w) (sm, w\<lparr>w_bc := snd (Subscribe (w_bc w))\<rparr>)"
| other_leaves: "Unsubscribe j (w_bc w) = Some b \<Longrightarrow> stream_step S (sm, w) (sm, w\<lparr>w_bc := b\<rparr>)"
| other_receives: "c \<noteq> sm_chan sm \<Longrightarrow> c < length (bc_chans (w_bc w)) \<Longrightarrow> Receive c (w_bc w) = Some (r, b) \<Longrightarrow>
    stream_step S (sm, w) (sm, w\<lparr>w_bc := b\<rparr>)"

text \<open>The frames that carry log entries.\<close>

fun is_log_frame :: "item \<Rightarrow> bool" where
  "is_log_frame (LogFrame s k d) = True"
| "is_log_frame _ = False"

definition log_frames :: "session \<Rightarrow> item list" where
  "log_frames sm = filter is_log_frame (sm_out sm)"

definition entries_between :: "int \<Rightarrow> int \<Rightarrow> event_log_entry list \<Rightarrow> event_log_entry list" where
  "entries_between lo hi log = filter (\<lambda>e. lo < ev_Seq e \<and> ev_Seq e \<le> hi) log"

text \<open>
  What has been written is the log between the cursor and \<open>sm_last\<close>; while the session runs, its
  channel holds the published entries it has not received yet, and once it is live it has written or
  skipped everything before them.
\<close>

definition chan_view :: "session \<Rightarrow> event_log_entry list \<Rightarrow> broadcaster \<Rightarrow> bool" where
  "chan_view sm log b \<longleftrightarrow> sm_chan sm < length (bc_chans b) \<and>
     (\<exists>k\<le>length log. let c = bc_chans b ! sm_chan sm; rest = map event_of (drop k log)
        in prefix (ch_buf c) rest \<and> (\<not> ch_closed c \<longrightarrow> ch_buf c = rest)
           \<and> (sm_phase sm = Live \<longrightarrow> (\<forall>e\<in>set (take k log). ev_Seq e \<le> sm_last sm)))"

definition stream_ok :: "session \<Rightarrow> event_log_entry list \<Rightarrow> broadcaster \<Rightarrow> bool" where
  "stream_ok sm log b \<longleftrightarrow>
     log_frames sm = map event_frame (entries_between (sm_from sm) (sm_last sm) log)
   \<and> (sm_last sm = sm_from sm \<or> sm_last sm \<in> ev_Seq ` set log) \<and> sm_from sm \<le> sm_last sm
   \<and> (sm_phase sm \<noteq> Done \<longrightarrow> chan_view sm log b)"

section \<open>Entries of a sorted log\<close>

abbreviation log_sorted :: "event_log_entry list \<Rightarrow> bool" where
  "log_sorted log \<equiv> sorted_wrt (<) (map ev_Seq log)"

lemma entries_between_new:
  assumes "log_sorted (log @ new)" "hi = lo \<or> hi \<in> ev_Seq ` set log"
  shows "entries_between lo hi (log @ new) = entries_between lo hi log"
proof -
  have "\<not> (lo < ev_Seq e \<and> ev_Seq e \<le> hi)" if e: "e \<in> set new" for e
  proof (cases "hi = lo")
    case False
    then obtain x where "x \<in> set log" "hi = ev_Seq x" using assms(2) by auto
    then have "hi < ev_Seq e" using assms(1) e by (auto simp: sorted_wrt_append)
    then show ?thesis by simp
  qed simp
  then show ?thesis by (auto simp: entries_between_def filter_empty_conv)
qed

lemma entries_between_trans:
  assumes "log_sorted log" "lo \<le> mid" "mid \<le> hi"
  shows "entries_between lo hi log = entries_between lo mid log @ entries_between mid hi log"
  using assms(1)
proof (induction log)
  case (Cons e log)
  show ?case
  proof (cases "mid < ev_Seq e")
    case True
    then have "entries_between lo mid (e # log) = []"
      using Cons.prems by (auto simp: entries_between_def filter_empty_conv)
    moreover have "entries_between lo mid log = []"
      using Cons.prems True by (auto simp: entries_between_def filter_empty_conv)
    ultimately show ?thesis using Cons True assms(2) by (auto simp: entries_between_def)
  next
    case False
    then show ?thesis using Cons assms by (auto simp: entries_between_def)
  qed
qed (simp add: entries_between_def)

lemma entries_between_self [simp]: "entries_between n n log = []"
  by (auto simp: entries_between_def filter_empty_conv)

lemma entries_between_page:
  assumes "log_sorted log" and rows: "rows = take n (filter (\<lambda>e. lo < ev_Seq e) log)" "rows \<noteq> []"
  shows "entries_between lo (ev_Seq (last rows)) log = rows" "last rows \<in> set log" "lo < ev_Seq (last rows)"
proof -
  let ?ys = "filter (\<lambda>e. lo < ev_Seq e) log"
  obtain zs where split: "?ys = rows @ zs" using rows(1) by (metis append_take_drop_id)
  have "log_sorted ?ys" using assms(1) unfolding sorted_wrt_map by (rule sorted_wrt_filter)
  then have sorted: "log_sorted (rows @ zs)" by (simp only: split)
  have lr: "last rows \<in> set rows" using rows(2) by simp
  have "set rows \<subseteq> set ?ys" unfolding split by simp
  with lr show "last rows \<in> set log" "lo < ev_Seq (last rows)" by auto
  obtain pre where pre: "rows = pre @ [last rows]" using rows(2) by (metis append_butlast_last_id)
  have le: "ev_Seq e \<le> ev_Seq (last rows)" if "e \<in> set rows" for e
  proof -
    have "sorted_wrt (<) (map ev_Seq (pre @ [last rows]))" using sorted pre by (metis map_append sorted_wrt_append)
    moreover have "e \<in> set pre \<or> e = last rows" using that by (subst (asm) pre) auto
    ultimately show ?thesis by (auto simp: sorted_wrt_append)
  qed
  have gt: "\<not> ev_Seq e \<le> ev_Seq (last rows)" if "e \<in> set zs" for e
    using sorted that lr by (fastforce simp: sorted_wrt_append)
  have "entries_between lo (ev_Seq (last rows)) log = filter (\<lambda>e. ev_Seq e \<le> ev_Seq (last rows)) ?ys"
    by (simp add: entries_between_def conj_commute)
  also have "\<dots> = rows" unfolding split using le gt by (auto simp: filter_empty_conv intro: filter_True)
  finally show "entries_between lo (ev_Seq (last rows)) log = rows" .
qed

lemma entries_between_next:
  assumes "log_sorted log" "k < length log" "\<forall>e\<in>set (take k log). ev_Seq e \<le> lo" "lo < ev_Seq (log ! k)"
  shows "entries_between lo (ev_Seq (log ! k)) log = [log ! k]"
proof -
  have split: "log = take k log @ log ! k # drop (Suc k) log" using assms(2) by (rule id_take_nth_drop)
  have "log_sorted (take k log @ log ! k # drop (Suc k) log)" using assms(1) split by simp
  then have "\<forall>e\<in>set (drop (Suc k) log). ev_Seq (log ! k) < ev_Seq e" by (simp add: sorted_wrt_append)
  then have "filter (\<lambda>e. lo < ev_Seq e \<and> ev_Seq e \<le> ev_Seq (log ! k)) (drop (Suc k) log) = []"
    by (fastforce simp: filter_empty_conv)
  moreover have "filter (\<lambda>e. lo < ev_Seq e \<and> ev_Seq e \<le> ev_Seq (log ! k)) (take k log) = []"
    using assms(3) by (fastforce simp: filter_empty_conv)
  ultimately have "filter (\<lambda>e. lo < ev_Seq e \<and> ev_Seq e \<le> ev_Seq (log ! k)) (take k log @ log ! k # drop (Suc k) log) = [log ! k]"
    using assms(4) by simp
  then show ?thesis unfolding entries_between_def using split by simp
qed

section \<open>What a channel holds after several publications\<close>

lemma publish_all_chan:
  assumes "bc_ok b" "publish_all es b = Some b'" "a < length (bc_chans b)"
  shows "length (bc_chans b') = length (bc_chans b) \<and> (\<exists>p. ch_buf (bc_chans b' ! a) = ch_buf (bc_chans b ! a) @ p
    \<and> prefix p es \<and> (\<not> ch_closed (bc_chans b' ! a) \<longrightarrow> p = es \<and> \<not> ch_closed (bc_chans b ! a))
    \<and> (ch_closed (bc_chans b ! a) \<longrightarrow> p = []))"
  using assms
proof (induction es arbitrary: b)
  case Nil
  then show ?case by auto
next
  case (Cons e es)
  then obtain b1 where b1: "Publish e b = Some b1" "publish_all es b1 = Some b'"
    by (auto split: option.splits)
  have ok1: "bc_ok b1" using bc_ok_Publish [OF Cons.prems(1), of e] b1(1) by (metis option.inject)
  note ch = Publish_chan [OF Cons.prems(1) b1(1) Cons.prems(3)]
  obtain p where p: "length (bc_chans b') = length (bc_chans b1)" "ch_buf (bc_chans b' ! a) = ch_buf (bc_chans b1 ! a) @ p"
    "prefix p es" "\<not> ch_closed (bc_chans b' ! a) \<longrightarrow> p = es \<and> \<not> ch_closed (bc_chans b1 ! a)"
    "ch_closed (bc_chans b1 ! a) \<longrightarrow> p = []"
    using Cons.IH [OF ok1 b1(2)] ch(1) Cons.prems(3) by auto
  show ?case
  proof (cases "ch_closed (bc_chans b ! a) \<or> is_full b a")
    case True
    then have "ch_closed (bc_chans b1 ! a)" "ch_buf (bc_chans b1 ! a) = ch_buf (bc_chans b ! a)"
      using ch(2) by (auto simp: deliver_def Let_def)
    then show ?thesis using p ch(1) by (intro conjI exI [of _ "[]"]) auto
  next
    case False
    then have "\<not> ch_closed (bc_chans b1 ! a)" "ch_buf (bc_chans b1 ! a) = ch_buf (bc_chans b ! a) @ [e]"
      using ch(2) by (auto simp: deliver_def Let_def)
    then show ?thesis using p ch(1) False by (intro conjI exI [of _ "e # p"]) auto
  qed
qed

section \<open>The invariant of a session\<close>

lemma log_frames_append [simp]:
  "log_frames (sm\<lparr>sm_out := sm_out sm @ xs\<rparr>) = log_frames sm @ filter is_log_frame xs"
  by (simp add: log_frames_def)

lemma log_frames_update [simp]:
  "log_frames (sm\<lparr>sm_last := l\<rparr>) = log_frames sm" "log_frames (sm\<lparr>sm_phase := p\<rparr>) = log_frames sm"
  by (simp_all add: log_frames_def)

lemma filter_event_frames [simp]: "filter is_log_frame (map event_frame es) = map event_frame es"
  by (induction es) (simp_all add: event_frame_def)

lemma stream_ok_Done: "stream_ok sm log b \<Longrightarrow> stream_ok (sm\<lparr>sm_phase := Done\<rparr>) log b'"
  by (simp add: stream_ok_def)

text \<open>Output that carries no log entry does not matter.\<close>

lemma stream_ok_other: "\<not> is_log_frame x \<Longrightarrow> stream_ok (sm\<lparr>sm_out := sm_out sm @ [x]\<rparr>) log b = stream_ok sm log b"
  by (simp add: stream_ok_def chan_view_def)

text \<open>The channel of the session may change in any way that keeps what it holds and does not open it again.\<close>

lemma chan_view_mono:
  assumes "chan_view sm log b" "sm_chan sm < length (bc_chans b')"
    "ch_buf (bc_chans b' ! sm_chan sm) = ch_buf (bc_chans b ! sm_chan sm)"
    "ch_closed (bc_chans b ! sm_chan sm) \<longrightarrow> ch_closed (bc_chans b' ! sm_chan sm)"
  shows "chan_view sm log b'"
  using assms unfolding chan_view_def Let_def by metis

lemma stream_ok_mono:
  assumes "stream_ok sm log b"
    "sm_chan sm < length (bc_chans b) \<Longrightarrow> sm_chan sm < length (bc_chans b')
       \<and> ch_buf (bc_chans b' ! sm_chan sm) = ch_buf (bc_chans b ! sm_chan sm)
       \<and> (ch_closed (bc_chans b ! sm_chan sm) \<longrightarrow> ch_closed (bc_chans b' ! sm_chan sm))"
  shows "stream_ok sm log b'"
  using assms chan_view_mono [of sm log b b'] unfolding stream_ok_def chan_view_def [of sm log b] by blast

lemma stream_ok_new:
  assumes ok: "stream_ok sm log b" and bc: "bc_ok b" and p: "publish_all (map event_of new) b = Some b'"
    and s: "log_sorted (log @ new)"
  shows "stream_ok sm (log @ new) b'"
proof -
  have "chan_view sm (log @ new) b'" if "chan_view sm log b"
  proof -
    from that obtain k where k: "sm_chan sm < length (bc_chans b)" "k \<le> length log"
      "prefix (ch_buf (bc_chans b ! sm_chan sm)) (map event_of (drop k log))"
      "\<not> ch_closed (bc_chans b ! sm_chan sm) \<longrightarrow> ch_buf (bc_chans b ! sm_chan sm) = map event_of (drop k log)"
      "sm_phase sm = Live \<longrightarrow> (\<forall>e\<in>set (take k log). ev_Seq e \<le> sm_last sm)"
      by (auto simp: chan_view_def Let_def)
    obtain q where q: "length (bc_chans b') = length (bc_chans b)"
      "ch_buf (bc_chans b' ! sm_chan sm) = ch_buf (bc_chans b ! sm_chan sm) @ q" "prefix q (map event_of new)"
      "\<not> ch_closed (bc_chans b' ! sm_chan sm) \<longrightarrow> q = map event_of new \<and> \<not> ch_closed (bc_chans b ! sm_chan sm)"
      "ch_closed (bc_chans b ! sm_chan sm) \<longrightarrow> q = []"
      using publish_all_chan [OF bc p k(1)] by blast
    have "prefix (ch_buf (bc_chans b' ! sm_chan sm)) (map event_of (drop k (log @ new)))"
    proof (cases "ch_closed (bc_chans b ! sm_chan sm)")
      case True
      then show ?thesis using k(2,3) q(2,5) by (simp add: prefix_prefix)
    next
      case False
      then show ?thesis using k(2,4) q(2,3) by simp
    qed
    moreover have "ch_buf (bc_chans b' ! sm_chan sm) = map event_of (drop k (log @ new))"
      if "\<not> ch_closed (bc_chans b' ! sm_chan sm)"
      using that k(2,4) q(2,4) by simp
    moreover have "\<forall>e\<in>set (take k (log @ new)). ev_Seq e \<le> sm_last sm" if "sm_phase sm = Live"
      using that k(2,5) by simp
    ultimately show ?thesis using k(1,2) q(1) by (auto simp: chan_view_def Let_def intro!: exI [of _ k])
  qed
  then show ?thesis using ok entries_between_new [OF s] by (auto simp: stream_ok_def)
qed

lemma stream_ok_recv:
  assumes ok: "stream_ok sm log b" and live: "sm_phase sm = Live" and bc: "bc_ok b" and s: "log_sorted log"
    and r: "Receive (sm_chan sm) b = Some (Got ev, b')"
  shows "stream_ok (if se_Seq ev \<le> sm_last sm then sm
     else sm\<lparr>sm_out := sm_out sm @ [LogFrame (se_Seq ev) (se_Kind ev) (se_Payload ev)], sm_last := se_Seq ev\<rparr>) log b'"
proof -
  let ?c = "bc_chans b ! sm_chan sm"
  let ?c' = "bc_chans b' ! sm_chan sm"
  from ok live obtain k where k: "sm_chan sm < length (bc_chans b)" "k \<le> length log"
    "prefix (ch_buf ?c) (map event_of (drop k log))" "\<not> ch_closed ?c \<longrightarrow> ch_buf ?c = map event_of (drop k log)"
    "\<forall>e\<in>set (take k log). ev_Seq e \<le> sm_last sm"
    by (auto simp: stream_ok_def chan_view_def Let_def)
  note rc = bc_ok_Receive [OF bc k(1) r]
  have kl: "k < length log" using k(2,3) rc(3) by (cases "k = length log") auto
  have dr: "drop k log = log ! k # drop (Suc k) log" using kl by (simp add: Cons_nth_drop_Suc)
  have ev: "ev = event_of (log ! k)" and pre: "prefix (ch_buf ?c') (map event_of (drop (Suc k) log))"
    using k(3) rc(3) dr by auto
  have eq: "\<not> ch_closed ?c' \<longrightarrow> ch_buf ?c' = map event_of (drop (Suc k) log)" using k(1,4) rc(3,4) dr by auto
  have tk: "take (Suc k) log = take k log @ [log ! k]" using kl by (simp add: take_Suc_conv_app_nth)
  have base: "log_frames sm = map event_frame (entries_between (sm_from sm) (sm_last sm) log)"
    "sm_last sm = sm_from sm \<or> sm_last sm \<in> ev_Seq ` set log" "sm_from sm \<le> sm_last sm"
    using ok by (simp_all add: stream_ok_def)
  show ?thesis
  proof (cases "se_Seq ev \<le> sm_last sm")
    case True
    then have "\<forall>e\<in>set (take (Suc k) log). ev_Seq e \<le> sm_last sm" using k(5) tk ev by (auto simp: event_of_def)
    then have "chan_view sm log b'" using k(1) kl rc(2) pre eq
      by (auto simp: chan_view_def Let_def intro!: exI [of _ "Suc k"])
    then show ?thesis using True base by (simp add: stream_ok_def)
  next
    case False
    let ?l = "ev_Seq (log ! k)"
    have gt: "sm_last sm < ?l" using False ev by (simp add: event_of_def)
    have "\<forall>e\<in>set (take (Suc k) log). ev_Seq e \<le> ?l" using k(5) tk gt by fastforce
    then have cv: "chan_view (sm\<lparr>sm_out := xs, sm_last := ?l\<rparr>) log b'" for xs using k(1) kl rc(2) pre eq
      by (auto simp: chan_view_def Let_def intro!: exI [of _ "Suc k"])
    have "entries_between (sm_from sm) ?l log = entries_between (sm_from sm) (sm_last sm) log @ [log ! k]"
      using entries_between_trans [OF s base(3), of ?l] entries_between_next [OF s kl k(5) gt] gt by simp
    then have "log_frames (sm\<lparr>sm_out := sm_out sm @ [LogFrame (se_Seq ev) (se_Kind ev) (se_Payload ev)], sm_last := se_Seq ev\<rparr>)
        = map event_frame (entries_between (sm_from sm) (se_Seq ev) log)"
      using base(1) ev by (simp add: event_of_def event_frame_def)
    moreover have "?l \<in> ev_Seq ` set log" "sm_from sm \<le> ?l" using kl base(3) gt by auto
    ultimately show ?thesis using False cv ev by (simp add: stream_ok_def event_of_def)
  qed
qed

lemma stream_ok_replay:
  assumes ok: "stream_ok sm log b" and ph: "sm_phase sm = Replay" and s: "log_sorted log"
    and rows: "rows = take (nat replayBatch) (filter (\<lambda>e. sm_last sm < ev_Seq e) log)"
  shows "stream_ok (sm\<lparr>sm_out := sm_out sm @ map event_frame rows,
      sm_last := (if rows = [] then sm_last sm else ev_Seq (last rows)),
      sm_phase := (if int (length rows) < replayBatch then Live else Replay)\<rparr>) log b"
proof -
  let ?l = "if rows = [] then sm_last sm else ev_Seq (last rows)"
  have base: "log_frames sm = map event_frame (entries_between (sm_from sm) (sm_last sm) log)"
    "sm_last sm = sm_from sm \<or> sm_last sm \<in> ev_Seq ` set log" "sm_from sm \<le> sm_last sm" "chan_view sm log b"
    using ok ph by (simp_all add: stream_ok_def)
  have page: "entries_between (sm_last sm) ?l log = rows" "sm_last sm \<le> ?l" "?l = sm_last sm \<or> ?l \<in> ev_Seq ` set log"
    using entries_between_page [OF s rows] by auto
  have ext: "entries_between (sm_from sm) ?l log = entries_between (sm_from sm) (sm_last sm) log @ rows"
    using entries_between_trans [OF s base(3) page(2)] page(1) by simp
  have all: "\<forall>e\<in>set log. ev_Seq e \<le> ?l" if short: "int (length rows) < replayBatch"
  proof
    fix e
    assume e: "e \<in> set log"
    have "rows = filter (\<lambda>e. sm_last sm < ev_Seq e) log" using rows short by (simp add: replayBatch_def min_def split: if_splits)
    then have "e \<in> set (entries_between (sm_last sm) ?l log)" if "sm_last sm < ev_Seq e" using that e page(1) by simp
    then show "ev_Seq e \<le> ?l" using page(2) by (cases "sm_last sm < ev_Seq e") (auto simp: entries_between_def)
  qed
  from base(4) obtain k where k: "sm_chan sm < length (bc_chans b)" "k \<le> length log"
    "prefix (ch_buf (bc_chans b ! sm_chan sm)) (map event_of (drop k log))"
    "\<not> ch_closed (bc_chans b ! sm_chan sm) \<longrightarrow> ch_buf (bc_chans b ! sm_chan sm) = map event_of (drop k log)"
    by (auto simp: chan_view_def Let_def)
  have cv: "chan_view (sm\<lparr>sm_out := xs, sm_last := ?l,
      sm_phase := (if int (length rows) < replayBatch then Live else Replay)\<rparr>) log b" for xs
    using k all by (auto simp: chan_view_def Let_def dest: in_set_takeD intro!: exI [of _ k])
  show ?thesis
    using cv ext base page(2,3) unfolding stream_ok_def by auto
qed

section \<open>Sessions over a lawful store\<close>

context use_cases
begin

lemma log_sorted_view: "W_ok w \<Longrightarrow> log_sorted (v_log (view (w_db w)))"
  using inv_view_ok by (simp add: world_ok_def view_ok_def)

definition session_ok :: "session \<times> ('d, 'w) world \<Rightarrow> bool" where
  "session_ok x \<longleftrightarrow> W_ok (snd x) \<and> stream_ok (fst x) (v_log (view (w_db (snd x)))) (w_bc (snd x))"

lemma session_open:
  assumes "W_ok w" "id_room (w_bc w)"
  shows "session_ok (stream_open S n w)"
proof -
  obtain i a b where s: "Subscribe (w_bc w) = ((i, a), b)" by (metis surj_pair)
  have b: "bc_chans b = bc_chans (w_bc w) @ [\<lparr>ch_buf = [], ch_closed = False\<rparr>]" "a = length (bc_chans (w_bc w))"
    using s by (auto simp: Subscribe_def Let_def)
  have "bc_ok b" using bc_ok_Subscribe [OF _ assms(2) s] assms(1) by (simp add: world_ok_def)
  moreover have "stream_ok (fst (stream_open S n w)) log b" for log
    using b s by (auto simp: stream_open_def stream_ok_def log_frames_def chan_view_def Let_def intro!: exI [of _ "length log"])
  ultimately show ?thesis using assms(1) s by (simp add: session_ok_def stream_open_def world_ok_def)
qed

lemma session_return:
  assumes "session_ok (sm, w)"
  shows "session_ok (stream_return sm w)" "fst (stream_return sm w) = sm\<lparr>sm_phase := Done\<rparr>"
    "w_db (snd (stream_return sm w)) = w_db w"
proof -
  obtain b where b: "Unsubscribe (sm_id sm) (w_bc w) = Some b" "bc_ok b"
    using bc_ok_Unsubscribe [of "w_bc w" "sm_id sm"] assms unfolding session_ok_def world_ok_def by (metis snd_conv)
  moreover have "stream_ok (sm\<lparr>sm_phase := Done\<rparr>) (v_log (view (w_db w))) b"
    using assms stream_ok_Done by (auto simp: session_ok_def)
  ultimately show "session_ok (stream_return sm w)"
    using assms by (simp add: stream_return_def session_ok_def world_ok_def)
  show "fst (stream_return sm w) = sm\<lparr>sm_phase := Done\<rparr>" "w_db (snd (stream_return sm w)) = w_db w"
    using b by (simp_all add: stream_return_def)
qed

lemma session_replay:
  assumes ok: "session_ok (sm, w)" and ph: "sm_phase sm = Replay"
  shows "session_ok (stream_replay S sm w)"
proof -
  obtain r d where e: "est_SinceSeq (b_Events B) (sm_last sm) replayBatch (w_db w) = (r, d)" by fastforce
  then have r: "on_db (est_SinceSeq (b_Events B) (sm_last sm) replayBatch) w = (r, w\<lparr>w_db := d\<rparr>)"
    by (simp add: on_db_def)
  have W: "W_ok w" using ok by (simp add: session_ok_def)
  from e have law: "dinv d" "view d = view (w_db w)" "r = Inr (take (nat replayBatch)
      (filter (\<lambda>e. sm_last sm < ev_Seq e) (v_log (view (w_db w))))) \<or> (\<exists>e. r = Inl e)"
    using event_since [of replayBatch "sm_last sm"] W unfolding read_law_def by (auto simp: replayBatch_def world_ok_def)
  have W': "W_ok (w\<lparr>w_db := d\<rparr>)" using W law(1,2) by (simp add: world_ok_def)
  show ?thesis
  proof (cases r)
    case (Inl e)
    have "session_ok (sm, w\<lparr>w_db := d\<rparr>)" using ok W' law(2) by (simp add: session_ok_def)
    from session_return(1) [OF this] show ?thesis using r Inl by (simp add: stream_replay_def)
  next
    case (Inr rows)
    then have "rows = take (nat replayBatch) (filter (\<lambda>e. sm_last sm < ev_Seq e) (v_log (view (w_db w))))"
      using law(3) by auto
    have st: "stream_ok sm (v_log (view (w_db w))) (w_bc w)" using ok by (simp add: session_ok_def)
    note next_ok = stream_ok_replay [OF st ph log_sorted_view [OF W] \<open>rows = _\<close>]
    show ?thesis
      unfolding stream_replay_def S_bundle r Inr prod.case sum.case session_ok_def fst_conv snd_conv
      using next_ok W' law(2) by simp
  qed
qed

lemma session_recv:
  assumes ok: "session_ok (sm, w)" and ph: "sm_phase sm = Live" and r: "stream_recv sm w = Some x"
  shows "session_ok x"
proof -
  have W: "W_ok w" and bc: "bc_ok (w_bc w)" and st: "stream_ok sm (v_log (view (w_db w))) (w_bc w)"
    using ok by (auto simp: session_ok_def world_ok_def)
  have a: "sm_chan sm < length (bc_chans (w_bc w))" using st ph by (simp add: stream_ok_def chan_view_def)
  from r obtain y b where y: "Receive (sm_chan sm) (w_bc w) = Some (y, b)"
    by (auto simp: stream_recv_def split: option.splits)
  show ?thesis
  proof (cases y)
    case (Got ev)
    have "bc_ok b" using bc_ok_Receive [OF bc a] y Got by blast
    then show ?thesis using stream_ok_recv [OF st ph bc log_sorted_view [OF W]] y Got r W
      by (auto simp: stream_recv_def session_ok_def world_ok_def)
  next
    case Closed
    have "session_ok (sm\<lparr>sm_out := sm_out sm @ [Lagged]\<rparr>, w)" using ok stream_ok_other by (simp add: session_ok_def)
    from session_return(1) [OF this] show ?thesis using y Closed r by (simp add: stream_recv_def)
  qed
qed

lemma session_step:
  assumes live: "live" and step: "stream_step S x y" and ok: "session_ok x"
  shows "session_ok y"
  using step ok
proof (induction rule: stream_step.induct)
  case (replay sm w)
  then show ?case using session_replay by blast
next
  case (recv sm w x)
  then show ?case using session_recv by blast
next
  case (ping sm w)
  then show ?case using stream_ok_other by (simp add: session_ok_def)
next
  case (gone sm w)
  then show ?case using session_return(1) by blast
next
  case (daemon w w' sm)
  then have W: "W_ok w" "W_ok w'" "in_step view live w w'"
    using step_good by (auto simp: session_ok_def good_def)
  then obtain new where new: "v_log (view (w_db w')) = v_log (view (w_db w)) @ new"
    "publish_all (map event_of new) (w_bc w) = Some (w_bc w')"
    using live by (auto simp: in_step_def)
  have "stream_ok sm (v_log (view (w_db w)) @ new) (w_bc w')"
    using stream_ok_new [OF _ _ new(2)] daemon.prems W log_sorted_view [OF W(2)]
    by (simp add: session_ok_def world_ok_def new(1))
  then show ?case using W(2) new(1) by (simp add: session_ok_def)
next
  case (other_subscribes w sm)
  obtain i a b where s: "Subscribe (w_bc w) = ((i, a), b)" by (metis surj_pair)
  have "bc_ok b" using bc_ok_Subscribe [OF _ other_subscribes(1) s] other_subscribes(2) by (simp add: session_ok_def world_ok_def)
  moreover have "bc_chans b = bc_chans (w_bc w) @ [\<lparr>ch_buf = [], ch_closed = False\<rparr>]"
    using s by (auto simp: Subscribe_def Let_def)
  ultimately show ?case using other_subscribes(2) s stream_ok_mono [of sm _ "w_bc w" b]
    by (auto simp: session_ok_def world_ok_def nth_append)
next
  case (other_leaves j w b sm)
  then have bc: "bc_ok (w_bc w)" by (simp add: session_ok_def world_ok_def)
  obtain b2 where b2: "Unsubscribe j (w_bc w) = Some b2" "bc_ok b2" "length (bc_chans b2) = length (bc_chans (w_bc w))"
    "\<forall>a<length (bc_chans (w_bc w)). ch_buf (bc_chans b2 ! a) = ch_buf (bc_chans (w_bc w) ! a)
       \<and> (ch_closed (bc_chans (w_bc w) ! a) \<longrightarrow> ch_closed (bc_chans b2 ! a))"
    using bc_ok_Unsubscribe [OF bc, of j] by metis
  then show ?case using other_leaves stream_ok_mono [of sm _ "w_bc w" b] by (auto simp: session_ok_def world_ok_def)
next
  case (other_receives c sm w r b)
  then have bc: "bc_ok (w_bc w)" by (simp add: session_ok_def world_ok_def)
  have "bc_ok b \<and> length (bc_chans b) = length (bc_chans (w_bc w)) \<and>
      (\<forall>x<length (bc_chans (w_bc w)). x \<noteq> c \<longrightarrow> bc_chans b ! x = bc_chans (w_bc w) ! x)"
  proof (cases r)
    case (Got e)
    then show ?thesis using bc_ok_Receive [OF bc other_receives(2)] other_receives(3) by blast
  next
    case Closed
    then show ?thesis using other_receives(3) bc by (auto simp: Receive_def Let_def split: list.splits if_splits)
  qed
  then show ?case using other_receives stream_ok_mono [of sm _ "w_bc w" b] by (auto simp: session_ok_def world_ok_def)
qed

lemma session_run:
  assumes live and "(stream_step S)\<^sup>*\<^sup>* x y" "session_ok x"
  shows "session_ok y"
  using assms(2,3) by (induction rule: rtranclp_induct) (auto intro: session_step [OF assms(1)])

text \<open>A live session whose channel is open and empty has sent everything after its cursor.\<close>

lemma session_caught_up:
  assumes "session_ok (sm, w)" "sm_phase sm = Live"
    "ch_buf (bc_chans (w_bc w) ! sm_chan sm) = []" "\<not> ch_closed (bc_chans (w_bc w) ! sm_chan sm)"
  shows "log_frames sm = map event_frame (filter (\<lambda>e. sm_from sm < ev_Seq e) (v_log (view (w_db w))))"
proof -
  let ?log = "v_log (view (w_db w))"
  have st: "stream_ok sm ?log (w_bc w)" using assms(1) by (simp add: session_ok_def)
  then obtain k where "k \<le> length ?log" "map event_of (drop k ?log) = []" "\<forall>e\<in>set (take k ?log). ev_Seq e \<le> sm_last sm"
    using assms(2-4) by (auto simp: stream_ok_def chan_view_def Let_def)
  then have "\<forall>e\<in>set ?log. ev_Seq e \<le> sm_last sm" by simp
  then have "entries_between (sm_from sm) (sm_last sm) ?log = filter (\<lambda>e. sm_from sm < ev_Seq e) ?log"
    unfolding entries_between_def by (intro filter_cong) auto
  then show ?thesis using st by (simp add: stream_ok_def)
qed

text \<open>No step takes anything out of the log.\<close>

lemma session_log_grows:
  assumes live: "live" and step: "stream_step S x y" and ok: "session_ok x"
  shows "\<exists>new. v_log (view (w_db (snd y))) = v_log (view (w_db (snd x))) @ new"
  using step ok
proof (induction rule: stream_step.induct)
  case (replay sm w)
  obtain r d where e: "est_SinceSeq (b_Events B) (sm_last sm) replayBatch (w_db w) = (r, d)" by fastforce
  then have "view d = view (w_db w)"
    using event_since [of replayBatch "sm_last sm"] replay(2) unfolding read_law_def
    by (auto simp: replayBatch_def world_ok_def session_ok_def)
  moreover have "w_db (snd (stream_return sm v)) = w_db v" for v :: "('d, 'w) world"
    by (simp add: stream_return_def split: option.split)
  ultimately show ?case using e by (simp add: stream_replay_def on_db_def split: sum.split)
next
  case (recv sm w x)
  moreover have "w_db (snd (stream_return t v)) = w_db v" for t and v :: "('d, 'w) world"
    by (simp add: stream_return_def split: option.split)
  ultimately show ?case by (fastforce simp: stream_recv_def split: option.splits received.splits)
next
  case (gone sm w)
  then show ?case by (simp add: stream_return_def split: option.split)
next
  case (daemon w w' sm)
  then have "W_ok w" by (simp add: session_ok_def)
  with step_good [OF daemon(1)] show ?case unfolding good_def in_step_def by auto
qed simp_all

lemma session_run_grows:
  assumes live and "(stream_step S)\<^sup>*\<^sup>* x y" "session_ok x"
  shows "\<exists>new. v_log (view (w_db (snd y))) = v_log (view (w_db (snd x))) @ new"
  using assms(2)
proof (induction rule: rtranclp_induct)
  case (step y z)
  then show ?case using session_log_grows [OF assms(1) step(2)] session_run [OF assms(1) step(1) assms(3)] by auto
qed simp

lemma session_from: "stream_step S x y \<Longrightarrow> sm_from (fst y) = sm_from (fst x)"
  by (induction rule: stream_step.induct)
    (auto simp: stream_replay_def stream_recv_def stream_return_def split: prod.splits sum.splits option.splits received.splits)

lemma session_run_from: "(stream_step S)\<^sup>*\<^sup>* x y \<Longrightarrow> sm_from (fst y) = sm_from (fst x)"
  by (induction rule: rtranclp_induct) (auto dest: session_from)

text \<open>A client that comes back with the last id it saw gets the rest: no gap and no repetition.\<close>

lemma session_resume:
  assumes live and w: "W_ok w" "id_room (w_bc w)"
    and r1: "(stream_step S)\<^sup>*\<^sup>* (stream_open S n w) (sm1, w1)" and room: "id_room (w_bc w1)"
    and r2: "(stream_step S)\<^sup>*\<^sup>* (stream_open S (sm_last sm1) w1) (sm2, w2)"
  shows "log_frames sm1 @ log_frames sm2 = map event_frame (entries_between n (sm_last sm2) (v_log (view (w_db w2))))"
proof -
  have ok1: "session_ok (sm1, w1)" using session_run [OF assms(1) r1 session_open [OF w]] .
  have W1: "W_ok w1" using ok1 by (simp add: session_ok_def)
  have o2: "session_ok (stream_open S (sm_last sm1) w1)" by (rule session_open [OF W1 room])
  have ok2: "session_ok (sm2, w2)" using session_run [OF assms(1) r2 o2] .
  have from1: "sm_from sm1 = n" using session_run_from [OF r1] by (simp add: stream_open_def split: prod.splits)
  have from2: "sm_from sm2 = sm_last sm1" using session_run_from [OF r2] by (simp add: stream_open_def split: prod.splits)
  have "w_db (snd (stream_open S (sm_last sm1) w1)) = w_db w1" by (simp add: stream_open_def split: prod.splits)
  then obtain new where new: "v_log (view (w_db w2)) = v_log (view (w_db w1)) @ new"
    using session_run_grows [OF assms(1) r2 o2] by auto
  have sorted: "log_sorted (v_log (view (w_db w2)))" by (rule log_sorted_view) (use ok2 in \<open>simp add: session_ok_def\<close>)
  have s1: "log_frames sm1 = map event_frame (entries_between n (sm_last sm1) (v_log (view (w_db w1))))"
    "sm_last sm1 = n \<or> sm_last sm1 \<in> ev_Seq ` set (v_log (view (w_db w1)))" "n \<le> sm_last sm1"
    using ok1 from1 by (auto simp: session_ok_def stream_ok_def)
  have s2: "log_frames sm2 = map event_frame (entries_between (sm_last sm1) (sm_last sm2) (v_log (view (w_db w2))))"
    "sm_last sm1 \<le> sm_last sm2"
    using ok2 from2 by (auto simp: session_ok_def stream_ok_def)
  have "entries_between n (sm_last sm1) (v_log (view (w_db w2))) = entries_between n (sm_last sm1) (v_log (view (w_db w1)))"
    using entries_between_new [OF sorted [unfolded new] s1(2)] new by simp
  then show ?thesis using s1(1) s2 entries_between_trans [OF sorted s1(3) s2(2)] by simp
qed

end

section \<open>Two emissions at once\<close>

text \<open>
  \<open>Emit\<close> is two calls, the append and the publication, and nothing holds a lock around them: two
  goroutines may append in one order and publish in the other.
\<close>

definition emit_append :: "'d events_log \<Rightarrow> string \<Rightarrow> string \<Rightarrow> ('d, 'w) world \<Rightarrow> (goerr + sse_event) \<times> ('d, 'w) world" where
  "emit_append log kind body w = (case time_Now w of (now, w1) \<Rightarrow>
     (case on_db (est_Append log \<lparr>ev_Seq = 0, ev_Time = now, ev_Type = kind, ev_Payload = body\<rparr>) w1 of
        (Inl e, w2) \<Rightarrow> (Inl e, w2)
      | (Inr seq, w2) \<Rightarrow> (Inr \<lparr>se_Seq = seq, se_Kind = kind, se_Payload = body\<rparr>, w2)))"

lemma Emit_split:
  "Emit (Some \<lparr>em_log = Some log, em_live = True\<rparr>) kind (PBytes body) w = (case emit_append log kind body w of
     (Inl e, w) \<Rightarrow> warn ''emit: append failed'' w | (Inr ev, w) \<Rightarrow> publish_event ev w)"
  by (simp add: Emit_def emit_append_def split: prod.split sum.split)

end
