(* ===== verification/Stream_Props.thy ===== *)
theory Stream_Props
  imports Samples Event_Stream
begin

text \<open>
  Properties of the live stream: of the broadcaster on its own, and of a client's event stream beside
  a running daemon. Each is the instance of a lemma of \<open>Broadcaster\<close> or \<open>Event_Stream\<close>, with its
  example.
\<close>

section \<open>The broadcaster\<close>

text \<open>Property C20: in every run of subscriptions, departures, publications and receives, publishing never panics,
  and what a subscriber has received and still has in its channel is a prefix of what was published
  since it subscribed: all of it while its channel is open, and a cut at the end once it is closed.\<close>

theorem broadcaster_fifo:
  assumes "bc_reach n s" "a < length (bc_chans (run_b s))"
  shows "(\<forall>ev. Publish ev (run_b s) \<noteq> None)
    \<and> (let seen = run_got s ! a @ ch_buf (bc_chans (run_b s) ! a); since = drop (run_start s ! a) (run_pub s)
       in prefix seen since \<and> (\<not> ch_closed (bc_chans (run_b s) ! a) \<longrightarrow> seen = since))"
proof -
  have ok: "run_ok s" by (rule run_ok_reach [OF assms(1)])
  then have "bc_ok (run_b s)" "chan_ok s a" using assms(2) by (auto simp: run_ok_def)
  then show ?thesis using Publish_spec by (auto simp: chan_ok_def Let_def)
qed

theorem broadcaster_fifo_witness:
  "\<exists>b. Publish \<lparr>se_Seq = 1, se_Kind = [], se_Payload = []\<rparr> (snd (Subscribe (bc_New 1))) = Some b"
proof -
  let ?s0 = "\<lparr>run_b = bc_New 1, run_pub = [], run_start = [], run_got = []\<rparr>"
  obtain ia b where sub: "Subscribe (bc_New 1) = (ia, b)" by fastforce
  have "id_room (run_b ?s0)" by (simp add: id_room_def bc_New_def)
  then have step: "bc_step ?s0 (?s0\<lparr>run_b := b, run_start := run_start ?s0 @ [length (run_pub ?s0)], run_got := run_got ?s0 @ [[]]\<rparr>)"
    by (rule bc_step.subscribe) (simp add: sub)
  have "0 < length (bc_chans b)" using sub by (auto simp: Subscribe_def bc_New_def Let_def)
  then show ?thesis
    using broadcaster_fifo [OF bc_reach.step [OF bc_reach.start step], of 0] sub by auto
qed

section \<open>A client's stream\<close>

text \<open>Whatever the daemon and the other subscribers do in between, the log frames a client has been
  sent are exactly the log entries after its cursor up to the last one sent, each once and in order:
  none is lost or repeated at the change from the replay to the live stream, nor by an overflow.\<close>

theorem stream_exact:
  assumes "world_ok (conn_inv eng) sqlite_view w" "id_room (w_bc w)"
    and "(stream_step (svc_New wa (sqlite_bundle eng) root sha True))\<^sup>*\<^sup>*
      (stream_open (svc_New wa (sqlite_bundle eng) root sha True) n w) (sm, w')"
  shows "log_frames sm = map event_frame (entries_between n (sm_last sm) (v_log (sqlite_view (w_db w'))))
    \<and> sorted_wrt (<) (map ev_Seq (v_log (sqlite_view (w_db w')))) \<and> world_ok (conn_inv eng) sqlite_view w'"
proof -
  have ok: "svc_sqlite.session_ok eng (sm, w')"
    using svc_sqlite.session_run [OF TrueI assms(3) svc_sqlite.session_open [OF assms(1,2)]] .
  have "sm_from sm = n" using svc_sqlite.session_run_from [OF assms(3)] by (simp add: stream_open_def split: prod.splits)
  then show ?thesis using ok svc_sqlite.log_sorted_view [of eng w'] by (auto simp: svc_sqlite.session_ok_def stream_ok_def)
qed

lemma demo_id_room [simp]: "id_room (w_bc demo_lite)"
  by (simp add: demo_world_def id_room_def bc_New_def)

text \<open>The demo client: it subscribes, a receipt comes in, it replays.\<close>

lemma run_receipt_replay:
  fixes S :: "('d, 'w) svc"
  assumes "stream_open S n w = (sm, w1)" "stream_replay S sm (handleReceipt S r w1) = y" "sm_phase sm = Replay"
  shows "(stream_step S)\<^sup>*\<^sup>* (stream_open S n w) y"
proof -
  have "stream_step S (sm, w1) (sm, handleReceipt S r w1)" by (rule stream_step.daemon [OF svc_step.Receipt])
  moreover have "stream_step S (sm, handleReceipt S r w1) y" using stream_step.replay [OF assms(3)] assms(2) by metis
  ultimately show ?thesis unfolding assms(1) by (meson rtranclp.rtrancl_refl rtranclp.rtrancl_into_rtrancl)
qed

lemma open_phase: "sm_phase (fst (stream_open S n w)) = Replay"
  by (simp add: stream_open_def split: prod.split)

definition demo_seen :: incoming_receipt where
  "demo_seen = \<lparr>ir_MessageIDs = [''A2''], ir_ChatJID = demo_peer, ir_ReaderJID = demo_peer,
     ir_Type = ''read'', ir_Timestamp = time_of_unix 1700000300\<rparr>"

theorem stream_exact_witness:
  "\<exists>sm w'. stream_replay demo_svc (fst (stream_open demo_svc 0 demo_lite))
       (handleReceipt demo_svc demo_seen (snd (stream_open demo_svc 0 demo_lite))) = (sm, w')
     \<and> log_frames sm = map event_frame (entries_between 0 (sm_last sm) (v_log (sqlite_view (w_db w'))))"
proof -
  obtain sm0 w1 where o: "stream_open demo_svc 0 demo_lite = (sm0, w1)" by fastforce
  obtain sm w' where y: "stream_replay demo_svc sm0 (handleReceipt demo_svc demo_seen w1) = (sm, w')" by fastforce
  have ph: "sm_phase sm0 = Replay" using open_phase [of demo_svc 0 demo_lite] o by simp
  show ?thesis
    using stream_exact [OF demo_lite_ok demo_id_room run_receipt_replay [OF o y ph]] y o by auto
qed


lemma demo_since [simp]:
  "on_db (est_SinceSeq (b_Events (sqlite_bundle demo_engine)) n replayBatch) (demo_lite\<lparr>w_bc := b\<rparr>) = (Inr [], demo_lite\<lparr>w_bc := b\<rparr>)"
  by (simp add: sqlite_bundle_def EventsLog_SinceSeq_def on_db_def query_rows_def next_fault_def demo_defs sql_limit_def
      replayBatch_def)

lemma demo_session:
  obtains sm where "(stream_step demo_svc)\<^sup>*\<^sup>* (stream_open demo_svc n demo_lite) (sm, demo_lite\<lparr>w_bc := snd (Subscribe (bc_New 256))\<rparr>)"
    "sm_phase sm = Live" "sm_chan sm = 0" "sm_last sm = n" "sm_id sm = 1"
proof -
  obtain sm w1 where o: "stream_open demo_svc n demo_lite = (sm, w1)" by fastforce
  have w1: "w1 = demo_lite\<lparr>w_bc := snd (Subscribe (bc_New 256))\<rparr>" "sm_phase sm = Replay" "sm_chan sm = 0" "sm_last sm = n" "sm_id sm = 1"
    using o by (auto simp: stream_open_def demo_world_def Subscribe_def Let_def) (simp_all add: bc_New_def)
  let ?sm = "sm\<lparr>sm_phase := Live\<rparr>"
  have "stream_replay demo_svc sm w1 = (?sm, w1)"
    by (simp add: stream_replay_def w1 svc_New_def replayBatch_def [symmetric]) (simp add: replayBatch_def)
  then have "stream_step demo_svc (sm, w1) (?sm, w1)" using stream_step.replay [OF w1(2), of demo_svc w1] by simp
  then have "(stream_step demo_svc)\<^sup>*\<^sup>* (stream_open demo_svc n demo_lite) (?sm, w1)" unfolding o by (rule r_into_rtranclp)
  then show ?thesis using that [of ?sm] w1 by simp
qed




section \<open>Two emissions at once\<close>

lemma emit_append_lite:
  assumes "conn_inv eng (w_db w)" "quiet (w_db w)" "emit_append (b_Events (sqlite_bundle eng)) k p w = (Inr e, w')"
  shows "e = \<lparr>se_Seq = v_next (sqlite_view (w_db w)), se_Kind = k, se_Payload = p\<rparr>" "w_bc w' = w_bc w"
    "conn_inv eng (w_db w')" "quiet (w_db w')"
    "map ev_Seq (v_log (sqlite_view (w_db w'))) = map ev_Seq (v_log (sqlite_view (w_db w))) @ [v_next (sqlite_view (w_db w))]"
    "v_next (sqlite_view (w_db w')) = v_next (sqlite_view (w_db w)) + 1"
proof -
  let ?e = "\<lparr>ev_Seq = 0, ev_Time = w_clock w (w_tick w), ev_Type = k, ev_Payload = p\<rparr>"
  obtain r d where a: "est_Append (b_Events (sqlite_bundle eng)) ?e (w_db w) = (r, d)" by fastforce
  note law = sqlite.event_append [OF assms(1) a]
  show "e = \<lparr>se_Seq = v_next (sqlite_view (w_db w)), se_Kind = k, se_Payload = p\<rparr>" "w_bc w' = w_bc w"
    "conn_inv eng (w_db w')" "quiet (w_db w')"
    "map ev_Seq (v_log (sqlite_view (w_db w'))) = map ev_Seq (v_log (sqlite_view (w_db w))) @ [v_next (sqlite_view (w_db w))]"
    "v_next (sqlite_view (w_db w')) = v_next (sqlite_view (w_db w)) + 1"
    using assms(2,3) law a by (auto simp: emit_append_def time_Now_def on_db_def abs_append_def norm_event_def)
qed

lemma emit_append_lite_ok:
  assumes "conn_inv eng (w_db w)" "quiet (w_db w)"
  obtains e w' where "emit_append (b_Events (sqlite_bundle eng)) k p w = (Inr e, w')"
proof -
  let ?e = "\<lparr>ev_Seq = 0, ev_Time = w_clock w (w_tick w), ev_Type = k, ev_Payload = p\<rparr>"
  obtain r d where a: "est_Append (b_Events (sqlite_bundle eng)) ?e (w_db w) = (r, d)" by fastforce
  show ?thesis using sqlite.event_append [OF assms(1) a] a assms(2) that by (auto simp: emit_append_def time_Now_def on_db_def)
qed

lemma publish_queued:
  assumes "bc_ok (w_bc w)" "a < length (bc_chans (w_bc w))" "\<not> ch_closed (bc_chans (w_bc w) ! a)"
    and "int (length (ch_buf (bc_chans (w_bc w) ! a))) < bc_bufSize (w_bc w)"
  obtains b where "publish_event e w = w\<lparr>w_bc := b\<rparr>" "bc_ok b" "length (bc_chans b) = length (bc_chans (w_bc w))"
    "bc_chans b ! a = (bc_chans (w_bc w) ! a)\<lparr>ch_buf := ch_buf (bc_chans (w_bc w) ! a) @ [e]\<rparr>" "bc_bufSize b = bc_bufSize (w_bc w)"
proof -
  obtain b where b: "Publish e (w_bc w) = Some b" "bc_ok b" by (rule bc_ok_Publish [OF assms(1)])
  note ch = Publish_chan [OF assms(1) b(1) assms(2)]
  have "bc_bufSize b = bc_bufSize (w_bc w)" using b(1) Publish_spec [OF assms(1)] by auto
  then show ?thesis using that [of b] b ch assms(3,4) by (simp add: publish_event_def deliver_def is_full_def Let_def)
qed

text \<open>Property C23: nothing orders the append of an event and its publication with those of another one. When two
  emissions append in one order and publish in the other, a live client is sent the second event and
  then drops the first for its smaller number, although the log holds both: the event is lost to it.\<close>

theorem crossed_emissions_lose:
  assumes "world_ok (conn_inv eng) sqlite_view w" "quiet (w_db w)"
    and "(sm_id sm, sm_chan sm) \<in> set (bc_subs (w_bc w))" "ch_buf (bc_chans (w_bc w) ! sm_chan sm) = []"
    and "2 \<le> bc_bufSize (w_bc w)" "sm_last sm < v_next (sqlite_view (w_db w))"
    and "emit_append (b_Events (sqlite_bundle eng)) k1 p1 w = (Inr e1, w1)"
    and "emit_append (b_Events (sqlite_bundle eng)) k2 p2 w1 = (Inr e2, w2)"
  shows "\<exists>sm' w3 w4. stream_recv sm (publish_event e1 (publish_event e2 w2)) = Some (sm', w3)
     \<and> stream_recv sm' w3 = Some (sm', w4) \<and> ch_buf (bc_chans (w_bc w4) ! sm_chan sm) = []
     \<and> sm_out sm' = sm_out sm @ [LogFrame (se_Seq e2) k2 p2]
     \<and> map ev_Seq (v_log (sqlite_view (w_db w4))) = map ev_Seq (v_log (sqlite_view (w_db w))) @ [se_Seq e1, se_Seq e2]
     \<and> sm_last sm < se_Seq e1 \<and> se_Seq e1 < se_Seq e2"
proof -
  let ?a = "sm_chan sm"
  have inv: "conn_inv eng (w_db w)" "bc_ok (w_bc w)" using assms(1) by (auto simp: world_ok_def)
  note 1 = emit_append_lite [OF inv(1) assms(2,7)]
  note 2 = emit_append_lite [OF 1(3,4) assms(8)]
  have ch: "?a < length (bc_chans (w_bc w2))" "\<not> ch_closed (bc_chans (w_bc w2) ! ?a)"
    using bc_ok_open [OF inv(2) assms(3)] 1(2) 2(2) by auto
  have room: "int (length (ch_buf (bc_chans (w_bc w2) ! ?a))) < bc_bufSize (w_bc w2)" and ok: "bc_ok (w_bc w2)"
    using assms(4,5) inv(2) 1(2) 2(2) by auto
  obtain b1 where b1: "publish_event e2 w2 = w2\<lparr>w_bc := b1\<rparr>" "bc_ok b1" "length (bc_chans b1) = length (bc_chans (w_bc w2))"
    "bc_chans b1 ! ?a = (bc_chans (w_bc w2) ! ?a)\<lparr>ch_buf := ch_buf (bc_chans (w_bc w2) ! ?a) @ [e2]\<rparr>" "bc_bufSize b1 = bc_bufSize (w_bc w2)"
    by (rule publish_queued [OF ok ch room])
  let ?w = "w2\<lparr>w_bc := b1\<rparr>"
  have pre: "bc_ok (w_bc ?w)" "?a < length (bc_chans (w_bc ?w))" "\<not> ch_closed (bc_chans (w_bc ?w) ! ?a)"
    "int (length (ch_buf (bc_chans (w_bc ?w) ! ?a))) < bc_bufSize (w_bc ?w)"
    using b1 ch assms(4,5) 1(2) 2(2) by auto
  obtain b2 where b2: "publish_event e1 ?w = ?w\<lparr>w_bc := b2\<rparr>" "length (bc_chans b2) = length (bc_chans (w_bc ?w))"
    "bc_chans b2 ! ?a = (bc_chans (w_bc ?w) ! ?a)\<lparr>ch_buf := ch_buf (bc_chans (w_bc ?w) ! ?a) @ [e1]\<rparr>"
    by (rule publish_queued [OF pre])
  have buf: "ch_buf (bc_chans b2 ! ?a) = [e2, e1]" using b1(4) b2(3) assms(4) 1(2) 2(2) by simp
  have len: "?a < length (bc_chans b2)" using b1(3) b2(2) ch(1) by simp
  have seqs: "sm_last sm < se_Seq e1" "se_Seq e1 < se_Seq e2" using 1(1,6) 2(1) assms(6) by auto
  have log: "map ev_Seq (v_log (sqlite_view (w_db w2))) = map ev_Seq (v_log (sqlite_view (w_db w))) @ [se_Seq e1, se_Seq e2]"
    using 1(1,5) 2(1,5) by simp
  let ?sm = "sm\<lparr>sm_out := sm_out sm @ [LogFrame (se_Seq e2) (se_Kind e2) (se_Payload e2)], sm_last := se_Seq e2\<rparr>"
  let ?c = "bc_chans b2 ! ?a"
  let ?b3 = "b2\<lparr>bc_chans := (bc_chans b2)[?a := ?c\<lparr>ch_buf := [e1]\<rparr>]\<rparr>"
  let ?b4 = "?b3\<lparr>bc_chans := (bc_chans ?b3)[?a := (bc_chans ?b3 ! ?a)\<lparr>ch_buf := []\<rparr>]\<rparr>"
  have r1: "stream_recv sm (publish_event e1 (publish_event e2 w2)) = Some (?sm, w2\<lparr>w_bc := ?b3\<rparr>)"
    using buf seqs unfolding b1(1) b2(1) by (simp add: stream_recv_def Receive_def Let_def)
  have r2: "stream_recv ?sm (w2\<lparr>w_bc := ?b3\<rparr>) = Some (?sm, w2\<lparr>w_bc := ?b4\<rparr>)"
    using len seqs by (simp add: stream_recv_def Receive_def Let_def)
  have kp: "se_Kind e2 = k2" "se_Payload e2 = p2" using 2(1) by simp_all
  have "ch_buf (bc_chans ?b4 ! ?a) = []" using len by simp
  then show ?thesis using r1 r2 seqs log kp by (intro exI [of _ ?sm] exI [of _ "w2\<lparr>w_bc := ?b3\<rparr>"] exI [of _ "w2\<lparr>w_bc := ?b4\<rparr>"]) simp
qed

theorem crossed_emissions_lose_witness:
  "\<exists>sm w e1 e2 w2 sm' w3. emit_append (b_Events (sqlite_bundle demo_engine)) ''b'' ''2'' (snd (emit_append
       (b_Events (sqlite_bundle demo_engine)) ''a'' ''1'' (w :: (int conn, nat) world))) = (Inr e2, w2)
     \<and> stream_recv sm (publish_event e1 (publish_event e2 w2)) = Some (sm', w3)
     \<and> sm_out sm' = sm_out sm @ [LogFrame (se_Seq e2) ''b'' ''2''] \<and> se_Seq e1 < se_Seq e2"
proof -
  let ?w = "demo_lite\<lparr>w_bc := snd (Subscribe (bc_New 256))\<rparr>"
  obtain sm where run: "(stream_step demo_svc)\<^sup>*\<^sup>* (stream_open demo_svc 0 demo_lite) (sm, ?w)"
    and sm: "sm_phase sm = Live" "sm_chan sm = 0" "sm_last sm = 0" "sm_id sm = 1" by (rule demo_session [of 0])
  have sub: "w_bc ?w = \<lparr>bc_subs = [(1, 0)], bc_next = 1, bc_bufSize = 256, bc_chans = [\<lparr>ch_buf = [], ch_closed = False\<rparr>]\<rparr>"
    by (simp add: Subscribe_def bc_New_def Let_def)
  have ok: "world_ok (conn_inv demo_engine) sqlite_view ?w"
    using demo_lite_ok bc_ok_Subscribe [OF bc_ok_New, of 256] by (simp add: world_ok_def sub bc_ok_def)
  have q: "quiet (w_db ?w)" by simp
  have inv: "conn_inv demo_engine (w_db ?w)" by simp
  obtain e1 w1 where 1: "emit_append (b_Events (sqlite_bundle demo_engine)) ''a'' ''1'' ?w = (Inr e1, w1)"
    by (rule emit_append_lite_ok [OF inv q])
  note l1 = emit_append_lite [OF inv q 1]
  obtain e2 w2 where 2: "emit_append (b_Events (sqlite_bundle demo_engine)) ''b'' ''2'' w1 = (Inr e2, w2)"
    by (rule emit_append_lite_ok [OF l1(3,4)])
  have mem: "(sm_id sm, sm_chan sm) \<in> set (bc_subs (w_bc ?w))" and buf: "ch_buf (bc_chans (w_bc ?w) ! sm_chan sm) = []"
    and size: "2 \<le> bc_bufSize (w_bc ?w)"
    unfolding sub using sm by simp_all
  have last: "sm_last sm < v_next (sqlite_view (w_db ?w))"
    by (simp add: sm(3) sqlite_view_def conn_view_def db_view_def demo_defs)
  show ?thesis
    using crossed_emissions_lose [OF ok q mem buf size last 1 2] 1 2 by (metis snd_conv)
qed

end
