(* ===== verification/Adapter.thy ===== *)
theory Adapter
  imports Domain
begin

text \<open>
  internal/waclient/whatsmeow_adapter.go: the WhatsApp client of the daemon over the whatsmeow
  library. The library is not part of the repository: it is the record \<open>wa_lib\<close> of the functions the
  adapter calls, over a state \<open>'c\<close> of its own (device store and connection) and a type \<open>'j\<close> of JIDs.
  Its protobuf messages are records of the fields the adapter reads or writes.
\<close>

section \<open>Messages of the library\<close>

record upload =
  up_URL :: string
  up_DirectPath :: string
  up_MediaKey :: string
  up_FileEncSHA256 :: string
  up_FileSHA256 :: string

text \<open>Image, video, audio, document and sticker messages share this shape.\<close>

record proto_media =
  pm_Upload :: upload
  pm_Mimetype :: "string option"
  pm_FileLength :: nat
  pm_Caption :: "string option"
  pm_Title :: "string option"
  pm_FileName :: "string option"

text \<open>\<open>et_StanzaID\<close> is \<open>ContextInfo.StanzaID\<close>.\<close>

record ext_text =
  et_Text :: "string option"
  et_StanzaID :: "string option"

text \<open>\<open>re_KeyID\<close> and \<open>re_Text\<close> are what \<open>GetKey().GetID()\<close> and \<open>GetText()\<close> give (empty for nil).\<close>

record proto_reaction =
  re_KeyID :: string
  re_Text :: string

datatype protocol_type = REVOKE | MESSAGE_EDIT | OtherProtocol nat

text \<open>\<open>pr_Edited\<close>: None for a nil edited message, else what its \<open>GetConversation()\<close> gives.\<close>

record protocol_msg =
  pr_Type :: protocol_type
  pr_KeyID :: string
  pr_Edited :: "string option"

record wa_message =
  wm_Conversation :: "string option"
  wm_ExtendedText :: "ext_text option"
  wm_Image :: "proto_media option"
  wm_Video :: "proto_media option"
  wm_Audio :: "proto_media option"
  wm_Document :: "proto_media option"
  wm_Sticker :: "proto_media option"
  wm_Reaction :: "proto_reaction option"
  wm_Protocol :: "protocol_msg option"

definition wa_message_zero :: wa_message where
  "wa_message_zero = \<lparr>wm_Conversation = None, wm_ExtendedText = None, wm_Image = None, wm_Video = None,
     wm_Audio = None, wm_Document = None, wm_Sticker = None, wm_Reaction = None, wm_Protocol = None\<rparr>"

record 'j message_event =
  me_ID :: string
  me_Chat :: 'j
  me_Sender :: 'j
  me_IsFromMe :: bool
  me_Timestamp :: time
  me_PushName :: string
  me_Message :: "wa_message option"

datatype receipt_type = RTDelivered | RTRead | RTPlayed | RTOther string

record 'j receipt_event =
  rv_MessageIDs :: "string list"
  rv_Chat :: 'j
  rv_Sender :: 'j
  rv_Type :: receipt_type
  rv_Timestamp :: time

datatype 'j wa_event =
    WaConnected | WaDisconnected | WaLoggedOut string
  | WaPairSuccess 'j | WaPairError string
  | WaMessage "'j message_event" | WaReceipt "'j receipt_event" | WaOther

record 'j group_participant =
  gp_JID :: 'j
  gp_IsAdmin :: bool
  gp_IsSuperAdmin :: bool

record 'j group_info =
  gi_JID :: 'j
  gi_Name :: string
  gi_OwnerJID :: 'j
  gi_GroupCreated :: time
  gi_Participants :: "'j group_participant list"

record qr_item =
  qi_Event :: string
  qi_Code :: string

datatype media_type = MediaImage | MediaDocument
datatype chat_presence = PresenceComposing | PresencePaused
datatype group_change = ChangeAdd | ChangeRemove

section \<open>The library\<close>

record ('j, 'c) wa_lib =
  wl_GetFirstDevice :: "'c \<Rightarrow> goerr option \<times> 'c"
  wl_StoreID :: "'c \<Rightarrow> 'j option"
  wl_PushName :: "'c \<Rightarrow> string"
  wl_IsConnected :: "'c \<Rightarrow> bool"
  wl_IsLoggedIn :: "'c \<Rightarrow> bool"
  wl_Connect :: "'c \<Rightarrow> goerr option \<times> 'c"
  wl_Disconnect :: "'c \<Rightarrow> 'c"
  wl_Logout :: "'c \<Rightarrow> goerr option \<times> 'c"
  wl_GetQRChannel :: "'c \<Rightarrow> (goerr + qr_item list) \<times> 'c"
  wl_PairPhone :: "string \<Rightarrow> 'c \<Rightarrow> (goerr + string) \<times> 'c"
  wl_ParseJID :: "string \<Rightarrow> goerr + 'j"
  wl_JIDString :: "'j \<Rightarrow> string"
  wl_EmptyJID :: 'j
  wl_SendMessage :: "'j \<Rightarrow> wa_message \<Rightarrow> 'c \<Rightarrow> (goerr + string \<times> time) \<times> 'c"
  wl_Upload :: "string \<Rightarrow> media_type \<Rightarrow> 'c \<Rightarrow> (goerr + upload) \<times> 'c"
  wl_Download :: "proto_media \<Rightarrow> goerr + string"
  wl_BuildEdit :: "'j \<Rightarrow> string \<Rightarrow> wa_message \<Rightarrow> wa_message"
  wl_BuildRevoke :: "'j \<Rightarrow> 'j \<Rightarrow> string \<Rightarrow> wa_message"
  wl_BuildReaction :: "'j \<Rightarrow> 'j \<Rightarrow> string \<Rightarrow> string \<Rightarrow> wa_message"
  wl_MarkRead :: "string list \<Rightarrow> time \<Rightarrow> 'j \<Rightarrow> 'j \<Rightarrow> 'c \<Rightarrow> goerr option \<times> 'c"
  wl_SendChatPresence :: "'j \<Rightarrow> chat_presence \<Rightarrow> 'c \<Rightarrow> goerr option \<times> 'c"
  wl_CreateGroup :: "string \<Rightarrow> 'j list \<Rightarrow> 'c \<Rightarrow> (goerr + 'j group_info option) \<times> 'c"
  wl_GetGroupInfo :: "'j \<Rightarrow> 'c \<Rightarrow> (goerr + 'j group_info option) \<times> 'c"
  wl_UpdateGroupParticipants :: "'j \<Rightarrow> 'j list \<Rightarrow> group_change \<Rightarrow> 'c \<Rightarrow> (goerr + ('j \<times> int) list) \<times> 'c"
  wl_LeaveGroup :: "'j \<Rightarrow> 'c \<Rightarrow> goerr option \<times> 'c"
  wl_Quote :: "string \<Rightarrow> string"

text \<open>\<open>wl_Quote\<close> is \<open>%q\<close>; whether it escapes a rune is looked up in the Unicode tables of Go.\<close>

section \<open>The adapter\<close>

text \<open>
  \<open>ad_client\<close>: the client has been constructed; \<open>ad_pairCh\<close> is the index in \<open>ad_pairs\<close> of the current
  pairing channel, whose buffer holds at most one outcome; \<open>ad_incoming\<close>, \<open>ad_receipt\<close> and
  \<open>ad_connstate\<close>: the handler is set; \<open>ad_panic\<close>: a goroutine dereferenced a nil pointer.
\<close>

record 'c adapter =
  ad_lib :: 'c
  ad_client :: bool
  ad_loginInProgress :: bool
  ad_lastConnectedAt :: time
  ad_pairCh :: "nat option"
  ad_pairs :: "string option list"
  ad_incoming :: bool
  ad_receipt :: bool
  ad_connstate :: bool
  ad_panic :: bool

definition NewAdapter :: "'c \<Rightarrow> 'c adapter" where
  "NewAdapter container = \<lparr>ad_lib = container, ad_client = False, ad_loginInProgress = False,
     ad_lastConnectedAt = time_zero, ad_pairCh = None, ad_pairs = [], ad_incoming = False, ad_receipt = False,
     ad_connstate = False, ad_panic = False\<rparr>"

definition on_lib :: "('c \<Rightarrow> 'r \<times> 'c) \<Rightarrow> 'c adapter \<Rightarrow> 'r \<times> 'c adapter" where
  "on_lib f a = (case f (ad_lib a) of (r, c) \<Rightarrow> (r, a\<lparr>ad_lib := c\<rparr>))"

definition ensureClient :: "('j, 'c) wa_lib \<Rightarrow> 'c adapter \<Rightarrow> goerr option \<times> 'c adapter" where
  "ensureClient L a =
     (if ad_client a then (None, a)
      else case on_lib (wl_GetFirstDevice L) a of
        (Some e, a) \<Rightarrow> (Some (wrapf ''get device'' e), a)
      | (None, a) \<Rightarrow> (None, a\<lparr>ad_client := True\<rparr>))"

section \<open>Inbound events\<close>

definition translateReceipt :: "('j, 'c) wa_lib \<Rightarrow> 'j receipt_event \<Rightarrow> incoming_receipt option" where
  "translateReceipt L ev =
     map_option (\<lambda>t. \<lparr>ir_MessageIDs = rv_MessageIDs ev, ir_ChatJID = wl_JIDString L (rv_Chat ev),
         ir_ReaderJID = wl_JIDString L (rv_Sender ev), ir_Type = t, ir_Timestamp = rv_Timestamp ev\<rparr>)
       (case rv_Type ev of
          RTDelivered \<Rightarrow> Some ''delivered'' | RTRead \<Rightarrow> Some ''read'' | RTPlayed \<Rightarrow> Some ''played''
        | RTOther t \<Rightarrow> None)"

definition signalPair :: "string \<Rightarrow> 'c adapter \<Rightarrow> 'c adapter" where
  "signalPair outcome a = (case ad_pairCh a of
     None \<Rightarrow> a
   | Some i \<Rightarrow> a\<lparr>ad_pairCh := None,
       ad_pairs := (if ad_pairs a ! i = None then (ad_pairs a)[i := Some outcome] else ad_pairs a)\<rparr>)"

definition downloader :: "('j, 'c) wa_lib \<Rightarrow> proto_media \<Rightarrow> goerr + string \<times> string" where
  "downloader L m = (case wl_Download L m of
     Inl e \<Rightarrow> Inl e
   | Inr body \<Rightarrow> Inr (body, case pm_Mimetype m of None \<Rightarrow> '''' | Some t \<Rightarrow> t))"

definition messageKindAndBody :: "('j, 'c) wa_lib \<Rightarrow> wa_message option
    \<Rightarrow> (string \<times> string \<times> (goerr + string \<times> string) option) option" where
  "messageKindAndBody L m = (case m of None \<Rightarrow> None | Some m \<Rightarrow>
     (case wm_Conversation m of Some t \<Rightarrow> Some (''text'', t, None) | None \<Rightarrow>
     (case Option.bind (wm_ExtendedText m) et_Text of Some t \<Rightarrow> Some (''text'', t, None) | None \<Rightarrow>
     (case wm_Image m of Some x \<Rightarrow> Some (''image'', '''', Some (downloader L x)) | None \<Rightarrow>
     (case wm_Video m of Some x \<Rightarrow> Some (''video'', '''', Some (downloader L x)) | None \<Rightarrow>
     (case wm_Audio m of Some x \<Rightarrow> Some (''audio'', '''', Some (downloader L x)) | None \<Rightarrow>
     (case wm_Document m of Some x \<Rightarrow> Some (''document'', '''', Some (downloader L x)) | None \<Rightarrow>
     (case wm_Sticker m of Some x \<Rightarrow> Some (''sticker'', '''', Some (downloader L x)) | None \<Rightarrow> None))))))))"

text \<open>What every translated message has in common.\<close>

definition incoming_base :: "('j, 'c) wa_lib \<Rightarrow> 'j message_event \<Rightarrow> incoming_message" where
  "incoming_base L ev = \<lparr>in_ID = me_ID ev, in_ChatJID = wl_JIDString L (me_Chat ev),
     in_ChatKind = ChatKindFromJID (wl_JIDString L (me_Chat ev)), in_SenderJID = wl_JIDString L (me_Sender ev),
     in_Timestamp = me_Timestamp ev, in_Kind = '''', in_Body = '''', in_PushName = '''', in_MediaDownloader = None,
     in_EditOfID = '''', in_RevokeOfID = '''', in_ReactionTargetID = '''', in_ReactionEmoji = ''''\<rparr>"

definition translateProtocol :: "('j, 'c) wa_lib \<Rightarrow> 'j message_event \<Rightarrow> protocol_msg \<Rightarrow> incoming_message option" where
  "translateProtocol L ev pm = (case pr_Type pm of
     REVOKE \<Rightarrow> Some ((incoming_base L ev)\<lparr>in_RevokeOfID := pr_KeyID pm\<rparr>)
   | MESSAGE_EDIT \<Rightarrow> Some ((incoming_base L ev)\<lparr>in_EditOfID := pr_KeyID pm,
       in_Body := (case pr_Edited pm of None \<Rightarrow> '''' | Some t \<Rightarrow> t)\<rparr>)
   | OtherProtocol n \<Rightarrow> None)"

definition translateReaction :: "('j, 'c) wa_lib \<Rightarrow> 'j message_event \<Rightarrow> proto_reaction \<Rightarrow> incoming_message" where
  "translateReaction L ev rm = (incoming_base L ev)\<lparr>in_ReactionTargetID := re_KeyID rm, in_ReactionEmoji := re_Text rm\<rparr>"

definition translateIncoming :: "('j, 'c) wa_lib \<Rightarrow> 'j message_event \<Rightarrow> incoming_message option" where
  "translateIncoming L ev =
     (if me_IsFromMe ev then None
      else case Option.bind (me_Message ev) wm_Reaction of
        Some rm \<Rightarrow> Some (translateReaction L ev rm)
      | None \<Rightarrow> (case Option.bind (me_Message ev) wm_Protocol of
          Some pm \<Rightarrow> translateProtocol L ev pm
        | None \<Rightarrow> (case messageKindAndBody L (me_Message ev) of
            None \<Rightarrow> None
          | Some (kind, body, d) \<Rightarrow> Some ((incoming_base L ev)\<lparr>in_Kind := kind, in_Body := body,
              in_PushName := me_PushName ev, in_MediaDownloader := d\<rparr>))))"

section \<open>The connection\<close>

text \<open>\<open>a.client == nil || !a.client.IsConnected() || !a.client.IsLoggedIn()\<close>, negated.\<close>

definition connected :: "('j, 'c) wa_lib \<Rightarrow> 'c adapter \<Rightarrow> bool" where
  "connected L a \<longleftrightarrow> ad_client a \<and> wl_IsConnected L (ad_lib a) \<and> wl_IsLoggedIn L (ad_lib a)"

definition adapter_Status :: "('j, 'c) wa_lib \<Rightarrow> 'c adapter \<Rightarrow> status" where
  "adapter_Status L a = (case wl_StoreID L (ad_lib a) of
     None \<Rightarrow> status_zero
   | Some j \<Rightarrow> if \<not> connected L a then status_zero
       else \<lparr>st_Connected = True, st_JID = Some (wl_JIDString L j), st_PushName = Some (wl_PushName L (ad_lib a)),
             st_Since = Some (ad_lastConnectedAt a)\<rparr>)"

definition Resume :: "('j, 'c) wa_lib \<Rightarrow> 'c adapter \<Rightarrow> goerr option \<times> 'c adapter" where
  "Resume L a = (case ensureClient L a of
     (Some e, a) \<Rightarrow> (Some e, a)
   | (None, a) \<Rightarrow>
       if wl_StoreID L (ad_lib a) = None then (None, a)
       else (case on_lib (wl_Connect L) a of
         (Some e, a) \<Rightarrow> (Some (wrapf ''connect'' e), a)
       | (None, a) \<Rightarrow> (None, a)))"

definition adapter_Logout :: "('j, 'c) wa_lib \<Rightarrow> 'c adapter \<Rightarrow> goerr option \<times> 'c adapter" where
  "adapter_Logout L a =
     (if \<not> ad_client a \<or> wl_StoreID L (ad_lib a) = None \<or> \<not> wl_IsLoggedIn L (ad_lib a) then (Some ErrNotLoggedIn, a)
      else case on_lib (wl_Logout L) a of
        (Some e, a) \<Rightarrow> (Some (wrapf ''logout'' e), a)
      | (None, a) \<Rightarrow> (None, a))"

definition adapter_Close :: "('j, 'c) wa_lib \<Rightarrow> 'c adapter \<Rightarrow> 'c adapter" where
  "adapter_Close L a = (if ad_client a \<and> wl_IsConnected L (ad_lib a) then a\<lparr>ad_lib := wl_Disconnect L (ad_lib a)\<rparr> else a)"

text \<open>What \<open>onEvent\<close> hands to the registered handlers; the clock's reading is \<open>now\<close>.\<close>

datatype delivery =
    ToIncoming incoming_message | ToReceipt incoming_receipt | ToConnState connection_state_event

definition fireConnectionState :: "connection_state_event \<Rightarrow> 'c adapter \<Rightarrow> delivery list" where
  "fireConnectionState ev a = (if ad_connstate a then [ToConnState ev] else [])"

definition onEvent :: "('j, 'c) wa_lib \<Rightarrow> time \<Rightarrow> 'j wa_event \<Rightarrow> 'c adapter \<Rightarrow> delivery list \<times> 'c adapter" where
  "onEvent L now raw a = (case raw of
     WaConnected \<Rightarrow> (let a = a\<lparr>ad_lastConnectedAt := now\<rparr>
       in (fireConnectionState \<lparr>cs_Status = adapter_Status L a, cs_Reason = ''''\<rparr> a, a))
   | WaDisconnected \<Rightarrow> (fireConnectionState \<lparr>cs_Status = status_zero, cs_Reason = ''disconnect''\<rparr> a, a)
   | WaLoggedOut r \<Rightarrow> (fireConnectionState \<lparr>cs_Status = status_zero, cs_Reason = ''logout''\<rparr> a, a)
   | WaPairSuccess j \<Rightarrow> ([], signalPair ''success'' a)
   | WaPairError e \<Rightarrow> ([], signalPair (''err-'' @ e) a)
   | WaMessage ev \<Rightarrow> (case translateIncoming L ev of
        None \<Rightarrow> ([], a)
      | Some m \<Rightarrow> (if ad_incoming a then [ToIncoming m] else [], a))
   | WaReceipt ev \<Rightarrow> (case translateReceipt L ev of
        None \<Rightarrow> ([], a)
      | Some r \<Rightarrow> (if ad_receipt a then [ToReceipt r] else [], a))
   | WaOther \<Rightarrow> ([], a))"

text \<open>\<open>h\<close>: the handler is not nil.\<close>

definition OnIncomingMessage :: "bool \<Rightarrow> 'c adapter \<Rightarrow> 'c adapter" where
  "OnIncomingMessage h a = a\<lparr>ad_incoming := h\<rparr>"

definition OnIncomingReceipt :: "bool \<Rightarrow> 'c adapter \<Rightarrow> 'c adapter" where
  "OnIncomingReceipt h a = a\<lparr>ad_receipt := h\<rparr>"

definition OnConnectionState :: "bool \<Rightarrow> 'c adapter \<Rightarrow> 'c adapter" where
  "OnConnectionState h a = a\<lparr>ad_connstate := h\<rparr>"

section \<open>Sending\<close>

definition nil_deref :: goerr where
  "nil_deref = GoErr EOther ''runtime error: invalid memory address or nil pointer dereference''"

definition panics :: "'c adapter \<Rightarrow> (goerr + 'a) \<times> 'c adapter" where
  "panics a = (Inl nil_deref, a\<lparr>ad_panic := True\<rparr>)"

definition send_message :: "('j, 'c) wa_lib \<Rightarrow> string \<Rightarrow> string \<Rightarrow> 'j \<Rightarrow> wa_message \<Rightarrow> 'c adapter \<Rightarrow> (goerr + sent) \<times> 'c adapter" where
  "send_message L ctx sender to msg a = (case on_lib (wl_SendMessage L to msg) a of
     (Inl e, a) \<Rightarrow> (Inl (wrapf ctx e), a)
   | (Inr (i, t), a) \<Rightarrow> (Inr \<lparr>sent_ID = i, sent_Timestamp = t, sent_SenderJID = sender\<rparr>, a))"

definition adapter_SendText :: "('j, 'c) wa_lib \<Rightarrow> string \<Rightarrow> string \<Rightarrow> string \<Rightarrow> 'c adapter \<Rightarrow> (goerr + sent) \<times> 'c adapter" where
  "adapter_SendText L chatJID txt' replyTo a =
     (if \<not> connected L a then (Inl ErrNotConnected, a)
      else case wl_StoreID L (ad_lib a) of None \<Rightarrow> panics a | Some me \<Rightarrow>
      (case wl_ParseJID L chatJID of
         Inl e \<Rightarrow> (Inl (wrapf ''parse chat_jid'' e), a)
       | Inr to \<Rightarrow>
           let msg = (if replyTo = '''' then wa_message_zero\<lparr>wm_Conversation := Some txt'\<rparr>
             else wa_message_zero\<lparr>wm_ExtendedText := Some \<lparr>et_Text = Some txt', et_StanzaID = Some replyTo\<rparr>\<rparr>)
           in send_message L ''send text'' (wl_JIDString L me) to msg a))"

definition optionalString :: "string \<Rightarrow> string option" where
  "optionalString s = (if s = '''' then None else Some s)"

definition buildMediaProto :: "string \<Rightarrow> string \<Rightarrow> string \<Rightarrow> string \<Rightarrow> string \<Rightarrow> upload \<Rightarrow> wa_message option" where
  "buildMediaProto kind caption filename mime body up =
     (if kind = ''image'' then Some (wa_message_zero\<lparr>wm_Image := Some \<lparr>pm_Upload = up, pm_Mimetype = Some mime,
        pm_FileLength = length body, pm_Caption = optionalString caption, pm_Title = None, pm_FileName = None\<rparr>\<rparr>)
      else if kind = ''document'' then Some (wa_message_zero\<lparr>wm_Document := Some \<lparr>pm_Upload = up, pm_Mimetype = Some mime,
        pm_FileLength = length body, pm_Caption = optionalString caption, pm_Title = Some filename,
        pm_FileName = Some filename\<rparr>\<rparr>)
      else None)"

text \<open>\<open>buildMediaProto\<close> gives nil for no kind that gets this far.\<close>

definition adapter_SendMedia :: "('j, 'c) wa_lib \<Rightarrow> string \<Rightarrow> string \<Rightarrow> string \<Rightarrow> string \<Rightarrow> string \<Rightarrow> string \<Rightarrow> 'c adapter
    \<Rightarrow> (goerr + sent) \<times> 'c adapter" where
  "adapter_SendMedia L chatJID kind caption filename mime body a =
     (if \<not> connected L a then (Inl ErrNotConnected, a)
      else case wl_StoreID L (ad_lib a) of None \<Rightarrow> panics a | Some me \<Rightarrow>
      (case wl_ParseJID L chatJID of
         Inl e \<Rightarrow> (Inl (wrapf ''parse chat_jid'' e), a)
       | Inr to \<Rightarrow>
         (case (if kind = ''image'' then Some MediaImage else if kind = ''document'' then Some MediaDocument else None) of
            None \<Rightarrow> (Inl (GoErr EOther (''unsupported media kind: '' @ wl_Quote L kind)), a)
          | Some mt \<Rightarrow> (case on_lib (wl_Upload L body mt) a of
              (Inl e, a) \<Rightarrow> (Inl (wrapf ''upload'' e), a)
            | (Inr up, a) \<Rightarrow> (case buildMediaProto kind caption filename mime body up of
                None \<Rightarrow> panics a
              | Some msg \<Rightarrow> send_message L ''send media'' (wl_JIDString L me) to msg a)))))"

definition adapter_SendEdit :: "('j, 'c) wa_lib \<Rightarrow> string \<Rightarrow> string \<Rightarrow> string \<Rightarrow> 'c adapter \<Rightarrow> (goerr + sent) \<times> 'c adapter" where
  "adapter_SendEdit L chatJID originalMessageID newText a =
     (if \<not> connected L a then (Inl ErrNotConnected, a)
      else case wl_StoreID L (ad_lib a) of None \<Rightarrow> panics a | Some me \<Rightarrow>
      (case wl_ParseJID L chatJID of
         Inl e \<Rightarrow> (Inl (wrapf ''parse chat_jid'' e), a)
       | Inr to \<Rightarrow> send_message L ''send edit'' (wl_JIDString L me) to
           (wl_BuildEdit L to originalMessageID (wa_message_zero\<lparr>wm_Conversation := Some newText\<rparr>)) a))"

definition adapter_SendRevoke :: "('j, 'c) wa_lib \<Rightarrow> string \<Rightarrow> string \<Rightarrow> 'c adapter \<Rightarrow> (goerr + sent) \<times> 'c adapter" where
  "adapter_SendRevoke L chatJID originalMessageID a =
     (if \<not> connected L a then (Inl ErrNotConnected, a)
      else case wl_StoreID L (ad_lib a) of None \<Rightarrow> panics a | Some me \<Rightarrow>
      (case wl_ParseJID L chatJID of
         Inl e \<Rightarrow> (Inl (wrapf ''parse chat_jid'' e), a)
       | Inr to \<Rightarrow> send_message L ''send revoke'' (wl_JIDString L me) to
           (wl_BuildRevoke L to (wl_EmptyJID L) originalMessageID) a))"

text \<open>The error of a call, for the methods that return nothing else.\<close>

definition err_of :: "(goerr + 'a) \<times> 'c adapter \<Rightarrow> goerr option \<times> 'c adapter" where
  "err_of r = (case r of (Inl e, a) \<Rightarrow> (Some e, a) | (Inr x, a) \<Rightarrow> (None, a))"

definition wrap_err :: "string \<Rightarrow> goerr option \<times> 'c adapter \<Rightarrow> goerr option \<times> 'c adapter" where
  "wrap_err ctx r = (case r of (Some e, a) \<Rightarrow> (Some (wrapf ctx e), a) | (None, a) \<Rightarrow> (None, a))"

definition adapter_SendReaction :: "('j, 'c) wa_lib \<Rightarrow> string \<Rightarrow> string \<Rightarrow> string \<Rightarrow> 'c adapter \<Rightarrow> goerr option \<times> 'c adapter" where
  "adapter_SendReaction L chatJID originalMessageID emoji a =
     (if \<not> connected L a then (Some ErrNotConnected, a)
      else case wl_StoreID L (ad_lib a) of None \<Rightarrow> err_of (panics a :: (goerr + unit) \<times> 'c adapter) | Some me \<Rightarrow>
      (case wl_ParseJID L chatJID of
         Inl e \<Rightarrow> (Some (wrapf ''parse chat_jid'' e), a)
       | Inr to \<Rightarrow> err_of (send_message L ''send reaction'' (wl_JIDString L me) to
           (wl_BuildReaction L to me originalMessageID emoji) a)))"

definition adapter_MarkRead :: "('j, 'c) wa_lib \<Rightarrow> string \<Rightarrow> string \<Rightarrow> string \<Rightarrow> time \<Rightarrow> 'c adapter \<Rightarrow> goerr option \<times> 'c adapter" where
  "adapter_MarkRead L chatJID senderJID messageID timestamp a =
     (if \<not> connected L a then (Some ErrNotConnected, a)
      else case wl_ParseJID L chatJID of
         Inl e \<Rightarrow> (Some (wrapf ''parse chat_jid'' e), a)
       | Inr chat \<Rightarrow> (case wl_ParseJID L senderJID of
           Inl e \<Rightarrow> (Some (wrapf ''parse sender_jid'' e), a)
         | Inr sender \<Rightarrow> wrap_err ''mark read'' (on_lib (wl_MarkRead L [messageID] timestamp chat sender) a)))"

definition adapter_SendChatPresence :: "('j, 'c) wa_lib \<Rightarrow> string \<Rightarrow> string \<Rightarrow> 'c adapter \<Rightarrow> goerr option \<times> 'c adapter" where
  "adapter_SendChatPresence L chatJID state a =
     (if \<not> connected L a then (Some ErrNotConnected, a)
      else case wl_ParseJID L chatJID of
         Inl e \<Rightarrow> (Some (wrapf ''parse chat_jid'' e), a)
       | Inr to \<Rightarrow>
         (case (if state = ''composing'' then Some PresenceComposing else if state = ''paused'' then Some PresencePaused else None) of
            None \<Rightarrow> (Some (GoErr EOther (''waclient: unsupported presence state '' @ wl_Quote L state)), a)
          | Some p \<Rightarrow> wrap_err ''send chat presence'' (on_lib (wl_SendChatPresence L to p) a)))"

section \<open>Groups\<close>

fun parse_participants :: "('j, 'c) wa_lib \<Rightarrow> string list \<Rightarrow> goerr + 'j list" where
  "parse_participants L [] = Inr []"
| "parse_participants L (jid # jids) = (case wl_ParseJID L jid of
     Inl e \<Rightarrow> Inl (wrapf (''parse participant_jid '' @ wl_Quote L jid) e)
   | Inr p \<Rightarrow> (case parse_participants L jids of Inl e \<Rightarrow> Inl e | Inr ps \<Rightarrow> Inr (p # ps)))"

definition translateGroup :: "('j, 'c) wa_lib \<Rightarrow> 'j group_info option \<Rightarrow> wa_group" where
  "translateGroup L info = (case info of
     None \<Rightarrow> \<lparr>gr_JID = '''', gr_Name = '''', gr_OwnerJID = '''', gr_CreatedAt = time_zero, gr_Participants = []\<rparr>
   | Some gi \<Rightarrow> \<lparr>gr_JID = wl_JIDString L (gi_JID gi), gr_Name = gi_Name gi, gr_OwnerJID = wl_JIDString L (gi_OwnerJID gi),
       gr_CreatedAt = gi_GroupCreated gi,
       gr_Participants = map (\<lambda>p. \<lparr>gm_JID = wl_JIDString L (gp_JID p), gm_IsAdmin = gp_IsAdmin p,
         gm_IsSuperAdmin = gp_IsSuperAdmin p\<rparr>) (gi_Participants gi)\<rparr>)"

definition adapter_CreateGroup :: "('j, 'c) wa_lib \<Rightarrow> string \<Rightarrow> string list \<Rightarrow> 'c adapter \<Rightarrow> (goerr + wa_group) \<times> 'c adapter" where
  "adapter_CreateGroup L name participantJIDs a =
     (if \<not> connected L a then (Inl ErrNotConnected, a)
      else case parse_participants L participantJIDs of
        Inl e \<Rightarrow> (Inl e, a)
      | Inr ps \<Rightarrow> (case on_lib (wl_CreateGroup L name ps) a of
          (Inl e, a) \<Rightarrow> (Inl (wrapf ''create group'' e), a)
        | (Inr info, a) \<Rightarrow> (Inr (translateGroup L info), a)))"

definition adapter_GetGroupInfo :: "('j, 'c) wa_lib \<Rightarrow> string \<Rightarrow> 'c adapter \<Rightarrow> (goerr + wa_group) \<times> 'c adapter" where
  "adapter_GetGroupInfo L groupJID a =
     (if \<not> connected L a then (Inl ErrNotConnected, a)
      else case wl_ParseJID L groupJID of
        Inl e \<Rightarrow> (Inl (wrapf ''parse group_jid'' e), a)
      | Inr g \<Rightarrow> (case on_lib (wl_GetGroupInfo L g) a of
          (Inl e, a) \<Rightarrow> (Inl (wrapf ''get group info'' e), a)
        | (Inr info, a) \<Rightarrow> (Inr (translateGroup L info), a)))"

definition adapter_UpdateGroupParticipants :: "('j, 'c) wa_lib \<Rightarrow> string \<Rightarrow> string \<Rightarrow> string list \<Rightarrow> 'c adapter
    \<Rightarrow> (goerr + participant_change list) \<times> 'c adapter" where
  "adapter_UpdateGroupParticipants L groupJID action participantJIDs a =
     (if \<not> connected L a then (Inl ErrNotConnected, a)
      else case wl_ParseJID L groupJID of
        Inl e \<Rightarrow> (Inl (wrapf ''parse group_jid'' e), a)
      | Inr g \<Rightarrow> (case (if action = ''add'' then Some ChangeAdd else if action = ''remove'' then Some ChangeRemove else None) of
          None \<Rightarrow> (Inl (GoErr EOther (''unsupported action: '' @ wl_Quote L action)), a)
        | Some change \<Rightarrow> (case parse_participants L participantJIDs of
            Inl e \<Rightarrow> (Inl e, a)
          | Inr ps \<Rightarrow> (case on_lib (wl_UpdateGroupParticipants L g ps change) a of
              (Inl e, a) \<Rightarrow> (Inl (wrapf ''update group participants'' e), a)
            | (Inr results, a) \<Rightarrow> (Inr (map (\<lambda>(j, code). \<lparr>pc_JID = wl_JIDString L j, pc_OK = (code = 0),
                pc_Error = (if code = 0 then '''' else ''error code '' @ show_int code)\<rparr>) results), a)))))"

definition adapter_LeaveGroup :: "('j, 'c) wa_lib \<Rightarrow> string \<Rightarrow> 'c adapter \<Rightarrow> goerr option \<times> 'c adapter" where
  "adapter_LeaveGroup L groupJID a =
     (if \<not> connected L a then (Some ErrNotConnected, a)
      else case wl_ParseJID L groupJID of
        Inl e \<Rightarrow> (Some (wrapf ''parse group_jid'' e), a)
      | Inr g \<Rightarrow> wrap_err ''leave group'' (on_lib (wl_LeaveGroup L g) a))"

section \<open>Logging in: up to the start of the goroutine\<close>

definition LoginQR_start :: "('j, 'c) wa_lib \<Rightarrow> 'c adapter \<Rightarrow> (goerr + qr_item list) \<times> 'c adapter" where
  "LoginQR_start L a = (case ensureClient L a of
     (Some e, a) \<Rightarrow> (Inl e, a)
   | (None, a) \<Rightarrow>
       if wl_StoreID L (ad_lib a) \<noteq> None \<and> wl_IsLoggedIn L (ad_lib a) then (Inl ErrAlreadyLoggedIn, a)
       else if ad_loginInProgress a then (Inl ErrLoginInProgress, a)
       else (case on_lib (wl_GetQRChannel L) (a\<lparr>ad_loginInProgress := True\<rparr>) of
         (Inl e, a) \<Rightarrow> (Inl (wrapf ''get qr channel'' e), a\<lparr>ad_loginInProgress := False\<rparr>)
       | (Inr qrCh, a) \<Rightarrow> (case on_lib (wl_Connect L) a of
           (Some e, a) \<Rightarrow> (Inl (wrapf ''connect'' e), a\<lparr>ad_loginInProgress := False\<rparr>)
         | (None, a) \<Rightarrow> (Inr qrCh, a))))"

text \<open>The result is the pairing code and the index of the pairing channel.\<close>

definition LoginPhone_start :: "('j, 'c) wa_lib \<Rightarrow> string \<Rightarrow> 'c adapter \<Rightarrow> (goerr + string \<times> nat) \<times> 'c adapter" where
  "LoginPhone_start L phoneNumber a =
     (if \<not> IsValidPhoneNumber phoneNumber then (Inl (GoErr EOther ''invalid phone number''), a)
      else case ensureClient L a of
        (Some e, a) \<Rightarrow> (Inl e, a)
      | (None, a) \<Rightarrow>
          if wl_StoreID L (ad_lib a) \<noteq> None \<and> wl_IsLoggedIn L (ad_lib a) then (Inl ErrAlreadyLoggedIn, a)
          else if ad_loginInProgress a then (Inl ErrLoginInProgress, a)
          else (let i = length (ad_pairs a);
                    a = a\<lparr>ad_loginInProgress := True, ad_pairCh := Some i, ad_pairs := ad_pairs a @ [None]\<rparr>
                in case on_lib (wl_Connect L) a of
                  (Some e, a) \<Rightarrow> (Inl (wrapf ''connect'' e), a\<lparr>ad_loginInProgress := False, ad_pairCh := None\<rparr>)
                | (None, a) \<Rightarrow> (case on_lib (wl_PairPhone L phoneNumber) a of
                    (Inl e, a) \<Rightarrow> (Inl (wrapf ''pair phone'' e), a\<lparr>ad_loginInProgress := False, ad_pairCh := None\<rparr>)
                  | (Inr code, a) \<Rightarrow> (Inr (code, i), a))))"

text \<open>The deferred functions of the two goroutines.\<close>

definition LoginQR_done :: "'c adapter \<Rightarrow> 'c adapter" where
  "LoginQR_done a = a\<lparr>ad_loginInProgress := False\<rparr>"

definition LoginPhone_done :: "'c adapter \<Rightarrow> 'c adapter" where
  "LoginPhone_done a = a\<lparr>ad_loginInProgress := False, ad_pairCh := None\<rparr>"

text \<open>What the goroutine of \<open>LoginQR\<close> sends to a consumer that reads to the end.\<close>

definition qr_code :: "string \<Rightarrow> qr_event" where
  "qr_code c = \<lparr>qr_Code = c, qr_Terminal = False, qr_Outcome = ''''\<rparr>"

definition qr_end :: "string \<Rightarrow> qr_event" where
  "qr_end o' = \<lparr>qr_Code = '''', qr_Terminal = True, qr_Outcome = o'\<rparr>"

fun qr_events :: "qr_item list \<Rightarrow> qr_event list" where
  "qr_events [] = []"
| "qr_events (it # its) =
     (if qi_Event it = ''code'' then qr_code (qi_Code it) # qr_events its
      else if qi_Event it = ''success'' then [qr_end ''success'']
      else if qi_Event it = ''timeout'' then [qr_end ''timeout'']
      else [qr_end (''err-'' @ qi_Event it)])"

text \<open>
  The adapter as the \<open>waclient\<close> of the service. How a phone pairing ends (\<open>pair_outcome\<close>: the
  signalled outcome, the cancelled context or the timeout) is decided later, in \<open>Adapter_Login\<close>.
\<close>

definition adapter_waclient :: "('j, 'c) wa_lib \<Rightarrow> (string \<Rightarrow> string) \<Rightarrow> 'c adapter waclient" where
  "adapter_waclient L pair_outcome = \<lparr>wa_Status = adapter_Status L,
     wa_LoginQR = (\<lambda>a. case LoginQR_start L a of (Inl e, a) \<Rightarrow> (Inl e, a) | (Inr qrCh, a) \<Rightarrow> (Inr (qr_events qrCh), a)),
     wa_LoginPhone = (\<lambda>p a. case LoginPhone_start L p a of
        (Inl e, a) \<Rightarrow> (Inl e, a)
      | (Inr (code, i), a) \<Rightarrow> (Inr [\<lparr>pe_Code = code, pe_Terminal = False, pe_Outcome = ''''\<rparr>,
            \<lparr>pe_Code = '''', pe_Terminal = True, pe_Outcome = pair_outcome code\<rparr>], a)),
     wa_Logout = adapter_Logout L, wa_SendText = adapter_SendText L, wa_SendMedia = adapter_SendMedia L,
     wa_SendEdit = adapter_SendEdit L, wa_SendRevoke = adapter_SendRevoke L, wa_SendReaction = adapter_SendReaction L,
     wa_MarkRead = adapter_MarkRead L, wa_SendChatPresence = adapter_SendChatPresence L,
     wa_CreateGroup = adapter_CreateGroup L, wa_GetGroupInfo = adapter_GetGroupInfo L,
     wa_UpdateGroupParticipants = adapter_UpdateGroupParticipants L, wa_LeaveGroup = adapter_LeaveGroup L\<rparr>"

end
