(* ===== verification/Adapter_Daemon.thy ===== *)
theory Adapter_Daemon
  imports Adapter Samples
begin

text \<open>
  The adapter under the service: \<open>New\<close> registers the three handlers with the adapter, and every event
  of the whatsmeow library then runs through \<open>onEvent\<close> into them. The state of the client in the
  world of the service is the adapter's.
\<close>

definition register :: "'c adapter \<Rightarrow> 'c adapter" where
  "register a = OnConnectionState True (OnIncomingReceipt True (OnIncomingMessage True a))"

definition deliver_to :: "('d, 'w) svc \<Rightarrow> delivery \<Rightarrow> ('d, 'w) world \<Rightarrow> ('d, 'w) world" where
  "deliver_to S d w = (case d of
     ToIncoming m \<Rightarrow> handleIncoming S m w
   | ToReceipt r \<Rightarrow> handleReceipt S r w
   | ToConnState ev \<Rightarrow> handleConnectionState S ev w)"

definition wa_event :: "('d, 'c adapter) svc \<Rightarrow> ('j, 'c) wa_lib \<Rightarrow> time \<Rightarrow> 'j wa_event
    \<Rightarrow> ('d, 'c adapter) world \<Rightarrow> ('d, 'c adapter) world" where
  "wa_event S L now ev w = (case onEvent L now ev (w_wa w) of
     (ds, a) \<Rightarrow> fold (deliver_to S) ds (w\<lparr>w_wa := a\<rparr>))"

section \<open>Events are runs of the service\<close>

lemma deliver_step: "svc_step S w (deliver_to S d w)"
  by (cases d) (auto simp: deliver_to_def intro: svc_step.intros)

lemma deliver_run: "(svc_step S)\<^sup>*\<^sup>* w (fold (deliver_to S) ds w)"
proof (induction ds arbitrary: w)
  case (Cons d ds)
  then show ?case using deliver_step [of S w d] by (simp add: converse_rtranclp_into_rtranclp)
qed simp

lemma wa_event_run: "(svc_step S)\<^sup>*\<^sup>* w (wa_event S L now ev w)"
proof (cases "onEvent L now ev (w_wa w)")
  case (Pair ds a)
  have "svc_step S w (w\<lparr>w_wa := a\<rparr>)" by (rule svc_step.WhatsApp)
  then show ?thesis using deliver_run [of S "w\<lparr>w_wa := a\<rparr>" ds] Pair
    by (simp add: wa_event_def converse_rtranclp_into_rtranclp)
qed

section \<open>What a translated message is\<close>

lemma incoming_base_simps [simp]:
  "in_EditOfID (incoming_base L ev) = []" "in_RevokeOfID (incoming_base L ev) = []"
  "in_ReactionTargetID (incoming_base L ev) = []" "in_ReactionEmoji (incoming_base L ev) = []"
  "in_Kind (incoming_base L ev) = []" "in_Body (incoming_base L ev) = []" "in_PushName (incoming_base L ev) = []"
  "in_MediaDownloader (incoming_base L ev) = None" "in_ID (incoming_base L ev) = me_ID ev"
  "in_ChatJID (incoming_base L ev) = wl_JIDString L (me_Chat ev)"
  "in_ChatKind (incoming_base L ev) = ChatKindFromJID (wl_JIDString L (me_Chat ev))"
  "in_SenderJID (incoming_base L ev) = wl_JIDString L (me_Sender ev)" "in_Timestamp (incoming_base L ev) = me_Timestamp ev"
  by (simp_all add: incoming_base_def)

definition kinds :: "string set" where
  "kinds = {''text'', ''image'', ''video'', ''audio'', ''document'', ''sticker''}"

lemma messageKindAndBody_kind: "messageKindAndBody L m = Some (k, b, d) \<Longrightarrow> k \<in> kinds \<and> (d = None \<longleftrightarrow> k = ''text'') \<and> (k \<noteq> ''text'' \<longrightarrow> b = [])"
  by (auto simp: messageKindAndBody_def kinds_def split: option.splits)

end
