(* ===== verification/Adapter_Login.thy ===== *)
theory Adapter_Login
  imports Adapter "HOL-Library.Sublist"
begin

text \<open>
  The two goroutines \<open>LoginQR\<close> and \<open>LoginPhone\<close> of internal/waclient/whatsmeow_adapter.go start, as state
  machines beside their consumer (an HTTP or MCP handler that ranges over the channel), the context
  of the request and, for the phone, the pairing channel and the timer. A send to a buffered channel
  is enabled while the buffer has room.
\<close>

section \<open>The QR goroutine\<close>

datatype qr_pc = QRecv | QSend string | QEnd string | QDone

record qr_go =
  g_in :: "qr_item list"
  g_out :: "qr_event list"
  g_pc :: qr_pc
  g_busy :: bool
  g_ctx :: bool
  g_got :: "qr_event list"
  g_gone :: bool

definition qr_cap :: nat where
  "qr_cap = 4"

text \<open>\<open>for evt := range qrCh\<close>: what the \<open>switch\<close> does with an item.\<close>

definition qr_switch :: "qr_item \<Rightarrow> qr_pc" where
  "qr_switch it =
     (if qi_Event it = ''code'' then QSend (qi_Code it)
      else if qi_Event it = ''success'' then QEnd ''success''
      else if qi_Event it = ''timeout'' then QEnd ''timeout''
      else QEnd (''err-'' @ qi_Event it))"

definition qr_start :: "qr_item list \<Rightarrow> qr_go" where
  "qr_start its = \<lparr>g_in = its, g_out = [], g_pc = QRecv, g_busy = True, g_ctx = False, g_got = [], g_gone = False\<rparr>"

text \<open>The steps of the goroutine; the deferred functions run as it finishes.\<close>

inductive qr_go_step :: "qr_go \<Rightarrow> qr_go \<Rightarrow> bool" where
  recv: "g_pc g = QRecv \<Longrightarrow> g_in g = it # its \<Longrightarrow> qr_go_step g (g\<lparr>g_in := its, g_pc := qr_switch it\<rparr>)"
| closed: "g_pc g = QRecv \<Longrightarrow> g_in g = [] \<Longrightarrow> qr_go_step g (g\<lparr>g_pc := QDone, g_busy := False\<rparr>)"
| send: "g_pc g = QSend c \<Longrightarrow> length (g_out g) < qr_cap \<Longrightarrow>
    qr_go_step g (g\<lparr>g_out := g_out g @ [qr_code c], g_pc := QRecv\<rparr>)"
| cancelled: "g_pc g = QSend c \<Longrightarrow> g_ctx g \<Longrightarrow> qr_go_step g (g\<lparr>g_pc := QEnd ''ctx-cancelled''\<rparr>)"
| finish: "g_pc g = QEnd o' \<Longrightarrow> length (g_out g) < qr_cap \<Longrightarrow>
    qr_go_step g (g\<lparr>g_out := g_out g @ [qr_end o'], g_pc := QDone, g_busy := False\<rparr>)"

inductive_cases qr_go_stepE: "qr_go_step g g'"

text \<open>The consumer reads, or has left; the context is cancelled.\<close>

inductive qr_read_step :: "qr_go \<Rightarrow> qr_go \<Rightarrow> bool" where
  read: "\<not> g_gone g \<Longrightarrow> g_out g = e # es \<Longrightarrow> qr_read_step g (g\<lparr>g_out := es, g_got := g_got g @ [e]\<rparr>)"

inductive qr_step :: "qr_go \<Rightarrow> qr_go \<Rightarrow> bool" where
  go: "qr_go_step g g' \<Longrightarrow> qr_step g g'"
| reads: "qr_read_step g g' \<Longrightarrow> qr_step g g'"
| cancel: "qr_step g (g\<lparr>g_ctx := True\<rparr>)"
| leave: "qr_step g (g\<lparr>g_gone := True\<rparr>)"

section \<open>What the consumer is sent\<close>

lemma qr_events_Cons:
  "qr_events (it # its) = (case qr_switch it of QSend c \<Rightarrow> qr_code c # qr_events its | QEnd o' \<Rightarrow> [qr_end o'])"
  by (simp add: qr_switch_def)

lemma qr_switch_cases: obtains c where "qr_switch it = QSend c" | o' where "qr_switch it = QEnd o'"
  by (simp add: qr_switch_def split: if_splits) (metis qr_switch_def)

definition qr_sent :: "qr_go \<Rightarrow> qr_event list" where
  "qr_sent g = g_got g @ g_out g"

definition qr_rest :: "qr_go \<Rightarrow> qr_event list" where
  "qr_rest g = (case g_pc g of QRecv \<Rightarrow> qr_events (g_in g) | QSend c \<Rightarrow> qr_code c # qr_events (g_in g)
     | QEnd o' \<Rightarrow> [qr_end o'] | QDone \<Rightarrow> [])"

lemma qr_rest_update [simp]:
  "qr_rest (g\<lparr>g_out := x\<rparr>) = qr_rest g" "qr_rest (g\<lparr>g_got := x\<rparr>) = qr_rest g"
  "qr_rest (g\<lparr>g_ctx := b\<rparr>) = qr_rest g" "qr_rest (g\<lparr>g_gone := b\<rparr>) = qr_rest g"
  by (cases "g_pc g"; simp add: qr_rest_def)+

definition qr_ok :: "qr_item list \<Rightarrow> qr_go \<Rightarrow> bool" where
  "qr_ok its g \<longleftrightarrow> (g_busy g \<longleftrightarrow> g_pc g \<noteq> QDone) \<and> length (g_out g) \<le> qr_cap
     \<and> (qr_events its = qr_sent g @ qr_rest g
        \<or> (\<exists>p. prefix p (qr_events its) \<and> qr_sent g @ qr_rest g = p @ [qr_end ''ctx-cancelled'']))"

lemma qr_ok_start: "qr_ok its (qr_start its)"
  by (simp add: qr_ok_def qr_start_def qr_sent_def qr_rest_def)

lemma qr_go_step_ok: "qr_go_step g g' \<Longrightarrow> qr_ok its g \<Longrightarrow> qr_ok its g'"
proof (induction rule: qr_go_step.induct)
  case (recv g it its')
  then have "qr_rest (g\<lparr>g_in := its', g_pc := qr_switch it\<rparr>) = qr_rest g"
    by (cases it rule: qr_switch_cases) (simp_all add: qr_rest_def qr_events_Cons del: qr_events.simps)
  moreover have "qr_switch it \<noteq> QDone" by (cases it rule: qr_switch_cases) simp_all
  ultimately show ?case using recv by (simp add: qr_ok_def qr_sent_def)
next
  case (cancelled g c)
  have "prefix (qr_sent g) (qr_events its)"
  proof -
    from cancelled(3) consider "qr_events its = qr_sent g @ qr_rest g"
      | p where "prefix p (qr_events its)" "qr_sent g @ qr_rest g = p @ [qr_end ''ctx-cancelled'']"
      by (auto simp: qr_ok_def)
    then show ?thesis
    proof cases
      case 2
      have "qr_rest g = butlast (qr_rest g) @ [last (qr_rest g)]" using cancelled(1) by (simp add: qr_rest_def)
      then have "p = qr_sent g @ butlast (qr_rest g)" using 2(2) by (metis append.assoc append1_eq_conv)
      then show ?thesis using 2(1) by (metis append_prefixD)
    qed simp
  qed
  then show ?case using cancelled by (auto simp: qr_ok_def qr_rest_def qr_sent_def)
qed (auto simp: qr_ok_def qr_sent_def qr_rest_def qr_cap_def)

lemma qr_step_ok: "qr_step g g' \<Longrightarrow> qr_ok its g \<Longrightarrow> qr_ok its g'"
proof (induction rule: qr_step.induct)
  case (go g g')
  then show ?case by (rule qr_go_step_ok)
next
  case (reads g g')
  from reads(1) obtain e es where g: "g_out g = e # es" "g' = g\<lparr>g_out := es, g_got := g_got g @ [e]\<rparr>"
    by (auto elim: qr_read_step.cases)
  then have "qr_sent g' = qr_sent g" "qr_rest g' = qr_rest g" by (simp_all add: qr_sent_def)
  then show ?case using reads(2) g by (simp add: qr_ok_def)
qed (auto simp: qr_ok_def qr_sent_def)

lemma qr_run_ok: "qr_step\<^sup>*\<^sup>* (qr_start its) g \<Longrightarrow> qr_ok its g"
  by (induction rule: rtranclp_induct) (auto intro: qr_ok_start qr_step_ok)

section \<open>It ends while the consumer reads\<close>

definition qr_measure :: "qr_go \<Rightarrow> nat" where
  "qr_measure g = 4 * length (g_in g) + length (g_out g)
     + (case g_pc g of QRecv \<Rightarrow> 1 | QSend c \<Rightarrow> 3 | QEnd o' \<Rightarrow> 2 | QDone \<Rightarrow> 0)"

lemma qr_go_step_less: "qr_go_step g g' \<Longrightarrow> qr_measure g' < qr_measure g"
  by (induction rule: qr_go_step.induct) (auto simp: qr_measure_def qr_switch_def)

lemma qr_read_step_less: "qr_read_step g g' \<Longrightarrow> qr_measure g' < qr_measure g"
  by (induction rule: qr_read_step.induct) (auto simp: qr_measure_def)

lemma qr_progress:
  assumes "g_pc g \<noteq> QDone" "\<not> g_gone g"
  shows "\<exists>g'. qr_go_step g g' \<or> qr_read_step g g'"
proof (cases "length (g_out g) < qr_cap")
  case True
  show ?thesis
  proof (cases "g_pc g")
    case QRecv
    then show ?thesis by (cases "g_in g") (auto intro: qr_go_step.recv qr_go_step.closed)
  qed (use True assms(1) in \<open>auto intro: qr_go_step.send qr_go_step.finish\<close>)
next
  case False
  then show ?thesis using assms(2) by (cases "g_out g") (auto simp: qr_cap_def intro: qr_read_step.read)
qed

section \<open>It can block for ever once the consumer has left\<close>

definition qr_stuck :: "qr_go \<Rightarrow> bool" where
  "qr_stuck g \<longleftrightarrow> g_gone g \<and> length (g_out g) = qr_cap \<and> g_busy g \<and> (\<exists>o'. g_pc g = QEnd o')"

lemma qr_stuck_step: "qr_step g g' \<Longrightarrow> qr_stuck g \<Longrightarrow> qr_stuck g'"
  by (induction rule: qr_step.induct) (auto simp: qr_stuck_def elim!: qr_go_stepE qr_read_step.cases)

lemma qr_stuck_run: "qr_step\<^sup>*\<^sup>* g g' \<Longrightarrow> qr_stuck g \<Longrightarrow> qr_stuck g'"
  by (induction rule: rtranclp_induct) (auto intro: qr_stuck_step)

section \<open>The phone goroutine\<close>

datatype pair_pc = PCode string | PWait | PEnd string | PDone

text \<open>\<open>p_chan\<close>: the buffer of the pairing channel; \<open>p_timer\<close>: the 150 seconds are over.\<close>

record pair_go =
  p_chan :: "string option"
  p_out :: "pair_event list"
  p_pc :: pair_pc
  p_busy :: bool
  p_ctx :: bool
  p_timer :: bool
  p_got :: "pair_event list"
  p_gone :: bool

definition pair_cap :: nat where
  "pair_cap = 2"

definition pair_code :: "string \<Rightarrow> pair_event" where
  "pair_code c = \<lparr>pe_Code = c, pe_Terminal = False, pe_Outcome = ''''\<rparr>"

definition pair_end :: "string \<Rightarrow> pair_event" where
  "pair_end o' = \<lparr>pe_Code = '''', pe_Terminal = True, pe_Outcome = o'\<rparr>"

definition pair_start :: "string \<Rightarrow> pair_go" where
  "pair_start code = \<lparr>p_chan = None, p_out = [], p_pc = PCode code, p_busy = True, p_ctx = False, p_timer = False,
     p_got = [], p_gone = False\<rparr>"

inductive pair_go_step :: "pair_go \<Rightarrow> pair_go \<Rightarrow> bool" where
  code: "p_pc g = PCode c \<Longrightarrow> length (p_out g) < pair_cap \<Longrightarrow>
    pair_go_step g (g\<lparr>p_out := p_out g @ [pair_code c], p_pc := PWait\<rparr>)"
| outcome: "p_pc g = PWait \<Longrightarrow> p_chan g = Some o' \<Longrightarrow> pair_go_step g (g\<lparr>p_chan := None, p_pc := PEnd o'\<rparr>)"
| ctx_done: "p_pc g = PWait \<Longrightarrow> p_ctx g \<Longrightarrow> pair_go_step g (g\<lparr>p_pc := PEnd ''ctx-cancelled''\<rparr>)"
| timeout: "p_pc g = PWait \<Longrightarrow> p_timer g \<Longrightarrow> pair_go_step g (g\<lparr>p_pc := PEnd ''timeout''\<rparr>)"
| finish: "p_pc g = PEnd o' \<Longrightarrow> length (p_out g) < pair_cap \<Longrightarrow>
    pair_go_step g (g\<lparr>p_out := p_out g @ [pair_end o'], p_pc := PDone, p_busy := False\<rparr>)"

text \<open>\<open>signal\<close> is \<open>signalPair\<close>: it drops an outcome the buffer has no room for.\<close>

inductive pair_step :: "pair_go \<Rightarrow> pair_go \<Rightarrow> bool" where
  go: "pair_go_step g g' \<Longrightarrow> pair_step g g'"
| signal: "pair_step g (if p_chan g = None then g\<lparr>p_chan := Some o'\<rparr> else g)"
| read: "\<not> p_gone g \<Longrightarrow> p_out g = e # es \<Longrightarrow> pair_step g (g\<lparr>p_out := es, p_got := p_got g @ [e]\<rparr>)"
| cancel: "pair_step g (g\<lparr>p_ctx := True\<rparr>)"
| expire: "pair_step g (g\<lparr>p_timer := True\<rparr>)"
| leave: "pair_step g (g\<lparr>p_gone := True\<rparr>)"

text \<open>What has been sent, from the place the goroutine has reached.\<close>

definition pair_ok :: "string \<Rightarrow> pair_go \<Rightarrow> bool" where
  "pair_ok code g \<longleftrightarrow> (p_busy g \<longleftrightarrow> p_pc g \<noteq> PDone) \<and>
     (case p_pc g of
        PCode c \<Rightarrow> c = code \<and> p_got g @ p_out g = []
      | PWait \<Rightarrow> p_got g @ p_out g = [pair_code code]
      | PEnd o' \<Rightarrow> p_got g @ p_out g = [pair_code code]
      | PDone \<Rightarrow> (\<exists>o'. p_got g @ p_out g = [pair_code code, pair_end o']))"

lemma pair_step_ok: "pair_step g g' \<Longrightarrow> pair_ok code g \<Longrightarrow> pair_ok code g'"
proof (induction rule: pair_step.induct)
  case (go g g')
  then show ?case by (induction rule: pair_go_step.induct) (auto simp: pair_ok_def)
next
  case (read g e es)
  then show ?case by (cases "p_pc g") (auto simp: pair_ok_def)
next
  case (signal g o')
  then show ?case by (cases "p_pc g") (auto simp: pair_ok_def)
next
  case (cancel g)
  then show ?case by (cases "p_pc g") (auto simp: pair_ok_def)
next
  case (expire g)
  then show ?case by (cases "p_pc g") (auto simp: pair_ok_def)
next
  case (leave g)
  then show ?case by (cases "p_pc g") (auto simp: pair_ok_def)
qed

lemma pair_run_ok: "pair_step\<^sup>*\<^sup>* (pair_start code) g \<Longrightarrow> pair_ok code g"
proof (induction rule: rtranclp_induct)
  case base
  show ?case by (simp add: pair_ok_def pair_start_def)
next
  case (step y z)
  then show ?case by (simp add: pair_step_ok)
qed

text \<open>Its buffer has room for everything it ever sends: only \<open>PWait\<close> waits for somebody else.\<close>

lemma pair_go_enabled:
  assumes "pair_ok code g" "p_pc g \<noteq> PDone" "p_pc g \<noteq> PWait \<or> p_chan g \<noteq> None \<or> p_ctx g \<or> p_timer g"
  shows "\<exists>g'. pair_go_step g g'"
proof (cases "p_pc g")
  case (PEnd o')
  then have "length (p_got g @ p_out g) = 1" using assms(1) by (simp add: pair_ok_def)
  then have "length (p_out g) < pair_cap" by (simp add: pair_cap_def)
  then show ?thesis using PEnd pair_go_step.finish by blast
next
  case (PCode c)
  then have "length (p_out g) < pair_cap" using assms(1) by (simp add: pair_ok_def pair_cap_def)
  then show ?thesis using PCode pair_go_step.code by blast
next
  case PWait
  then show ?thesis using assms(3) pair_go_step.outcome pair_go_step.ctx_done pair_go_step.timeout by blast
qed (use assms(2) in simp)

end
