(* ===== verification/Adapter_Props.thy ===== *)
theory Adapter_Props
  imports Adapter_Daemon Adapter_Login Http_Handlers
begin

text \<open>
  Properties of the WhatsApp adapter, on its own and under the service and the HTTP transport: what
  is refused offline, what inbound events become, and how the two login flows end.
\<close>

section \<open>A concrete library\<close>

text \<open>Its state counts the calls; it is offline at zero.\<close>

definition demo_lib :: "(string, nat) wa_lib" where
  "demo_lib = \<lparr>wl_GetFirstDevice = (\<lambda>c. (None, c)), wl_StoreID = (\<lambda>c. if c = 0 then None else Some demo_me), wl_PushName = (\<lambda>c. ''Me''),
     wl_IsConnected = (\<lambda>c. 0 < c), wl_IsLoggedIn = (\<lambda>c. 0 < c), wl_Connect = (\<lambda>c. (None, c)),
     wl_Disconnect = (\<lambda>c. 0), wl_Logout = (\<lambda>c. (None, 0)), wl_GetQRChannel = (\<lambda>c. (Inr [], c)),
     wl_PairPhone = (\<lambda>p c. (Inr ''ABCD-1234'', c)), wl_ParseJID = (\<lambda>s. Inr s), wl_JIDString = (\<lambda>j. j),
     wl_EmptyJID = '''', wl_SendMessage = (\<lambda>to m c. (Inr (''3EB0'', time_of_unix 1700000100), Suc c)),
     wl_Upload = (\<lambda>b t c. (Inr \<lparr>up_URL = '''', up_DirectPath = '''', up_MediaKey = '''', up_FileEncSHA256 = '''',
       up_FileSHA256 = ''''\<rparr>, c)), wl_Download = (\<lambda>m. Inr ''pixels''),
     wl_BuildEdit = (\<lambda>to i m. m), wl_BuildRevoke = (\<lambda>to me i. wa_message_zero), wl_BuildReaction = (\<lambda>to me i e. wa_message_zero),
     wl_MarkRead = (\<lambda>is t c s x. (None, Suc x)), wl_SendChatPresence = (\<lambda>to p c. (None, Suc c)),
     wl_CreateGroup = (\<lambda>n ps c. (Inr None, c)), wl_GetGroupInfo = (\<lambda>g c. (Inr None, c)),
     wl_UpdateGroupParticipants = (\<lambda>g ps ch c. (Inr [], c)), wl_LeaveGroup = (\<lambda>g c. (None, c)), wl_Quote = (\<lambda>s. s)\<rparr>"

lemma demo_lib_calls [simp]:
  "wl_ParseJID demo_lib s = Inr s" "wl_JIDString demo_lib s = s" "0 < c \<Longrightarrow> wl_StoreID demo_lib c = Some demo_me"
  "wl_SendMessage demo_lib to m c = (Inr (''3EB0'', time_of_unix 1700000100), Suc c)"
  "wl_IsLoggedIn demo_lib c \<longleftrightarrow> 0 < c"
  by (simp_all add: demo_lib_def)

text \<open>The demo daemon with the adapter as its client, offline (0) or online.\<close>

definition demo_adapter :: "nat \<Rightarrow> nat adapter" where
  "demo_adapter c = (register (NewAdapter c))\<lparr>ad_client := True\<rparr>"

definition demo_wa_world :: "nat \<Rightarrow> (int conn, nat adapter) world" where
  "demo_wa_world c = \<lparr>w_db = w_db demo_lite, w_wa = demo_adapter c, w_fs = w_fs demo_lite, w_bc = bc_New 256,
     w_clock = w_clock demo_lite, w_tick = 0, w_warn = [], w_tasks = [], w_panic = False\<rparr>"

lemma demo_wa_world_ok [simp]: "world_ok (conn_inv demo_engine) sqlite_view (demo_wa_world c)"
  using demo_lite_ok by (simp add: world_ok_def demo_wa_world_def bc_ok_New)

lemma demo_wa_quiet [simp]: "quiet (w_db (demo_wa_world c))"
  by (simp add: demo_wa_world_def)

lemma demo_connected [simp]: "connected demo_lib (demo_adapter c) \<longleftrightarrow> 0 < c"
  by (simp add: connected_def demo_lib_def demo_adapter_def register_def NewAdapter_def OnConnectionState_def
      OnIncomingReceipt_def OnIncomingMessage_def)

definition demo_event :: "bool \<Rightarrow> wa_message \<Rightarrow> string message_event" where
  "demo_event mine m = \<lparr>me_ID = ''E1'', me_Chat = demo_peer, me_Sender = (if mine then demo_me else demo_peer), me_IsFromMe = mine,
     me_Timestamp = time_of_unix 1700000400, me_PushName = ''Peer'', me_Message = Some m\<rparr>"

abbreviation adapter_svc :: "('j, 'c) wa_lib \<Rightarrow> (string \<Rightarrow> string) \<Rightarrow> engine \<Rightarrow> string \<Rightarrow> (string \<Rightarrow> string) \<Rightarrow> bool \<Rightarrow> (int conn, 'c adapter) svc" where
  "adapter_svc L po eng root sha live \<equiv> svc_New (adapter_waclient L po) (sqlite_bundle eng) root sha live"

section \<open>Offline\<close>

text \<open>Property C25: while the client is not connected and logged in, a well-formed text request over HTTP is
  answered 409 ``wa.not_connected'' and has no effect: nothing is stored and the library is not
  called.\<close>

theorem offline_send_409:
  assumes "\<not> connected L (w_wa w)"
    and "str_field ''chat_jid'' (rq_body rq) = Some j" "str_field ''text'' (rq_body rq) = Some t"
    and "str_field ''reply_to'' (rq_body rq) = Some rt"
    and "TrimSpace j \<noteq> []" "t \<noteq> []" "length t \<le> 4096"
  shows "SendTextHandler (adapter_svc L po eng root sha live) rq w =
    (WriteProblem 409 ''wa.not_connected'' (err_msg ErrNotConnected), w)"
proof -
  have "SendText (adapter_svc L po eng root sha live) j t rt w = (Inl ErrNotConnected, w)"
    using assms(1,5-7) by (simp add: SendText_def svc_New_def adapter_waclient_def on_wa_def adapter_SendText_def maxTextLen_def)
  moreover have "j \<noteq> []" using assms(5) by auto
  ultimately show ?thesis using assms(2-4,6,7) by (simp add: SendTextHandler_def maxTextLen_def case_defs)
qed

definition demo_send_request :: request where
  "demo_send_request = \<lparr>rq_auth = '''', rq_last_id = '''', rq_query = [],
     rq_body = Some (JObj [(''chat_jid'', JStr demo_peer), (''text'', JStr ''hi'')]), rq_form = Inl (GoErr EOther ''no form'')\<rparr>"

lemma demo_send_fields:
  "str_field ''chat_jid'' (rq_body demo_send_request) = Some demo_peer" "str_field ''text'' (rq_body demo_send_request) = Some ''hi''"
  "str_field ''reply_to'' (rq_body demo_send_request) = Some ''''"
  by (simp_all add: demo_send_request_def json_field_def is_field_def fold_name_def fold_rune_def ascii_text)

theorem offline_send_409_witness:
  "SendTextHandler (adapter_svc demo_lib (\<lambda>c. ''success'') demo_engine ''/m'' demo_sha True) demo_send_request (demo_wa_world 0)
    = (WriteProblem 409 ''wa.not_connected'' (err_msg ErrNotConnected), demo_wa_world 0)"
proof -
  have "\<not> connected demo_lib (w_wa (demo_wa_world 0))" by (simp add: demo_wa_world_def)
  from offline_send_409 [OF this demo_send_fields] show ?thesis by simp
qed

section \<open>Inbound events\<close>

text \<open>Every event of the library, handled through the adapter and the service, is a run of the service, so
  the invariant of the daemon holds after it (\<open>Daemon_Props\<close> has it for the daemon as a whole).\<close>

theorem wa_event_invariant:
  assumes "world_ok (conn_inv eng) sqlite_view w"
  shows "(svc_step (adapter_svc L po eng root sha live))\<^sup>*\<^sup>* w (wa_event (adapter_svc L po eng root sha live) L now ev w)
    \<and> world_ok (conn_inv eng) sqlite_view (wa_event (adapter_svc L po eng root sha live) L now ev w)"
  using wa_event_run svc_sqlite.run_world_ok [OF wa_event_run assms] by blast

theorem wa_event_invariant_witness:
  "world_ok (conn_inv demo_engine) sqlite_view (wa_event (adapter_svc demo_lib (\<lambda>c. ''success'') demo_engine ''/m'' demo_sha True)
     demo_lib 0 WaConnected (demo_wa_world 1))"
  using wa_event_invariant [OF demo_wa_world_ok] by blast

text \<open>Property C26: what the adapter hands on for a message event is never a message of the account itself, is
  aimed at no more than one of a reaction, a revoked and an edited message, carries a push name only
  when it is a plain message, and a downloader only for a medium.\<close>

theorem translated_shape:
  assumes "translateIncoming L ev = Some m"
  shows "\<not> me_IsFromMe ev
    \<and> length (filter (\<lambda>t. t \<noteq> []) [in_ReactionTargetID m, in_RevokeOfID m, in_EditOfID m]) \<le> 1
    \<and> in_ChatKind m = ChatKindFromJID (in_ChatJID m)
    \<and> (in_Kind m \<noteq> [] \<longrightarrow> in_ReactionTargetID m = [] \<and> in_RevokeOfID m = [] \<and> in_EditOfID m = [] \<and> in_Kind m \<in> kinds)
    \<and> (in_Kind m = [] \<longrightarrow> in_PushName m = [] \<and> in_MediaDownloader m = None)
    \<and> (in_MediaDownloader m \<noteq> None \<longrightarrow> in_Kind m \<noteq> ''text'' \<and> in_Body m = [])"
  using assms messageKindAndBody_kind
  by (fastforce simp: translateIncoming_def translateReaction_def translateProtocol_def kinds_def
      split: if_splits option.splits protocol_type.splits)

theorem translated_shape_witness:
  "\<exists>m. translateIncoming demo_lib (demo_event False (wa_message_zero\<lparr>wm_Conversation := Some ''hello''\<rparr>)) = Some m
     \<and> in_RevokeOfID m = [] \<and> in_Kind m \<in> kinds"
proof -
  obtain m where m: "translateIncoming demo_lib (demo_event False (wa_message_zero\<lparr>wm_Conversation := Some ''hello''\<rparr>)) = Some m"
    "in_Kind m = ''text''"
    by (simp add: translateIncoming_def demo_event_def wa_message_zero_def messageKindAndBody_def)
  then show ?thesis using translated_shape [OF m(1)] by auto
qed

text \<open>Over SQLite that does not fail, the row of the first text to an unknown chat, refused by the
  foreign key, stays lost: the echo of the message that WhatsApp sends back is dropped by the adapter
  and changes nothing.\<close>

theorem lost_row_not_healed:
  assumes "world_ok (conn_inv eng) sqlite_view w" "quiet (w_db w)"
    and "TrimSpace j \<noteq> []" "t \<noteq> []" "length t \<le> 4096"
    and "adapter_SendText L j t rt (w_wa w) = (Inr s, a)"
    and "v_chats (sqlite_view (w_db w)) j = None" "v_messages (sqlite_view (w_db w)) (sent_ID s) = None"
    and "me_IsFromMe echo"
  shows "let S = adapter_svc L po eng root sha live; w1 = snd (SendText S j t rt w); w2 = wa_event S L now (WaMessage echo) w1
    in w2 = w1 \<and> v_messages (sqlite_view (w_db w2)) (sent_ID s) = None"
proof -
  let ?S = "adapter_svc L po eng root sha live"
  have s: "wa_SendText (s_wa ?S) j t rt (w_wa w) = (Inr s, a)" using assms(6) by (simp add: svc_New_def adapter_waclient_def)
  have "wa_event ?S L now (WaMessage echo) w1 = w1" for w1
    using assms(9) by (simp add: wa_event_def onEvent_def translateIncoming_def)
  moreover have "v_messages (sqlite_view (w_db (snd (SendText ?S j t rt w)))) (sent_ID s) = None"
    using svc_sqlite.SendText_new_chat [OF assms(1-5) s assms(7) TrueI] assms(8) by (auto simp: abs_put_chat_def)
  ultimately show ?thesis by (simp add: Let_def)
qed

theorem lost_row_not_healed_witness:
  "\<exists>S. v_messages (sqlite_view (w_db (wa_event S demo_lib 0 (WaMessage (demo_event True wa_message_zero))
     (snd (SendText S ''4@s.whatsapp.net'' ''hi'' '''' (demo_wa_world 1)))))) ''3EB0'' = None"
proof -
  have s: "adapter_SendText demo_lib ''4@s.whatsapp.net'' ''hi'' '''' (w_wa (demo_wa_world 1))
      = (Inr \<lparr>sent_ID = ''3EB0'', sent_Timestamp = time_of_unix 1700000100, sent_SenderJID = demo_me\<rparr>, (demo_adapter 1)\<lparr>ad_lib := 2\<rparr>)"
  proof -
    have "ad_lib (demo_adapter 1) = 1"
      by (simp add: demo_adapter_def register_def NewAdapter_def OnConnectionState_def OnIncomingReceipt_def OnIncomingMessage_def)
    then show ?thesis by (simp add: adapter_SendText_def demo_wa_world_def send_message_def on_lib_def)
  qed
  have c: "v_chats (sqlite_view (w_db (demo_wa_world 1))) ''4@s.whatsapp.net'' = None"
    and m: "v_messages (sqlite_view (w_db (demo_wa_world 1))) ''3EB0'' = None"
    by (simp_all add: demo_wa_world_def sqlite_view_def conn_view_def db_view_def demo_defs)
  have e: "me_IsFromMe (demo_event True wa_message_zero)" by (simp add: demo_event_def)
  have j: "TrimSpace ''4@s.whatsapp.net'' \<noteq> []" by (simp add: ascii_text)
  show ?thesis
    using lost_row_not_healed [OF demo_wa_world_ok demo_wa_quiet j _ _ s c _ e, of "\<lambda>c. ''success''" "''/m''" demo_sha True 0] m
    by (auto simp: Let_def)
qed

lemma wa_event_message:
  assumes "translateIncoming L ev = Some m" "ad_incoming (w_wa w)"
  shows "wa_event S L now (WaMessage ev) w = handleIncoming S m w"
  using assms by (simp add: wa_event_def onEvent_def deliver_to_def)

text \<open>Over SQLite that does not fail, a reaction that comes without the id of its target is not taken
  for a reaction: it is stored as a message with neither kind nor body, and makes the chat unread.\<close>

theorem keyless_reaction_stored:
  assumes "world_ok (conn_inv eng) sqlite_view w" "quiet (w_db w)" "ad_incoming (w_wa w)"
    and "\<not> me_IsFromMe ev" "me_Message ev = Some m" "wm_Reaction m = Some rm" "re_KeyID rm = []"
  shows "let v = sqlite_view (w_db (wa_event (adapter_svc L po eng root sha live) L now (WaMessage ev) w))
    in (\<exists>x. v_messages v (me_ID ev) = Some x \<and> msg_Kind x = [] \<and> msg_Body x = [])
     \<and> (\<exists>c. v_chats v (wl_JIDString L (me_Chat ev)) = Some c \<and> 0 < chat_UnreadCount c)"
proof -
  let ?S = "adapter_svc L po eng root sha live"
  let ?m = "translateReaction L ev rm"
  have t: "translateIncoming L ev = Some ?m" using assms(4-6) by (simp add: translateIncoming_def)
  have m: "in_ReactionTargetID ?m = []" "in_RevokeOfID ?m = []" "in_EditOfID ?m = []" "in_Kind ?m = []" "in_Body ?m = []"
    "in_ID ?m = me_ID ev" "in_ChatJID ?m = wl_JIDString L (me_Chat ev)" "in_PushName ?m = []"
    using assms(7) by (simp_all add: translateReaction_def)
  have v: "sqlite_view (w_db (wa_event ?S L now (WaMessage ev) w))
      = abs_incoming to_seconds (map_option to_seconds) (\<lambda>k. w_clock w (w_tick w + k)) ?m (sqlite_view (w_db w))"
    unfolding wa_event_message [OF t assms(3)] by (rule svc_sqlite.handleIncoming_calm [OF assms(1,2) TrueI])
  have "view_ok (sqlite_view (w_db w))" "unread_ok (sqlite_view (w_db w))"
    using assms(1) sqlite.inv_view_ok by (auto simp: world_ok_def)
  then have c: "chat_JID (chat_after ?m (sqlite_view (w_db w))) = in_ChatJID ?m"
    "0 < chat_UnreadCount (chat_after ?m (sqlite_view (w_db w)))"
    by (auto simp: chat_after_def new_chat_def Let_def view_ok_def unread_ok_def split: option.splits)
  show ?thesis unfolding v
    using m c by (simp add: abs_incoming_def abs_emit_def abs_append_def abs_put_message_def abs_put_chat_def message_of_def
        new_message_def norm_message_def norm_chat_def)
qed

definition demo_reaction :: wa_message where
  "demo_reaction = wa_message_zero\<lparr>wm_Reaction := Some \<lparr>re_KeyID = '''', re_Text = ''+''\<rparr>\<rparr>"

lemma demo_registered [simp]: "ad_incoming (w_wa (demo_wa_world c))"
  by (simp add: demo_wa_world_def demo_adapter_def register_def OnConnectionState_def OnIncomingReceipt_def OnIncomingMessage_def)

theorem keyless_reaction_stored_witness:
  "\<exists>x. v_messages (sqlite_view (w_db (wa_event (adapter_svc demo_lib (\<lambda>c. ''success'') demo_engine ''/m'' demo_sha True) demo_lib 0
     (WaMessage (demo_event False demo_reaction)) (demo_wa_world 1)))) ''E1'' = Some x \<and> msg_Kind x = []"
proof -
  have e: "\<not> me_IsFromMe (demo_event False demo_reaction)" "me_Message (demo_event False demo_reaction) = Some demo_reaction"
    "wm_Reaction demo_reaction = Some \<lparr>re_KeyID = '''', re_Text = ''+''\<rparr>" "me_ID (demo_event False demo_reaction) = ''E1''"
    by (simp_all add: demo_event_def demo_reaction_def)
  show ?thesis
    using keyless_reaction_stored [OF demo_wa_world_ok demo_wa_quiet demo_registered e(1-3), of demo_lib "\<lambda>c. ''success''" "''/m''" demo_sha True 0]
      e(4) by (auto simp: Let_def)
qed

text \<open>Over SQLite that does not fail, an edit whose new content is formatted text (not a plain
  conversation) empties the body of the stored message.\<close>

theorem formatted_edit_blanks:
  assumes "world_ok (conn_inv eng) sqlite_view w" "quiet (w_db w)" "ad_incoming (w_wa w)"
    and "\<not> me_IsFromMe ev" "me_Message ev = Some m" "wm_Reaction m = None" "wm_Protocol m = Some pm"
    and "pr_Type pm = MESSAGE_EDIT" "pr_Edited pm = Some ''''" "pr_KeyID pm \<noteq> []"
    and "v_messages (sqlite_view (w_db w)) (pr_KeyID pm) = Some x"
  shows "\<exists>x'. v_messages (sqlite_view (w_db (wa_event (adapter_svc L po eng root sha live) L now (WaMessage ev) w))) (pr_KeyID pm) = Some x'
     \<and> msg_Body x' = []"
proof -
  let ?S = "adapter_svc L po eng root sha live"
  let ?m = "(incoming_base L ev)\<lparr>in_EditOfID := pr_KeyID pm, in_Body := ''''\<rparr>"
  have t: "translateIncoming L ev = Some ?m" using assms(4-9) by (simp add: translateIncoming_def translateProtocol_def)
  have v: "sqlite_view (w_db (wa_event ?S L now (WaMessage ev) w))
      = abs_incoming to_seconds (map_option to_seconds) (\<lambda>k. w_clock w (w_tick w + k)) ?m (sqlite_view (w_db w))"
    unfolding wa_event_message [OF t assms(3)] by (rule svc_sqlite.handleIncoming_calm [OF assms(1,2) TrueI])
  have "msg_ID x = pr_KeyID pm"
    using assms(1,11) sqlite.inv_view_ok by (auto simp: world_ok_def view_ok_def)
  then show ?thesis unfolding v
    using assms(10,11) by (simp add: abs_incoming_def abs_emit_def abs_append_def abs_put_message_def norm_message_def)
qed

definition demo_edit :: wa_message where
  "demo_edit = wa_message_zero\<lparr>wm_Protocol := Some \<lparr>pr_Type = MESSAGE_EDIT, pr_KeyID = ''A1'', pr_Edited = Some ''''\<rparr>\<rparr>"

theorem formatted_edit_blanks_witness:
  "\<exists>x'. v_messages (sqlite_view (w_db (wa_event (adapter_svc demo_lib (\<lambda>c. ''success'') demo_engine ''/m'' demo_sha True) demo_lib 0
     (WaMessage (demo_event False demo_edit)) (demo_wa_world 1)))) ''A1'' = Some x' \<and> msg_Body x' = []"
proof -
  let ?pm = "\<lparr>pr_Type = MESSAGE_EDIT, pr_KeyID = ''A1'', pr_Edited = Some ''''\<rparr>"
  have e: "\<not> me_IsFromMe (demo_event False demo_edit)" "me_Message (demo_event False demo_edit) = Some demo_edit"
    "wm_Reaction demo_edit = None" "wm_Protocol demo_edit = Some ?pm"
    by (simp_all add: demo_event_def demo_edit_def wa_message_zero_def)
  have x: "v_messages (sqlite_view (w_db (demo_wa_world 1))) (pr_KeyID ?pm) = Some (demo_message ''A1'' demo_peer 1700000000)"
    by (simp add: demo_wa_world_def)
  show ?thesis
    using formatted_edit_blanks [OF demo_wa_world_ok demo_wa_quiet demo_registered e _ _ _ x, of demo_lib "\<lambda>c. ''success''" "''/m''" demo_sha True 0]
    by simp
qed

section \<open>Nil pointers\<close>

lemma on_lib_panic: "on_lib f b = (r, a') \<Longrightarrow> ad_panic a' = ad_panic b"
  by (auto simp: on_lib_def split: prod.splits)

lemma send_message_panic [simp]: "ad_panic (snd (send_message L ctx s to m b)) = ad_panic b"
  by (auto simp: send_message_def dest!: on_lib_panic split: prod.splits sum.splits)

lemma send_message_panic_eq: "send_message L ctx s to m b = (r, a') \<Longrightarrow> ad_panic a' = ad_panic b"
  by (metis send_message_panic snd_conv)

lemma buildMediaProto_kind: "buildMediaProto k cap fn mime body up = None \<longleftrightarrow> k \<noteq> ''image'' \<and> k \<noteq> ''document''"
  by (auto simp: buildMediaProto_def)

text \<open>If the library's device has an id whenever it is logged in, no request makes the adapter
  dereference a nil pointer.\<close>

theorem adapter_never_panics:
  assumes "\<And>c. wl_IsLoggedIn L c \<Longrightarrow> wl_StoreID L c \<noteq> None" "\<not> ad_panic a"
  shows "\<not> ad_panic (snd (adapter_SendText L j t rt a)) \<and> \<not> ad_panic (snd (adapter_SendMedia L j k cap fn mime body a))
    \<and> \<not> ad_panic (snd (adapter_SendEdit L j i t a)) \<and> \<not> ad_panic (snd (adapter_SendRevoke L j i a))
    \<and> \<not> ad_panic (snd (adapter_SendReaction L j i e a))"
proof -
  have id: "connected L a \<Longrightarrow> wl_StoreID L (ad_lib a) \<noteq> None" using assms(1) by (simp add: connected_def)
  have "\<not> ad_panic (snd (adapter_SendText L j t rt a))"
    using id assms(2) by (auto simp: adapter_SendText_def Let_def split: option.splits sum.splits)
  moreover have "\<not> ad_panic (snd (adapter_SendMedia L j k cap fn mime body a))"
    using id assms(2)
    by (auto simp: adapter_SendMedia_def buildMediaProto_kind dest!: on_lib_panic split: option.splits sum.splits prod.splits if_splits)
  moreover have "\<not> ad_panic (snd (adapter_SendEdit L j i t a))" "\<not> ad_panic (snd (adapter_SendRevoke L j i a))"
    using id assms(2) by (auto simp: adapter_SendEdit_def adapter_SendRevoke_def split: option.splits sum.splits)
  moreover have "\<not> ad_panic (snd (adapter_SendReaction L j i e a))"
    using id assms(2)
    by (auto simp: adapter_SendReaction_def err_of_def dest!: send_message_panic_eq split: option.splits sum.splits prod.splits)
  ultimately show ?thesis by blast
qed

theorem adapter_never_panics_witness:
  "\<not> ad_panic (snd (adapter_SendText demo_lib demo_peer ''hi'' '''' (demo_adapter 0)))"
proof -
  have "\<And>c. wl_IsLoggedIn demo_lib c \<Longrightarrow> wl_StoreID demo_lib c \<noteq> None" by simp
  moreover have "\<not> ad_panic (demo_adapter 0)"
    by (simp add: demo_adapter_def register_def NewAdapter_def OnConnectionState_def OnIncomingReceipt_def OnIncomingMessage_def)
  ultimately show ?thesis using adapter_never_panics by blast
qed

end
