(* ===== verification/Login_Props.thy ===== *)
theory Login_Props
  imports Adapter_Props
begin

text \<open>
  Properties of the two logins of internal/waclient/whatsmeow_adapter.go: one at a time, what the
  consumer of a QR login is sent, that the goroutine ends while it is read and can block for ever
  once it is not, and that the goroutine of a phone login cannot.
\<close>

section \<open>One login at a time\<close>

lemma on_lib_flag: "on_lib f b = (r, a') \<Longrightarrow> ad_loginInProgress a' = ad_loginInProgress b"
  by (auto simp: on_lib_def split: prod.splits)

lemma ensureClient_flag: "ensureClient L a = (r, a') \<Longrightarrow> ad_loginInProgress a' = ad_loginInProgress a"
  by (auto simp: ensureClient_def dest!: on_lib_flag split: if_splits prod.splits option.splits)

text \<open>Property C27: a login starts only while no other is in progress, and then one is; a start that
  fails leaves the flag as it found it, so a failed login never blocks the next.\<close>

theorem login_single_flight:
  "(case LoginQR_start L a of
      (Inl e, a') \<Rightarrow> ad_loginInProgress a' = ad_loginInProgress a
    | (Inr q, a') \<Rightarrow> \<not> ad_loginInProgress a \<and> ad_loginInProgress a')
   \<and> (case LoginPhone_start L p a of
      (Inl e, a') \<Rightarrow> ad_loginInProgress a' = ad_loginInProgress a
    | (Inr q, a') \<Rightarrow> \<not> ad_loginInProgress a \<and> ad_loginInProgress a')"
proof
  show "case LoginQR_start L a of
      (Inl e, a') \<Rightarrow> ad_loginInProgress a' = ad_loginInProgress a
    | (Inr q, a') \<Rightarrow> \<not> ad_loginInProgress a \<and> ad_loginInProgress a'"
    by (auto simp: LoginQR_start_def dest!: on_lib_flag ensureClient_flag split: prod.splits option.splits sum.splits if_splits)
  show "case LoginPhone_start L p a of
      (Inl e, a') \<Rightarrow> ad_loginInProgress a' = ad_loginInProgress a
    | (Inr q, a') \<Rightarrow> \<not> ad_loginInProgress a \<and> ad_loginInProgress a'"
    by (auto simp: LoginPhone_start_def Let_def dest!: on_lib_flag ensureClient_flag
        split: prod.splits option.splits sum.splits if_splits)
qed

section \<open>The QR login\<close>

text \<open>Property C28: whatever the interleaving of the goroutine, its consumer and the context, what has been
  sent is an initial part of the events the library gives, cut after the first terminal one, or such a part closed by
  the outcome ``ctx-cancelled''; the login counts as in progress exactly until the goroutine has finished.\<close>

theorem qr_stream_true:
  assumes "qr_step\<^sup>*\<^sup>* (qr_start its) g"
  shows "(prefix (qr_sent g) (qr_events its)
      \<or> (\<exists>p. prefix p (qr_events its) \<and> qr_sent g = p @ [qr_end ''ctx-cancelled'']))
    \<and> (g_pc g = QDone \<and> qr_end ''ctx-cancelled'' \<notin> set (qr_sent g) \<longrightarrow> qr_sent g = qr_events its)
    \<and> (g_busy g \<longleftrightarrow> g_pc g \<noteq> QDone) \<and> length (g_out g) \<le> 4"
proof -
  have ok: "qr_ok its g" using assms by (rule qr_run_ok)
  then consider "qr_events its = qr_sent g @ qr_rest g"
    | p where "prefix p (qr_events its)" "qr_sent g @ qr_rest g = p @ [qr_end ''ctx-cancelled'']"
    by (auto simp: qr_ok_def)
  then have "(prefix (qr_sent g) (qr_events its)
      \<or> (\<exists>p. prefix p (qr_events its) \<and> qr_sent g = p @ [qr_end ''ctx-cancelled'']))
    \<and> (qr_rest g = [] \<and> qr_end ''ctx-cancelled'' \<notin> set (qr_sent g) \<longrightarrow> qr_sent g = qr_events its)"
  proof cases
    case 2
    show ?thesis
    proof (cases "qr_rest g" rule: rev_cases)
      case Nil
      then show ?thesis using 2 by auto
    next
      case (snoc ys y)
      then have "qr_sent g @ ys = p" using 2(2) by simp
      then show ?thesis using 2(1) snoc by (metis append_prefixD snoc_eq_iff_butlast)
    qed
  qed simp
  moreover have "g_pc g = QDone \<Longrightarrow> qr_rest g = []" by (simp add: qr_rest_def)
  ultimately show ?thesis using ok by (auto simp: qr_ok_def qr_cap_def)
qed

definition demo_items :: "qr_item list" where
  "demo_items = [\<lparr>qi_Event = ''code'', qi_Code = ''Q1''\<rparr>, \<lparr>qi_Event = ''success'', qi_Code = ''''\<rparr>]"

lemma demo_qr_run:
  "qr_step\<^sup>*\<^sup>* (qr_start demo_items) (qr_start demo_items\<lparr>g_in := tl demo_items, g_pc := QRecv, g_out := [qr_code ''Q1'']\<rparr>)"
proof -
  let ?g = "qr_start demo_items" and ?g1 = "qr_start demo_items\<lparr>g_in := tl demo_items, g_pc := QSend ''Q1''\<rparr>"
  have "qr_go_step ?g ?g1"
    using qr_go_step.recv [of ?g "hd demo_items" "tl demo_items"]
    by (simp add: qr_start_def demo_items_def qr_switch_def)
  moreover have "qr_go_step ?g1 (?g\<lparr>g_in := tl demo_items, g_pc := QRecv, g_out := [qr_code ''Q1'']\<rparr>)"
    using qr_go_step.send [of ?g1 "''Q1''"] by (simp add: qr_start_def qr_cap_def)
  ultimately show ?thesis by (meson qr_step.go converse_rtranclp_into_rtranclp rtranclp.rtrancl_refl)
qed

theorem qr_stream_true_witness:
  "\<exists>g. qr_step\<^sup>*\<^sup>* (qr_start demo_items) g \<and> qr_sent g = [qr_code ''Q1''] \<and> g_busy g"
proof -
  let ?g = "qr_start demo_items\<lparr>g_in := tl demo_items, g_pc := QRecv, g_out := [qr_code ''Q1'']\<rparr>"
  have "g_busy ?g \<longleftrightarrow> g_pc ?g \<noteq> QDone" using qr_stream_true [OF demo_qr_run] by blast
  then show ?thesis using demo_qr_run by (intro exI [of _ ?g]) (simp add: qr_sent_def qr_start_def)
qed

text \<open>Property C29: a goroutine and a consumer that keeps reading never run for ever, and while the consumer
  has not left one of them can always go on until the login is over.\<close>

theorem qr_ends:
  "wfp (\<lambda>g' g. qr_go_step g g' \<or> qr_read_step g g')
   \<and> (g_gone g \<or> g_pc g = QDone \<or> (\<exists>g'. qr_go_step g g' \<or> qr_read_step g g'))"
proof
  have "wfp (\<lambda>x y. qr_measure x < qr_measure y)" by (simp add: wfp_if_convertible_to_nat)
  then show "wfp (\<lambda>g' g. qr_go_step g g' \<or> qr_read_step g g')"
    by (rule wfp_subset) (auto intro: qr_go_step_less qr_read_step_less)
  show "g_gone g \<or> g_pc g = QDone \<or> (\<exists>g'. qr_go_step g g' \<or> qr_read_step g g')"
    using qr_progress by blast
qed

definition qr_codes :: "nat \<Rightarrow> qr_item list" where
  "qr_codes n = replicate n \<lparr>qi_Event = ''code'', qi_Code = ''Q''\<rparr>"

lemma qr_fill:
  assumes "g_pc g = QRecv" "g_in g = qr_codes n @ its" "length (g_out g) + n \<le> qr_cap"
  shows "qr_step\<^sup>*\<^sup>* g (g\<lparr>g_in := its, g_out := g_out g @ replicate n (qr_code ''Q'')\<rparr>)"
  using assms
proof (induction n arbitrary: g)
  case (Suc n)
  let ?it = "\<lparr>qi_Event = ''code'', qi_Code = ''Q''\<rparr>"
  let ?g1 = "g\<lparr>g_in := qr_codes n @ its, g_pc := QSend ''Q''\<rparr>"
  let ?g2 = "g\<lparr>g_in := qr_codes n @ its, g_out := g_out g @ [qr_code ''Q''], g_pc := QRecv\<rparr>"
  have 1: "qr_go_step g ?g1"
    using qr_go_step.recv [of g ?it "qr_codes n @ its"] Suc.prems by (simp add: qr_codes_def qr_switch_def)
  have 2: "qr_go_step ?g1 ?g2"
    using qr_go_step.send [of ?g1 "''Q''"] Suc.prems by simp
  have "qr_step\<^sup>*\<^sup>* ?g2 (?g2\<lparr>g_in := its, g_out := g_out ?g2 @ replicate n (qr_code ''Q'')\<rparr>)"
    using Suc.prems by (intro Suc.IH) simp_all
  moreover have "?g2\<lparr>g_in := its, g_out := g_out ?g2 @ replicate n (qr_code ''Q'')\<rparr>
      = g\<lparr>g_in := its, g_out := g_out g @ replicate (Suc n) (qr_code ''Q'')\<rparr>"
    using Suc.prems(1) by (cases g) simp
  ultimately show ?case using 1 2 by (metis (no_types, lifting) qr_step.go converse_rtranclp_into_rtranclp)
qed (auto simp: qr_codes_def)

lemma qr_fifth_code:
  "qr_step\<^sup>*\<^sup>* (qr_start (qr_codes 5 @ its))
     (qr_start its\<lparr>g_out := replicate 4 (qr_code ''Q''), g_pc := QSend ''Q''\<rparr>)"
proof -
  let ?g = "qr_start (qr_codes 5 @ its)"
  let ?g4 = "?g\<lparr>g_in := qr_codes 1 @ its, g_out := replicate 4 (qr_code ''Q'')\<rparr>"
  have "qr_codes 5 = qr_codes 4 @ qr_codes 1" by (simp add: qr_codes_def numeral_eq_Suc)
  then have "qr_step\<^sup>*\<^sup>* ?g ?g4"
    using qr_fill [of ?g 4 "qr_codes 1 @ its"] by (simp add: qr_start_def qr_cap_def)
  moreover have "qr_go_step ?g4 (?g4\<lparr>g_in := its, g_pc := QSend ''Q''\<rparr>)"
    using qr_go_step.recv [of ?g4 "\<lparr>qi_Event = ''code'', qi_Code = ''Q''\<rparr>" its]
    by (simp add: qr_start_def qr_codes_def qr_switch_def)
  moreover have "?g4\<lparr>g_in := its, g_pc := QSend ''Q''\<rparr> = qr_start its\<lparr>g_out := replicate 4 (qr_code ''Q''), g_pc := QSend ''Q''\<rparr>"
    by (simp add: qr_start_def)
  ultimately show ?thesis by (metis qr_step.go rtranclp.rtrancl_into_rtrancl)
qed

text \<open>Property C30: when the consumer of a QR login leaves, its request context cancelled, while five
  codes are unread, the goroutine can reach a state from which it never finishes: the channel is full, so
  ``ctx-cancelled'' is never delivered, the login stays in progress and every later one is refused.\<close>

theorem qr_login_can_block:
  "\<exists>g. qr_step\<^sup>*\<^sup>* (qr_start (qr_codes 5 @ its)) g \<and> g_ctx g
     \<and> (\<forall>g'. qr_step\<^sup>*\<^sup>* g g' \<longrightarrow> g_busy g' \<and> \<not> (\<exists>g''. qr_go_step g' g''))"
proof -
  let ?g5 = "qr_start its\<lparr>g_out := replicate 4 (qr_code ''Q''), g_pc := QSend ''Q''\<rparr>"
  let ?g6 = "?g5\<lparr>g_ctx := True\<rparr>" and ?g7 = "?g5\<lparr>g_ctx := True, g_gone := True\<rparr>"
  let ?g = "?g7\<lparr>g_pc := QEnd ''ctx-cancelled''\<rparr>"
  have "qr_step ?g5 ?g6" by (rule qr_step.cancel)
  moreover have "qr_step ?g6 ?g7" using qr_step.leave [of ?g6] by simp
  moreover have "qr_step ?g7 ?g" by (rule qr_step.go, rule qr_go_step.cancelled) simp_all
  ultimately have run: "qr_step\<^sup>*\<^sup>* (qr_start (qr_codes 5 @ its)) ?g"
    using qr_fifth_code [of its] by (meson rtranclp.rtrancl_into_rtrancl)
  have "qr_stuck ?g" by (simp add: qr_stuck_def qr_cap_def qr_start_def)
  then have "g_busy g' \<and> \<not> (\<exists>g''. qr_go_step g' g'')" if "qr_step\<^sup>*\<^sup>* ?g g'" for g'
    using qr_stuck_run [OF that] by (auto simp: qr_stuck_def elim!: qr_go_stepE)
  then show ?thesis using run by (intro exI [of _ ?g]) simp
qed

theorem qr_login_can_block_witness:
  "\<exists>g. qr_step\<^sup>*\<^sup>* (qr_start (qr_codes 5)) g \<and> g_busy g \<and> \<not> (\<exists>g''. qr_go_step g g'')"
  using qr_login_can_block [of "[]"] by auto

section \<open>The phone login\<close>

text \<open>The goroutine of a phone login sends the code it was given and then one terminal event,
  and never waits for its consumer: once the pairing has an outcome, the context is cancelled or the timer
  is over, it can always take its next step.\<close>

theorem phone_never_blocks:
  assumes "pair_step\<^sup>*\<^sup>* (pair_start code) g"
  shows "(prefix (p_got g @ p_out g) [pair_code code] \<or> (\<exists>o'. p_got g @ p_out g = [pair_code code, pair_end o']))
    \<and> (p_pc g = PDone \<or> (p_pc g = PWait \<and> p_chan g = None \<and> \<not> p_ctx g \<and> \<not> p_timer g) \<or> (\<exists>g'. pair_go_step g g'))
    \<and> (p_busy g \<longleftrightarrow> p_pc g \<noteq> PDone)"
proof -
  have ok: "pair_ok code g" using assms by (rule pair_run_ok)
  have "prefix (p_got g @ p_out g) [pair_code code] \<or> (\<exists>o'. p_got g @ p_out g = [pair_code code, pair_end o'])"
    using ok by (cases "p_pc g") (auto simp: pair_ok_def)
  moreover have "p_pc g = PDone \<or> (p_pc g = PWait \<and> p_chan g = None \<and> \<not> p_ctx g \<and> \<not> p_timer g) \<or> (\<exists>g'. pair_go_step g g')"
    using pair_go_enabled [OF ok] by blast
  moreover have "p_busy g \<longleftrightarrow> p_pc g \<noteq> PDone" using ok by (simp add: pair_ok_def)
  ultimately show ?thesis by blast
qed

theorem phone_never_blocks_witness:
  "\<exists>g'. pair_go_step (pair_start ''ABCD-1234'') g'"
  using phone_never_blocks [OF rtranclp.rtrancl_refl, of "''ABCD-1234''"] by (simp add: pair_start_def)

end
