(* ===== verification/Go_Base64.thy ===== *)
theory Go_Base64
  imports Go_Strings
begin

text \<open>
  \<open>encoding/base64\<close>: \<open>StdEncoding.DecodeString\<close> and, to state what a client sends, the encoder.
  The decoder skips line breaks everywhere, wants the padding, and ignores the unused bits of the
  last digit.
\<close>

definition b64_digit :: "nat \<Rightarrow> char" where
  "b64_digit n = (if n < 26 then char_of (65 + n) else if n < 52 then char_of (71 + n)
     else if n < 62 then char_of (n - 4) else if n = 62 then CHR ''+'' else CHR ''/'')"

definition b64_val :: "char \<Rightarrow> nat option" where
  "b64_val c = (let n = byte c in
     if 65 \<le> n \<and> n \<le> 90 then Some (n - 65)
     else if 97 \<le> n \<and> n \<le> 122 then Some (n - 71)
     else if 48 \<le> n \<and> n \<le> 57 then Some (n + 4)
     else if n = 43 then Some 62
     else if n = 47 then Some 63
     else None)"

lemma b64_digit [simp]: "n < 64 \<Longrightarrow> b64_val (b64_digit n) = Some n"
  by (auto simp: b64_val_def b64_digit_def byte_def Let_def)

lemma b64_val_None [simp]: "b64_val CHR ''='' = None" "b64_val CHR 0x0A = None" "b64_val CHR 0x0D = None"
  by (simp_all add: b64_val_def byte_def)

lemma b64_digit_not [simp]:
  assumes "n < 64"
  shows "b64_digit n \<noteq> CHR ''=''" "b64_digit n \<noteq> CHR 0x0A" "b64_digit n \<noteq> CHR 0x0D"
  using b64_digit [OF assms] by (metis b64_val_None option.distinct(1))+

definition byte_char :: "nat \<Rightarrow> char" where
  "byte_char n = char_of (n mod 256)"

lemma byte_char_byte [simp]: "byte_char (byte c) = c"
  by (simp add: byte_char_def byte_def)

text \<open>The four digits of three bytes, and the bytes of four digits.\<close>

definition dig1 :: "nat \<Rightarrow> nat" where "dig1 a = a div 4"
definition dig2 :: "nat \<Rightarrow> nat \<Rightarrow> nat" where "dig2 a b = a mod 4 * 16 + b div 16"
definition dig3 :: "nat \<Rightarrow> nat \<Rightarrow> nat" where "dig3 b c = b mod 16 * 4 + c div 64"
definition dig4 :: "nat \<Rightarrow> nat" where "dig4 c = c mod 64"

definition oct1 :: "nat \<Rightarrow> nat \<Rightarrow> char" where "oct1 w x = byte_char (w * 4 + x div 16)"
definition oct2 :: "nat \<Rightarrow> nat \<Rightarrow> char" where "oct2 x y = byte_char (x * 16 + y div 4)"
definition oct3 :: "nat \<Rightarrow> nat \<Rightarrow> char" where "oct3 y z = byte_char (y * 64 + z)"

fun b64_quanta :: "string \<Rightarrow> string option" where
  "b64_quanta [] = Some []"
| "b64_quanta (a # b # c # d # r) = (case (b64_val a, b64_val b, b64_val c, b64_val d) of
     (Some w, Some x, Some y, Some z) \<Rightarrow> map_option (\<lambda>bs. oct1 w x # oct2 x y # oct3 y z # bs) (b64_quanta r)
   | (Some w, Some x, Some y, None) \<Rightarrow> if d = CHR ''='' \<and> r = [] then Some [oct1 w x, oct2 x y] else None
   | (Some w, Some x, None, None) \<Rightarrow>
        if c = CHR ''='' \<and> d = CHR ''='' \<and> r = [] then Some [oct1 w x] else None
   | _ \<Rightarrow> None)"
| "b64_quanta _ = None"

definition b64_decode :: "string \<Rightarrow> string option" where
  "b64_decode s = b64_quanta (filter (\<lambda>c. c \<noteq> CHR 0x0A \<and> c \<noteq> CHR 0x0D) s)"

fun b64_encode :: "string \<Rightarrow> string" where
  "b64_encode [] = []"
| "b64_encode [a] = [b64_digit (dig1 (byte a)), b64_digit (dig2 (byte a) 0), CHR ''='', CHR ''='']"
| "b64_encode [a, b] = [b64_digit (dig1 (byte a)), b64_digit (dig2 (byte a) (byte b)), b64_digit (dig3 (byte b) 0), CHR ''='']"
| "b64_encode (a # b # c # r) = b64_digit (dig1 (byte a)) # b64_digit (dig2 (byte a) (byte b))
     # b64_digit (dig3 (byte b) (byte c)) # b64_digit (dig4 (byte c)) # b64_encode r"

lemma digits_lt [simp]: "a < 256 \<Longrightarrow> dig1 a < 64" "b < 256 \<Longrightarrow> dig2 a b < 64" "c < 256 \<Longrightarrow> dig3 b c < 64" "dig4 c < 64"
proof -
  have "b div 16 < 16" if "b < 256" using that by simp
  moreover have "a mod 4 < 4" "b mod 16 < 16" by simp_all
  moreover have "c div 64 < 4" if "c < 256" using that by simp
  ultimately show "a < 256 \<Longrightarrow> dig1 a < 64" "b < 256 \<Longrightarrow> dig2 a b < 64" "c < 256 \<Longrightarrow> dig3 b c < 64" "dig4 c < 64"
    by (simp_all add: dig1_def dig2_def dig3_def dig4_def)
qed

lemma octets [simp]:
  "b < 256 \<Longrightarrow> oct1 (dig1 a) (dig2 a b) = byte_char a"
  "c < 256 \<Longrightarrow> oct2 (dig2 a b) (dig3 b c) = byte_char b"
  "oct3 (dig3 b c) (dig4 c) = byte_char c"
proof -
  have "dig2 a b div 16 = a mod 4" if "b < 256"
  proof -
    have "b div 16 < 16" using that by simp
    then show ?thesis by (simp add: dig2_def)
  qed
  then show "b < 256 \<Longrightarrow> oct1 (dig1 a) (dig2 a b) = byte_char a" by (simp add: oct1_def dig1_def)
  have "dig3 b c div 4 = b mod 16" if "c < 256"
  proof -
    have "c div 64 < 4" using that by simp
    then show ?thesis by (simp add: dig3_def)
  qed
  moreover have "(dig2 a b * 16 + b mod 16) mod 256 = b mod 256"
  proof -
    have "dig2 a b * 16 + b mod 16 = a mod 4 * 256 + (b div 16 * 16 + b mod 16)" by (simp add: dig2_def)
    then show ?thesis by (metis div_mult_mod_eq mod_mult_self3)
  qed
  ultimately show "c < 256 \<Longrightarrow> oct2 (dig2 a b) (dig3 b c) = byte_char b" by (simp add: oct2_def byte_char_def)
  have "dig3 b c * 64 + dig4 c = b mod 16 * 256 + (c div 64 * 64 + c mod 64)" by (simp add: dig3_def dig4_def)
  then show "oct3 (dig3 b c) (dig4 c) = byte_char c" unfolding oct3_def byte_char_def
    by (metis div_mult_mod_eq mod_mult_self3)
qed

lemma byte_lt [simp]: "byte c < 256"
  by (simp add: byte_def)

lemma b64_quanta_encode: "b64_quanta (b64_encode s) = Some s"
  by (induction s rule: b64_encode.induct) simp_all

lemma b64_encode_lines: "c \<in> set (b64_encode s) \<Longrightarrow> c \<noteq> CHR 0x0A \<and> c \<noteq> CHR 0x0D"
  by (induction s rule: b64_encode.induct) auto

text \<open>Whatever line breaks are put into it, the encoding of a byte string decodes to that string.\<close>

lemma b64_decode_encode:
  assumes "filter (\<lambda>c. c \<noteq> CHR 0x0A \<and> c \<noteq> CHR 0x0D) t = b64_encode s"
  shows "b64_decode t = Some s"
  using assms by (simp add: b64_decode_def b64_quanta_encode)

lemma b64_decode_plain: "b64_decode (b64_encode s) = Some s"
  by (rule b64_decode_encode) (auto simp: filter_id_conv dest: b64_encode_lines)

end
