(* ===== verification/Mcp.thy ===== *)
theory Mcp
  imports Http_Handlers Go_Base64
begin

text \<open>
  internal/transport/mcp: one definition per tool, from its typed input to what the handler hands
  back to the SDK. The SDK (go-sdk/mcp, not part of the repository) decodes the input, encodes the
  output and turns an error of the handler into an error result; \<open>d.Logger\<close> writes to the log of the
  world.
\<close>

section \<open>errors.go\<close>

text \<open>
  What a handler returns: a result with \<open>IsError\<close> and a text, a Go error, or its output.
\<close>

datatype 'o tool = ToolErr string | ToolFail string | ToolOut 'o

definition tool_result :: "goerr \<Rightarrow> 'o tool" where
  "tool_result e =
     (if is_err EInvalidRequest e then ToolErr (''invalid request: '' @ err_msg e)
      else if is_err EForbidden e then ToolErr (''forbidden: '' @ err_msg e)
      else if is_err ENotFound e then ToolErr (''not found: '' @ err_msg e)
      else ToolFail ''internal error'')"

text \<open>The error in the log is the entry of the world's log.\<close>

definition mapErr :: "goerr \<Rightarrow> ('d, 'w) world \<Rightarrow> 'o tool \<times> ('d, 'w) world" where
  "mapErr e w = (tool_result e,
     if is_err EInvalidRequest e \<or> is_err EForbidden e \<or> is_err ENotFound e then w else warn ''mcp tool error'' w)"

text \<open>\<open>if res, terr := mapErr(err, d.Logger); terr != nil || res != nil { ... }\<close> and the output.\<close>

definition reply :: "('a \<Rightarrow> 'o) \<Rightarrow> (goerr + 'a) \<times> ('d, 'w) world \<Rightarrow> 'o tool \<times> ('d, 'w) world" where
  "reply f r = (case r of (Inl e, w) \<Rightarrow> mapErr e w | (Inr x, w) \<Rightarrow> (ToolOut (f x), w))"

record waOK =
  ok_OK :: bool

definition reply_ok :: "goerr option \<times> ('d, 'w) world \<Rightarrow> waOK tool \<times> ('d, 'w) world" where
  "reply_ok r = (case r of (Some e, w) \<Rightarrow> mapErr e w | (None, w) \<Rightarrow> (ToolOut \<lparr>ok_OK = True\<rparr>, w))"

section \<open>tools\_status.go\<close>

record waStatusOutput =
  sto_Connected :: bool
  sto_JID :: string
  sto_PushName :: string

record waStatsOutput =
  sao_Chats :: int
  sao_Messages :: int
  sao_Contacts :: int
  sao_UnreadTotal :: int

definition wa_status :: "('d, 'w) svc \<Rightarrow> ('d, 'w) world \<Rightarrow> waStatusOutput tool \<times> ('d, 'w) world" where
  "wa_status S w = (let s = svc_Status S w in
     (ToolOut \<lparr>sto_Connected = st_Connected s, sto_JID = (case st_JID s of None \<Rightarrow> '''' | Some j \<Rightarrow> j),
        sto_PushName = (case st_PushName s of None \<Rightarrow> '''' | Some n \<Rightarrow> n)\<rparr>, w))"

definition wa_stats :: "('d, 'w) svc \<Rightarrow> ('d, 'w) world \<Rightarrow> waStatsOutput tool \<times> ('d, 'w) world" where
  "wa_stats S w = reply (\<lambda>s. \<lparr>sao_Chats = stats_Chats s, sao_Messages = stats_Messages s,
     sao_Contacts = stats_Contacts s, sao_UnreadTotal = stats_UnreadTotal s\<rparr>) (Stats S w)"

section \<open>tools\_login.go\<close>

record waLoginQROutput =
  lqo_Code :: string
  lqo_Terminal :: bool
  lqo_Outcome :: string

record waLoginPhoneInput =
  lpi_PhoneNumber :: string

record waLoginPhoneOutput =
  lpo_Code :: string
  lpo_Terminal :: bool
  lpo_Outcome :: string

text \<open>
  The \<open>select\<close> takes the first event of the channel (the zero event of a closed one) or, where
  \<open>gone\<close>, the end of the context.
\<close>

definition wa_login_qr :: "('d, 'w) svc \<Rightarrow> bool \<Rightarrow> ('d, 'w) world \<Rightarrow> waLoginQROutput tool \<times> ('d, 'w) world" where
  "wa_login_qr S gone w = (case svc_LoginQR S w of
     (Inl e, w) \<Rightarrow> mapErr e w
   | (Inr ch, w) \<Rightarrow>
       (if gone then ToolErr ''login_qr: timed out waiting for QR event''
        else (case ch of
            [] \<Rightarrow> ToolOut \<lparr>lqo_Code = '''', lqo_Terminal = False, lqo_Outcome = ''''\<rparr>
          | ev # _ \<Rightarrow> ToolOut \<lparr>lqo_Code = qr_Code ev, lqo_Terminal = qr_Terminal ev, lqo_Outcome = qr_Outcome ev\<rparr>), w))"

definition wa_login_phone :: "('d, 'w) svc \<Rightarrow> waLoginPhoneInput \<Rightarrow> bool \<Rightarrow> ('d, 'w) world \<Rightarrow> waLoginPhoneOutput tool \<times> ('d, 'w) world" where
  "wa_login_phone S inp gone w = (case svc_LoginPhone S (lpi_PhoneNumber inp) w of
     (Inl e, w) \<Rightarrow> mapErr e w
   | (Inr ch, w) \<Rightarrow>
       (if gone then ToolErr ''login_phone: timed out waiting for pairing code''
        else (case ch of
            [] \<Rightarrow> ToolOut \<lparr>lpo_Code = '''', lpo_Terminal = False, lpo_Outcome = ''''\<rparr>
          | ev # _ \<Rightarrow> ToolOut \<lparr>lpo_Code = pe_Code ev, lpo_Terminal = pe_Terminal ev, lpo_Outcome = pe_Outcome ev\<rparr>), w))"

definition wa_logout :: "('d, 'w) svc \<Rightarrow> ('d, 'w) world \<Rightarrow> waOK tool \<times> ('d, 'w) world" where
  "wa_logout S w = reply_ok (svc_Logout S w)"

section \<open>tools\_contacts.go\<close>

record waContactOutput =
  coo_JID :: string
  coo_PushName :: "string option"
  coo_FullName :: "string option"
  coo_BusinessName :: "string option"

record waListContactsOutput =
  lco_Contacts :: "waContactOutput list"

record waSearchContactsInput =
  sci_Query :: string
  sci_Limit :: int

definition contactToOutput :: "contact \<Rightarrow> waContactOutput" where
  "contactToOutput c = \<lparr>coo_JID = con_JID c,
     coo_PushName = (if con_PushName c \<noteq> '''' then Some (con_PushName c) else None),
     coo_FullName = (if con_FullName c \<noteq> '''' then Some (con_FullName c) else None),
     coo_BusinessName = (if con_BusinessName c \<noteq> '''' then Some (con_BusinessName c) else None)\<rparr>"

definition contactsToOutput :: "contact list \<Rightarrow> waContactOutput list" where
  "contactsToOutput cs = map contactToOutput cs"

definition wa_list_contacts :: "('d, 'w) svc \<Rightarrow> ('d, 'w) world \<Rightarrow> waListContactsOutput tool \<times> ('d, 'w) world" where
  "wa_list_contacts S w = reply (\<lambda>cs. \<lparr>lco_Contacts = contactsToOutput cs\<rparr>) (ListContacts S w)"

definition wa_search_contacts :: "('d, 'w) svc \<Rightarrow> waSearchContactsInput \<Rightarrow> ('d, 'w) world \<Rightarrow> waListContactsOutput tool \<times> ('d, 'w) world" where
  "wa_search_contacts S inp w = reply (\<lambda>cs. \<lparr>lco_Contacts = contactsToOutput cs\<rparr>) (SearchContacts S (sci_Query inp) (sci_Limit inp) w)"

section \<open>tools\_chats.go\<close>

text \<open>The message quotes the text it could not parse with \<open>%q\<close>, \<open>quote\<close>.\<close>

definition parseRFC3339OrZero :: "(string \<Rightarrow> string) \<Rightarrow> string \<Rightarrow> string + time" where
  "parseRFC3339OrZero quote s =
     (if s = '''' then Inr time_zero
      else case time_Parse s of
        None \<Rightarrow> Inl (''invalid before timestamp '' @ quote s @ '': must be RFC3339'')
      | Some t \<Rightarrow> Inr t)"

record waChatOutput =
  cho_JID :: string
  cho_Name :: "string option"
  cho_Kind :: string
  cho_LastMsgAt :: "string option"
  cho_UnreadCount :: int
  cho_Archived :: bool

record waListChatsOutput =
  lho_Chats :: "waChatOutput list"

record waListChatsInput =
  lhi_Before :: string
  lhi_Limit :: int
  lhi_IncludeArchived :: bool

record waGetChatInput =
  gci_JID :: string

definition chatToOutput :: "chat \<Rightarrow> waChatOutput" where
  "chatToOutput c = \<lparr>cho_JID = chat_JID c, cho_Name = (if chat_Name c \<noteq> '''' then Some (chat_Name c) else None),
     cho_Kind = chat_Kind c,
     cho_LastMsgAt = (if \<not> IsZero (chat_LastMsgAt c) then Some (format_rfc3339 (chat_LastMsgAt c)) else None),
     cho_UnreadCount = chat_UnreadCount c, cho_Archived = chat_Archived c\<rparr>"

definition chatsToOutput :: "chat list \<Rightarrow> waChatOutput list" where
  "chatsToOutput cs = map chatToOutput cs"

definition wa_list_chats :: "('d, 'w) svc \<Rightarrow> (string \<Rightarrow> string) \<Rightarrow> waListChatsInput \<Rightarrow> ('d, 'w) world \<Rightarrow> waListChatsOutput tool \<times> ('d, 'w) world" where
  "wa_list_chats S quote inp w = (case parseRFC3339OrZero quote (lhi_Before inp) of
     Inl bad \<Rightarrow> (ToolErr bad, w)
   | Inr before \<Rightarrow> reply (\<lambda>cs. \<lparr>lho_Chats = chatsToOutput cs\<rparr>)
       (ListChats S before (lhi_Limit inp) (lhi_IncludeArchived inp) w))"

definition wa_get_chat :: "('d, 'w) svc \<Rightarrow> waGetChatInput \<Rightarrow> ('d, 'w) world \<Rightarrow> waChatOutput tool \<times> ('d, 'w) world" where
  "wa_get_chat S inp w = reply chatToOutput (GetChat S (gci_JID inp) w)"

section \<open>tools\_groups.go\<close>

record waCreateGroupInput =
  cgi_Name :: string
  cgi_ParticipantJIDs :: "string list"

record waGroupMemberOutput =
  gmo_JID :: string
  gmo_IsAdmin :: bool
  gmo_IsSuperAdmin :: bool

record waGroupOutput =
  gro_JID :: string
  gro_Name :: string
  gro_OwnerJID :: string
  gro_CreatedAt :: time
  gro_Members :: "waGroupMemberOutput list"

record waCreateGroupOutput =
  cgo_Group :: waGroupOutput

record waGroupJIDInput =
  gji_GroupJID :: string

record waListGroupMembersOutput =
  lgo_Members :: "waGroupMemberOutput list"

record waUpdateGroupMembersInput =
  ugi_GroupJID :: string
  ugi_Action :: string
  ugi_ParticipantJIDs :: "string list"

record waParticipantChangeOutput =
  pco_JID :: string
  pco_OK :: bool
  pco_Error :: string

record waUpdateGroupMembersOutput =
  ugo_Results :: "waParticipantChangeOutput list"

definition groupMembersToOutput :: "group_member list \<Rightarrow> waGroupMemberOutput list" where
  "groupMembersToOutput = map (\<lambda>m. \<lparr>gmo_JID = gm_JID m, gmo_IsAdmin = gm_IsAdmin m, gmo_IsSuperAdmin = gm_IsSuperAdmin m\<rparr>)"

definition groupToOutput :: "wa_group \<Rightarrow> waGroupOutput" where
  "groupToOutput g = \<lparr>gro_JID = gr_JID g, gro_Name = gr_Name g, gro_OwnerJID = gr_OwnerJID g,
     gro_CreatedAt = gr_CreatedAt g, gro_Members = groupMembersToOutput (gr_Participants g)\<rparr>"

definition participantChangesToOutput :: "participant_change list \<Rightarrow> waParticipantChangeOutput list" where
  "participantChangesToOutput = map (\<lambda>c. \<lparr>pco_JID = pc_JID c, pco_OK = pc_OK c, pco_Error = pc_Error c\<rparr>)"

definition wa_create_group :: "('d, 'w) svc \<Rightarrow> waCreateGroupInput \<Rightarrow> ('d, 'w) world \<Rightarrow> waCreateGroupOutput tool \<times> ('d, 'w) world" where
  "wa_create_group S inp w = reply (\<lambda>g. \<lparr>cgo_Group = groupToOutput g\<rparr>) (CreateGroup S (cgi_Name inp) (cgi_ParticipantJIDs inp) w)"

definition wa_list_group_members :: "('d, 'w) svc \<Rightarrow> waGroupJIDInput \<Rightarrow> ('d, 'w) world \<Rightarrow> waListGroupMembersOutput tool \<times> ('d, 'w) world" where
  "wa_list_group_members S inp w = reply (\<lambda>ms. \<lparr>lgo_Members = groupMembersToOutput ms\<rparr>) (ListGroupMembers S (gji_GroupJID inp) w)"

definition wa_update_group_members :: "('d, 'w) svc \<Rightarrow> waUpdateGroupMembersInput \<Rightarrow> ('d, 'w) world
    \<Rightarrow> waUpdateGroupMembersOutput tool \<times> ('d, 'w) world" where
  "wa_update_group_members S inp w = reply (\<lambda>cs. \<lparr>ugo_Results = participantChangesToOutput cs\<rparr>)
     (UpdateGroupMembers S (ugi_GroupJID inp) (ugi_Action inp) (ugi_ParticipantJIDs inp) w)"

definition wa_leave_group :: "('d, 'w) svc \<Rightarrow> waGroupJIDInput \<Rightarrow> ('d, 'w) world \<Rightarrow> waOK tool \<times> ('d, 'w) world" where
  "wa_leave_group S inp w = reply_ok (LeaveGroup S (gji_GroupJID inp) w)"

end
