(* ===== verification/Mcp_Messages.thy ===== *)
theory Mcp_Messages
  imports Mcp
begin

text \<open>
  internal/transport/mcp/tools\_messages.go and tools\_messages\_write.go: the tools on messages, and
  the table of all the tools the server registers (server.go) with their annotations.
\<close>

section \<open>tools\_messages.go\<close>

record waMessageOutput =
  meo_ID :: string
  meo_ChatJID :: string
  meo_SenderJID :: string
  meo_TS :: string
  meo_Kind :: string
  meo_Body :: string
  meo_ReplyTo :: "string option"
  meo_EditedAt :: "string option"
  meo_DeletedAt :: "string option"

record waListMessagesOutput =
  lmo_Messages :: "waMessageOutput list"

record waReactionOutput =
  reo_MessageID :: string
  reo_SenderJID :: string
  reo_Emoji :: string
  reo_TS :: string

record waListReactionsOutput =
  lro_Reactions :: "waReactionOutput list"

record waReceiptOutput =
  rco_MessageID :: string
  rco_ReaderJID :: string
  rco_Type :: string
  rco_TS :: string

record waListReceiptsOutput =
  lpto_Receipts :: "waReceiptOutput list"

record waMediaRefOutput =
  mro_MessageID :: string
  mro_MIME :: string
  mro_Size :: int
  mro_SHA256 :: string
  mro_Path :: string

record waListMessagesInput =
  lmi_ChatJID :: string
  lmi_Before :: string
  lmi_Limit :: int

record waSearchMessagesInput =
  smi_Query :: string
  smi_Limit :: int

record waListReactionsInput =
  lri_MessageID :: string

record waListReceiptsInput =
  lpti_MessageID :: string

record waGetMediaInput =
  gmi_MessageID :: string

definition messageToOutput :: "message \<Rightarrow> waMessageOutput" where
  "messageToOutput m = \<lparr>meo_ID = msg_ID m, meo_ChatJID = msg_ChatJID m, meo_SenderJID = msg_SenderJID m,
     meo_TS = format_rfc3339 (msg_Timestamp m), meo_Kind = msg_Kind m, meo_Body = msg_Body m,
     meo_ReplyTo = (if msg_ReplyTo m \<noteq> '''' then Some (msg_ReplyTo m) else None),
     meo_EditedAt = map_option format_rfc3339 (msg_EditedAt m),
     meo_DeletedAt = map_option format_rfc3339 (msg_DeletedAt m)\<rparr>"

definition messagesToOutput :: "message list \<Rightarrow> waMessageOutput list" where
  "messagesToOutput ms = map messageToOutput ms"

definition reactionToOutput :: "reaction \<Rightarrow> waReactionOutput" where
  "reactionToOutput r = \<lparr>reo_MessageID = rea_MessageID r, reo_SenderJID = rea_SenderJID r, reo_Emoji = rea_Emoji r,
     reo_TS = format_rfc3339 (rea_Timestamp r)\<rparr>"

definition reactionsToOutput :: "reaction list \<Rightarrow> waReactionOutput list" where
  "reactionsToOutput rs = map reactionToOutput rs"

definition receiptToOutput :: "receipt \<Rightarrow> waReceiptOutput" where
  "receiptToOutput r = \<lparr>rco_MessageID = rec_MessageID r, rco_ReaderJID = rec_ReaderJID r, rco_Type = rec_Type r,
     rco_TS = format_rfc3339 (rec_Timestamp r)\<rparr>"

definition receiptsToOutput :: "receipt list \<Rightarrow> waReceiptOutput list" where
  "receiptsToOutput rs = map receiptToOutput rs"

definition mediaRefToOutput :: "media_ref \<Rightarrow> waMediaRefOutput" where
  "mediaRefToOutput ref = \<lparr>mro_MessageID = med_MessageID ref, mro_MIME = med_MIME ref, mro_Size = med_Size ref,
     mro_SHA256 = med_SHA256 ref, mro_Path = med_Path ref\<rparr>"

definition wa_list_messages :: "('d, 'w) svc \<Rightarrow> (string \<Rightarrow> string) \<Rightarrow> waListMessagesInput \<Rightarrow> ('d, 'w) world
    \<Rightarrow> waListMessagesOutput tool \<times> ('d, 'w) world" where
  "wa_list_messages S quote inp w = (case parseRFC3339OrZero quote (lmi_Before inp) of
     Inl bad \<Rightarrow> (ToolErr bad, w)
   | Inr before \<Rightarrow> reply (\<lambda>ms. \<lparr>lmo_Messages = messagesToOutput ms\<rparr>)
       (ListMessages S (lmi_ChatJID inp) before (lmi_Limit inp) w))"

definition wa_search_messages :: "('d, 'w) svc \<Rightarrow> waSearchMessagesInput \<Rightarrow> ('d, 'w) world
    \<Rightarrow> waListMessagesOutput tool \<times> ('d, 'w) world" where
  "wa_search_messages S inp w = reply (\<lambda>ms. \<lparr>lmo_Messages = messagesToOutput ms\<rparr>)
     (SearchMessages S (smi_Query inp) (smi_Limit inp) w)"

definition wa_list_reactions :: "('d, 'w) svc \<Rightarrow> waListReactionsInput \<Rightarrow> ('d, 'w) world
    \<Rightarrow> waListReactionsOutput tool \<times> ('d, 'w) world" where
  "wa_list_reactions S inp w = reply (\<lambda>rs. \<lparr>lro_Reactions = reactionsToOutput rs\<rparr>) (ListReactions S (lri_MessageID inp) w)"

definition wa_list_receipts :: "('d, 'w) svc \<Rightarrow> waListReceiptsInput \<Rightarrow> ('d, 'w) world
    \<Rightarrow> waListReceiptsOutput tool \<times> ('d, 'w) world" where
  "wa_list_receipts S inp w = reply (\<lambda>rs. \<lparr>lpto_Receipts = receiptsToOutput rs\<rparr>) (ListReceipts S (lpti_MessageID inp) w)"

definition wa_get_media :: "('d, 'w) svc \<Rightarrow> waGetMediaInput \<Rightarrow> ('d, 'w) world \<Rightarrow> waMediaRefOutput tool \<times> ('d, 'w) world" where
  "wa_get_media S inp w = reply mediaRefToOutput (GetMediaRef S (gmi_MessageID inp) w)"

section \<open>tools\_messages\_write.go\<close>

record waSendTextInput =
  sti_ChatJID :: string
  sti_Text :: string
  sti_ReplyTo :: string

record waSendTextOutput =
  stx_Message :: waMessageOutput

record waSendMediaInput =
  smd_ChatJID :: string
  smd_Kind :: string
  smd_BodyBase64 :: string
  smd_Caption :: string
  smd_MIMEType :: string
  smd_Filename :: string

record waSendMediaOutput =
  smo_Message :: waMessageOutput

record waEditMessageInput =
  emi_MessageID :: string
  emi_Text :: string

record waEditMessageOutput =
  emo_Message :: waMessageOutput

record waMessageIDInput =
  mii_MessageID :: string

record waReactInput =
  rei_MessageID :: string
  rei_Emoji :: string

record waTypingInput =
  tyi_ChatJID :: string
  tyi_State :: string

definition wa_send_text :: "('d, 'w) svc \<Rightarrow> waSendTextInput \<Rightarrow> ('d, 'w) world \<Rightarrow> waSendTextOutput tool \<times> ('d, 'w) world" where
  "wa_send_text S inp w = reply (\<lambda>m. \<lparr>stx_Message = messageToOutput m\<rparr>)
     (SendText S (sti_ChatJID inp) (sti_Text inp) (sti_ReplyTo inp) w)"

definition wa_send_media :: "('d, 'w) svc \<Rightarrow> waSendMediaInput \<Rightarrow> ('d, 'w) world \<Rightarrow> waSendMediaOutput tool \<times> ('d, 'w) world" where
  "wa_send_media S inp w = (case b64_decode (smd_BodyBase64 inp) of
     None \<Rightarrow> (ToolErr ''invalid request: body_base64 must be standard base64'', w)
   | Some body \<Rightarrow> reply (\<lambda>m. \<lparr>smo_Message = messageToOutput m\<rparr>)
       (SendMedia S \<lparr>smr_ChatJID = smd_ChatJID inp, smr_Kind = smd_Kind inp, smr_Caption = smd_Caption inp,
          smr_Filename = smd_Filename inp, smr_MIME = smd_MIMEType inp, smr_Body = body\<rparr> w))"

definition wa_edit_message :: "('d, 'w) svc \<Rightarrow> waEditMessageInput \<Rightarrow> ('d, 'w) world \<Rightarrow> waEditMessageOutput tool \<times> ('d, 'w) world" where
  "wa_edit_message S inp w = reply (\<lambda>m. \<lparr>emo_Message = messageToOutput m\<rparr>) (EditMessage S (emi_MessageID inp) (emi_Text inp) w)"

definition wa_delete_message :: "('d, 'w) svc \<Rightarrow> waMessageIDInput \<Rightarrow> ('d, 'w) world \<Rightarrow> waOK tool \<times> ('d, 'w) world" where
  "wa_delete_message S inp w = reply_ok (DeleteMessage S (mii_MessageID inp) w)"

definition wa_react :: "('d, 'w) svc \<Rightarrow> waReactInput \<Rightarrow> ('d, 'w) world \<Rightarrow> waOK tool \<times> ('d, 'w) world" where
  "wa_react S inp w = reply_ok (SendReaction S (rei_MessageID inp) (rei_Emoji inp) w)"

definition wa_mark_read :: "('d, 'w) svc \<Rightarrow> waMessageIDInput \<Rightarrow> ('d, 'w) world \<Rightarrow> waOK tool \<times> ('d, 'w) world" where
  "wa_mark_read S inp w = reply_ok (MarkMessageRead S (mii_MessageID inp) w)"

definition wa_typing :: "('d, 'w) svc \<Rightarrow> waTypingInput \<Rightarrow> ('d, 'w) world \<Rightarrow> waOK tool \<times> ('d, 'w) world" where
  "wa_typing S inp w = reply_ok (SendTyping S (tyi_ChatJID inp) (tyi_State inp) w)"

section \<open>The server\<close>

text \<open>A call of a tool by its name, with its typed input.\<close>

datatype call =
    CStatus | CStats
  | CListChats waListChatsInput | CGetChat waGetChatInput
  | CListContacts | CSearchContacts waSearchContactsInput
  | CListMessages waListMessagesInput | CSearchMessages waSearchMessagesInput
  | CListReactions waListReactionsInput | CListReceipts waListReceiptsInput | CGetMedia waGetMediaInput
  | CSendText waSendTextInput | CSendMedia waSendMediaInput | CEditMessage waEditMessageInput
  | CDeleteMessage waMessageIDInput | CReact waReactInput | CMarkRead waMessageIDInput | CTyping waTypingInput
  | CLoginQR bool | CLoginPhone waLoginPhoneInput bool | CLogout
  | CCreateGroup waCreateGroupInput | CListGroupMembers waGroupJIDInput
  | CUpdateGroupMembers waUpdateGroupMembersInput | CLeaveGroup waGroupJIDInput

text \<open>What the caller learns apart from the output itself.\<close>

definition outcome :: "'o tool \<times> 'b \<Rightarrow> unit tool \<times> 'b" where
  "outcome r = (case fst r of ToolErr m \<Rightarrow> ToolErr m | ToolFail m \<Rightarrow> ToolFail m | ToolOut x \<Rightarrow> ToolOut (), snd r)"

lemma snd_outcome [simp]: "snd (outcome r) = snd r"
  by (simp add: outcome_def)

primrec newServer :: "('d, 'w) svc \<Rightarrow> (string \<Rightarrow> string) \<Rightarrow> call \<Rightarrow> ('d, 'w) world \<Rightarrow> unit tool \<times> ('d, 'w) world" where
  "newServer S quote CStatus = (\<lambda>w. outcome (wa_status S w))"
| "newServer S quote CStats = (\<lambda>w. outcome (wa_stats S w))"
| "newServer S quote (CListChats i) = (\<lambda>w. outcome (wa_list_chats S quote i w))"
| "newServer S quote (CGetChat i) = (\<lambda>w. outcome (wa_get_chat S i w))"
| "newServer S quote CListContacts = (\<lambda>w. outcome (wa_list_contacts S w))"
| "newServer S quote (CSearchContacts i) = (\<lambda>w. outcome (wa_search_contacts S i w))"
| "newServer S quote (CListMessages i) = (\<lambda>w. outcome (wa_list_messages S quote i w))"
| "newServer S quote (CSearchMessages i) = (\<lambda>w. outcome (wa_search_messages S i w))"
| "newServer S quote (CListReactions i) = (\<lambda>w. outcome (wa_list_reactions S i w))"
| "newServer S quote (CListReceipts i) = (\<lambda>w. outcome (wa_list_receipts S i w))"
| "newServer S quote (CGetMedia i) = (\<lambda>w. outcome (wa_get_media S i w))"
| "newServer S quote (CSendText i) = (\<lambda>w. outcome (wa_send_text S i w))"
| "newServer S quote (CSendMedia i) = (\<lambda>w. outcome (wa_send_media S i w))"
| "newServer S quote (CEditMessage i) = (\<lambda>w. outcome (wa_edit_message S i w))"
| "newServer S quote (CDeleteMessage i) = (\<lambda>w. outcome (wa_delete_message S i w))"
| "newServer S quote (CReact i) = (\<lambda>w. outcome (wa_react S i w))"
| "newServer S quote (CMarkRead i) = (\<lambda>w. outcome (wa_mark_read S i w))"
| "newServer S quote (CTyping i) = (\<lambda>w. outcome (wa_typing S i w))"
| "newServer S quote (CLoginQR g) = (\<lambda>w. outcome (wa_login_qr S g w))"
| "newServer S quote (CLoginPhone i g) = (\<lambda>w. outcome (wa_login_phone S i g w))"
| "newServer S quote CLogout = (\<lambda>w. outcome (wa_logout S w))"
| "newServer S quote (CCreateGroup i) = (\<lambda>w. outcome (wa_create_group S i w))"
| "newServer S quote (CListGroupMembers i) = (\<lambda>w. outcome (wa_list_group_members S i w))"
| "newServer S quote (CUpdateGroupMembers i) = (\<lambda>w. outcome (wa_update_group_members S i w))"
| "newServer S quote (CLeaveGroup i) = (\<lambda>w. outcome (wa_leave_group S i w))"

text \<open>\<open>Annotations: ReadOnlyHint\<close>.\<close>

primrec read_only_hint :: "call \<Rightarrow> bool" where
  "read_only_hint CStatus = True" | "read_only_hint CStats = True"
| "read_only_hint (CListChats i) = True" | "read_only_hint (CGetChat i) = True"
| "read_only_hint CListContacts = True" | "read_only_hint (CSearchContacts i) = True"
| "read_only_hint (CListMessages i) = True" | "read_only_hint (CSearchMessages i) = True"
| "read_only_hint (CListReactions i) = True" | "read_only_hint (CListReceipts i) = True"
| "read_only_hint (CGetMedia i) = True"
| "read_only_hint (CSendText i) = False" | "read_only_hint (CSendMedia i) = False"
| "read_only_hint (CEditMessage i) = False" | "read_only_hint (CDeleteMessage i) = False"
| "read_only_hint (CReact i) = False" | "read_only_hint (CMarkRead i) = False" | "read_only_hint (CTyping i) = False"
| "read_only_hint (CLoginQR g) = False" | "read_only_hint (CLoginPhone i g) = False" | "read_only_hint CLogout = False"
| "read_only_hint (CCreateGroup i) = False" | "read_only_hint (CListGroupMembers i) = True"
| "read_only_hint (CUpdateGroupMembers i) = False" | "read_only_hint (CLeaveGroup i) = False"

end
