(* ===== verification/Mcp_Props.thy ===== *)
theory Mcp_Props
  imports Mcp_Messages Samples
begin

text \<open>
  Properties of the MCP tools: what the tools announced as read-only leave alone, the limits
  they refuse, and the bytes of a medium sent in base64.
\<close>

section \<open>What a call leaves alone\<close>

definition unchanged :: "('d \<Rightarrow> store_view) \<Rightarrow> ('d, 'w) world \<Rightarrow> ('d, 'w) world \<Rightarrow> bool" where
  "unchanged view w w' \<longleftrightarrow> view (w_db w') = view (w_db w) \<and> w_fs w' = w_fs w \<and> w_bc w' = w_bc w
     \<and> w_tasks w' = w_tasks w \<and> w_tick w' = w_tick w \<and> w_panic w' = w_panic w"

lemma unchanged_warn [simp]: "unchanged view w (warn m w') = unchanged view w w'"
  by (simp add: unchanged_def warn_def)

lemma unchanged_refl [simp]: "unchanged view w w"
  by (simp add: unchanged_def)

lemma snd_mapErr [simp]: "unchanged view w (snd (mapErr e w')) = unchanged view w w'"
  by (simp add: mapErr_def)

lemma snd_reply [simp]: "unchanged view w (snd (reply f r)) = unchanged view w (snd r)"
  by (simp add: reply_def split: prod.splits sum.splits)

context use_cases
begin

definition read_op :: "('d \<Rightarrow> 'r \<times> 'd) \<Rightarrow> bool" where
  "read_op f \<longleftrightarrow> (\<forall>d r d'. dinv d \<longrightarrow> f d = (r, d') \<longrightarrow> dinv d' \<and> view d' = view d)"

lemma law_read_op: "read_law dinv view calm f g \<Longrightarrow> read_op f" "list_law dinv view calm f P \<Longrightarrow> read_op f"
  unfolding read_op_def read_law_def list_law_def by metis+

lemmas reads [simp] = chat_get [THEN law_read_op(1)] chat_count [THEN law_read_op(1)] chat_unread [THEN law_read_op(1)]
  chat_list [THEN law_read_op(2)] message_get [THEN law_read_op(1)] message_count [THEN law_read_op(1)]
  contact_list [THEN law_read_op(2)] contact_search [THEN law_read_op(2)] contact_count [THEN law_read_op(1)]
  media_get [THEN law_read_op(1)] reaction_list [THEN law_read_op(2)] receipt_list [THEN law_read_op(2)]
  message_list [THEN law_read_op(2)] message_search [THEN law_read_op(2)]

definition kept :: "('d, 'w) world \<Rightarrow> ('d, 'w) world \<Rightarrow> bool" where
  "kept w w' \<longleftrightarrow> dinv (w_db w') \<and> unchanged view w w'"

lemma kept_on_db: "on_db f w1 = (r, w2) \<Longrightarrow> read_op f \<Longrightarrow> kept w w1 \<Longrightarrow> kept w w2"
proof -
  assume db: "on_db f w1 = (r, w2)" and read: "read_op f" and k: "kept w w1"
  obtain d where f: "f (w_db w1) = (r, d)" and w2: "w2 = w1\<lparr>w_db := d\<rparr>"
    using db unfolding on_db_def by (cases "f (w_db w1)") simp
  have "dinv (w_db w1)" using k by (simp add: kept_def)
  with read f have "dinv d" "view d = view (w_db w1)" unfolding read_op_def by blast+
  then show ?thesis using k w2 by (simp add: kept_def unchanged_def)
qed

lemma kept_ret: "read_op f \<Longrightarrow> kept w w1 \<Longrightarrow> kept w (snd (on_db f w1))"
  using kept_on_db [of f w1 "fst (on_db f w1)" "snd (on_db f w1)"] by simp

lemma kept_on_wa: "on_wa f w1 = (r, w2) \<Longrightarrow> kept w w1 \<Longrightarrow> kept w w2"
  by (auto simp: on_wa_def kept_def unchanged_def split: prod.splits)

lemma kept_bind:
  assumes "read_op f" "kept w w1" "\<And>e w2. kept w w2 \<Longrightarrow> kept w (snd (F e w2))" "\<And>x w2. kept w w2 \<Longrightarrow> kept w (snd (G x w2))"
  shows "kept w (snd (case on_db f w1 of (Inl e, w2) \<Rightarrow> F e w2 | (Inr x, w2) \<Rightarrow> G x w2))"
  using assms by (auto split: prod.split sum.split dest: kept_on_db)

lemma kept_Stats: "kept w w1 \<Longrightarrow> kept w (snd (Stats S w1))"
  unfolding Stats_def S_bundle by (intro kept_bind) simp_all

lemma kept_reads:
  assumes "kept w w1"
  shows "kept w (snd (ListChats S t l a w1))" "kept w (snd (GetChat S j w1))" "kept w (snd (ListContacts S w1))"
    "kept w (snd (SearchContacts S q l w1))" "kept w (snd (ListMessages S j t l w1))" "kept w (snd (SearchMessages S q l w1))"
    "kept w (snd (ListReactions S i w1))" "kept w (snd (ListReceipts S i w1))" "kept w (snd (GetMediaRef S i w1))"
  using assms by (auto simp: ListChats_def GetChat_def ListContacts_def SearchContacts_def ListMessages_def SearchMessages_def
      ListReactions_def ListReceipts_def GetMediaRef_def S_bundle split: option.split intro!: kept_ret dest: validateLimit_None)

lemma kept_ListGroupMembers: "kept w w1 \<Longrightarrow> kept w (snd (ListGroupMembers S j w1))"
  unfolding ListGroupMembers_def by (auto split: prod.splits sum.splits intro: kept_on_wa)

lemma read_only_unchanged:
  assumes "read_only_hint c" "dinv (w_db w)"
  shows "unchanged view w (snd (newServer S quote c w))"
proof -
  have k: "kept w w" using assms(2) by (simp add: kept_def unchanged_def)
  note defs = wa_status_def wa_stats_def wa_list_chats_def wa_get_chat_def wa_list_contacts_def wa_search_contacts_def
    wa_list_messages_def wa_search_messages_def wa_list_reactions_def wa_list_receipts_def wa_get_media_def
    wa_list_group_members_def
  note un = kept_reads [OF k] kept_Stats [OF k] kept_ListGroupMembers [OF k]
  show ?thesis
    by (use assms(1) in \<open>cases c\<close>; simp add: defs Let_def un [unfolded kept_def] split: sum.split)
qed

end

section \<open>Read-only tools\<close>

text \<open>Property C31: a tool announced with ``ReadOnlyHint'' leaves the store, the media files, the live stream and
  the pending downloads as they are, over both databases and whatever fails.\<close>

theorem mcp_read_only:
  assumes "read_only_hint c"
  shows "(conn_inv eng (w_db w) \<longrightarrow>
      unchanged sqlite_view w (snd (newServer (svc_New wa (sqlite_bundle eng) root sha live) quote c w)))
    \<and> (conn_inv eng (w_db w') \<longrightarrow>
      unchanged postgres_view w' (snd (newServer (svc_New wa' (postgres_bundle eng) root sha live) quote c w')))"
  using svc_sqlite.read_only_unchanged [OF assms] svc_postgres.read_only_unchanged [OF assms] by blast

theorem mcp_read_only_witness:
  "unchanged sqlite_view demo_lite (snd (newServer demo_svc (\<lambda>s. s) CStats demo_lite))"
  using conjunct1 [OF mcp_read_only, of CStats demo_engine demo_lite demo_wa "''/m''" demo_sha True "\<lambda>s. s"] by simp

section \<open>The default limit\<close>

text \<open>A listing or search whose limit is left out (zero, announced as ``service default'') is always
  refused, as an invalid request, without a look at the store.\<close>

theorem mcp_zero_limit:
  assumes "lhi_Limit a = 0" "lmi_Limit b = 0" "smi_Limit c = 0" "sci_Limit d = 0"
  shows "(\<exists>m. fst (wa_list_chats S quote a w) = ToolErr m) \<and> snd (wa_list_chats S quote a w) = w
    \<and> (\<exists>m. fst (wa_list_messages S quote b w) = ToolErr m) \<and> snd (wa_list_messages S quote b w) = w
    \<and> (\<exists>m. fst (wa_search_messages S c w) = ToolErr m) \<and> snd (wa_search_messages S c w) = w
    \<and> (\<exists>m. fst (wa_search_contacts S d w) = ToolErr m) \<and> snd (wa_search_contacts S d w) = w"
proof -
  note defs = reply_def mapErr_def tool_result_def invalid_def validateLimit_def minLimit_def maxLimit_def
  have "(\<exists>m. fst (wa_list_chats S quote a w) = ToolErr m) \<and> snd (wa_list_chats S quote a w) = w"
    using assms(1) by (simp add: wa_list_chats_def ListChats_def defs split: sum.split)
  moreover have "(\<exists>m. fst (wa_list_messages S quote b w) = ToolErr m) \<and> snd (wa_list_messages S quote b w) = w"
    using assms(2) by (simp add: wa_list_messages_def ListMessages_def defs split: sum.split)
  moreover have "(\<exists>m. fst (wa_search_messages S c w) = ToolErr m) \<and> snd (wa_search_messages S c w) = w"
    using assms(3) by (simp add: wa_search_messages_def SearchMessages_def defs)
  moreover have "(\<exists>m. fst (wa_search_contacts S d w) = ToolErr m) \<and> snd (wa_search_contacts S d w) = w"
    using assms(4) by (simp add: wa_search_contacts_def SearchContacts_def defs)
  ultimately show ?thesis by blast
qed

theorem mcp_zero_limit_witness:
  "\<exists>m. fst (wa_search_contacts demo_svc \<lparr>sci_Query = ''ann'', sci_Limit = 0\<rparr> demo_lite) = ToolErr m"
  using mcp_zero_limit [of "\<lparr>lhi_Before = '''', lhi_Limit = 0, lhi_IncludeArchived = False\<rparr>"
      "\<lparr>lmi_ChatJID = '''', lmi_Before = '''', lmi_Limit = 0\<rparr>" "\<lparr>smi_Query = '''', smi_Limit = 0\<rparr>"
      "\<lparr>sci_Query = ''ann'', sci_Limit = 0\<rparr>" demo_svc] by simp

section \<open>Media in base64\<close>

text \<open>Property C33: whatever line breaks it is wrapped with, the standard base64 of a body reaches the service as
  exactly that body; a text that is no base64 is refused without effect.\<close>

theorem mcp_media_bytes:
  "(filter (\<lambda>c. c \<noteq> CHR 0x0A \<and> c \<noteq> CHR 0x0D) (smd_BodyBase64 inp) = b64_encode body \<longrightarrow>
     wa_send_media S inp w = reply (\<lambda>m. \<lparr>smo_Message = messageToOutput m\<rparr>)
       (SendMedia S \<lparr>smr_ChatJID = smd_ChatJID inp, smr_Kind = smd_Kind inp, smr_Caption = smd_Caption inp,
          smr_Filename = smd_Filename inp, smr_MIME = smd_MIMEType inp, smr_Body = body\<rparr> w))
   \<and> (b64_decode (smd_BodyBase64 inp) = None \<longrightarrow>
     wa_send_media S inp w = (ToolErr ''invalid request: body_base64 must be standard base64'', w))"
  using b64_decode_encode [of "smd_BodyBase64 inp" body] by (simp add: wa_send_media_def)

theorem mcp_media_bytes_witness:
  "wa_send_media demo_svc \<lparr>smd_ChatJID = demo_peer, smd_Kind = ''image'', smd_BodyBase64 = ''aGk'' @ CHR 0x0A # ''='',
       smd_Caption = '''', smd_MIMEType = ''image/png'', smd_Filename = ''''\<rparr> demo_lite
     = reply (\<lambda>m. \<lparr>smo_Message = messageToOutput m\<rparr>)
       (SendMedia demo_svc \<lparr>smr_ChatJID = demo_peer, smr_Kind = ''image'', smr_Caption = '''',
          smr_Filename = '''', smr_MIME = ''image/png'', smr_Body = ''hi''\<rparr> demo_lite)"
proof -
  let ?inp = "\<lparr>smd_ChatJID = demo_peer, smd_Kind = ''image'', smd_BodyBase64 = ''aGk'' @ CHR 0x0A # ''='',
       smd_Caption = '''', smd_MIMEType = ''image/png'', smd_Filename = ''''\<rparr>"
  have "filter (\<lambda>c. c \<noteq> CHR 0x0A \<and> c \<noteq> CHR 0x0D) (smd_BodyBase64 ?inp) = b64_encode ''hi''"
    by (simp add: b64_digit_def dig1_def dig2_def dig3_def byte_def) code_simp
  then show ?thesis using conjunct1 [OF mcp_media_bytes, of ?inp "''hi''" demo_svc demo_lite] by simp
qed

end
