(* ===== verification/Transports.thy ===== *)
theory Transports
  imports Mcp_Messages Samples
begin

text \<open>
  The two transports over one service: which HTTP request carries the same arguments as a tool call
  (\<open>carries\<close>), and that the two then do the same and answer alike (\<open>agree\<close>).
\<close>

section \<open>The same request\<close>

text \<open>
  The tool that gives a medium has no counterpart: it answers with the record, the endpoint with the
  file. A login tool agrees with the endpoint while its caller has not gone away. The limit of a tool is
  a number, that of a request the text of one or left out.
\<close>

primrec carries :: "(string \<Rightarrow> string) \<Rightarrow> call \<Rightarrow> endpoint \<Rightarrow> request \<Rightarrow> bool" where
  "carries by_ext CStatus ep rq = (ep = Ep_Status)"
| "carries by_ext CStats ep rq = (ep = Ep_Stats)"
| "carries by_ext (CListChats i) ep rq = (ep = Ep_ListChats \<and> parseLimit rq = Inr (lhi_Limit i)
     \<and> values_get (rq_query rq) ''before'' = lhi_Before i \<and> parseIncludeArchived rq = Inr (lhi_IncludeArchived i))"
| "carries by_ext (CGetChat i) ep rq = (ep = Ep_GetChat (gci_JID i))"
| "carries by_ext CListContacts ep rq = (ep = Ep_ListContacts)"
| "carries by_ext (CSearchContacts i) ep rq = (ep = Ep_SearchContacts \<and> values_get (rq_query rq) ''q'' = sci_Query i
     \<and> parseLimit rq = Inr (sci_Limit i))"
| "carries by_ext (CListMessages i) ep rq = (ep = Ep_ListMessagesByChat (lmi_ChatJID i) \<and> parseLimit rq = Inr (lmi_Limit i)
     \<and> values_get (rq_query rq) ''before'' = lmi_Before i)"
| "carries by_ext (CSearchMessages i) ep rq = (ep = Ep_SearchMessages \<and> values_get (rq_query rq) ''q'' = smi_Query i
     \<and> parseLimit rq = Inr (smi_Limit i))"
| "carries by_ext (CListReactions i) ep rq = (ep = Ep_ListReactions (lri_MessageID i))"
| "carries by_ext (CListReceipts i) ep rq = (ep = Ep_ListReceipts (lpti_MessageID i))"
| "carries by_ext (CGetMedia i) ep rq = False"
| "carries by_ext (CSendText i) ep rq = (ep = Ep_SendText \<and> str_field ''chat_jid'' (rq_body rq) = Some (sti_ChatJID i)
     \<and> str_field ''text'' (rq_body rq) = Some (sti_Text i) \<and> str_field ''reply_to'' (rq_body rq) = Some (sti_ReplyTo i))"
| "carries by_ext (CSendMedia i) ep rq = (ep = Ep_SendMedia \<and> (case rq_form rq of Inl e \<Rightarrow> False
     | Inr fm \<Rightarrow> (case fm_file fm of None \<Rightarrow> False
         | Some fl \<Rightarrow> (\<exists>body. ff_body fl = Inr body \<and> b64_decode (smd_BodyBase64 i) = Some body)
             \<and> pickMIME by_ext (ff_type fl) (smd_Filename i) = smd_MIMEType i)
       \<and> values_get (fm_values fm) ''chat_jid'' = smd_ChatJID i \<and> values_get (fm_values fm) ''kind'' = smd_Kind i
       \<and> values_get (fm_values fm) ''caption'' = smd_Caption i \<and> values_get (fm_values fm) ''filename'' = smd_Filename i))"
| "carries by_ext (CEditMessage i) ep rq = (ep = Ep_EditMessage (emi_MessageID i) \<and> str_field ''text'' (rq_body rq) = Some (emi_Text i))"
| "carries by_ext (CDeleteMessage i) ep rq = (ep = Ep_DeleteMessage (mii_MessageID i))"
| "carries by_ext (CReact i) ep rq = (ep = Ep_SendReaction (rei_MessageID i) \<and> str_field ''emoji'' (rq_body rq) = Some (rei_Emoji i))"
| "carries by_ext (CMarkRead i) ep rq = (ep = Ep_MarkRead (mii_MessageID i))"
| "carries by_ext (CTyping i) ep rq = (ep = Ep_SendTyping (tyi_ChatJID i) \<and> str_field ''state'' (rq_body rq) = Some (tyi_State i))"
| "carries by_ext (CLoginQR gone) ep rq = (ep = Ep_LoginQR \<and> \<not> gone)"
| "carries by_ext (CLoginPhone i gone) ep rq = (ep = Ep_LoginPhone \<and> \<not> gone
     \<and> str_field ''phone_number'' (rq_body rq) = Some (lpi_PhoneNumber i))"
| "carries by_ext CLogout ep rq = (ep = Ep_Logout)"
| "carries by_ext (CCreateGroup i) ep rq = (ep = Ep_CreateGroup \<and> str_field ''name'' (rq_body rq) = Some (cgi_Name i)
     \<and> strs_field ''participants'' (rq_body rq) = Some (cgi_ParticipantJIDs i))"
| "carries by_ext (CListGroupMembers i) ep rq = (ep = Ep_ListGroupMembers (gji_GroupJID i))"
| "carries by_ext (CUpdateGroupMembers i) ep rq = (ep = Ep_UpdateGroupMembers (ugi_GroupJID i)
     \<and> str_field ''action'' (rq_body rq) = Some (ugi_Action i)
     \<and> strs_field ''participants'' (rq_body rq) = Some (ugi_ParticipantJIDs i))"
| "carries by_ext (CLeaveGroup i) ep rq = (ep = Ep_LeaveGroup (gji_GroupJID i))"

section \<open>The same answer\<close>

text \<open>
  What a request is answered when its tool call gives an error text (\<open>refusals\<close>) and when it fails
  with ``internal error'' (\<open>failures\<close>).
\<close>

definition refusals :: "call \<Rightarrow> nat set" where
  "refusals c = (case c of CEditMessage i \<Rightarrow> {400, 403, 404} | CDeleteMessage i \<Rightarrow> {400, 403, 404} | _ \<Rightarrow> {400, 404, 500})"

definition failures :: "call \<Rightarrow> nat set" where
  "failures c = (case c of CLoginPhone i g \<Rightarrow> {400, 409, 500} | _ \<Rightarrow> {409, 500})"

definition agree :: "nat set \<Rightarrow> nat set \<Rightarrow> response \<times> ('d, 'w) world \<Rightarrow> 'o tool \<times> ('d, 'w) world \<Rightarrow> bool" where
  "agree refused failed h m \<longleftrightarrow> (snd m = snd h \<or> snd m = warn ''mcp tool error'' (snd h))
     \<and> (case fst m of
          ToolOut x \<Rightarrow> rs_status (fst h) \<in> {200, 201, 204}
        | ToolErr t \<Rightarrow> rs_status (fst h) \<in> refused
        | ToolFail t \<Rightarrow> rs_status (fst h) \<in> failed \<and> t = ''internal error'')"

lemma agree_outcome [simp]: "agree re fa h (outcome m) = agree re fa h m"
  by (auto simp: agree_def outcome_def split: tool.split)

section \<open>Errors of the service\<close>

text \<open>\<open>good_cases\<close>: a switch whose statuses fit the three errors a tool tells.\<close>

fun good_cases :: "nat set \<Rightarrow> err_case list \<Rightarrow> bool" where
  "good_cases re [] = (500 \<in> re)"
| "good_cases re ((k, st, c) # cs) = ((if k \<in> {EInvalidRequest, EForbidden, ENotFound} then st \<in> re else st = 409) \<and> good_cases re cs)"

lemma err_switch_status:
  "good_cases re cs \<Longrightarrow> rs_status (err_switch cs code e)
    \<in> (if is_err EInvalidRequest e \<or> is_err EForbidden e \<or> is_err ENotFound e then re else {409, 500})"
  by (induction cs) (auto simp: WriteProblem_def is_err_def split: if_splits)

lemma agree_switch: "good_cases re cs \<Longrightarrow> {409, 500} \<subseteq> fa \<Longrightarrow> agree re fa (err_switch cs code e, w) (mapErr e w)"
  using err_switch_status [of re cs code e] by (auto simp: agree_def mapErr_def tool_result_def split: if_splits)

lemma agree_switch_strict:
  "agree {400, 403, 404} {409, 500} (err_switch [case_invalid, case_forbidden, case_no_message, case_not_connected] code e, w) (mapErr e w)"
  by (auto simp: agree_def mapErr_def tool_result_def case_defs WriteProblem_def is_err_def)

lemma agree_ok: "rs_status r \<in> {200, 201, 204} \<Longrightarrow> agree re fa (r, w) (ToolOut x, w)"
  by (simp add: agree_def)

lemma agree_invalid: "400 \<in> re \<Longrightarrow> agree re fa (bad_request d, w) (mapErr (invalid m) w)"
  by (simp add: agree_def mapErr_def tool_result_def invalid_def bad_request_def WriteProblem_def)

lemma good_cases_all [simp]:
  "good_cases {400, 404, 500} []" "good_cases {400, 404, 500} [case_invalid]" "good_cases {400, 404, 500} [case_invalid, case_not_connected]"
  "good_cases {400, 404, 500} [case_invalid, case_no_message, case_not_connected]"
  "good_cases {400, 404, 500} [case_logged_in, case_in_progress]" "good_cases {400, 404, 500} [case_not_logged_in]"
  by (simp_all add: case_defs case_logged_in_def case_in_progress_def case_not_logged_in_def)

text \<open>One rule for a handler that calls the service once, with and without a result.\<close>

abbreviation agrees :: "response \<times> ('d, 'w) world \<Rightarrow> 'o tool \<times> ('d, 'w) world \<Rightarrow> bool" where
  "agrees \<equiv> agree {400, 404, 500} {409, 500}"

lemma agree_call:
  assumes "good_cases re cs" "{409, 500} \<subseteq> fa" "\<And>x. rs_status (h x) \<in> {200, 201, 204}"
  shows "agree re fa (case p of (Inl e, w) \<Rightarrow> (err_switch cs code e, w) | (Inr x, w) \<Rightarrow> (h x, w)) (reply f p)"
  by (auto simp: reply_def split: prod.split sum.split intro!: agree_switch [OF assms(1,2)] agree_ok [OF assms(3)])

lemma agree_call_ok:
  assumes "good_cases re cs" "{409, 500} \<subseteq> fa"
  shows "agree re fa (case p of (Some e, w) \<Rightarrow> (err_switch cs code e, w) | (None, w) \<Rightarrow> (no_content, w)) (reply_ok p)"
  by (auto simp: reply_ok_def no_content_def split: prod.split option.split intro!: agree_switch [OF assms] agree_ok)

lemma written [simp]: "rs_status (writeJSON st v) = st" "rs_status (SSEPrepare b) = 200" "rs_status no_content = 204"
  by (simp_all add: writeJSON_def SSEPrepare_def no_content_def)

section \<open>Call by call\<close>

lemma agree_reads:
  "agrees (StatusHandler S w) (wa_status S w)"
  "agrees (StatsHandler S w) (wa_stats S w)"
  "agrees (ListContactsHandler S w) (wa_list_contacts S w)"
  "agrees (ListReactionsHandler S (lri_MessageID i) w) (wa_list_reactions S i w)"
  "agrees (ListReceiptsHandler S (lpti_MessageID i') w) (wa_list_receipts S i' w)"
  "agrees (ListGroupMembersHandler S (gji_GroupJID g) w) (wa_list_group_members S g w)"
  unfolding StatusHandler_def wa_status_def Let_def StatsHandler_def wa_stats_def ListContactsHandler_def wa_list_contacts_def
    ListReactionsHandler_def wa_list_reactions_def ListReceiptsHandler_def wa_list_receipts_def
    ListGroupMembersHandler_def wa_list_group_members_def
  by (rule agree_ok agree_call; simp)+

lemma agree_writes:
  "agrees (MarkReadHandler S (mii_MessageID m) w) (wa_mark_read S m w)"
  "agrees (LeaveGroupHandler S (gji_GroupJID g) w) (wa_leave_group S g w)"
  "agrees (LogoutHandler S w) (wa_logout S w)"
  unfolding MarkReadHandler_def wa_mark_read_def LeaveGroupHandler_def wa_leave_group_def LogoutHandler_def wa_logout_def
  by (rule agree_call_ok; simp)+

lemma agree_GetChat: "agrees (GetChatHandler S (gci_JID i) w) (wa_get_chat S i w)"
  by (auto simp: GetChatHandler_def wa_get_chat_def reply_def agree_def mapErr_def tool_result_def WriteProblem_def is_err_def
      split: prod.split sum.split)

lemma parse_before:
  assumes "values_get (rq_query rq) ''before'' = s"
  shows "case parseRFC3339OrZero quote s of Inl m \<Rightarrow> \<exists>d. parseBefore rq = Inl d | Inr t \<Rightarrow> parseBefore rq = Inr t"
  using assms by (auto simp: parseRFC3339OrZero_def parseBefore_def Let_def split: option.split)

lemma agree_bad_text: "agrees (bad_request d, w) (ToolErr m, w)"
  by (simp add: agree_def bad_request_def WriteProblem_def)

lemma agree_ListChats:
  assumes "carries by_ext (CListChats i) ep rq"
  shows "agrees (ListChatsHandler S rq w) (wa_list_chats S quote i w)"
  using assms parse_before [of rq "lhi_Before i" quote]
  by (cases "parseRFC3339OrZero quote (lhi_Before i)")
    (auto simp: ListChatsHandler_def wa_list_chats_def agree_bad_text intro!: agree_call)

lemma agree_ListMessages:
  assumes "carries by_ext (CListMessages i) ep rq"
  shows "agrees (ListMessagesByChatHandler S (lmi_ChatJID i) rq w) (wa_list_messages S quote i w)"
  using assms parse_before [of rq "lmi_Before i" quote]
  by (cases "parseRFC3339OrZero quote (lmi_Before i)")
    (auto simp: ListMessagesByChatHandler_def wa_list_messages_def agree_bad_text intro!: agree_call)

lemma agree_SearchMessages:
  assumes "carries by_ext (CSearchMessages i) ep rq"
  shows "agrees (SearchMessagesHandler S rq w) (wa_search_messages S i w)"
proof (cases "smi_Query i = ''''")
  case True
  then show ?thesis using assms
    by (simp add: SearchMessagesHandler_def wa_search_messages_def SearchMessages_def reply_def agree_invalid)
next
  case False
  then show ?thesis using assms
    by (auto simp: SearchMessagesHandler_def wa_search_messages_def intro!: agree_call)
qed

lemma agree_SearchContacts:
  assumes "carries by_ext (CSearchContacts i) ep rq"
  shows "agrees (SearchContactsHandler S rq w) (wa_search_contacts S i w)"
proof (cases "sci_Query i = ''''")
  case True
  then show ?thesis using assms
    by (simp add: SearchContactsHandler_def wa_search_contacts_def SearchContacts_def reply_def agree_invalid)
next
  case False
  then show ?thesis using assms
    by (auto simp: SearchContactsHandler_def wa_search_contacts_def intro!: agree_call)
qed

lemma agree_SendText:
  assumes "carries by_ext (CSendText i) ep rq"
  shows "agrees (SendTextHandler S rq w) (wa_send_text S i w)"
proof (cases "sti_ChatJID i = '''' \<or> sti_Text i = '''' \<or> maxTextLen < length (sti_Text i)")
  case True
  then obtain m where "SendText S (sti_ChatJID i) (sti_Text i) (sti_ReplyTo i) w = (Inl (invalid m), w)"
    by (cases "TrimSpace (sti_ChatJID i) = []"; cases "sti_Text i = []") (auto simp: SendText_def)
  then show ?thesis using assms True
    by (auto simp: SendTextHandler_def wa_send_text_def reply_def agree_invalid)
next
  case False
  then show ?thesis using assms
    by (auto simp: SendTextHandler_def wa_send_text_def intro!: agree_call)
qed

lemma agree_SendMedia:
  assumes "carries by_ext (CSendMedia i) ep rq"
  shows "agrees (SendMediaHandler S by_ext rq w) (wa_send_media S i w)"
proof -
  obtain fm fl body where "rq_form rq = Inr fm" "fm_file fm = Some fl" "ff_body fl = Inr body"
      "b64_decode (smd_BodyBase64 i) = Some body"
    using assms by (auto split: sum.splits option.splits)
  then show ?thesis using assms
    by (auto simp: SendMediaHandler_def wa_send_media_def Let_def intro!: agree_call)
qed

lemma agree_edit:
  assumes "carries by_ext (CEditMessage i) ep rq"
  shows "agree {400, 403, 404} {409, 500} (EditMessageHandler S (emi_MessageID i) rq w) (wa_edit_message S i w)"
proof (cases "emi_Text i = ''''")
  case True
  then have "EditMessage S (emi_MessageID i) (emi_Text i) w =
      (Inl (invalid (if TrimSpace (emi_MessageID i) = [] then ''message_id is required'' else ''text is required'')), w)"
    by (simp add: EditMessage_def)
  then show ?thesis using assms True by (simp add: EditMessageHandler_def wa_edit_message_def reply_def agree_invalid)
next
  case False
  then show ?thesis using assms
    by (auto simp: EditMessageHandler_def wa_edit_message_def reply_def agree_switch_strict split: prod.split sum.split intro!: agree_ok)
qed

lemma agree_delete: "agree {400, 403, 404} {409, 500} (DeleteMessageHandler S (mii_MessageID i) w) (wa_delete_message S i w)"
  by (auto simp: DeleteMessageHandler_def wa_delete_message_def reply_ok_def agree_switch_strict
      split: prod.split option.split intro!: agree_ok)

lemma agree_react:
  assumes "carries by_ext (CReact i) ep rq"
  shows "agrees (SendReactionHandler S (rei_MessageID i) rq w) (wa_react S i w)"
  using assms by (auto simp: SendReactionHandler_def wa_react_def intro!: agree_call_ok)

lemma agree_typing:
  assumes "carries by_ext (CTyping i) ep rq"
  shows "agrees (SendTypingHandler S (tyi_ChatJID i) rq w) (wa_typing S i w)"
  using assms by (auto simp: SendTypingHandler_def wa_typing_def intro!: agree_call_ok)

lemma agree_create_group:
  assumes "carries by_ext (CCreateGroup i) ep rq"
  shows "agrees (CreateGroupHandler S rq w) (wa_create_group S i w)"
  using assms by (auto simp: CreateGroupHandler_def wa_create_group_def intro!: agree_call)

lemma agree_update_group:
  assumes "carries by_ext (CUpdateGroupMembers i) ep rq"
  shows "agrees (UpdateGroupMembersHandler S (ugi_GroupJID i) rq w) (wa_update_group_members S i w)"
  using assms by (auto simp: UpdateGroupMembersHandler_def wa_update_group_members_def intro!: agree_call)

lemma agree_qr: "agrees (LoginQRHandler S w) (wa_login_qr S False w)"
  using agree_switch [of "{400, 404, 500}" "[case_logged_in, case_in_progress]" "{409, 500}"]
  by (auto simp: LoginQRHandler_def wa_login_qr_def split: prod.split sum.split list.split intro!: agree_ok)

lemma agree_phone:
  assumes "carries by_ext (CLoginPhone i g) ep rq"
  shows "agree {400, 404, 500} {400, 409, 500} (LoginPhoneHandler S rq w) (wa_login_phone S i g w)"
proof (cases "IsValidPhoneNumber (lpi_PhoneNumber i)")
  case True
  then show ?thesis using assms agree_switch [of "{400, 404, 500}" "[case_logged_in, case_in_progress]" "{400, 409, 500}"]
    by (auto simp: LoginPhoneHandler_def wa_login_phone_def split: prod.split sum.split list.split intro!: agree_ok)
next
  case False
  then show ?thesis using assms
    by (simp add: LoginPhoneHandler_def wa_login_phone_def svc_LoginPhone_def agree_def mapErr_def tool_result_def is_err_def
        bad_request_def WriteProblem_def)
qed

section \<open>All calls\<close>

definition answers :: "nat set \<Rightarrow> nat set \<Rightarrow> reply \<times> ('d, 'w) world \<Rightarrow> 'o tool \<times> ('d, 'w) world \<Rightarrow> bool" where
  "answers refused failed h m \<longleftrightarrow> (\<exists>r. fst h = Plain r \<and> agree refused failed (r, snd h) m)"

lemma answers_plain [simp]: "answers re fa (case x of (r, w) \<Rightarrow> (Plain r, w)) m = agree re fa x m"
  by (cases x) (simp add: answers_def)

text \<open>Property C32: a tool call and the HTTP request that carries the same arguments do the same and answer alike,
  for every tool but the one that gives a medium, over any store and any client and whatever they
  answer: a success is a success of both (200, 201 or 204), what the tool tells as an error HTTP
  refuses, and where the tool only says ``internal error'' (so also when the client is offline) HTTP
  says 409 or 500.\<close>

theorem transports_agree:
  assumes "carries by_ext c ep rq"
  shows "answers (refusals c) (failures c) (handle S mcp by_ext ep rq w) (newServer S quote c w)"
proof -
  note defs = handle_def refusals_def failures_def
  show ?thesis
  proof (cases c)
    case (CListChats i)
    then show ?thesis using assms agree_ListChats [of by_ext i ep rq S w quote] by (simp add: defs)
  next
    case (CListMessages i)
    then show ?thesis using assms agree_ListMessages [of by_ext i ep rq S w quote] by (simp add: defs)
  next
    case (CSearchMessages i)
    then show ?thesis using assms agree_SearchMessages [of by_ext i ep rq S w] by (simp add: defs)
  next
    case (CSearchContacts i)
    then show ?thesis using assms agree_SearchContacts [of by_ext i ep rq S w] by (simp add: defs)
  next
    case (CSendText i)
    then show ?thesis using assms agree_SendText [of by_ext i ep rq S w] by (simp add: defs)
  next
    case (CSendMedia i)
    then show ?thesis using assms agree_SendMedia [of by_ext i ep rq S w] by (simp add: defs)
  next
    case (CEditMessage i)
    then show ?thesis using assms agree_edit [of by_ext i ep rq S w] by (simp add: defs)
  next
    case (CReact i)
    then show ?thesis using assms agree_react [of by_ext i ep rq S w] by (simp add: defs)
  next
    case (CTyping i)
    then show ?thesis using assms agree_typing [of by_ext i ep rq S w] by (simp add: defs)
  next
    case (CLoginPhone i g)
    then show ?thesis using assms agree_phone [of by_ext i g ep rq S w] by (simp add: defs)
  next
    case (CCreateGroup i)
    then show ?thesis using assms agree_create_group [of by_ext i ep rq S w] by (simp add: defs)
  next
    case (CUpdateGroupMembers i)
    then show ?thesis using assms agree_update_group [of by_ext i ep rq S w] by (simp add: defs)
  qed (use assms in \<open>simp_all add: defs agree_reads agree_writes agree_GetChat agree_delete agree_qr\<close>)
qed

theorem transports_agree_witness:
  "answers {400, 403, 404} {409, 500}
     (handle demo_svc True (\<lambda>_. '''') (Ep_EditMessage ''A2'') \<lparr>rq_auth = '''', rq_last_id = '''', rq_query = [],
        rq_body = Some (JObj [(''text'', JStr ''hi'')]), rq_form = Inl ErrNotFound\<rparr> demo_lite)
     (newServer demo_svc (\<lambda>s. s) (CEditMessage \<lparr>emi_MessageID = ''A2'', emi_Text = ''hi''\<rparr>) demo_lite)"
proof -
  let ?rq = "\<lparr>rq_auth = '''', rq_last_id = '''', rq_query = [],
        rq_body = Some (JObj [(''text'', JStr ''hi'')]), rq_form = Inl ErrNotFound\<rparr>"
  have "carries (\<lambda>_. '''') (CEditMessage \<lparr>emi_MessageID = ''A2'', emi_Text = ''hi''\<rparr>) (Ep_EditMessage ''A2'') ?rq"
    by (simp add: json_field_def is_field_def fold_name_def)
  from transports_agree [OF this, of demo_svc True demo_lite "\<lambda>s. s"] show ?thesis
    by (simp add: refusals_def failures_def)
qed

end
