(* ===== verification/Go_Json_Strings.thy ===== *)
theory Go_Json_Strings
  imports Go_Json
begin

text \<open>
  How \<open>encoding/json\<close> reads a string literal: escapes, surrogate pairs, the replacement of invalid
  UTF-8; and that it gives back what \<open>Marshal\<close> quoted.
\<close>

section \<open>UTF-8 encoding\<close>

text \<open>\<open>utf8.EncodeRune\<close>, for the runes that occur here (below U+110000).\<close>

definition encode_rune :: "nat \<Rightarrow> string" where
  "encode_rune r =
     (if r < 128 then [char_of r]
      else if r < 2048 then [char_of (192 + r div 64), char_of (128 + r mod 64)]
      else if r < 65536 then [char_of (224 + r div 4096), char_of (128 + r div 64 mod 64), char_of (128 + r mod 64)]
      else [char_of (240 + r div 262144), char_of (128 + r div 4096 mod 64), char_of (128 + r div 64 mod 64),
            char_of (128 + r mod 64)])"

text \<open>The bytes of U+FFFD.\<close>

definition replacement :: string where
  "replacement = [char_of (239::nat), char_of (191::nat), char_of (189::nat)]"

definition invalid_rune :: "nat \<times> nat \<Rightarrow> bool" where
  "invalid_rune rw \<longleftrightarrow> rw = (65533, 1)"

lemma char_of_byte [simp]: "char_of (byte c) = c"
  by (simp add: byte_def)

lemma split64: "b < 64 \<Longrightarrow> (a * 64 + b) div 64 = a" "b < 64 \<Longrightarrow> (a * 64 + b) mod 64 = (b :: nat)"
  by simp_all

lemma split_3: "b < 64 \<Longrightarrow> c < 64 \<Longrightarrow> (a * 4096 + b * 64 + c) div 4096 = a"
  "b < 64 \<Longrightarrow> c < 64 \<Longrightarrow> (a * 4096 + b * 64 + c) div 64 mod 64 = b"
  "b < 64 \<Longrightarrow> c < 64 \<Longrightarrow> (a * 4096 + b * 64 + c) mod 64 = (c :: nat)"
proof -
  assume l: "b < 64" "c < 64"
  have e: "a * 4096 + b * 64 + c = (a * 64 + b) * 64 + c" by simp
  have d: "(a * 4096 + b * 64 + c) div 64 = a * 64 + b" unfolding e by (rule split64(1) [OF l(2)])
  show "(a * 4096 + b * 64 + c) div 64 mod 64 = b" unfolding d using l by simp
  have "(a * 4096 + b * 64 + c) div 4096 = (a * 4096 + b * 64 + c) div 64 div 64" by (simp add: div_mult2_eq)
  then show "(a * 4096 + b * 64 + c) div 4096 = a" unfolding d using l by simp
  show "(a * 4096 + b * 64 + c) mod 64 = c" unfolding e by (rule split64(2) [OF l(2)])
qed

lemma split_4: "b < 64 \<Longrightarrow> c < 64 \<Longrightarrow> d < 64 \<Longrightarrow> (a * 262144 + b * 4096 + c * 64 + d) div 262144 = a"
  "b < 64 \<Longrightarrow> c < 64 \<Longrightarrow> d < 64 \<Longrightarrow> (a * 262144 + b * 4096 + c * 64 + d) div 4096 mod 64 = b"
  "b < 64 \<Longrightarrow> c < 64 \<Longrightarrow> d < 64 \<Longrightarrow> (a * 262144 + b * 4096 + c * 64 + d) div 64 mod 64 = c"
  "b < 64 \<Longrightarrow> c < 64 \<Longrightarrow> d < 64 \<Longrightarrow> (a * 262144 + b * 4096 + c * 64 + d) mod 64 = (d :: nat)"
proof -
  assume l: "b < 64" "c < 64" "d < 64"
  have e: "a * 262144 + b * 4096 + c * 64 + d = (a * 4096 + b * 64 + c) * 64 + d" by simp
  have q: "(a * 262144 + b * 4096 + c * 64 + d) div 64 = a * 4096 + b * 64 + c" unfolding e by (rule split64(1) [OF l(3)])
  have "(a * 262144 + b * 4096 + c * 64 + d) div 262144 = (a * 262144 + b * 4096 + c * 64 + d) div 64 div 4096"
    by (simp add: div_mult2_eq)
  then show "(a * 262144 + b * 4096 + c * 64 + d) div 262144 = a" unfolding q by (simp only: split_3(1) [OF l(1,2)])
  have "(a * 262144 + b * 4096 + c * 64 + d) div 4096 = (a * 262144 + b * 4096 + c * 64 + d) div 64 div 64"
    by (simp add: div_mult2_eq)
  then show "(a * 262144 + b * 4096 + c * 64 + d) div 4096 mod 64 = b" unfolding q by (simp only: split_3(2) [OF l(1,2)])
  show "(a * 262144 + b * 4096 + c * 64 + d) div 64 mod 64 = c" unfolding q by (simp only: split_3(3) [OF l(1,2)])
  show "(a * 262144 + b * 4096 + c * 64 + d) mod 64 = d" unfolding e by (simp only: split64(2) [OF l(3)])
qed

text \<open>The continuation bytes of a rune.\<close>

lemma cont_byte: "is_cont b \<Longrightarrow> \<exists>x < 64. b = 128 + x"
  by (auto simp: is_cont_def intro!: exI [of _ "b - 128"])

lemma decode_valid:
  assumes "decode_rune bs = (r, w)" "\<not> invalid_rune (r, w)" "bs \<noteq> []"
  obtains (one) a t where "bs = a # t" "a < 128" "r = a" "w = 1"
    | (two) a b t where "bs = a # b # t" "194 \<le> a" "a < 224" "is_cont b" "r = (a - 192) * 64 + (b - 128)" "w = 2"
    | (three) a b c t where "bs = a # b # c # t" "224 \<le> a" "a < 240" "is_cont b" "is_cont c" "a = 224 \<longrightarrow> 160 \<le> b"
        "a = 237 \<longrightarrow> b < 160" "r = (a - 224) * 4096 + (b - 128) * 64 + (c - 128)" "w = 3"
    | (four) a b c d t where "bs = a # b # c # d # t" "240 \<le> a" "a < 245" "is_cont b" "is_cont c" "is_cont d"
        "a = 240 \<longrightarrow> 144 \<le> b" "a = 244 \<longrightarrow> b < 144"
        "r = (a - 240) * 262144 + (b - 128) * 4096 + (c - 128) * 64 + (d - 128)" "w = 4"
  using assms unfolding invalid_rune_def
  by (auto simp: decode_rune_def split: list.splits if_splits)

lemma encode_decode:
  assumes "decode_rune (map byte s) = (r, w)" "\<not> invalid_rune (r, w)" "s \<noteq> []"
  shows "encode_rune r = take w s"
proof -
  have "map byte s \<noteq> []" using assms(3) by simp
  with assms(1,2) show ?thesis
  proof (cases rule: decode_valid)
    case one
    then show ?thesis by (auto simp: encode_rune_def map_eq_Cons_conv)
  next
    case (two a' b' t)
    then obtain a b s2 where s: "s = a # b # s2" "a' = byte a" "b' = byte b" by (auto simp: map_eq_Cons_conv)
    note two = two [unfolded s]
    obtain x where x: "x < 64" "byte b = 128 + x" using cont_byte two(4) by blast
    obtain q where q: "byte a = 192 + q" "2 \<le> q" "q < 32" using two(2,3) by (intro that [of "byte a - 192"]) auto
    have r: "r = q * 64 + x" using two x q by simp
    moreover from this have "128 \<le> r" "r < 2048" using q x by linarith+
    moreover have "a = char_of (192 + q)" "b = char_of (128 + x)" using q x by (metis char_of_byte)+
    ultimately show ?thesis using two(6) x by (simp add: encode_rune_def s split64)
  next
    case (three a' b' c' t)
    then obtain a b c s2 where s: "s = a # b # c # s2" "a' = byte a" "b' = byte b" "c' = byte c" by (auto simp: map_eq_Cons_conv)
    note three = three [unfolded s]
    obtain x y where x: "x < 64" "byte b = 128 + x" "y < 64" "byte c = 128 + y" using cont_byte three(4,5) by blast
    obtain q where q: "byte a = 224 + q" "q < 16" using three(2,3) by (intro that [of "byte a - 224"]) auto
    have r: "r = q * 4096 + x * 64 + y" using three x q by simp
    have "32 \<le> x" if "q = 0" using three(6) q x that by simp
    then have "2048 \<le> r" "r < 65536" using q x r by (cases "q = 0"; linarith)+
    moreover have "a = char_of (224 + q)" "b = char_of (128 + x)" "c = char_of (128 + y)" using q x by (metis char_of_byte)+
    ultimately show ?thesis using three(9) unfolding encode_rune_def
      by (simp add: s r split_3 [OF x(1,3)])
  next
    case (four a' b' c' d' t)
    then obtain a b c d s2 where s: "s = a # b # c # d # s2" "a' = byte a" "b' = byte b" "c' = byte c" "d' = byte d"
      by (auto simp: map_eq_Cons_conv)
    note four = four [unfolded s]
    obtain x y z where x: "x < 64" "byte b = 128 + x" "y < 64" "byte c = 128 + y" "z < 64" "byte d = 128 + z"
      using cont_byte four(4,5,6) by metis
    obtain q where q: "byte a = 240 + q" "q < 5" using four(2,3) by (intro that [of "byte a - 240"]) auto
    have r: "r = q * 262144 + x * 4096 + y * 64 + z" using four x q by simp
    have "16 \<le> x" if "q = 0" using four(7) q x that by simp
    then have "65536 \<le> r" using x r by (cases "q = 0"; linarith)
    moreover have "a = char_of (240 + q)" "b = char_of (128 + x)" "c = char_of (128 + y)" "d = char_of (128 + z)"
      using q x by (metis char_of_byte)+
    ultimately show ?thesis using four(10) unfolding encode_rune_def
      by (simp add: s r split_4 [OF x(1,3,5)])
  qed
qed

text \<open>A valid rune is decoded the same whatever follows its bytes.\<close>

lemma decode_stable:
  assumes "decode_rune bs = (r, w)" "\<not> invalid_rune (r, w)" "bs \<noteq> []"
  shows "decode_rune (take w bs @ t) = (r, w)"
  using assms by (cases rule: decode_valid) (auto simp: decode_rune_def)

lemma decode_invalid_ascii: "decode_rune (map byte (c # s)) = (r, w) \<Longrightarrow> byte c < 128 \<Longrightarrow> r = byte c \<and> w = 1"
  by (simp add: decode_rune_def)

lemma decode_high:
  assumes "decode_rune bs = (r, w)" "bs \<noteq> []" "128 \<le> hd bs"
  shows "128 \<le> r"
proof (cases "invalid_rune (r, w)")
  case False
  from assms(1) False assms(2) show ?thesis
  proof (cases rule: decode_valid)
    case (two a b t)
    then have "2 * 64 \<le> (a - 192) * 64" by simp
    then show ?thesis using two(5) by linarith
  next
    case (three a b c t)
    show ?thesis
    proof (cases "a = 224")
      case True
      then have "32 * 64 \<le> (b - 128) * 64" using three(6) by simp
      then show ?thesis using three(8) by linarith
    next
      case False
      then have "1 * 4096 \<le> (a - 224) * 4096" using three(2) by simp
      then show ?thesis using three(8) by linarith
    qed
  next
    case (four a b c d t)
    show ?thesis
    proof (cases "a = 240")
      case True
      then have "16 * 4096 \<le> (b - 128) * 4096" using four(7) by simp
      then show ?thesis using four(9) by linarith
    next
      case False
      then have "1 * 262144 \<le> (a - 240) * 262144" using four(2) by simp
      then show ?thesis using four(9) by linarith
    qed
  qed (use assms(3) in simp)
qed (simp add: invalid_rune_def)

section \<open>Escapes\<close>

definition hex_val :: "char \<Rightarrow> nat option" where
  "hex_val c = (let n = byte c in
     if 48 \<le> n \<and> n \<le> 57 then Some (n - 48)
     else if 97 \<le> n \<and> n \<le> 102 then Some (n - 87)
     else if 65 \<le> n \<and> n \<le> 70 then Some (n - 55)
     else None)"

text \<open>\<open>getu4\<close>, after the letter.\<close>

definition getu4 :: "string \<Rightarrow> (nat \<times> string) option" where
  "getu4 s = (case s of
     a # b # c # d # r \<Rightarrow> (case (hex_val a, hex_val b, hex_val c, hex_val d) of
         (Some w, Some x, Some y, Some z) \<Rightarrow> Some (w * 4096 + x * 256 + y * 16 + z, r)
       | _ \<Rightarrow> None)
   | _ \<Rightarrow> None)"

text \<open>
  What a backslash introduces, from the text after it. A high surrogate wants the escape of a low one;
  any other surrogate is replaced.
\<close>

definition low_surrogate :: "string \<Rightarrow> (nat \<times> string) option" where
  "low_surrogate s = (case s of
     a # b # r \<Rightarrow> (if a = CHR 0x5C \<and> b = CHR ''u'' then
         (case getu4 r of
            Some (lo, r') \<Rightarrow> if 56320 \<le> lo \<and> lo < 57344 then Some (lo, r') else None
          | None \<Rightarrow> None)
       else None)
   | _ \<Rightarrow> None)"

definition escape :: "string \<Rightarrow> (string \<times> string) option" where
  "escape s = (case s of
     [] \<Rightarrow> None
   | c # r \<Rightarrow>
      if c \<in> {CHR 0x22, CHR 0x5C, CHR ''/''} then Some ([c], r)
      else if c = CHR ''b'' then Some ([CHR 0x08], r)
      else if c = CHR ''f'' then Some ([CHR 0x0C], r)
      else if c = CHR ''n'' then Some ([CHR 0x0A], r)
      else if c = CHR ''r'' then Some ([CHR 0x0D], r)
      else if c = CHR ''t'' then Some ([CHR 0x09], r)
      else if c = CHR ''u'' then
        (case getu4 r of
           None \<Rightarrow> None
         | Some (v, r1) \<Rightarrow>
             if 55296 \<le> v \<and> v < 57344 then
               (case (if v < 56320 then low_surrogate r1 else None) of
                  None \<Rightarrow> Some (replacement, r1)
                | Some (lo, r2) \<Rightarrow> Some (encode_rune (65536 + (v - 55296) * 1024 + (lo - 56320)), r2))
             else Some (encode_rune v, r1))
      else None)"

lemma getu4_length: "getu4 s = Some (v, r) \<Longrightarrow> length r < length s"
  by (auto simp: getu4_def split: list.splits option.splits)

lemma low_surrogate_length: "low_surrogate s = Some (v, r) \<Longrightarrow> length r < length s"
  by (auto simp: low_surrogate_def dest!: getu4_length split: list.splits option.splits if_splits)

lemma escape_length: "escape s = Some (x, r) \<Longrightarrow> length r < length s"
  by (auto simp: escape_def dest!: getu4_length low_surrogate_length split: list.splits option.splits if_splits)

section \<open>String literals\<close>

text \<open>From the text after the opening quote: the string and what follows the closing one.\<close>

function parse_str :: "string \<Rightarrow> (string \<times> string) option" where
  "parse_str s = (case s of
     [] \<Rightarrow> None
   | c # r \<Rightarrow>
      if c = CHR 0x22 then Some ([], r)
      else if c = CHR 0x5C then
        (case escape r of
           None \<Rightarrow> None
         | Some (x, r') \<Rightarrow> map_option (\<lambda>(y, z). (x @ y, z)) (parse_str r'))
      else if byte c < 32 then None
      else (let (v, w) = decode_rune (map byte s)
            in map_option (\<lambda>(y, z). ((if invalid_rune (v, w) then replacement else take w s) @ y, z)) (parse_str (drop w s))))"
  by pat_completeness auto
termination
proof (relation "measure length", goal_cases)
  case (2 s c r x y z)
  then show ?case using escape_length [of r y z] by auto
next
  case (3 s c r x v w)
  then have "0 < w" using decode_rune_width_pos [of "map byte s"] by (metis list.map_disc_iff list.simps(3) snd_conv)
  then show ?case using 3 by auto
qed simp

declare parse_str.simps [simp del]

lemma parse_str_eqs [simp]:
  "parse_str [] = None"
  "parse_str (CHR 0x22 # r) = Some ([], r)"
  "parse_str (CHR 0x5C # r) = (case escape r of
     None \<Rightarrow> None | Some (x, r') \<Rightarrow> map_option (\<lambda>(y, z). (x @ y, z)) (parse_str r'))"
  by (simp_all add: parse_str.simps)

lemma parse_str_plain:
  "c \<noteq> CHR 0x22 \<Longrightarrow> c \<noteq> CHR 0x5C \<Longrightarrow> decode_rune (map byte (c # r)) = (v, w) \<Longrightarrow> parse_str (c # r) =
     (if byte c < 32 then None
      else map_option (\<lambda>(y, z). ((if invalid_rune (v, w) then replacement else take w (c # r)) @ y, z)) (parse_str (drop w (c # r))))"
  by (subst parse_str.simps) simp

lemma parse_str_length: "parse_str s = Some (x, r) \<Longrightarrow> length r < length s"
proof (induction s arbitrary: x rule: parse_str.induct)
  case (1 s)
  obtain c t where s: "s = c # t" using "1.prems" by (cases s) auto
  consider (quote) "c = CHR 0x22" | (escape) "c = CHR 0x5C" | (plain) "c \<noteq> CHR 0x22" "c \<noteq> CHR 0x5C" by blast
  then show ?case
  proof cases
    case quote
    then show ?thesis using "1.prems" by (simp add: s)
  next
    case escape
    then obtain y r' z where e: "escape t = Some (y, r')" "parse_str r' = Some (z, r)"
      using "1.prems" by (auto simp: s split: option.splits)
    have "length r < length r'" using "1.IH"(1) [OF s _ escape e(1) refl e(2)] escape by simp
    then show ?thesis using escape_length [OF e(1)] by (simp add: s)
  next
    case plain
    obtain v w where d: "decode_rune (map byte (c # t)) = (v, w)" by fastforce
    note eq = parse_str_plain [OF plain d]
    from "1.prems" obtain z where z: "parse_str (drop w (c # t)) = Some (z, r)" "\<not> byte c < 32"
      unfolding s eq by (auto split: if_splits)
    have "length r < length (drop w s)" using "1.IH"(2) [OF s plain z(2) d [folded s, symmetric] refl] z(1) s by simp
    then show ?thesis by simp
  qed
qed

section \<open>Reading what \<open>Marshal\<close> quoted\<close>

text \<open>A Go string with every invalid byte replaced.\<close>

definition valid_rune :: "nat \<times> string \<Rightarrow> string" where
  "valid_rune rb = (if invalid_rune (fst rb, length (snd rb)) then replacement else snd rb)"

definition to_valid :: "string \<Rightarrow> string" where
  "to_valid s = concat (map valid_rune (runes s))"

definition utf8_valid :: "string \<Rightarrow> bool" where
  "utf8_valid s \<longleftrightarrow> (\<forall>rb\<in>set (runes s). \<not> invalid_rune (fst rb, length (snd rb)))"

lemma to_valid_valid: "utf8_valid s \<Longrightarrow> to_valid s = s"
  using concat_runes [of s] by (simp add: to_valid_def utf8_valid_def valid_rune_def cong: map_cong)

lemma utf8_valid_ascii: "list_all (\<lambda>c. byte c < 128) s \<Longrightarrow> utf8_valid s"
  by (auto simp: utf8_valid_def runes_ascii invalid_rune_def list_all_iff)

definition good_rune :: "nat \<times> string \<Rightarrow> bool" where
  "good_rune rb \<longleftrightarrow> snd rb \<noteq> [] \<and> decode_rune (map byte (snd rb)) = (fst rb, length (snd rb))"

lemma runes_good: "rb \<in> set (runes s) \<Longrightarrow> good_rune rb"
proof (induction s rule: runes.induct)
  case (1 s)
  then have ne: "s \<noteq> []" by (auto simp: runes.simps [of s])
  obtain r w where d: "decode_rune (map byte s) = (r, w)" by fastforce
  then have w: "0 < w" "w \<le> length s" using decode_rune_width_pos [of "map byte s"] decode_rune_width_le [of "map byte s"] ne by simp_all
  have "good_rune (r, take w s)"
  proof (cases "invalid_rune (r, w)")
    case True
    obtain c t where s: "s = c # t" using ne by (cases s) auto
    have "128 \<le> byte c" using d True by (auto simp: s invalid_rune_def decode_rune_def split: if_splits)
    then show ?thesis using True by (simp add: s good_rune_def invalid_rune_def decode_rune_def)
  next
    case False
    have "map byte s \<noteq> []" using ne by simp
    from decode_stable [OF d False this, of "[]"] show ?thesis using w ne by (simp add: good_rune_def take_map)
  qed
  moreover have "rb = (r, take w s) \<or> rb \<in> set (runes (drop w s))" using "1.prems" ne d by (simp add: runes.simps [of s])
  ultimately show ?case using "1.IH" [OF ne d [symmetric] refl] by auto
qed

lemma hex_val_digit [simp]: "d < 16 \<Longrightarrow> hex_val (hex_digit d) = Some d"
  by (auto simp: hex_val_def hex_digit_def byte_def Let_def)

lemma hex_val_0 [simp]: "hex_val CHR ''0'' = Some 0"
  by (simp add: hex_val_def byte_def)

lemma escape_letters [simp]:
  "escape (CHR 0x22 # u) = Some ([CHR 0x22], u)" "escape (CHR 0x5C # u) = Some ([CHR 0x5C], u)"
  "escape (CHR ''b'' # u) = Some ([CHR 0x08], u)" "escape (CHR ''f'' # u) = Some ([CHR 0x0C], u)"
  "escape (CHR ''n'' # u) = Some ([CHR 0x0A], u)" "escape (CHR ''r'' # u) = Some ([CHR 0x0D], u)"
  "escape (CHR ''t'' # u) = Some ([CHR 0x09], u)"
  by (simp_all add: escape_def)

lemma escape_u: "getu4 r = Some (v, u) \<Longrightarrow> v < 55296 \<or> 57344 \<le> v \<Longrightarrow> escape (CHR ''u'' # r) = Some (encode_rune v, u)"
  by (auto simp: escape_def)

lemma escape_u00:
  assumes "r < 128"
  shows "parse_str (u00 r @ u) = map_option (\<lambda>(y, z). (char_of r # y, z)) (parse_str u)"
proof -
  have "getu4 (CHR ''0'' # CHR ''0'' # hex_digit (r div 16) # hex_digit (r mod 16) # u) = Some (r, u)"
    using assms by (simp add: getu4_def)
  from escape_u [OF this] show ?thesis using assms by (simp add: u00_def encode_rune_def)
qed

lemma ascii_char: "byte c = n \<Longrightarrow> c = char_of n"
  by auto

lemma parse_quote_rune:
  assumes "good_rune rb"
  shows "parse_str (quote_rune rb @ u) = map_option (\<lambda>(y, z). (valid_rune rb @ y, z)) (parse_str u)"
proof -
  obtain r bs where rb: "rb = (r, bs)" by fastforce
  then have d: "decode_rune (map byte bs) = (r, length bs)" and ne: "bs \<noteq> []" using assms by (simp_all add: good_rune_def)
  obtain c t where bs: "bs = c # t" using ne by (cases bs) auto
  show ?thesis
  proof (cases "byte c < 128")
    case True
    then have r: "r = byte c" "t = []" using d by (auto simp: bs decode_rune_def)
    have valid: "valid_rune rb = [c]" using True by (simp add: rb bs r valid_rune_def invalid_rune_def)
    consider (esc) "byte c \<in> {34, 92, 8, 12, 10, 13, 9}" | (hex) "byte c \<notin> {34, 92, 8, 12, 10, 13, 9}" "byte c < 32 \<or> byte c \<in> {60, 62, 38}"
      | (plain) "byte c \<notin> {34, 92, 8, 12, 10, 13, 9}" "\<not> byte c < 32" "byte c \<notin> {60, 62, 38}" by blast
    then show ?thesis
    proof cases
      case esc
      have c: "CHR 0x22 = char_of (34::nat)" "CHR 0x5C = char_of (92::nat)" "CHR 0x08 = char_of (8::nat)" "CHR 0x0C = char_of (12::nat)"
        "CHR 0x0A = char_of (10::nat)" "CHR 0x0D = char_of (13::nat)" "CHR 0x09 = char_of (9::nat)" by code_simp+
      have "c \<in> {CHR 0x22, CHR 0x5C, CHR 0x08, CHR 0x0C, CHR 0x0A, CHR 0x0D, CHR 0x09}"
        using esc unfolding c by (auto dest!: ascii_char)
      then show ?thesis unfolding valid by (auto simp: rb bs r quote_rune_def byte_def)
    next
      case hex
      then show ?thesis using escape_u00 [OF True, of u] unfolding valid
        by (auto simp: rb bs r quote_rune_def)
    next
      case plain
      then have "quote_rune rb = [c]" using True by (simp add: rb bs r quote_rune_def)
      moreover have "c \<noteq> CHR 0x22" "c \<noteq> CHR 0x5C" using plain by (auto simp: byte_def)
      moreover have "decode_rune (map byte (c # u)) = (byte c, 1)" using True by (simp add: decode_rune_def)
      ultimately show ?thesis using parse_str_plain [of c u "byte c" 1] plain(2) True
        by (simp add: valid invalid_rune_def)
    qed
  next
    case False
    have r: "128 \<le> r" using decode_high [OF d] False ne by (simp add: bs)
    show ?thesis
    proof (cases "invalid_rune (r, length bs)")
      case True
      then have "quote_rune rb = CHR 0x5C # CHR ''u'' # ''fffd''" by (simp add: rb quote_rune_def invalid_rune_def)
      moreover have "getu4 (''fffd'' @ u) = Some (65533, u)" by (simp add: getu4_def hex_val_def byte_def)
      moreover have "encode_rune 65533 = replacement" by (simp add: encode_rune_def replacement_def)
      ultimately show ?thesis using True escape_u [of "''fffd'' @ u" 65533 u] by (simp add: rb valid_rune_def)
    next
      case inv: False
      have enc: "encode_rune r = bs" using encode_decode [OF d inv ne] by simp
      consider (ls) "r = 8232" | (ps) "r = 8233" | (plain) "r \<noteq> 8232" "r \<noteq> 8233" by blast
      then show ?thesis
      proof cases
        case ls
        have "getu4 (''2028'' @ u) = Some (8232, u)" by (simp add: getu4_def hex_val_def byte_def)
        then show ?thesis using ls enc inv escape_u [of "''2028'' @ u" 8232 u]
          by (simp add: rb valid_rune_def quote_rune_def invalid_rune_def)
      next
        case ps
        have "getu4 (''2029'' @ u) = Some (8233, u)" by (simp add: getu4_def hex_val_def byte_def)
        then show ?thesis using ps enc inv escape_u [of "''2029'' @ u" 8233 u]
          by (simp add: rb valid_rune_def quote_rune_def invalid_rune_def)
      next
        case plain
        then have q: "quote_rune rb = bs" using r inv by (auto simp: rb quote_rune_def invalid_rune_def)
        have mne: "map byte bs \<noteq> []" using ne by simp
        have "decode_rune (map byte (c # t @ u)) = (r, length bs)"
          using decode_stable [OF d inv mne, of "map byte u"] by (simp add: bs)
        moreover have "c \<noteq> CHR 0x22" "c \<noteq> CHR 0x5C" using False by (auto simp: byte_def)
        ultimately show ?thesis using parse_str_plain [of c "t @ u" r "length bs"] False inv unfolding q
          by (simp add: rb bs valid_rune_def)
      qed
    qed
  qed
qed

lemma parse_quoted: "list_all good_rune rbs \<Longrightarrow>
  parse_str (concat (map quote_rune rbs) @ CHR 0x22 # u) = Some (concat (map valid_rune rbs), u)"
  by (induction rbs) (simp_all add: parse_quote_rune)

lemma parse_quote_str: "parse_str (tl (quote_str s) @ u) = Some (to_valid s, u)"
proof -
  have "list_all good_rune (runes s)" by (simp add: list_all_iff runes_good)
  from parse_quoted [OF this, of u] show ?thesis by (simp add: quote_str_def to_valid_def)
qed

lemma quote_str_hd: "quote_str s = CHR 0x22 # tl (quote_str s)"
  by (simp add: quote_str_def)

end
