(* ===== verification/Go_Json_Parse.thy ===== *)
theory Go_Json_Parse
  imports Go_Json_Strings
begin

text \<open>
  The reading side of \<open>encoding/json\<close>: the grammar its scanner accepts, with the nesting limit of
  10000, as a parser from a text to a value and the rest of the text; and the round trip with
  \<open>Marshal\<close>. A number is kept as its literal, as the decoder does until it knows the target type.
\<close>

datatype jtext = TNull | TBool bool | TNum string | TStr string | TArr "jtext list" | TObj "(string \<times> jtext) list"

definition is_ws :: "char \<Rightarrow> bool" where
  "is_ws c \<longleftrightarrow> c \<in> {CHR '' '', CHR 0x09, CHR 0x0A, CHR 0x0D}"

definition skip_ws :: "string \<Rightarrow> string" where
  "skip_ws = dropWhile is_ws"

lemma skip_ws_simps [simp]: "skip_ws [] = []" "\<not> is_ws c \<Longrightarrow> skip_ws (c # s) = c # s"
  by (simp_all add: skip_ws_def)

section \<open>Numbers\<close>

definition num_int :: "string \<Rightarrow> (string \<times> string) option" where
  "num_int s = (case s of
     [] \<Rightarrow> None
   | c # r \<Rightarrow> if c = CHR ''0'' then Some ([c], r)
              else if is_digit c then Some (takeWhile is_digit s, dropWhile is_digit s) else None)"

definition num_frac :: "string \<Rightarrow> (string \<times> string) option" where
  "num_frac s = (case s of
     c # r \<Rightarrow> if c = CHR ''.'' then
                (let ds = takeWhile is_digit r in if ds = [] then None else Some (c # ds, dropWhile is_digit r))
              else Some ([], s)
   | [] \<Rightarrow> Some ([], []))"

definition num_exp :: "string \<Rightarrow> (string \<times> string) option" where
  "num_exp s = (case s of
     c # r \<Rightarrow> if c = CHR ''e'' \<or> c = CHR ''E'' then
                (let (sg, r) = (case r of d # r' \<Rightarrow> if d = CHR ''+'' \<or> d = CHR ''-'' then ([d], r') else ([], r) | [] \<Rightarrow> ([], []));
                     ds = takeWhile is_digit r
                 in if ds = [] then None else Some (c # sg @ ds, dropWhile is_digit r))
              else Some ([], s)
   | [] \<Rightarrow> Some ([], []))"

definition parse_num :: "string \<Rightarrow> (string \<times> string) option" where
  "parse_num s =
     (let (sg, s) = (case s of c # r \<Rightarrow> if c = CHR ''-'' then ([c], r) else ([], s) | [] \<Rightarrow> ([], []))
      in case num_int s of None \<Rightarrow> None | Some (i, s) \<Rightarrow>
        (case num_frac s of None \<Rightarrow> None | Some (f, s) \<Rightarrow>
        (case num_exp s of None \<Rightarrow> None | Some (e, s) \<Rightarrow> Some (sg @ i @ f @ e, s))))"

section \<open>Values\<close>

definition lit :: "string \<Rightarrow> 'a \<Rightarrow> string \<Rightarrow> ('a \<times> string) option" where
  "lit l v s = (if take (length l) s = l then Some (v, drop (length l) s) else None)"

text \<open>
  \<open>d\<close>: how many more levels may be opened. The test of the length in the two loops always
  succeeds (what has been read is not empty); it makes their termination evident.
\<close>

function (sequential) parse_value :: "nat \<Rightarrow> string \<Rightarrow> (jtext \<times> string) option"
    and parse_elems :: "nat \<Rightarrow> string \<Rightarrow> (jtext list \<times> string) option"
    and parse_members :: "nat \<Rightarrow> string \<Rightarrow> ((string \<times> jtext) list \<times> string) option" where
  "parse_value d s = (case skip_ws s of
     [] \<Rightarrow> None
   | c # r \<Rightarrow>
      if c = CHR 0x22 then map_option (\<lambda>(x, r'). (TStr x, r')) (parse_str r)
      else if c = CHR ''{'' then
        (case d of
           0 \<Rightarrow> None
         | Suc d' \<Rightarrow> if take 1 (skip_ws r) = ''}'' then Some (TObj [], drop 1 (skip_ws r))
                      else map_option (\<lambda>(m, r'). (TObj m, r')) (parse_members d' r))
      else if c = CHR ''['' then
        (case d of
           0 \<Rightarrow> None
         | Suc d' \<Rightarrow> if take 1 (skip_ws r) = '']'' then Some (TArr [], drop 1 (skip_ws r))
                      else map_option (\<lambda>(m, r'). (TArr m, r')) (parse_elems d' r))
      else if c = CHR ''n'' then lit ''null'' TNull (c # r)
      else if c = CHR ''t'' then lit ''true'' (TBool True) (c # r)
      else if c = CHR ''f'' then lit ''false'' (TBool False) (c # r)
      else map_option (\<lambda>(x, r'). (TNum x, r')) (parse_num (c # r)))"
| "parse_elems d s = (case parse_value d s of
     None \<Rightarrow> None
   | Some (v, r) \<Rightarrow> (case skip_ws r of
       [] \<Rightarrow> None
     | c # r' \<Rightarrow> if c = CHR '']'' then Some ([v], r')
                else if c = CHR '','' \<and> length r' < length s then map_option (\<lambda>(vs, t). (v # vs, t)) (parse_elems d r')
                else None))"
| "parse_members d s = (case skip_ws s of
     [] \<Rightarrow> None
   | q # r0 \<Rightarrow> if q \<noteq> CHR 0x22 then None else (case parse_str r0 of
       None \<Rightarrow> None
     | Some (k, r1) \<Rightarrow> (case skip_ws r1 of
         [] \<Rightarrow> None
       | c0 # r2 \<Rightarrow> if c0 \<noteq> CHR '':'' then None else (case parse_value d r2 of
           None \<Rightarrow> None
         | Some (v, r) \<Rightarrow> (case skip_ws r of
             [] \<Rightarrow> None
           | c # r' \<Rightarrow> if c = CHR ''}'' then Some ([(k, v)], r')
                      else if c = CHR '','' \<and> length r' < length s
                        then map_option (\<lambda>(kvs, t). ((k, v) # kvs, t)) (parse_members d r')
                      else None)))))"
  by pat_completeness auto
termination
  by (relation "measures [\<lambda>x. case x of Inl (d, s) \<Rightarrow> d | Inr (Inl (d, s)) \<Rightarrow> d | Inr (Inr (d, s)) \<Rightarrow> d,
      \<lambda>x. case x of Inl (d, s) \<Rightarrow> 0 | Inr (Inl (d, s)) \<Rightarrow> 1 | Inr (Inr (d, s)) \<Rightarrow> 1,
      \<lambda>x. case x of Inl (d, s) \<Rightarrow> length s | Inr (Inl (d, s)) \<Rightarrow> length s | Inr (Inr (d, s)) \<Rightarrow> length s]")
    auto

declare parse_value.simps [simp del] parse_elems.simps [simp del] parse_members.simps [simp del]

definition maxNestingDepth :: nat where
  "maxNestingDepth = 10000"

text \<open>\<open>json.Unmarshal\<close> wants nothing but blanks after the value; \<open>Decoder.Decode\<close> reads one value.\<close>

definition unmarshal :: "string \<Rightarrow> jtext option" where
  "unmarshal s = (case parse_value maxNestingDepth s of
     Some (v, r) \<Rightarrow> if skip_ws r = [] then Some v else None
   | None \<Rightarrow> None)"

definition decode_first :: "string \<Rightarrow> jtext option" where
  "decode_first s = map_option fst (parse_value maxNestingDepth s)"

section \<open>Reading what \<open>Marshal\<close> wrote\<close>

fun text_of :: "json \<Rightarrow> jtext" where
  "text_of JNull = TNull"
| "text_of (JBool b) = TBool b"
| "text_of (JInt i) = TNum (show_int i)"
| "text_of (JStr s) = TStr (to_valid s)"
| "text_of (JArr xs) = TArr (map text_of xs)"
| "text_of (JObj kvs) = TObj (map (\<lambda>(k, v). (to_valid k, text_of v)) kvs)"

text \<open>A number must be followed by something that cannot belong to it.\<close>

definition num_end :: "string \<Rightarrow> bool" where
  "num_end u = (case u of [] \<Rightarrow> True | c # _ \<Rightarrow> \<not> is_digit c \<and> c \<notin> {CHR ''.'', CHR ''e'', CHR ''E''})"

lemma num_end_simps [simp]: "num_end []" "num_end (CHR '','' # u)" "num_end (CHR '']'' # u)" "num_end (CHR ''}'' # u)"
    "num_end (CHR 0x0A # u)"
  by (simp_all add: num_end_def is_digit_def byte_def)

lemma num_tail: "num_end u \<Longrightarrow> num_frac u = Some ([], u) \<and> num_exp u = Some ([], u)"
  by (auto simp: num_end_def num_frac_def num_exp_def split: list.split)

lemma takeWhile_all_then:
  "list_all P xs \<Longrightarrow> u = [] \<or> \<not> P (hd u) \<Longrightarrow> takeWhile P (xs @ u) = xs \<and> dropWhile P (xs @ u) = u"
  by (induction xs) (cases u; simp)+

lemma show_nat_first: "\<exists>c cs. show_nat n = c # cs \<and> is_digit c \<and> (c = CHR ''0'' \<longrightarrow> cs = [])"
proof (induction n rule: show_nat.induct)
  case (1 n)
  show ?case
  proof (cases "n < 10")
    case True
    then show ?thesis by (simp add: show_nat.simps [of n] is_digit_def byte_digit)
  next
    case False
    then obtain c cs where c: "show_nat (n div 10) = c # cs" "is_digit c" "c = CHR ''0'' \<longrightarrow> cs = []" using 1 by blast
    have "c \<noteq> CHR ''0''"
    proof
      assume "c = CHR ''0''"
      then have "show_nat (n div 10) = ''0''" using c by simp
      then have "n div 10 = 0" using read_show_nat [of "n div 10"] by (simp add: byte_def)
      then show False using False by simp
    qed
    then show ?thesis using False c by (simp add: show_nat.simps [of n])
  qed
qed

lemma num_int_show: "num_end u \<Longrightarrow> num_int (show_nat n @ u) = Some (show_nat n, u)"
proof -
  assume u: "num_end u"
  obtain c cs where c: "show_nat n = c # cs" "is_digit c" "c = CHR ''0'' \<longrightarrow> cs = []" using show_nat_first by blast
  have "takeWhile is_digit (show_nat n @ u) = show_nat n \<and> dropWhile is_digit (show_nat n @ u) = u"
    using show_nat_digits [of n] u by (intro takeWhile_all_then) (auto simp: num_end_def split: list.splits)
  then show ?thesis using c by (auto simp: num_int_def)
qed

lemma parse_num_show: "num_end u \<Longrightarrow> parse_num (show_int i @ u) = Some (show_int i, u)"
proof -
  assume u: "num_end u"
  show ?thesis
  proof (cases "i < 0")
    case True
    then show ?thesis using num_int_show [OF u] num_tail [OF u] by (simp add: parse_num_def show_int_def)
  next
    case False
    obtain c cs where c: "show_nat (nat i) = c # cs" using show_nat_first by blast
    then have "c \<noteq> CHR ''-''" using show_nat_hd by blast
    then show ?thesis using False num_int_show [OF u, of "nat i"] num_tail [OF u] c by (simp add: parse_num_def show_int_def)
  qed
qed

text \<open>The value opens at most \<open>d\<close> levels.\<close>

fun within :: "nat \<Rightarrow> json \<Rightarrow> bool" where
  "within 0 (JArr xs) = False"
| "within (Suc d) (JArr xs) = (\<forall>x\<in>set xs. within d x)"
| "within 0 (JObj kvs) = False"
| "within (Suc d) (JObj kvs) = (\<forall>kv\<in>set kvs. within d (snd kv))"
| "within d v = True"

lemma marshal_first: "\<exists>c t. marshal v = c # t \<and> \<not> is_ws c \<and> c \<notin> {CHR '']'', CHR ''}'', CHR '',''}"
proof (cases v)
  case (JInt i)
  obtain c cs where c: "show_nat (nat i) = c # cs" "is_digit c" using show_nat_first by blast
  then have "\<not> is_ws c \<and> c \<notin> {CHR '']'', CHR ''}'', CHR '',''}" by (auto simp: is_digit_def is_ws_def byte_def)
  then show ?thesis using JInt c by (auto simp: show_int_def is_ws_def)
next
  case (JStr s)
  then show ?thesis by (simp add: quote_str_def is_ws_def)
qed (auto simp: is_ws_def)

lemma marshal_start: "skip_ws (marshal v @ u) = marshal v @ u" "take (Suc 0) (skip_ws (marshal v @ u)) \<noteq> '']''"
  using marshal_first [of v] by (auto simp: skip_ws_def)

lemma not_ws [simp]: "\<not> is_ws CHR 0x22" "\<not> is_ws CHR '',''" "\<not> is_ws CHR '':''" "\<not> is_ws CHR '']''" "\<not> is_ws CHR ''}''"
    "\<not> is_ws CHR ''{''" "\<not> is_ws CHR ''[''"
  by (simp_all add: is_ws_def)

lemma join_Cons: "join sep (x # xs) = x @ (if xs = [] then [] else sep @ join sep xs)"
  by (cases xs) simp_all

lemma parse_elems_join:
  assumes "xs \<noteq> []" "\<And>x u. x \<in> set xs \<Longrightarrow> num_end u \<Longrightarrow> parse_value d (marshal x @ u) = Some (text_of x, u)"
  shows "parse_elems d (join '','' (map marshal xs) @ '']'' @ u) = Some (map text_of xs, u)"
  using assms
proof (induction xs)
  case (Cons x xs)
  show ?case
  proof (cases "xs = []")
    case True
    then show ?thesis using Cons.prems(2) [of x "'']'' @ u"] by (simp add: parse_elems.simps)
  next
    case False
    let ?r = "join '','' (map marshal xs) @ '']'' @ u"
    have "parse_value d (marshal x @ CHR '','' # ?r) = Some (text_of x, CHR '','' # ?r)" using Cons.prems(2) by simp
    moreover have "parse_elems d ?r = Some (map text_of xs, u)" using Cons.IH [OF False] Cons.prems(2) by simp
    ultimately show ?thesis using False by (simp add: join_Cons parse_elems.simps [of d "marshal x @ t" for t])
  qed
qed simp

lemma quote_then: "quote_str k @ u = CHR 0x22 # tl (quote_str k) @ u"
  using quote_str_hd [of k] by (metis append_Cons)

lemma parse_members_join:
  assumes "kvs \<noteq> []" "\<And>k x u. (k, x) \<in> set kvs \<Longrightarrow> num_end u \<Longrightarrow> parse_value d (marshal x @ u) = Some (text_of x, u)"
  shows "parse_members d (join '','' (map (\<lambda>(k, v). quote_str k @ '':'' @ marshal v) kvs) @ ''}'' @ u)
     = Some (map (\<lambda>(k, v). (to_valid k, text_of v)) kvs, u)"
  using assms
proof (induction kvs)
  case (Cons kv kvs)
  obtain k x where kv: "kv = (k, x)" by fastforce
  have val: "num_end u' \<Longrightarrow> parse_value d (marshal x @ u') = Some (text_of x, u')" for u' using Cons.prems(2) [of k x u'] kv by simp
  have key: "parse_str (tl (quote_str k) @ u') = Some (to_valid k, u')" for u' by (rule parse_quote_str)
  show ?case
  proof (cases "kvs = []")
    case True
    then show ?thesis using val [of "''}'' @ u"] key
      by (simp add: kv quote_then parse_members.simps [of d "CHR 0x22 # t" for t])
  next
    case False
    let ?r = "join '','' (map (\<lambda>(k, v). quote_str k @ '':'' @ marshal v) kvs) @ ''}'' @ u"
    have "parse_members d ?r = Some (map (\<lambda>(k, v). (to_valid k, text_of v)) kvs, u)"
      by (rule Cons.IH [OF False]) (use Cons.prems(2) in \<open>auto\<close>)
    then show ?thesis using False val [of "CHR '','' # ?r"] key
      by (simp add: kv join_Cons quote_then parse_members.simps [of d "CHR 0x22 # t" for t])
  qed
qed simp

lemma parse_marshal: "within d v \<Longrightarrow> num_end u \<Longrightarrow> parse_value d (marshal v @ u) = Some (text_of v, u)"
proof (induction v arbitrary: d u)
  case (JInt i)
  obtain c t where c: "show_int i @ u = c # t" "\<not> is_ws c" "c = CHR ''-'' \<or> is_digit c"
  proof -
    obtain c cs where "show_nat (nat i) = c # cs" "is_digit c" using show_nat_first by blast
    then show thesis
      by (cases "i < 0") (auto simp: show_int_def is_ws_def is_digit_def byte_def intro!: that)
  qed
  then have "c \<notin> {CHR 0x22, CHR ''{'', CHR ''['', CHR ''n'', CHR ''t'', CHR ''f''}" by (auto simp: is_digit_def byte_def)
  then show ?case using c parse_num_show [OF JInt(2), of i] by (simp add: parse_value.simps)
next
  case (JStr s)
  then show ?case by (simp add: quote_then parse_value.simps [of d "CHR 0x22 # t" for t] parse_quote_str)
next
  case (JArr xs)
  then obtain d' where d: "d = Suc d'" "\<forall>x\<in>set xs. within d' x" by (cases d) simp_all
  show ?case
  proof (cases "xs = []")
    case True
    then show ?thesis by (simp add: d parse_value.simps)
  next
    case False
    then obtain x xs' where xs: "xs = x # xs'" by (cases xs) auto
    have "take 1 (skip_ws (join '','' (map marshal xs) @ '']'' @ u)) \<noteq> '']''"
      by (simp add: xs join_Cons marshal_start(2))
    moreover have "parse_elems d' (join '','' (map marshal xs) @ '']'' @ u) = Some (map text_of xs, u)"
      using False d JArr.IH by (intro parse_elems_join) auto
    ultimately show ?thesis by (simp add: d parse_value.simps [of "Suc d'" "CHR ''['' # t" for t])
  qed
next
  case (JObj kvs)
  then obtain d' where d: "d = Suc d'" "\<forall>kv\<in>set kvs. within d' (snd kv)" by (cases d) simp_all
  show ?case
  proof (cases "kvs = []")
    case True
    then show ?thesis by (simp add: d parse_value.simps)
  next
    case False
    let ?t = "join '','' (map (\<lambda>(k, v). quote_str k @ '':'' @ marshal v) kvs) @ ''}'' @ u"
    obtain k x kvs' where "kvs = (k, x) # kvs'" using False by (cases kvs) auto
    then have "take 1 (skip_ws ?t) \<noteq> ''}''"
      by (simp add: join_Cons quote_then)
    moreover have "parse_members d' ?t = Some (map (\<lambda>(k, v). (to_valid k, text_of v)) kvs, u)"
      using False d JObj.IH by (intro parse_members_join) (auto simp: snds.simps)
    ultimately show ?thesis by (simp add: d parse_value.simps [of "Suc d'" "CHR ''{'' # t" for t])
  qed
qed (simp_all add: parse_value.simps lit_def is_ws_def)

end
