(* ===== verification/Client.thy ===== *)
theory Client
  imports Go_Json_Parse Http_Handlers
begin

text \<open>
  internal/client/client.go, the client of the HTTP and SSE interface. The transport (\<open>net/http\<close>: the request is built and sent, the body
  read) is the function the operations are given, over a state of its own; the context of a call is
  not cancelled.
\<close>

section \<open>Requests, responses, errors\<close>

record http_req =
  hq_method :: string
  hq_url :: string
  hq_auth :: string
  hq_ctype :: string
  hq_accept :: string
  hq_body :: "string option"

record http_res =
  hr_status :: nat
  hr_body :: string

type_synonym 'w transport = "http_req \<Rightarrow> 'w \<Rightarrow> (string + http_res) \<times> 'w"

datatype client_error = CErrNotLoggedIn | CErrAlreadyLoggedIn | CErrLoginInProgress | CErr string

record client =
  cl_baseURL :: string
  cl_token :: string

definition client_New :: "string \<Rightarrow> string \<Rightarrow> client" where
  "client_New baseURL token = \<lparr>cl_baseURL = rev (dropWhile (\<lambda>c. c = CHR ''/'') (rev baseURL)), cl_token = token\<rparr>"

definition addAuth :: "client \<Rightarrow> http_req \<Rightarrow> http_req" where
  "addAuth c rq = (if cl_token c \<noteq> '''' then rq\<lparr>hq_auth := ''Bearer '' @ cl_token c\<rparr> else rq)"

definition new_request :: "string \<Rightarrow> string \<Rightarrow> string option \<Rightarrow> http_req" where
  "new_request m url body = \<lparr>hq_method = m, hq_url = url, hq_auth = '''', hq_ctype = '''', hq_accept = '''', hq_body = body\<rparr>"

section \<open>Decoding into the structs of the client\<close>

text \<open>
  A member of the right type overwrites the field, null leaves it alone, and one of another type
  leaves it alone too and makes the decoding report an error at its end.
\<close>

fun text_field :: "string \<Rightarrow> string \<Rightarrow> (string \<times> jtext) list \<Rightarrow> string" where
  "text_field f old [] = old"
| "text_field f old ((k, v) # kvs) =
     text_field f (if is_field f k then (case v of TStr s \<Rightarrow> s | _ \<Rightarrow> old) else old) kvs"

fun bool_field :: "string \<Rightarrow> bool \<Rightarrow> (string \<times> jtext) list \<Rightarrow> bool" where
  "bool_field f old [] = old"
| "bool_field f old ((k, v) # kvs) =
     bool_field f (if is_field f k then (case v of TBool b \<Rightarrow> b | _ \<Rightarrow> old) else old) kvs"

definition members :: "jtext option \<Rightarrow> (string \<times> jtext) list" where
  "members t = (case t of Some (TObj kvs) \<Rightarrow> kvs | _ \<Rightarrow> [])"

text \<open>The decoding ends without an error, for a struct with these string and bool fields.\<close>

fun is_text :: "jtext \<Rightarrow> bool" where
  "is_text (TStr s) = True" | "is_text TNull = True" | "is_text v = False"

fun is_bool :: "jtext \<Rightarrow> bool" where
  "is_bool (TBool b) = True" | "is_bool TNull = True" | "is_bool v = False"

definition decodes :: "string list \<Rightarrow> string list \<Rightarrow> jtext option \<Rightarrow> bool" where
  "decodes texts bools t = (case t of
     Some (TObj kvs) \<Rightarrow> list_all (\<lambda>(k, v). (list_ex (\<lambda>f. is_field f k) texts \<longrightarrow> is_text v)
        \<and> (list_ex (\<lambda>f. is_field f k) bools \<longrightarrow> is_bool v)) kvs
   | Some TNull \<Rightarrow> True
   | _ \<Rightarrow> False)"

section \<open>Problems\<close>

definition problemError :: "http_res \<Rightarrow> client_error" where
  "problemError res =
     (let p = members (decode_first (hr_body res)); code = text_field ''code'' '''' p; detail = text_field ''detail'' '''' p
      in if code = ''wa.not_logged_in'' then CErrNotLoggedIn
         else if code = ''wa.already_logged_in'' then CErrAlreadyLoggedIn
         else if code = ''wa.login_in_progress'' then CErrLoginInProgress
         else CErr (''daemon returned '' @ show_nat (hr_status res) @ '' ('' @ code @ ''): '' @ detail))"

section \<open>Status and logout\<close>

record client_status =
  cst_WAConnected :: bool
  cst_JID :: string
  cst_PushName :: string
  cst_Since :: string

definition client_Status :: "'w transport \<Rightarrow> client \<Rightarrow> 'w \<Rightarrow> (client_error + client_status) \<times> 'w" where
  "client_Status send c w = (case send (addAuth c (new_request ''GET'' (cl_baseURL c @ ''/v1/status'') None)) w of
     (Inl e, w) \<Rightarrow> (Inl (CErr e), w)
   | (Inr res, w) \<Rightarrow>
       if hr_status res \<noteq> 200 then (Inl (problemError res), w)
       else (let t = decode_first (hr_body res); kvs = members t
             in if \<not> decodes [''jid'', ''push_name'', ''since''] [''wa_connected''] t then (Inl (CErr ''decode status''), w)
                else (Inr \<lparr>cst_WAConnected = bool_field ''wa_connected'' False kvs, cst_JID = text_field ''jid'' '''' kvs,
                   cst_PushName = text_field ''push_name'' '''' kvs, cst_Since = text_field ''since'' '''' kvs\<rparr>, w)))"

definition client_Logout :: "'w transport \<Rightarrow> client \<Rightarrow> 'w \<Rightarrow> client_error option \<times> 'w" where
  "client_Logout send c w = (case send (addAuth c (new_request ''POST'' (cl_baseURL c @ ''/v1/logout'') None)) w of
     (Inl e, w) \<Rightarrow> (Some (CErr e), w)
   | (Inr res, w) \<Rightarrow> (if hr_status res = 204 then None else Some (problemError res), w))"

section \<open>Server-sent events\<close>

record sseFrame =
  sf_event :: string
  sf_data :: string

definition sseFrame_zero :: sseFrame where
  "sseFrame_zero = \<lparr>sf_event = '''', sf_data = ''''\<rparr>"

text \<open>
  The lines \<open>bufio.Scanner\<close> gives: without the line break and one carriage return before it; it
  stops for good at a line that does not fit its buffer of 1 MiB.
\<close>

definition max_token :: nat where
  "max_token = 1048576"

function raw_lines :: "string \<Rightarrow> string list" where
  "raw_lines s = (if s = [] then []
     else takeWhile (\<lambda>c. c \<noteq> CHR 0x0A) s # raw_lines (drop 1 (dropWhile (\<lambda>c. c \<noteq> CHR 0x0A) s)))"
  by pat_completeness auto
termination
proof (relation "measure length", goal_cases)
  case (2 s)
  have "length (dropWhile (\<lambda>c. c \<noteq> CHR 0x0A) s) \<le> length s" by (rule length_dropWhile_le)
  moreover have "0 < length s" using 2 by simp
  ultimately have "length (dropWhile (\<lambda>c. c \<noteq> CHR 0x0A) s) - 1 < length s" by linarith
  then show ?case by simp
qed simp

declare raw_lines.simps [simp del]

definition drop_cr :: "string \<Rightarrow> string" where
  "drop_cr l = (if l \<noteq> [] \<and> last l = CHR 0x0D then butlast l else l)"

definition scan_lines :: "string \<Rightarrow> string list" where
  "scan_lines s = map drop_cr (takeWhile (\<lambda>l. length l < max_token) (raw_lines s))"

fun sse_frames :: "sseFrame \<Rightarrow> string list \<Rightarrow> sseFrame list" where
  "sse_frames cur [] = []"
| "sse_frames cur (l # ls) =
     (if HasPrefix l ''event: '' then sse_frames (cur\<lparr>sf_event := drop 7 l\<rparr>) ls
      else if HasPrefix l ''data: '' then sse_frames (cur\<lparr>sf_data := drop 6 l\<rparr>) ls
      else if l = '''' \<and> (sf_event cur \<noteq> '''' \<or> sf_data cur \<noteq> '''') then cur # sse_frames sseFrame_zero ls
      else sse_frames cur ls)"

definition readSSE :: "string \<Rightarrow> sseFrame list" where
  "readSSE s = sse_frames sseFrame_zero (scan_lines s)"

section \<open>Logging in\<close>

definition openSSE :: "'w transport \<Rightarrow> client \<Rightarrow> string \<Rightarrow> string option \<Rightarrow> 'w \<Rightarrow> (client_error + http_res) \<times> 'w" where
  "openSSE send c path body w =
     (let rq = new_request ''POST'' (cl_baseURL c @ path) body;
          rq = (if body \<noteq> None then rq\<lparr>hq_ctype := ''application/json''\<rparr> else rq);
          rq = addAuth c (rq\<lparr>hq_accept := ''text/event-stream''\<rparr>)
      in case send rq w of
        (Inl e, w) \<Rightarrow> (Inl (CErr e), w)
      | (Inr res, w) \<Rightarrow> (if hr_status res \<noteq> 200 then Inl (problemError res) else Inr res, w))"

text \<open>\<open>for f := range readSSE(...)\<close> of \<open>LoginQR\<close> and of \<open>LoginPhone\<close>.\<close>

fun client_qr_events :: "sseFrame list \<Rightarrow> qr_event list" where
  "client_qr_events [] = []"
| "client_qr_events (f # fs) =
     (if sf_event f = ''qr'' then
        \<lparr>qr_Code = text_field ''code'' '''' (members (unmarshal (sf_data f))), qr_Terminal = False, qr_Outcome = ''''\<rparr> # client_qr_events fs
      else if sf_event f = ''connection'' then
        [\<lparr>qr_Code = '''', qr_Terminal = True, qr_Outcome = text_field ''outcome'' '''' (members (unmarshal (sf_data f)))\<rparr>]
      else client_qr_events fs)"

fun client_pair_events :: "sseFrame list \<Rightarrow> pair_event list" where
  "client_pair_events [] = []"
| "client_pair_events (f # fs) =
     (if sf_event f = ''pair_code'' then
        \<lparr>pe_Code = text_field ''code'' '''' (members (unmarshal (sf_data f))), pe_Terminal = False, pe_Outcome = ''''\<rparr> # client_pair_events fs
      else if sf_event f = ''connection'' then
        [\<lparr>pe_Code = '''', pe_Terminal = True, pe_Outcome = text_field ''outcome'' '''' (members (unmarshal (sf_data f)))\<rparr>]
      else client_pair_events fs)"

definition client_LoginQR :: "'w transport \<Rightarrow> client \<Rightarrow> 'w \<Rightarrow> (client_error + qr_event list) \<times> 'w" where
  "client_LoginQR send c w = (case openSSE send c ''/v1/login/qr'' None w of
     (Inl e, w) \<Rightarrow> (Inl e, w)
   | (Inr res, w) \<Rightarrow> (Inr (client_qr_events (readSSE (hr_body res))), w))"

text \<open>
  \<open>%q\<close> on ASCII; whether a rune outside ASCII is printable is looked up in Unicode tables, the
  parameter \<open>uq\<close>.
\<close>

definition quote_char :: "char \<Rightarrow> string" where
  "quote_char c = (let n = byte c in
     if n = 34 \<or> n = 92 then [CHR 0x5C, c]
     else if 32 \<le> n \<and> n < 127 then [c]
     else if n = 7 then CHR 0x5C # ''a'' else if n = 8 then CHR 0x5C # ''b'' else if n = 12 then CHR 0x5C # ''f''
     else if n = 10 then CHR 0x5C # ''n'' else if n = 13 then CHR 0x5C # ''r'' else if n = 9 then CHR 0x5C # ''t''
     else if n = 11 then CHR 0x5C # ''v''
     else CHR 0x5C # ''x'' @ [hex_digit (n div 16), hex_digit (n mod 16)])"

definition strconv_Quote :: "(string \<Rightarrow> string) \<Rightarrow> string \<Rightarrow> string" where
  "strconv_Quote uq s = (if list_all (\<lambda>c. byte c < 128) s then CHR 0x22 # concat (map quote_char s) @ [CHR 0x22] else uq s)"

definition client_LoginPhone :: "(string \<Rightarrow> string) \<Rightarrow> 'w transport \<Rightarrow> client \<Rightarrow> string \<Rightarrow> 'w \<Rightarrow> (client_error + pair_event list) \<times> 'w" where
  "client_LoginPhone uq send c phoneNumber w =
     (let body = ''{'' @ [CHR 0x22] @ ''phone_number'' @ [CHR 0x22] @ '':'' @ strconv_Quote uq phoneNumber @ ''}''
      in case openSSE send c ''/v1/login/phone'' (Some body) w of
        (Inl e, w) \<Rightarrow> (Inl e, w)
      | (Inr res, w) \<Rightarrow> (Inr (client_pair_events (readSSE (hr_body res))), w))"

end
