(* ===== verification/Client_Props.thy ===== *)
theory Client_Props
  imports Client Samples Adapter_Login
begin

text \<open>
  The client against the daemon: the transport is the daemon's own router, so that a call of the
  client is a request of the model of internal/transport/http, and what the client makes of the reply
  is compared with what the service gave.
\<close>

section \<open>The daemon as a transport\<close>

text \<open>No handler reads a number of a body: only that it is one matters.\<close>

fun json_of :: "jtext \<Rightarrow> json" where
  "json_of TNull = JNull"
| "json_of (TBool b) = JBool b"
| "json_of (TNum l) = JInt 0"
| "json_of (TStr s) = JStr s"
| "json_of (TArr xs) = JArr (map json_of xs)"
| "json_of (TObj kvs) = JObj (map (\<lambda>(k, v). (k, json_of v)) kvs)"

definition request_of :: "http_req \<Rightarrow> request" where
  "request_of rq = \<lparr>rq_auth = hq_auth rq, rq_last_id = '''', rq_query = [],
     rq_body = (case hq_body rq of None \<Rightarrow> None | Some b \<Rightarrow> map_option json_of (decode_first b)),
     rq_form = Inl (GoErr EOther ''not multipart'')\<rparr>"

definition daemon :: "('d, 'w) svc \<Rightarrow> string \<Rightarrow> bool \<Rightarrow> (string \<Rightarrow> string) \<Rightarrow> string \<Rightarrow> ('d, 'w) world transport" where
  "daemon S token mcp by_ext base rq w =
     (case find (\<lambda>ep. route ep = (hq_method rq, drop (length base) (hq_url rq))) [Ep_Status, Ep_LoginQR, Ep_LoginPhone, Ep_Logout] of
        None \<Rightarrow> (Inl ''no such route'', w)
      | Some ep \<Rightarrow> (case NewRouter S token mcp by_ext ep (request_of rq) w of
           (Plain r, w) \<Rightarrow> (Inr \<lparr>hr_status = rs_status r, hr_body = rs_body r\<rparr>, w)
         | (_, w) \<Rightarrow> (Inl ''no plain reply'', w)))"

section \<open>Field names\<close>

lemma is_field_ascii: "list_all (\<lambda>c. byte c < 128) f \<Longrightarrow> list_all (\<lambda>c. byte c < 128) k \<Longrightarrow>
  is_field f k \<longleftrightarrow> map (\<lambda>c. fold_rune (byte c)) k = map (\<lambda>c. fold_rune (byte c)) f"
  by (simp add: is_field_def fold_name_def runes_ascii comp_def)

lemma is_field_refl [simp]: "is_field f f"
  by (simp add: is_field_def)

lemma to_valid_ascii: "list_all (\<lambda>c. byte c < 128) s \<Longrightarrow> to_valid s = s"
  by (simp add: to_valid_valid utf8_valid_ascii)

lemma fields [simp]:
  "\<not> is_field ''code'' ''type''" "\<not> is_field ''code'' ''title''" "\<not> is_field ''code'' ''status''" "\<not> is_field ''code'' ''detail''"
  "\<not> is_field ''detail'' ''type''" "\<not> is_field ''detail'' ''title''" "\<not> is_field ''detail'' ''status''" "\<not> is_field ''detail'' ''code''"
  "\<not> is_field ''code'' ''expires_in_s''"
  "\<not> is_field ''jid'' ''push_name''" "\<not> is_field ''jid'' ''since''" "\<not> is_field ''jid'' ''wa_connected''"
  "\<not> is_field ''push_name'' ''jid''" "\<not> is_field ''push_name'' ''since''" "\<not> is_field ''push_name'' ''wa_connected''"
  "\<not> is_field ''since'' ''jid''" "\<not> is_field ''since'' ''push_name''" "\<not> is_field ''since'' ''wa_connected''"
  "\<not> is_field ''wa_connected'' ''jid''" "\<not> is_field ''wa_connected'' ''push_name''" "\<not> is_field ''wa_connected'' ''since''"
  by (simp_all add: is_field_ascii byte_def fold_rune_def)

lemma keys [simp]:
  "to_valid ''code'' = ''code''" "to_valid ''detail'' = ''detail''" "to_valid ''type'' = ''type''" "to_valid ''title'' = ''title''"
  "to_valid ''status'' = ''status''" "to_valid ''expires_in_s'' = ''expires_in_s''" "to_valid ''outcome'' = ''outcome''"
  "to_valid ''jid'' = ''jid''" "to_valid ''push_name'' = ''push_name''" "to_valid ''since'' = ''since''"
  "to_valid ''wa_connected'' = ''wa_connected''" "to_valid ''phone_number'' = ''phone_number''"
  by (simp_all add: to_valid_ascii byte_def)

lemma to_valid_ascii_iff:
  assumes "list_all (\<lambda>c. byte c < 128) k"
  shows "to_valid s = k \<longleftrightarrow> s = k"
proof
  assume eq: "to_valid s = k"
  have "\<not> invalid_rune (fst rb, length (snd rb))" if rb: "rb \<in> set (runes s)" for rb
  proof
    assume "invalid_rune (fst rb, length (snd rb))"
    then have "set replacement \<subseteq> set k" using rb by (auto simp: eq [symmetric] to_valid_def valid_rune_def)
    then show False using assms by (auto simp: replacement_def list_all_iff byte_def)
  qed
  then have "to_valid s = s" by (simp add: to_valid_valid utf8_valid_def)
  with eq show "s = k" by simp
qed (simp add: to_valid_ascii [OF assms])

lemma depth_ge: "\<exists>d. maxNestingDepth = Suc (Suc d)"
  by (rule exI [of _ 9998]) (simp add: maxNestingDepth_def)

lemma unmarshal_marshal: "within maxNestingDepth v \<Longrightarrow> unmarshal (marshal v) = Some (text_of v)"
  using parse_marshal [of maxNestingDepth v "[]"] by (simp add: unmarshal_def)

lemma decode_encode: "within maxNestingDepth v \<Longrightarrow> decode_first (encode_json v) = Some (text_of v)"
  using parse_marshal [of maxNestingDepth v newline] by (simp add: decode_first_def encode_json_def newline_def)

lemma within_flat: "\<forall>kv\<in>set kvs. \<forall>d. within d (snd kv) \<Longrightarrow> within maxNestingDepth (JObj kvs)"
proof -
  assume flat: "\<forall>kv\<in>set kvs. \<forall>d. within d (snd kv)"
  obtain d where d: "maxNestingDepth = Suc d" using depth_ge by blast
  have "within (Suc d) (JObj kvs)" unfolding within.simps using flat by blast
  then show ?thesis unfolding d .
qed

section \<open>Problems\<close>

lemma problem_of_WriteProblem:
  "problemError \<lparr>hr_status = st, hr_body = rs_body (WriteProblem st code d)\<rparr> =
     (if to_valid code = ''wa.not_logged_in'' then CErrNotLoggedIn
      else if to_valid code = ''wa.already_logged_in'' then CErrAlreadyLoggedIn
      else if to_valid code = ''wa.login_in_progress'' then CErrLoginInProgress
      else CErr (''daemon returned '' @ show_nat st @ '' ('' @ to_valid code @ ''): '' @ to_valid d))"
proof -
  let ?v = "JObj ([(''type'', JStr ''about:blank''), (''title'', JStr (StatusText st)),
       (''status'', JInt (int st)), (''code'', JStr code)] @ opt_field (d \<noteq> '''') ''detail'' (JStr d))"
  have "within maxNestingDepth ?v" by (rule within_flat) (auto simp: opt_field_def)
  then have "decode_first (rs_body (WriteProblem st code d)) = Some (text_of ?v)" by (simp add: WriteProblem_def decode_encode)
  moreover have "to_valid '''' = ''''" by (simp add: to_valid_def)
  ultimately show ?thesis by (simp add: problemError_def members_def opt_field_def)
qed

section \<open>Frames\<close>

lemma raw_lines_line: "CHR 0x0A \<notin> set l \<Longrightarrow> raw_lines (l @ CHR 0x0A # u) = l # raw_lines u"
proof -
  assume "CHR 0x0A \<notin> set l"
  then have "takeWhile (\<lambda>c. c \<noteq> CHR 0x0A) (l @ CHR 0x0A # u) = l" "dropWhile (\<lambda>c. c \<noteq> CHR 0x0A) (l @ CHR 0x0A # u) = CHR 0x0A # u"
    by (induction l) auto
  then show ?thesis by (simp add: raw_lines.simps [of "l @ CHR 0x0A # u"])
qed

lemma scan_lines_line:
  assumes "one_line l" "length l < max_token"
  shows "scan_lines (l @ newline @ u) = l # scan_lines u"
proof -
  have "CHR 0x0A \<notin> set l" using assms(1) by (simp add: one_line_def)
  moreover have "drop_cr l = l"
  proof -
    have "l \<noteq> [] \<longrightarrow> last l \<noteq> CHR 0x0D" using assms(1) by (metis last_in_set one_line_def)
    then show ?thesis by (auto simp: drop_cr_def)
  qed
  ultimately show ?thesis using assms(2) by (simp add: scan_lines_def newline_def raw_lines_line)
qed

lemma scan_lines_Nil: "scan_lines [] = []"
  by (simp add: scan_lines_def raw_lines.simps)

lemma scan_event:
  assumes "one_line name" "length name < 1000" "length (marshal v) < 1048000"
  shows "scan_lines (SSEWriteEvent name v @ u) = (''event: '' @ name) # (''data: '' @ marshal v) # '''' # scan_lines u"
proof -
  have "one_line (''event: '' @ name)" "one_line (''data: '' @ marshal v)" "one_line ''''"
    using assms(1) by (simp_all add: one_line_Cons one_line_marshal)
  from scan_lines_line [OF this(1)] scan_lines_line [OF this(2)] scan_lines_line [OF this(3)]
  show ?thesis using assms(2,3) by (simp add: SSEWriteEvent_def max_token_def)
qed

lemma readSSE_event:
  assumes "one_line name" "length name < 1000" "length (marshal v) < 1048000" "name \<noteq> ''''"
  shows "readSSE (SSEWriteEvent name v @ u) = \<lparr>sf_event = name, sf_data = marshal v\<rparr> # readSSE u"
  using assms(4) unfolding readSSE_def scan_event [OF assms(1-3)]
  by (simp add: HasPrefix_def sseFrame_zero_def)

section \<open>Login streams\<close>

text \<open>What a client is told of the events of a login: up to the first terminal one.\<close>

fun qr_told :: "qr_event list \<Rightarrow> qr_event list" where
  "qr_told [] = []"
| "qr_told (e # es) = (if qr_Terminal e then [qr_end (to_valid (qr_Outcome e))] else qr_code (to_valid (qr_Code e)) # qr_told es)"

fun pair_told :: "pair_event list \<Rightarrow> pair_event list" where
  "pair_told [] = []"
| "pair_told (e # es) = (if pe_Terminal e then [pair_end (to_valid (pe_Outcome e))] else pair_code (to_valid (pe_Code e)) # pair_told es)"

definition fits :: "string \<Rightarrow> bool" where
  "fits s \<longleftrightarrow> length (quote_str s) \<le> 1000000"

lemma length_quote_lit: "length (quote_str s) = 2 + length (concat (map quote_rune (runes s)))"
  by (simp add: quote_str_def)

lemma payload_outcome:
  "unmarshal (marshal (go_map [(''outcome'', JStr s)])) = Some (TObj [(''outcome'', TStr (to_valid s))])"
  "fits s \<Longrightarrow> length (marshal (go_map [(''outcome'', JStr s)])) < 1048000"
proof -
  have "within maxNestingDepth (go_map [(''outcome'', JStr s)])" unfolding go_map_def by (rule within_flat) simp
  then show "unmarshal (marshal (go_map [(''outcome'', JStr s)])) = Some (TObj [(''outcome'', TStr (to_valid s))])"
    by (simp add: unmarshal_marshal) (simp add: go_map_def)
  have "length (quote_str ''outcome'') = 9" by (simp add: quote_str_def runes_ascii byte_def quote_rune_def)
  then show "fits s \<Longrightarrow> length (marshal (go_map [(''outcome'', JStr s)])) < 1048000" by (simp add: go_map_def fits_def)
qed

lemma payload_code:
  assumes "0 \<le> n" "n < 1000"
  shows "unmarshal (marshal (go_map [(''code'', JStr s), (''expires_in_s'', JInt n)]))
      = Some (TObj [(''code'', TStr (to_valid s)), (''expires_in_s'', TNum (show_int n))])"
    and "fits s \<Longrightarrow> length (marshal (go_map [(''code'', JStr s), (''expires_in_s'', JInt n)])) < 1048000"
proof -
  have m: "go_map [(''code'', JStr s), (''expires_in_s'', JInt n)] = JObj [(''code'', JStr s), (''expires_in_s'', JInt n)]"
    by (simp add: go_map_def)
  have "within maxNestingDepth (JObj [(''code'', JStr s), (''expires_in_s'', JInt n)])" by (rule within_flat) simp
  then show "unmarshal (marshal (go_map [(''code'', JStr s), (''expires_in_s'', JInt n)]))
      = Some (TObj [(''code'', TStr (to_valid s)), (''expires_in_s'', TNum (show_int n))])"
    unfolding m by (subst unmarshal_marshal) simp_all
  have "length (quote_str ''code'') = 6" "length (quote_str ''expires_in_s'') = 14"
    by (simp_all add: quote_str_def runes_ascii byte_def quote_rune_def)
  moreover have "length (show_int n) \<le> 3"
  proof -
    have "nat n < 1000" using assms by simp
    then have "nat n div 10 div 10 < 10" "nat n div 10 < 100" by simp_all
    then have "length (show_nat (nat n)) \<le> 3"
      by (simp add: show_nat.simps [of "nat n"] show_nat.simps [of "nat n div 10"] show_nat.simps [of "nat n div 10 div 10"])
    then show ?thesis using assms by (simp add: show_int_def)
  qed
  ultimately show "fits s \<Longrightarrow> length (marshal (go_map [(''code'', JStr s), (''expires_in_s'', JInt n)])) < 1048000"
    unfolding m by (simp add: fits_def)
qed

lemma qr_stream_read: "\<forall>e\<in>set es. fits (qr_Code e) \<and> fits (qr_Outcome e) \<Longrightarrow> client_qr_events (readSSE (qr_frames es)) = qr_told es"
proof (induction es)
  case Nil
  show ?case by (simp add: readSSE_def scan_lines_Nil)
next
  case (Cons e es)
  have names: "one_line ''qr''" "one_line ''connection''" by (simp_all add: one_line_Cons)
  show ?case
  proof (cases "qr_Terminal e")
    case True
    have "readSSE (qr_frames (e # es) @ []) = \<lparr>sf_event = ''connection'', sf_data = marshal (go_map [(''outcome'', JStr (qr_Outcome e))])\<rparr> # readSSE []"
      using True Cons.prems payload_outcome(2) by (simp only: qr_frames.simps if_True) (intro readSSE_event names(2); simp)
    then show ?thesis using True by (simp add: payload_outcome(1) members_def qr_end_def)
  next
    case False
    have "readSSE (qr_frames (e # es)) = \<lparr>sf_event = ''qr'', sf_data = marshal (go_map [(''code'', JStr (qr_Code e)), (''expires_in_s'', JInt 20)])\<rparr>
        # readSSE (qr_frames es)"
      using False Cons.prems payload_code(2) by (simp only: qr_frames.simps if_False) (intro readSSE_event names(1); simp)
    then show ?thesis using False Cons by (simp add: payload_code(1) members_def qr_code_def)
  qed
qed

lemma pair_stream_read: "\<forall>e\<in>set es. fits (pe_Code e) \<and> fits (pe_Outcome e) \<Longrightarrow> client_pair_events (readSSE (pair_frames es)) = pair_told es"
proof (induction es)
  case Nil
  show ?case by (simp add: readSSE_def scan_lines_Nil)
next
  case (Cons e es)
  have names: "one_line ''pair_code''" "one_line ''connection''" by (simp_all add: one_line_Cons)
  show ?case
  proof (cases "pe_Terminal e")
    case True
    have "readSSE (pair_frames (e # es) @ []) = \<lparr>sf_event = ''connection'', sf_data = marshal (go_map [(''outcome'', JStr (pe_Outcome e))])\<rparr> # readSSE []"
      using True Cons.prems payload_outcome(2) by (simp only: pair_frames.simps if_True) (intro readSSE_event names(2); simp)
    then show ?thesis using True by (simp add: payload_outcome(1) members_def pair_end_def)
  next
    case False
    have "readSSE (pair_frames (e # es)) = \<lparr>sf_event = ''pair_code'', sf_data = marshal (go_map [(''code'', JStr (pe_Code e)), (''expires_in_s'', JInt 120)])\<rparr>
        # readSSE (pair_frames es)"
      using False Cons.prems payload_code(2) by (simp only: pair_frames.simps if_False) (intro readSSE_event names(1); simp)
    then show ?thesis using False Cons by (simp add: payload_code(1) members_def pair_code_def)
  qed
qed

section \<open>Calls\<close>

lemma bearer_prefix: "map ascii_lower ''Bearer '' = ''bearer ''"
  by code_simp

lemma client_authorised:
  assumes "token = '''' \<or> hd token \<noteq> CHR '' ''" "hq_auth rq = (if token = '''' then '''' else ''Bearer '' @ token)"
  shows "RequireBearerToken token (request_of rq) = None"
proof (cases "token = ''''")
  case False
  then have h: "hq_auth rq = ''Bearer '' @ token" "hd token \<noteq> CHR '' ''" using assms by simp_all
  have "dropWhile (\<lambda>c. c = CHR '' '') token = token" using h(2) by (cases token) simp_all
  moreover have "drop 7 (''Bearer '' @ token) = token" "take 7 (''Bearer '' @ token) = ''Bearer ''" "7 < length (''Bearer '' @ token)"
    using False by (simp_all add: numeral_eq_Suc)
  ultimately have "bearerToken (''Bearer '' @ token) = Some token"
    unfolding bearerToken_def by (simp only: bearer_prefix) (simp add: False)
  then show ?thesis using False by (simp add: RequireBearerToken_def request_of_def h(1))
qed (simp add: RequireBearerToken_def)

lemma client_New_fields: "cl_token (client_New base token) = token"
  by (simp add: client_New_def)

lemma drop_append_len: "drop (length xs) (xs @ ys) = ys"
  by simp

lemma daemon_call:
  assumes "token = '''' \<or> hd token \<noteq> CHR '' ''" "hq_auth rq = (if token = '''' then '''' else ''Bearer '' @ token)"
    and "hq_url rq = base @ path" "hq_method rq = m" "(m, path) = route ep" "ep \<in> {Ep_Status, Ep_LoginQR, Ep_LoginPhone, Ep_Logout}"
    and "handle S mcp by_ext ep (request_of rq) w = (Plain r, w')"
  shows "daemon S token mcp by_ext base rq w = (Inr \<lparr>hr_status = rs_status r, hr_body = rs_body r\<rparr>, w')"
proof -
  have "find (\<lambda>ep. route ep = (hq_method rq, drop (length base) (hq_url rq))) [Ep_Status, Ep_LoginQR, Ep_LoginPhone, Ep_Logout] = Some ep"
  proof -
    have "find (\<lambda>x. route x = route ep) [Ep_Status, Ep_LoginQR, Ep_LoginPhone, Ep_Logout] = Some ep"
      using assms(6) by (elim insertE emptyE; simp)
    then show ?thesis by (simp only: assms(3,4) drop_append_len assms(5))
  qed
  moreover have "NewRouter S token mcp by_ext ep (request_of rq) w = (Plain r, w')"
    using client_authorised [OF assms(1,2)] assms(6,7) by (auto simp: NewRouter_def)
  ultimately show ?thesis by (simp add: daemon_def)
qed

definition login_err :: "goerr \<Rightarrow> client_error" where
  "login_err e = (if is_err EAlreadyLoggedIn e then CErrAlreadyLoggedIn
     else if is_err ELoginInProgress e then CErrLoginInProgress
     else CErr (''daemon returned 500 (wa.login_failed): '' @ to_valid (err_msg e)))"

lemma problem_codes [simp]: "to_valid ''wa.already_logged_in'' = ''wa.already_logged_in''"
    "to_valid ''wa.login_in_progress'' = ''wa.login_in_progress''" "to_valid ''wa.not_logged_in'' = ''wa.not_logged_in''"
    "to_valid ''wa.login_failed'' = ''wa.login_failed''" "to_valid ''wa.internal'' = ''wa.internal''"
  by (simp_all add: to_valid_ascii byte_def)

lemma show_500 [simp]: "show_nat 500 = ''500''"
  by code_simp

lemma login_problem:
  "problemError \<lparr>hr_status = rs_status (err_switch [case_logged_in, case_in_progress] ''wa.login_failed'' e),
     hr_body = rs_body (err_switch [case_logged_in, case_in_progress] ''wa.login_failed'' e)\<rparr> = login_err e"
  and login_problem_status: "rs_status (err_switch [case_logged_in, case_in_progress] ''wa.login_failed'' e) \<noteq> 200"
proof -
  have st: "rs_status (WriteProblem st c d) = st" for st c d by (simp add: WriteProblem_def)
  show "problemError \<lparr>hr_status = rs_status (err_switch [case_logged_in, case_in_progress] ''wa.login_failed'' e),
     hr_body = rs_body (err_switch [case_logged_in, case_in_progress] ''wa.login_failed'' e)\<rparr> = login_err e"
    by (simp add: case_logged_in_def case_in_progress_def st problem_of_WriteProblem login_err_def)
  show "rs_status (err_switch [case_logged_in, case_in_progress] ''wa.login_failed'' e) \<noteq> 200"
    by (simp add: case_logged_in_def case_in_progress_def st)
qed

lemma quote_phone:
  assumes "IsValidPhoneNumber p"
  shows "strconv_Quote uq p = quote_str p" "to_valid p = p"
proof -
  have plain: "list_all (\<lambda>c. 43 \<le> byte c \<and> byte c \<le> 57) p"
    using assms by (auto simp: IsValidPhoneNumber_def list_all_iff is_digit_def byte_def split: list.splits)
  then have ascii: "list_all (\<lambda>c. byte c < 128) p" by (auto simp: list_all_iff)
  have "quote_char c = [c] \<and> quote_rune (byte c, [c]) = [c]" if "c \<in> set p" for c
  proof -
    have "43 \<le> byte c" "byte c \<le> 57" using plain that by (simp_all add: list_all_iff)
    then have "byte c \<notin> {34, 92, 8, 12, 10, 13, 9, 60, 62, 38, 65533, 8232, 8233}" "32 \<le> byte c" "byte c < 127" by auto
    then show ?thesis by (simp add: quote_char_def quote_rune_def)
  qed
  then have "map quote_char p = map quote_rune (runes p)" unfolding runes_ascii [OF ascii] by simp
  then show "strconv_Quote uq p = quote_str p" using ascii by (simp add: strconv_Quote_def quote_str_def)
  show "to_valid p = p" by (rule to_valid_ascii [OF ascii])
qed

lemma phone_body:
  assumes "IsValidPhoneNumber p" "hq_body rq = Some (''{'' @ [CHR 0x22] @ ''phone_number'' @ [CHR 0x22] @ '':'' @ strconv_Quote uq p @ ''}'')"
  shows "str_field ''phone_number'' (rq_body (request_of rq)) = Some p"
proof -
  let ?v = "JObj [(''phone_number'', JStr p)]"
  have "quote_str ''phone_number'' = [CHR 0x22] @ ''phone_number'' @ [CHR 0x22]"
    by (simp add: quote_str_def runes_ascii byte_def quote_rune_def)
  then have "hq_body rq = Some (marshal ?v)" using assms by (simp add: quote_phone)
  moreover have "decode_first (marshal ?v) = Some (text_of ?v)"
  proof -
    have "within maxNestingDepth ?v" by (rule within_flat) simp
    from parse_marshal [OF this, of "[]"] show ?thesis unfolding decode_first_def by simp
  qed
  ultimately show ?thesis by (simp add: request_of_def json_field_def quote_phone [OF assms(1)])
qed

lemma openSSE_daemon:
  fixes base token
  defines "c \<equiv> client_New base token"
  assumes "token = '''' \<or> hd token \<noteq> CHR '' ''" "(''POST'', path) = route ep" "ep \<in> {Ep_Status, Ep_LoginQR, Ep_LoginPhone, Ep_Logout}"
    and "\<And>rq. hq_body rq = body \<Longrightarrow> handle S mcp by_ext ep (request_of rq) w = (Plain r, w')"
  shows "openSSE (daemon S token mcp by_ext (cl_baseURL c)) c path body w =
    (if rs_status r \<noteq> 200 then Inl (problemError \<lparr>hr_status = rs_status r, hr_body = rs_body r\<rparr>)
     else Inr \<lparr>hr_status = rs_status r, hr_body = rs_body r\<rparr>, w')"
proof -
  let ?rq0 = "new_request ''POST'' (cl_baseURL c @ path) body"
  let ?rq1 = "if body \<noteq> None then ?rq0\<lparr>hq_ctype := ''application/json''\<rparr> else ?rq0"
  let ?rq = "addAuth c (?rq1\<lparr>hq_accept := ''text/event-stream''\<rparr>)"
  have f: "hq_auth ?rq = (if token = '''' then '''' else ''Bearer '' @ token)" "hq_url ?rq = cl_baseURL c @ path"
    "hq_method ?rq = ''POST''" "hq_body ?rq = body"
    by (simp_all add: addAuth_def new_request_def c_def client_New_fields)
  have "daemon S token mcp by_ext (cl_baseURL c) ?rq w = (Inr \<lparr>hr_status = rs_status r, hr_body = rs_body r\<rparr>, w')"
    by (rule daemon_call [OF assms(2) f(1-3) assms(3,4) assms(5) [OF f(4)]])
  then show ?thesis by (simp add: openSSE_def)
qed

lemma login_qr_daemon:
  assumes "token = '''' \<or> hd token \<noteq> CHR '' ''"
    and "\<And>es w'. svc_LoginQR S w = (Inr es, w') \<Longrightarrow> \<forall>e\<in>set es. fits (qr_Code e) \<and> fits (qr_Outcome e)"
  shows "client_LoginQR (daemon S token mcp by_ext (cl_baseURL (client_New base token))) (client_New base token) w =
    (case svc_LoginQR S w of (Inl e, w') \<Rightarrow> (Inl (login_err e), w') | (Inr es, w') \<Rightarrow> (Inr (qr_told es), w'))"
proof -
  let ?c = "client_New base token"
  let ?send = "daemon S token mcp by_ext (cl_baseURL ?c)"
  obtain r w' where h: "LoginQRHandler S w = (r, w')" by fastforce
  have "openSSE ?send ?c ''/v1/login/qr'' None w = (if rs_status r \<noteq> 200 then Inl (problemError \<lparr>hr_status = rs_status r, hr_body = rs_body r\<rparr>)
     else Inr \<lparr>hr_status = rs_status r, hr_body = rs_body r\<rparr>, w')"
    by (rule openSSE_daemon [OF assms(1), where ep = Ep_LoginQR]) (simp_all add: handle_def h)
  then show ?thesis using h assms(2)
    by (cases "svc_LoginQR S w")
      (auto simp: client_LoginQR_def LoginQRHandler_def login_problem login_problem_status SSEPrepare_def qr_stream_read split: sum.splits)
qed

lemma login_phone_daemon:
  assumes "token = '''' \<or> hd token \<noteq> CHR '' ''" "IsValidPhoneNumber p"
    and "\<And>es w'. svc_LoginPhone S p w = (Inr es, w') \<Longrightarrow> \<forall>e\<in>set es. fits (pe_Code e) \<and> fits (pe_Outcome e)"
  shows "client_LoginPhone uq (daemon S token mcp by_ext (cl_baseURL (client_New base token))) (client_New base token) p w =
    (case svc_LoginPhone S p w of (Inl e, w') \<Rightarrow> (Inl (login_err e), w') | (Inr es, w') \<Rightarrow> (Inr (pair_told es), w'))"
proof -
  let ?c = "client_New base token"
  let ?send = "daemon S token mcp by_ext (cl_baseURL ?c)"
  let ?body = "''{'' @ [CHR 0x22] @ ''phone_number'' @ [CHR 0x22] @ '':'' @ strconv_Quote uq p @ ''}''"
  let ?h = "case svc_LoginPhone S p w of (Inl e, w) \<Rightarrow> (err_switch [case_logged_in, case_in_progress] ''wa.login_failed'' e, w)
         | (Inr ch, w) \<Rightarrow> (SSEPrepare (pair_frames ch), w)"
  have h: "LoginPhoneHandler S (request_of rq) w = ?h" if "hq_body rq = Some ?body" for rq
    using phone_body [OF assms(2) that] assms(2) by (simp add: LoginPhoneHandler_def)
  obtain r w' where r: "?h = (r, w')" by fastforce
  have "openSSE ?send ?c ''/v1/login/phone'' (Some ?body) w = (if rs_status r \<noteq> 200 then Inl (problemError \<lparr>hr_status = rs_status r, hr_body = rs_body r\<rparr>)
     else Inr \<lparr>hr_status = rs_status r, hr_body = rs_body r\<rparr>, w')"
    by (rule openSSE_daemon [OF assms(1), where ep = Ep_LoginPhone]) (simp_all add: handle_def h r)
  then show ?thesis using r assms(3) unfolding client_LoginPhone_def Let_def
    by (cases "svc_LoginPhone S p w")
      (auto simp: login_problem login_problem_status SSEPrepare_def pair_stream_read split: sum.splits)
qed

text \<open>Property C34: over the daemon's router with the same token, a login call of the client gives what the login of
  the service gives: its errors as the sentinels of the client, its stream up to the first terminal
  event with the same codes and outcome (invalid UTF-8 replaced).\<close>

theorem logins_end_to_end:
  assumes "token = '''' \<or> hd token \<noteq> CHR '' ''" "IsValidPhoneNumber p"
    and "\<And>es w'. svc_LoginQR S w = (Inr es, w') \<Longrightarrow> \<forall>e\<in>set es. fits (qr_Code e) \<and> fits (qr_Outcome e)"
    and "\<And>es w'. svc_LoginPhone S p w = (Inr es, w') \<Longrightarrow> \<forall>e\<in>set es. fits (pe_Code e) \<and> fits (pe_Outcome e)"
  shows "let c = client_New base token; send = daemon S token mcp by_ext (cl_baseURL c) in
     client_LoginQR send c w = (case svc_LoginQR S w of (Inl e, w') \<Rightarrow> (Inl (login_err e), w') | (Inr es, w') \<Rightarrow> (Inr (qr_told es), w'))
   \<and> client_LoginPhone uq send c p w =
       (case svc_LoginPhone S p w of (Inl e, w') \<Rightarrow> (Inl (login_err e), w') | (Inr es, w') \<Rightarrow> (Inr (pair_told es), w'))"
  unfolding Let_def using assms by (blast intro: login_qr_daemon login_phone_daemon)

theorem logins_end_to_end_witness:
  "fst (client_LoginQR (daemon demo_svc ''s3cret'' True (\<lambda>e. '''') ''http://127.0.0.1:8080'')
      (client_New ''http://127.0.0.1:8080/'' ''s3cret'') demo_lite)
   = (case svc_LoginQR demo_svc demo_lite of (Inl e, w') \<Rightarrow> Inl (login_err e) | (Inr es, w') \<Rightarrow> Inr (qr_told es))"
proof -
  have u: "cl_baseURL (client_New ''http://127.0.0.1:8080/'' ''s3cret'') = ''http://127.0.0.1:8080''" by (simp add: client_New_def)
  have p: "IsValidPhoneNumber ''+27821234567''" by (simp add: IsValidPhoneNumber_def is_digit_def byte_def)
  have f: "fits ''''" "fits ''success''" "fits ''ABCD-1234''" by (simp_all add: fits_def quote_str_def runes_ascii byte_def quote_rune_def)
  have qr: "\<And>es w'. svc_LoginQR demo_svc demo_lite = (Inr es, w') \<Longrightarrow> \<forall>e\<in>set es. fits (qr_Code e) \<and> fits (qr_Outcome e)"
    by (auto simp: svc_LoginQR_def on_wa_def demo_wa_def svc_New_def f)
  have ph: "\<And>es w'. svc_LoginPhone demo_svc ''+27821234567'' demo_lite = (Inr es, w') \<Longrightarrow> \<forall>e\<in>set es. fits (pe_Code e) \<and> fits (pe_Outcome e)"
    by (auto simp: svc_LoginPhone_def p on_wa_def demo_wa_def svc_New_def f)
  show ?thesis
    using logins_end_to_end [where S = demo_svc and w = demo_lite and base = "''http://127.0.0.1:8080/''" and token = "''s3cret''" and mcp = True and by_ext = "\<lambda>e. ''''",
        OF _ p qr ph]
    by (simp add: u Let_def split: prod.split sum.split)
qed

section \<open>Status and logout\<close>

text \<open>Over the daemon's router with the same token, the status the client reads is the status of the
  service (absent strings empty, the time in RFC 3339), and a logout succeeds, or reports ``not logged in'',
  exactly when the service does.\<close>

theorem client_mirrors:
  assumes "token = '''' \<or> hd token \<noteq> CHR '' ''"
  shows "let c = client_New base token; send = daemon S token mcp by_ext (cl_baseURL c); st = svc_Status S w;
      text = (\<lambda>x. to_valid (case x of None \<Rightarrow> '''' | Some s \<Rightarrow> s)) in
     client_Status send c w = (Inr \<lparr>cst_WAConnected = st_Connected st, cst_JID = text (st_JID st), cst_PushName = text (st_PushName st),
        cst_Since = text (map_option format_rfc3339 (st_Since st))\<rparr>, w)
   \<and> client_Logout send c w = (case svc_Logout S w of
        (None, w') \<Rightarrow> (None, w')
      | (Some e, w') \<Rightarrow> (Some (if is_err ENotLoggedIn e then CErrNotLoggedIn
           else CErr (''daemon returned 500 (wa.internal): '' @ to_valid (err_msg e))), w'))"
proof -
  define c where "c = client_New base token"
  have auth: "hq_auth (addAuth c (new_request m u b)) = (if token = '''' then '''' else ''Bearer '' @ token)"
    "hq_url (addAuth c (new_request m u b)) = u" "hq_method (addAuth c (new_request m u b)) = m" for m u b
    by (simp_all add: addAuth_def new_request_def c_def client_New_fields)
  let ?send = "daemon S token mcp by_ext (cl_baseURL c)"
  have out: "client_Logout ?send c w = (case svc_Logout S w of
        (None, w') \<Rightarrow> (None, w')
      | (Some e, w') \<Rightarrow> (Some (if is_err ENotLoggedIn e then CErrNotLoggedIn
           else CErr (''daemon returned 500 (wa.internal): '' @ to_valid (err_msg e))), w'))"
  proof -
    obtain r w' where h: "LogoutHandler S w = (r, w')" by fastforce
    have "?send (addAuth c (new_request ''POST'' (cl_baseURL c @ ''/v1/logout'') None)) w = (Inr \<lparr>hr_status = rs_status r, hr_body = rs_body r\<rparr>, w')"
      by (rule daemon_call [OF assms auth, where ep = Ep_Logout]) (simp_all add: handle_def h)
    moreover have "rs_status (WriteProblem st cd d) = st" for st cd d by (simp add: WriteProblem_def)
    ultimately show ?thesis using h
      by (cases "svc_Logout S w")
        (auto simp: client_Logout_def LogoutHandler_def case_not_logged_in_def problem_of_WriteProblem no_content_def split: option.splits)
  qed
  let ?st = "svc_Status S w"
  let ?kvs = "[(''jid'', nilOrString (st_JID ?st)), (''push_name'', nilOrString (st_PushName ?st)),
      (''since'', nilOrTime (st_Since ?st)), (''wa_connected'', JBool (st_Connected ?st))]"
  have sorted: "go_map [(''wa_connected'', JBool (st_Connected ?st)), (''jid'', nilOrString (st_JID ?st)),
           (''push_name'', nilOrString (st_PushName ?st)), (''since'', nilOrTime (st_Since ?st))] = JObj ?kvs"
    by (simp add: go_map_def)
  have "?send (addAuth c (new_request ''GET'' (cl_baseURL c @ ''/v1/status'') None)) w
      = (Inr \<lparr>hr_status = 200, hr_body = encode_json (JObj ?kvs)\<rparr>, w)"
    by (rule daemon_call [OF assms auth, where ep = Ep_Status and r = "writeJSON 200 (JObj ?kvs)", unfolded writeJSON_def, simplified])
      (simp_all add: handle_def StatusHandler_def sorted Let_def writeJSON_def)
  moreover have "within maxNestingDepth (JObj ?kvs)"
    by (rule within_flat) (auto simp: nilOrString_def nilOrTime_def split: option.split)
  note decode_encode [OF this]
  ultimately have "client_Status ?send c w = (Inr \<lparr>cst_WAConnected = st_Connected ?st,
        cst_JID = to_valid (case st_JID ?st of None \<Rightarrow> '''' | Some s \<Rightarrow> s), cst_PushName = to_valid (case st_PushName ?st of None \<Rightarrow> '''' | Some s \<Rightarrow> s),
        cst_Since = to_valid (case map_option format_rfc3339 (st_Since ?st) of None \<Rightarrow> '''' | Some s \<Rightarrow> s)\<rparr>, w)"
    by (simp add: client_Status_def members_def decodes_def nilOrString_def nilOrTime_def split: option.split)
      (simp add: to_valid_def)
  with out show ?thesis unfolding c_def by (simp add: Let_def)
qed

theorem client_mirrors_witness:
  "fst (client_Logout (daemon demo_svc '''' True (\<lambda>e. '''') '''') (client_New '''' '''') demo_lite) =
     (case svc_Logout demo_svc demo_lite of (None, w') \<Rightarrow> None
      | (Some e, w') \<Rightarrow> Some (if is_err ENotLoggedIn e then CErrNotLoggedIn
           else CErr (''daemon returned 500 (wa.internal): '' @ to_valid (err_msg e))))"
proof -
  have u: "cl_baseURL (client_New '''' '''') = ''''" by (simp add: client_New_def)
  show ?thesis using client_mirrors [where base = "''''" and token = "''''" and S = demo_svc and mcp = True and by_ext = "\<lambda>e. ''''" and w = demo_lite]
    by (simp add: u Let_def split: prod.split option.split)
qed

end
