(* ===== verification/Go_Net.thy ===== *)
theory Go_Net
  imports Go_Strings
begin

text \<open>
  What the configuration uses of the Go package \<open>net\<close>: \<open>ParseIP\<close> with its readers of the two forms of
  an address (\<open>net/netip\<close>), \<open>IP.IsLoopback\<close> and \<open>SplitHostPort\<close>. An address is its sixteen bytes.
\<close>

section \<open>Dotted decimal\<close>

text \<open>\<open>fresh\<close>: at the start of a field; \<open>n\<close> digits with the value \<open>v\<close> have been read in it.\<close>

fun parseIPv4Fields :: "bool \<Rightarrow> nat \<Rightarrow> nat \<Rightarrow> nat list \<Rightarrow> string \<Rightarrow> nat list option" where
  "parseIPv4Fields fresh n v fs [] = (if length fs < 3 then None else Some (fs @ [v]))"
| "parseIPv4Fields fresh n v fs (c # cs) =
     (if is_digit c
      then (if n = 1 \<and> v = 0 then None
            else let v = v * 10 + (byte c - 48) in if 255 < v then None else parseIPv4Fields False (n + 1) v fs cs)
      else if c = CHR ''.''
      then (if fresh \<or> cs = [] \<or> length fs = 3 then None else parseIPv4Fields True 0 0 (fs @ [v]) cs)
      else None)"

section \<open>Colon-separated hexadecimal\<close>

definition hex_val :: "char \<Rightarrow> nat option" where
  "hex_val c = (if is_digit c then Some (byte c - 48)
     else if 97 \<le> byte c \<and> byte c \<le> 102 then Some (byte c - 87)
     else if 65 \<le> byte c \<and> byte c \<le> 70 then Some (byte c - 55) else None)"

text \<open>The digits of a group, their value, and what follows them; at most four digits.\<close>

fun hex_run :: "nat \<Rightarrow> nat \<Rightarrow> string \<Rightarrow> (nat \<times> nat \<times> string) option" where
  "hex_run n a [] = Some (n, a, [])"
| "hex_run n a (c # cs) = (case hex_val c of
     None \<Rightarrow> Some (n, a, c # cs)
   | Some d \<Rightarrow> if 3 < n then None else hex_run (n + 1) (16 * a + d) cs)"

definition expand_ellipsis :: "nat list \<Rightarrow> nat option \<Rightarrow> string \<Rightarrow> nat list option" where
  "expand_ellipsis ip el s =
     (if s \<noteq> [] then None
      else if length ip < 16
      then (case el of None \<Rightarrow> None | Some e \<Rightarrow> Some (take e ip @ replicate (16 - length ip) 0 @ drop e ip))
      else if el \<noteq> None then None else Some ip)"

function parse_groups :: "nat list \<Rightarrow> nat option \<Rightarrow> string \<Rightarrow> nat list option" where
  "parse_groups ip el s =
     (if 16 \<le> length ip then expand_ellipsis ip el s
      else case hex_run 0 0 s of
        None \<Rightarrow> None
      | Some (n, a, r) \<Rightarrow>
          if n = 0 then None
          else if r \<noteq> [] \<and> hd r = CHR ''.''
          then (if el = None \<and> length ip \<noteq> 12 \<or> 16 < length ip + 4 then None
                else case parseIPv4Fields True 0 0 [] s of None \<Rightarrow> None | Some fs \<Rightarrow> expand_ellipsis (ip @ fs) el [])
          else let ip = ip @ [a div 256, a mod 256] in
            if r = [] then expand_ellipsis ip el []
            else if hd r \<noteq> CHR '':'' \<or> tl r = [] then None
            else if hd (tl r) = CHR '':''
            then (if el \<noteq> None then None
                  else if tl (tl r) = [] then expand_ellipsis ip (Some (length ip)) []
                  else parse_groups ip (Some (length ip)) (tl (tl r)))
            else parse_groups ip el (tl r))"
  by pat_completeness auto
termination
  by (relation "measure (\<lambda>(ip, el, s). 16 - length ip)") auto

declare parse_groups.simps [simp del]

definition parseIPv6 :: "string \<Rightarrow> nat list option" where
  "parseIPv6 s =
     (if HasPrefix s ''::''
      then (if drop 2 s = [] then Some (replicate 16 0) else parse_groups [] (Some 0) (drop 2 s))
      else parse_groups [] None s)"

section \<open>\<open>ParseIP\<close> and \<open>IsLoopback\<close>\<close>

text \<open>The first separator decides the form; an address with a zone is no \<open>IP\<close>.\<close>

definition v4_prefix :: "nat list" where
  "v4_prefix = replicate 10 0 @ [255, 255]"

definition ParseIP :: "string \<Rightarrow> nat list option" where
  "ParseIP s = (case filter (\<lambda>c. c = CHR ''.'' \<or> c = CHR '':'' \<or> c = CHR ''%'') s of
     [] \<Rightarrow> None
   | c # cs \<Rightarrow>
       if c = CHR ''.'' then map_option (\<lambda>fs. v4_prefix @ fs) (parseIPv4Fields True 0 0 [] s)
       else if c = CHR '':'' \<and> CHR ''%'' \<notin> set s then parseIPv6 s
       else None)"

definition IsLoopback :: "nat list \<Rightarrow> bool" where
  "IsLoopback ip = (if take 12 ip = v4_prefix then ip ! 12 = 127 else ip = replicate 15 0 @ [1])"

section \<open>\<open>SplitHostPort\<close>\<close>

definition after_last :: "char \<Rightarrow> string \<Rightarrow> string" where
  "after_last c s = rev (takeWhile (\<lambda>d. d \<noteq> c) (rev s))"

definition before_last :: "char \<Rightarrow> string \<Rightarrow> string" where
  "before_last c s = take (length s - length (after_last c s) - 1) s"

text \<open>
  An address in brackets ends at its bracket; without brackets the host has no colon. \<open>Inl\<close> is the
  reason of the \<open>AddrError\<close>.
\<close>

definition SplitHostPort :: "string \<Rightarrow> string + string \<times> string" where
  "SplitHostPort hp =
     (if CHR '':'' \<notin> set hp then Inl ''missing port in address''
      else let i = length (before_last CHR '':'' hp) in
      if hd hp = CHR ''[''
      then (let e = length (takeWhile (\<lambda>c. c \<noteq> CHR '']'') hp) in
        if e = length hp then Inl ''missing ']' in address''
        else if e + 1 = length hp then Inl ''missing port in address''
        else if e + 1 \<noteq> i
        then Inl (if hp ! (e + 1) = CHR '':'' then ''too many colons in address'' else ''missing port in address'')
        else if CHR ''['' \<in> set (drop 1 hp) then Inl ''unexpected '[' in address''
        else if CHR '']'' \<in> set (drop (e + 1) hp) then Inl ''unexpected ']' in address''
        else Inr (take (e - 1) (drop 1 hp), drop (i + 1) hp))
      else if CHR '':'' \<in> set (take i hp) then Inl ''too many colons in address''
      else if CHR ''['' \<in> set hp then Inl ''unexpected '[' in address''
      else if CHR '']'' \<in> set hp then Inl ''unexpected ']' in address''
      else Inr (take i hp, drop (i + 1) hp))"

lemma after_last_snoc: "c \<notin> set p \<Longrightarrow> after_last c (h @ c # p) = p"
  by (simp add: after_last_def takeWhile_append)

lemma before_last_snoc: "c \<notin> set p \<Longrightarrow> before_last c (h @ c # p) = h"
  by (simp add: before_last_def after_last_snoc)

lemma SplitHostPort_plain:
  assumes "CHR '':'' \<notin> set h" "CHR '':'' \<notin> set p" "{CHR ''['', CHR '']''} \<inter> set (h @ p) = {}"
  shows "SplitHostPort (h @ CHR '':'' # p) = Inr (h, p)"
proof -
  have "hd (h @ CHR '':'' # p) \<noteq> CHR ''[''" using assms(3) by (cases h) auto
  then show ?thesis using assms by (auto simp: SplitHostPort_def before_last_snoc)
qed

lemma SplitHostPort_colons:
  assumes "CHR '':'' \<in> set h" "CHR '':'' \<notin> set p" "hd h \<noteq> CHR ''[''"
  shows "SplitHostPort (h @ CHR '':'' # p) = Inl ''too many colons in address''"
proof -
  have "hd (h @ CHR '':'' # p) \<noteq> CHR ''[''" using assms(1,3) by (cases h) auto
  then show ?thesis using assms(1,2) by (simp add: SplitHostPort_def before_last_snoc)
qed

section \<open>What an address looks like\<close>

lemma parseIPv4Fields_chars:
  "parseIPv4Fields fr n v fs s = Some ip \<Longrightarrow> c \<in> set s \<Longrightarrow> is_digit c \<or> c = CHR ''.''"
  by (induction fr n v fs s arbitrary: ip rule: parseIPv4Fields.induct) (auto simp: Let_def split: if_splits)

lemma parse_groups_hd:
  assumes "parse_groups ip el s = Some x" "length ip < 16"
  shows "s \<noteq> [] \<and> hex_val (hd s) \<noteq> None"
proof (cases s)
  case Nil
  then show ?thesis using assms parse_groups.simps [of ip el "[]"] by simp
next
  case (Cons c cs)
  show ?thesis
  proof (rule ccontr)
    assume "\<not> ?thesis"
    then have "hex_val c = None" using Cons by simp
    then show False using assms Cons parse_groups.simps [of ip el "c # cs"] by simp
  qed
qed

lemma ParseIP_hd: "ParseIP s = Some ip \<Longrightarrow> s \<noteq> [] \<and> hd s \<noteq> CHR ''[''"
proof -
  assume a: "ParseIP s = Some ip"
  have "s \<noteq> []" using a by (auto simp: ParseIP_def)
  moreover have "hd s \<noteq> CHR ''[''"
  proof
    assume h: "hd s = CHR ''[''"
    then obtain cs where s: "s = CHR ''['' # cs" using \<open>s \<noteq> []\<close> by (cases s) auto
    have "parseIPv4Fields True 0 0 [] s = None" using s by (simp add: is_digit_def byte_def)
    moreover have "parseIPv6 s = None"
    proof (rule ccontr)
      assume "parseIPv6 s \<noteq> None"
      then obtain x where "parse_groups [] None s = Some x" using s by (auto simp: parseIPv6_def HasPrefix_def split: if_splits)
      from parse_groups_hd [OF this] s show False by (simp add: hex_val_def is_digit_def byte_def)
    qed
    ultimately show False using a by (auto simp: ParseIP_def split: list.splits if_splits)
  qed
  ultimately show ?thesis by blast
qed

lemma ParseIP_v4: "ParseIP ''127.0.0.1'' = Some (v4_prefix @ [127, 0, 0, 1])" "ParseIP ''0.0.0.0'' = Some (v4_prefix @ [0, 0, 0, 0])"
  "ParseIP ''127.0.0.01'' = None" "ParseIP ''localhost'' = None"
  by (simp_all add: ParseIP_def is_digit_def byte_def)

lemma ParseIP_v6: "ParseIP ''::1'' = Some (replicate 15 0 @ [1])" "ParseIP ''fe80::1%eth0'' = None"
  by (simp_all add: ParseIP_def is_digit_def byte_def parseIPv6_def HasPrefix_def parse_groups.simps [of "[]" "Some 0"] hex_val_def expand_ellipsis_def)
    (simp add: numeral_eq_Suc)

end
