(* ===== verification/Config.thy ===== *)
theory Config
  imports Go_Net Prelude
begin

text \<open>
  internal/config/config.go and internal/logging/logging.go. The configuration library (koanf: its
  layers, the TOML parser, the environment provider, the decoding into the struct) is a record of
  functions, a parameter; what the code relies on of it is \<open>koanf_doc\<close>.
\<close>

section \<open>The configuration\<close>

record ServerConfig =
  sc_Bind :: string
  sc_Port :: int

record AuthConfig =
  ac_Token :: string

record StorageConfig =
  tc_Backend :: string
  tc_SQLitePath :: string
  tc_PostgresDSN :: string

record LogConfig =
  lc_Level :: string
  lc_Format :: string

record EventsConfig =
  ec_RetentionHours :: int

record MCPConfig =
  mc_Enabled :: bool

record MetricsConfig =
  xc_Enabled :: bool

record HTTPConfig =
  hc_MaxBodyBytes :: int
  hc_SSEHeartbeatSeconds :: int
  hc_SSESubscriberBuffer :: int

record config =
  cf_DataDir :: string
  cf_Server :: ServerConfig
  cf_Auth :: AuthConfig
  cf_Storage :: StorageConfig
  cf_Log :: LogConfig
  cf_Events :: EventsConfig
  cf_Metrics :: MetricsConfig
  cf_HTTP :: HTTPConfig
  cf_MCP :: MCPConfig

text \<open>A value of a layer, Go's \<open>any\<close>.\<close>

datatype val = VStr string | VInt int | VBool bool

definition defaults :: "(string \<times> val) list" where
  "defaults = [
     (''data_dir'', VStr ''./data''),
     (''server.bind'', VStr ''127.0.0.1''),
     (''server.port'', VInt 8080),
     (''auth.token'', VStr ''''),
     (''storage.backend'', VStr ''sqlite''),
     (''storage.sqlite_path'', VStr ''./data/whatsmeow-api.db''),
     (''storage.postgres_dsn'', VStr ''''),
     (''log.level'', VStr ''info''),
     (''log.format'', VStr ''text''),
     (''events.retention_hours'', VInt 24),
     (''mcp.enabled'', VBool True),
     (''metrics.enabled'', VBool False),
     (''http.max_body_bytes'', VInt (100 * 1024 * 1024)),
     (''http.sse_heartbeat_seconds'', VInt 25),
     (''http.sse_subscriber_buffer'', VInt 256)]"

section \<open>\<open>Load\<close>\<close>

text \<open>\<open>strings.TrimPrefix\<close> and \<open>strings.ReplaceAll\<close> with a two-character pattern.\<close>

definition TrimPrefix :: "string \<Rightarrow> string \<Rightarrow> string" where
  "TrimPrefix s p = (if HasPrefix s p then drop (length p) s else s)"

fun replace_pair :: "char \<Rightarrow> char \<Rightarrow> string \<Rightarrow> string \<Rightarrow> string" where
  "replace_pair a b new (c # d # s) = (if c = a \<and> d = b then new @ replace_pair a b new s else c # replace_pair a b new (d # s))"
| "replace_pair a b new s = s"

definition env_transform :: "(string \<Rightarrow> string) \<Rightarrow> string \<Rightarrow> string \<Rightarrow> string \<times> val" where
  "env_transform ul key value =
     (let key = ToLower ul (TrimPrefix key ''WMAPI_'');
          key = replace_pair CHR ''_'' CHR ''_'' ''.'' key
      in (key, VStr value))"

text \<open>The providers \<open>Load\<close> hands over: a map, a TOML file, the environment under a prefix.\<close>

datatype provider =
    Confmap "(string \<times> val) list"
  | TomlFile string
  | Environ string "string \<Rightarrow> string \<Rightarrow> string \<times> val"

record 'k koanf =
  ko_New :: "string \<Rightarrow> 'k"
  ko_Load :: "'k \<Rightarrow> provider \<Rightarrow> goerr + 'k"
  ko_Unmarshal :: "'k \<Rightarrow> goerr + config"

definition Load :: "'k koanf \<Rightarrow> (string \<Rightarrow> string) \<Rightarrow> (string \<Rightarrow> string) \<Rightarrow> string \<Rightarrow> goerr + config" where
  "Load K ul quote path = (case ko_Load K (ko_New K ''.'') (Confmap defaults) of
     Inl e \<Rightarrow> Inl (wrapf ''load defaults'' e)
   | Inr k \<Rightarrow> (case (if path \<noteq> '''' then ko_Load K k (TomlFile path) else Inr k) of
       Inl e \<Rightarrow> Inl (wrapf (''load file '' @ quote path) e)
     | Inr k \<Rightarrow> (case ko_Load K k (Environ ''WMAPI_'' (env_transform ul)) of
         Inl e \<Rightarrow> Inl (wrapf ''load env'' e)
       | Inr k \<Rightarrow> (case ko_Unmarshal K k of
           Inl e \<Rightarrow> Inl (wrapf ''unmarshal'' e)
         | Inr c \<Rightarrow> Inr c))))"

section \<open>\<open>Validate\<close>\<close>

definition isLoopbackBind :: "string \<Rightarrow> bool" where
  "isLoopbackBind b = (case ParseIP b of None \<Rightarrow> False | Some ip \<Rightarrow> IsLoopback ip)"

definition quoted :: "string \<Rightarrow> string" where
  "quoted s = CHR 0x22 # s @ [CHR 0x22]"

definition err_new :: "string \<Rightarrow> goerr" where
  "err_new m = GoErr EOther m"

definition Validate :: "config \<Rightarrow> goerr option" where
  "Validate c =
     (if \<not> isLoopbackBind (sc_Bind (cf_Server c)) \<and> ac_Token (cf_Auth c) = ''''
      then Some (err_new ''auth.token is required when server.bind is not a loopback address'')
      else let backend = tc_Backend (cf_Storage c); level = lc_Level (cf_Log c); format = lc_Format (cf_Log c) in
      if backend = ''postgres'' \<and> tc_PostgresDSN (cf_Storage c) = ''''
      then Some (err_new (''storage.postgres_dsn is required when storage.backend is '' @ quoted ''postgres''))
      else if backend \<noteq> ''sqlite'' \<and> backend \<noteq> ''postgres''
      then Some (err_new (''storage.backend must be '' @ quoted ''sqlite'' @ '' or '' @ quoted ''postgres''))
      else if level \<notin> {''debug'', ''info'', ''warn'', ''error''}
      then Some (err_new ''log.level must be one of debug, info, warn, error'')
      else if format \<notin> {''text'', ''json''}
      then Some (err_new (''log.format must be '' @ quoted ''text'' @ '' or '' @ quoted ''json''))
      else None)"

section \<open>internal/logging\<close>

datatype slog_level = LevelDebug | LevelInfo | LevelWarn | LevelError

datatype slog_handler = JSONHandler slog_level | TextHandler slog_level

definition logging_New :: "(string \<Rightarrow> string) \<Rightarrow> LogConfig \<Rightarrow> goerr + slog_handler" where
  "logging_New quote cfg =
     (let lvl = (if lc_Level cfg = ''debug'' then Some LevelDebug
                 else if lc_Level cfg = ''info'' then Some LevelInfo
                 else if lc_Level cfg = ''warn'' then Some LevelWarn
                 else if lc_Level cfg = ''error'' then Some LevelError else None)
      in case lvl of
        None \<Rightarrow> Inl (err_new (''unknown log level '' @ quote (lc_Level cfg)))
      | Some l \<Rightarrow>
          if lc_Format cfg = ''json'' then Inr (JSONHandler l)
          else if lc_Format cfg = ''text'' then Inr (TextHandler l)
          else Inl (err_new (''unknown log format '' @ quote (lc_Format cfg))))"

section \<open>What validation gives\<close>

lemma Validate_guard: "Validate c = None \<Longrightarrow> isLoopbackBind (sc_Bind (cf_Server c)) \<or> ac_Token (cf_Auth c) \<noteq> ''''"
  by (auto simp: Validate_def Let_def split: if_splits)

lemma Validate_backend:
  "Validate c = None \<Longrightarrow> tc_Backend (cf_Storage c) = ''sqlite''
     \<or> tc_Backend (cf_Storage c) = ''postgres'' \<and> tc_PostgresDSN (cf_Storage c) \<noteq> ''''"
  by (auto simp: Validate_def Let_def split: if_splits)

lemma Validate_log: "Validate c = None \<Longrightarrow> \<exists>h. logging_New quote (cf_Log c) = Inr h"
  by (auto simp: Validate_def logging_New_def Let_def split: if_splits)

section \<open>What the code relies on of koanf\<close>

text \<open>
  A key looked up after a layer has been loaded has the value of that layer, or, where the layer has
  none, the value it had before; a map provider holds its entries, an environment provider the
  variables \<open>env\<close> under its prefix by their transformed names; and the struct is decoded from the
  looked-up values (\<open>decode\<close>).
\<close>

definition koanf_doc :: "'k koanf \<Rightarrow> ('k \<Rightarrow> string \<Rightarrow> val option) \<Rightarrow> (string \<Rightarrow> string \<Rightarrow> val option)
    \<Rightarrow> (string \<times> string) list \<Rightarrow> ((string \<Rightarrow> val option) \<Rightarrow> goerr + config) \<Rightarrow> bool" where
  "koanf_doc K look file_val env decode \<longleftrightarrow>
     (\<forall>d key. look (ko_New K d) key = None)
   \<and> (\<forall>k kvs k' key. ko_Load K k (Confmap kvs) = Inr k' \<longrightarrow>
        look k' key = (case map_of kvs key of Some v \<Rightarrow> Some v | None \<Rightarrow> look k key))
   \<and> (\<forall>k path k' key. ko_Load K k (TomlFile path) = Inr k' \<longrightarrow>
        look k' key = (case file_val path key of Some v \<Rightarrow> Some v | None \<Rightarrow> look k key))
   \<and> (\<forall>k pre f k' key. ko_Load K k (Environ pre f) = Inr k' \<longrightarrow>
        look k' key = (case map_of (map (\<lambda>(n, v). f n v) (filter (\<lambda>(n, v). HasPrefix n pre) env)) key of
           Some v \<Rightarrow> Some v | None \<Rightarrow> look k key))
   \<and> (\<forall>k. ko_Unmarshal K k = decode (look k))"

text \<open>The three layers, over each other.\<close>

definition layered :: "(string \<Rightarrow> string) \<Rightarrow> (string \<Rightarrow> string \<Rightarrow> val option) \<Rightarrow> (string \<times> string) list \<Rightarrow> string
    \<Rightarrow> string \<Rightarrow> val option" where
  "layered ul file_val env path key =
     (case map_of (map (\<lambda>(n, v). env_transform ul n v) (filter (\<lambda>(n, v). HasPrefix n ''WMAPI_'') env)) key of
        Some v \<Rightarrow> Some v
      | None \<Rightarrow> (case (if path = '''' then None else file_val path key) of
          Some v \<Rightarrow> Some v
        | None \<Rightarrow> map_of defaults key))"

lemma Load_layered:
  assumes doc: "koanf_doc K look file_val env decode" and load: "Load K ul quote path = Inr c"
  shows "decode (layered ul file_val env path) = Inr c"
proof -
  from load obtain k1 k2 k3 where
    k1: "ko_Load K (ko_New K ''.'') (Confmap defaults) = Inr k1" and
    k2: "(if path \<noteq> '''' then ko_Load K k1 (TomlFile path) else Inr k1) = Inr k2" and
    k3: "ko_Load K k2 (Environ ''WMAPI_'' (env_transform ul)) = Inr k3" and
    u: "ko_Unmarshal K k3 = Inr c"
    unfolding Load_def by (auto split: sum.splits)
  have l1: "look k1 key = map_of defaults key" for key
    using doc k1 unfolding koanf_doc_def by (auto split: option.split)
  have l2: "look k2 key = (case (if path = '''' then None else file_val path key) of Some v \<Rightarrow> Some v | None \<Rightarrow> map_of defaults key)" for key
  proof (cases "path = ''''")
    case True
    then show ?thesis using k2 l1 by simp
  next
    case False
    then have "ko_Load K k1 (TomlFile path) = Inr k2" using k2 by simp
    then have "look k2 key = (case file_val path key of Some v \<Rightarrow> Some v | None \<Rightarrow> look k1 key)"
      using doc unfolding koanf_doc_def by blast
    then show ?thesis using False by (simp add: l1 split: option.split)
  qed
  have "look k3 key = layered ul file_val env path key" for key
  proof -
    have "look k3 key = (case map_of (map (\<lambda>(n, v). env_transform ul n v) (filter (\<lambda>(n, v). HasPrefix n ''WMAPI_'') env)) key of
           Some v \<Rightarrow> Some v | None \<Rightarrow> look k2 key)"
      using doc k3 unfolding koanf_doc_def by blast
    then show ?thesis unfolding layered_def l2 [symmetric] .
  qed
  then have "look k3 = layered ul file_val env path" by blast
  then show ?thesis using doc u unfolding koanf_doc_def by metis
qed

end
