(* ===== verification/Serve.thy ===== *)
theory Serve
  imports Config Http_Handlers Store_Sqlite Store_Postgres
begin

text \<open>
  cmd/whatsmeow-api/serve.go and internal/transport/http/server.go: how the daemon is put together and
  taken down. What the operating system and the database drivers answer in one run is the record
  \<open>sys\<close>; what the run does is the list of its acts, in order.
\<close>

section \<open>The daemon that serves\<close>

record ('d, 'w) served =
  sv_svc :: "('d, 'w) svc"
  sv_token :: string
  sv_mcp :: bool
  sv_maxBody :: int
  sv_heartbeat :: int
  sv_bc :: broadcaster

datatype 'w serving = OnSqlite "(int conn, 'w) served" | OnPostgres "(bool conn, 'w) served"

text \<open>\<open>service.New\<close> and \<open>httpapi.NewServer\<close> with the values of the configuration.\<close>

definition new_daemon :: "'w waclient \<Rightarrow> (string \<Rightarrow> string) \<Rightarrow> config \<Rightarrow> 'd store_bundle \<Rightarrow> ('d, 'w) served" where
  "new_daemon wa sha cfg bundle =
     (let mediaDir = filepath_Join [cf_DataDir cfg, ''media''];
          bc = bc_New (hc_SSESubscriberBuffer (cf_HTTP cfg));
          S = svc_New wa bundle mediaDir sha True
      in \<lparr>sv_svc = S, sv_token = ac_Token (cf_Auth cfg), sv_mcp = mc_Enabled (cf_MCP cfg),
          sv_maxBody = hc_MaxBodyBytes (cf_HTTP cfg), sv_heartbeat = hc_SSEHeartbeatSeconds (cf_HTTP cfg), sv_bc = bc\<rparr>)"

section \<open>The acts of a run\<close>

datatype resource = Session | Wa | AppStore

datatype 'w act =
    MkDir string
  | Acquire resource string
  | Warn string
  | Serving string "'w serving"
  | Release resource

text \<open>
  How serving ends: the context is cancelled and \<open>Shutdown\<close> answers, or \<open>Serve\<close> returns first (with
  \<open>ErrServerClosed\<close>, or another error).
\<close>

datatype stop = Cancelled "goerr option" | ServerClosed | ServeFailed goerr

record sys =
  sy_mkdir :: "string \<Rightarrow> goerr option"
  sy_open_session :: "string \<Rightarrow> string \<Rightarrow> goerr option"
  sy_open_store :: "string \<Rightarrow> string \<Rightarrow> goerr option"
  sy_resume :: "goerr option"
  sy_bind :: "string \<Rightarrow> string \<Rightarrow> goerr + string"
  sy_stop :: stop

section \<open>server.go\<close>

text \<open>\<open>net.Listen\<close> takes the address apart before it asks the system.\<close>

definition net_Listen :: "sys \<Rightarrow> string \<Rightarrow> goerr + string" where
  "net_Listen sys addr = (case SplitHostPort addr of
     Inl m \<Rightarrow> Inl (err_new (''listen tcp: address '' @ addr @ '': '' @ m))
   | Inr (host, port) \<Rightarrow> sy_bind sys host port)"

definition Server_Run :: "sys \<Rightarrow> config \<Rightarrow> 'w serving \<Rightarrow> goerr option \<times> 'w act list" where
  "Server_Run sys cfg D =
     (let addr = sc_Bind (cf_Server cfg) @ '':'' @ show_int (sc_Port (cf_Server cfg)) in
      case net_Listen sys addr of
        Inl e \<Rightarrow> (Some (wrapf (''listen '' @ addr) e), [])
      | Inr resolved \<Rightarrow>
          (case sy_stop sys of
             Cancelled (Some e) \<Rightarrow> Some (wrapf ''shutdown'' e)
           | Cancelled None \<Rightarrow> None
           | ServerClosed \<Rightarrow> None
           | ServeFailed e \<Rightarrow> Some (wrapf ''serve'' e), [Serving resolved D]))"

section \<open>serve.go\<close>

text \<open>From the opened stores on; the deferred \<open>Close\<close> of the application store ends it.\<close>

definition serve_stores :: "sys \<Rightarrow> config \<Rightarrow> string \<Rightarrow> 'w serving \<Rightarrow> goerr option \<times> 'w act list" where
  "serve_stores sys cfg dsn D =
     (let resumed = (case sy_resume sys of None \<Rightarrow> [] | Some e \<Rightarrow> [Warn ''session resume failed; awaiting /v1/login/*'']);
          (r, ran) = Server_Run sys cfg D
      in (map_option (wrapf ''server'') r, Acquire AppStore dsn # resumed @ ran @ [Release AppStore]))"

text \<open>The application store; the deferred closing of the adapter and of the session store ends it.\<close>

definition serve_app :: "(engine \<times> engine) \<Rightarrow> 'w waclient \<Rightarrow> (string \<Rightarrow> string) \<Rightarrow> (string \<Rightarrow> string) \<Rightarrow> sys \<Rightarrow> config
    \<Rightarrow> goerr option \<times> 'w act list" where
  "serve_app eng wa sha quote sys cfg =
     (let backend = tc_Backend (cf_Storage cfg);
          dsn = tc_PostgresDSN (cf_Storage cfg);
          path = filepath_Join [cf_DataDir cfg, ''whatsmeow-app.db''];
          (r, acts) =
            (if backend = ''sqlite'' then (case sy_open_store sys backend path of
                Some e \<Rightarrow> (Some (wrapf ''open sqlite app store'' e), [])
              | None \<Rightarrow> serve_stores sys cfg path (OnSqlite (new_daemon wa sha cfg (sqlite_bundle (fst eng)))))
             else if backend = ''postgres'' then (case sy_open_store sys backend dsn of
                Some e \<Rightarrow> (Some (wrapf ''open postgres app store'' e), [])
              | None \<Rightarrow> serve_stores sys cfg dsn (OnPostgres (new_daemon wa sha cfg (postgres_bundle (snd eng)))))
             else (Some (err_new (''unsupported storage.backend: '' @ quote backend)), []))
      in (r, Acquire Wa '''' # acts @ [Release Wa, Release Session]))"

definition serve_session :: "(engine \<times> engine) \<Rightarrow> 'w waclient \<Rightarrow> (string \<Rightarrow> string) \<Rightarrow> (string \<Rightarrow> string) \<Rightarrow> sys \<Rightarrow> config
    \<Rightarrow> goerr option \<times> 'w act list" where
  "serve_session eng wa sha quote sys cfg =
     (let backend = tc_Backend (cf_Storage cfg);
          dsn = tc_PostgresDSN (cf_Storage cfg);
          path = filepath_Join [cf_DataDir cfg, ''whatsmeow-session.db''];
          go_on = (\<lambda>at. let (r, acts) = serve_app eng wa sha quote sys cfg in (r, Acquire Session at # acts))
      in if backend = ''sqlite'' then (case sy_open_session sys backend path of
             Some e \<Rightarrow> (Some (wrapf ''open sqlite session store'' e), [])
           | None \<Rightarrow> go_on path)
         else if backend = ''postgres'' then (case sy_open_session sys backend dsn of
             Some e \<Rightarrow> (Some (wrapf ''open postgres session store'' e), [])
           | None \<Rightarrow> go_on dsn)
         else (Some (err_new (''unsupported storage backend '' @ quote backend)), []))"

text \<open>\<open>load\<close> is \<open>config.Load\<close> of the \<open>--config\<close> flag.\<close>

definition serveCmd :: "(engine \<times> engine) \<Rightarrow> 'w waclient \<Rightarrow> (string \<Rightarrow> string) \<Rightarrow> (string \<Rightarrow> string) \<Rightarrow> sys \<Rightarrow> (goerr + config)
    \<Rightarrow> goerr option \<times> 'w act list" where
  "serveCmd eng wa sha quote sys load = (case load of
     Inl e \<Rightarrow> (Some (wrapf ''load config'' e), [])
   | Inr cfg \<Rightarrow> (case Validate cfg of
       Some e \<Rightarrow> (Some (wrapf ''validate config'' e), [])
     | None \<Rightarrow> (case logging_New quote (cf_Log cfg) of
         Inl e \<Rightarrow> (Some (wrapf ''init logger'' e), [])
       | Inr logger \<Rightarrow> (case sy_mkdir sys (cf_DataDir cfg) of
           Some e \<Rightarrow> (Some (wrapf (''create data_dir '' @ quote (cf_DataDir cfg)) e), [MkDir (cf_DataDir cfg)])
         | None \<Rightarrow> (case serve_session eng wa sha quote sys cfg of
             (r, acts) \<Rightarrow> (r, MkDir (cf_DataDir cfg) # acts))))))"

end
