(* ===== verification/Commands.thy ===== *)
theory Commands
  imports Client_Props Serve
begin

text \<open>
  cmd/whatsmeow-api: the subcommands that call the daemon, and \<open>main\<close>. What a process of the command
  line leaves behind is what it wrote on its two outputs and its exit status. The parsing of the
  arguments (cobra) is not in the repository: a \<open>command\<close> is the subcommand it chose, with the
  argument of \<open>login phone\<close>; nor is the drawing of a QR code, the parameter \<open>draw\<close>.
\<close>

section \<open>How a subcommand ends\<close>

text \<open>It returns (an error for \<open>main\<close> to print), or it writes a line on the error output and exits.\<close>

datatype ended = Returned "string option" | Exited string nat

fun client_err_msg :: "client_error \<Rightarrow> string" where
  "client_err_msg CErrNotLoggedIn = ''client: daemon reports not logged in''"
| "client_err_msg CErrAlreadyLoggedIn = ''client: daemon reports already logged in''"
| "client_err_msg CErrLoginInProgress = ''client: daemon reports login in progress''"
| "client_err_msg (CErr m) = m"

section \<open>login.go\<close>

definition arrow :: string where
  "arrow = [CHR 0x20, CHR 0xE2, CHR 0x86, CHR 0x92, CHR 0x20]"

definition renderQR :: "(string \<Rightarrow> string) \<Rightarrow> string \<Rightarrow> string" where
  "renderQR draw code =
     [CHR 0x1B] @ ''[H'' @ [CHR 0x1B] @ ''[2J''
     @ ''Scan this with WhatsApp'' @ arrow @ ''Settings'' @ arrow @ ''Linked Devices'' @ arrow @ ''Link a Device:'' @ newline
     @ draw code
     @ ''(expires in ~20s, will refresh)'' @ newline"

definition print_code :: "string \<Rightarrow> string" where
  "print_code code = ''Pair code: '' @ code @ newline
     @ ''  Open WhatsApp'' @ arrow @ ''Settings'' @ arrow @ ''Linked Devices'' @ arrow @ ''Link with phone number'' @ arrow
     @ ''enter the code (expires in ~2 min)'' @ newline"

text \<open>\<open>for evt := range ch\<close>, over the code, the flag and the outcome of each event.\<close>

fun login_loop :: "(string \<Rightarrow> string) \<Rightarrow> string \<Rightarrow> (string \<times> bool \<times> string) list \<Rightarrow> string \<times> ended" where
  "login_loop render done_line [] = ('''', Returned (Some ''pairing stream closed without terminal event''))"
| "login_loop render done_line ((code, terminal, outcome) # es) =
     (if terminal then
        (if outcome = ''success'' then (done_line, Returned None) else ('''', Returned (Some (''pairing failed: '' @ outcome))))
      else (let (out, e) = login_loop render done_line es in (render code @ out, e)))"

definition login_error :: "string \<Rightarrow> client_error \<Rightarrow> ended" where
  "login_error what e = (case e of
     CErrAlreadyLoggedIn \<Rightarrow> Exited ''already logged in'' 1
   | CErrLoginInProgress \<Rightarrow> Exited ''another login is already in progress'' 1
   | _ \<Rightarrow> Returned (Some (what @ '': '' @ client_err_msg e)))"

definition loginQRCmd :: "(string \<Rightarrow> string) \<Rightarrow> 'w transport \<Rightarrow> client \<Rightarrow> 'w \<Rightarrow> (string \<times> ended) \<times> 'w" where
  "loginQRCmd draw send c w = (case client_LoginQR send c w of
     (Inl e, w) \<Rightarrow> (('''', login_error ''login qr'' e), w)
   | (Inr es, w) \<Rightarrow> (login_loop (renderQR draw) (newline @ ''logged in'' @ newline) (map (\<lambda>e. (qr_Code e, qr_Terminal e, qr_Outcome e)) es), w))"

definition loginPhoneCmd :: "(string \<Rightarrow> string) \<Rightarrow> 'w transport \<Rightarrow> client \<Rightarrow> string \<Rightarrow> 'w \<Rightarrow> (string \<times> ended) \<times> 'w" where
  "loginPhoneCmd uq send c number w =
     (if \<not> IsValidPhoneNumber number
      then (('''', Returned (Some (''invalid phone number '' @ strconv_Quote uq number @ '' (must be E.164, e.g. +27821234567)''))), w)
      else case client_LoginPhone uq send c number w of
        (Inl e, w) \<Rightarrow> (('''', login_error ''login phone'' e), w)
      | (Inr es, w) \<Rightarrow> (login_loop print_code (''logged in'' @ newline) (map (\<lambda>e. (pe_Code e, pe_Terminal e, pe_Outcome e)) es), w))"

section \<open>logout.go and status.go\<close>

definition logoutCmd :: "'w transport \<Rightarrow> client \<Rightarrow> 'w \<Rightarrow> (string \<times> ended) \<times> 'w" where
  "logoutCmd send c w = (case client_Logout send c w of
     (None, w) \<Rightarrow> ((''logged out'' @ newline, Returned None), w)
   | (Some CErrNotLoggedIn, w) \<Rightarrow> ((''not logged in'' @ newline, Returned None), w)
   | (Some e, w) \<Rightarrow> (('''', Returned (Some (''logout: '' @ client_err_msg e))), w))"

definition statusCmd :: "'w transport \<Rightarrow> client \<Rightarrow> 'w \<Rightarrow> (string \<times> ended) \<times> 'w" where
  "statusCmd send c w = (case client_Status send c w of
     (Inl e, w) \<Rightarrow> (('''', Returned (Some (''status: '' @ client_err_msg e))), w)
   | (Inr st, w) \<Rightarrow> ((if \<not> cst_WAConnected st then ''not connected'' @ newline
        else ''connected as '' @ cst_JID st @ '' ('' @ cst_PushName st @ '') since '' @ cst_Since st @ newline, Returned None), w))"

text \<open>The flags of the root command; \<open>newDaemonClient\<close> falls back on the environment (empty if not set).\<close>

record flags =
  fl_config :: string
  fl_url :: string
  fl_token :: string

definition newDaemonClient :: "flags \<Rightarrow> (string \<Rightarrow> string) \<Rightarrow> client" where
  "newDaemonClient fl env =
     (let url = fl_url fl;
          url = (if url = '''' then env ''WMAPI_URL'' else url);
          url = (if url = '''' then ''http://127.0.0.1:8080'' else url);
          token = fl_token fl;
          token = (if token = '''' then env ''WMAPI_TOKEN'' else token)
      in client_New url token)"

section \<open>main.go\<close>

datatype command = ServeDaemon | Status | Logout | LoginPhone string | LoginQR

record process =
  p_out :: string
  p_err :: string
  p_status :: nat

text \<open>
  \<open>serve\<close> is what \<open>serveCmd\<close> of \<open>Serve\<close> returns for the \<open>--config\<close> flag; the lines its logger writes
  are not counted among the output.
\<close>

definition Execute :: "(string \<Rightarrow> string) \<Rightarrow> (string \<Rightarrow> string) \<Rightarrow> (string \<Rightarrow> goerr option) \<Rightarrow> 'w transport \<Rightarrow> flags \<Rightarrow> (string \<Rightarrow> string)
    \<Rightarrow> command \<Rightarrow> 'w \<Rightarrow> (string \<times> ended) \<times> 'w" where
  "Execute draw uq serve send fl env cmd w =
     (case cmd of
        ServeDaemon \<Rightarrow> (('''', Returned (map_option err_msg (serve (fl_config fl)))), w)
      | Status \<Rightarrow> statusCmd send (newDaemonClient fl env) w
      | Logout \<Rightarrow> logoutCmd send (newDaemonClient fl env) w
      | LoginPhone number \<Rightarrow> loginPhoneCmd uq send (newDaemonClient fl env) number w
      | LoginQR \<Rightarrow> loginQRCmd draw send (newDaemonClient fl env) w)"

definition main :: "(string \<Rightarrow> string) \<Rightarrow> (string \<Rightarrow> string) \<Rightarrow> (string \<Rightarrow> goerr option) \<Rightarrow> 'w transport \<Rightarrow> flags \<Rightarrow> (string \<Rightarrow> string)
    \<Rightarrow> command \<Rightarrow> 'w \<Rightarrow> process \<times> 'w" where
  "main draw uq serve send fl env cmd w =
     (case Execute draw uq serve send fl env cmd w of ((out, e), w) \<Rightarrow>
        (case e of
           Returned None \<Rightarrow> \<lparr>p_out = out, p_err = '''', p_status = 0\<rparr>
         | Returned (Some m) \<Rightarrow> \<lparr>p_out = out, p_err = ''error: '' @ m @ newline, p_status = 1\<rparr>
         | Exited m n \<Rightarrow> \<lparr>p_out = out, p_err = m @ newline, p_status = n\<rparr>, w))"

section \<open>The command line against the daemon\<close>

text \<open>Every process that fails says why, and only those do.\<close>

fun orderly :: "ended \<Rightarrow> bool" where
  "orderly (Returned m) = True"
| "orderly (Exited m n) = (n = 1)"

lemma orderly_loop: "orderly (snd (login_loop render d es))"
  by (induction render d es rule: login_loop.induct) (auto split: prod.split)

lemma orderly_error: "orderly (login_error what e)"
  by (cases e) (simp_all add: login_error_def)

lemma orderly_Execute: "orderly (snd (fst (Execute draw uq serve send fl env cmd w)))"
  by (cases cmd)
    (auto simp: Execute_def statusCmd_def logoutCmd_def loginPhoneCmd_def loginQRCmd_def orderly_loop orderly_error
      split: prod.split sum.split option.split client_error.split)

lemma main_exit_status:
  "p_status (fst (main draw uq serve send fl env cmd w)) \<in> {0, 1}"
  "p_status (fst (main draw uq serve send fl env cmd w)) = 0 \<longleftrightarrow> p_err (fst (main draw uq serve send fl env cmd w)) = ''''"
proof -
  obtain out e w' where x: "Execute draw uq serve send fl env cmd w = ((out, e), w')" by (metis prod.collapse)
  then have "orderly e" using orderly_Execute [of draw uq serve send fl env cmd w] by simp
  then show "p_status (fst (main draw uq serve send fl env cmd w)) \<in> {0, 1}"
    "p_status (fst (main draw uq serve send fl env cmd w)) = 0 \<longleftrightarrow> p_err (fst (main draw uq serve send fl env cmd w)) = ''''"
    by (cases e; simp add: main_def x newline_def split: option.split)+
qed

text \<open>What a login shows: the codes up to the first terminal event; it pairs if the outcome there is success.\<close>

definition shown :: "('e \<Rightarrow> bool) \<Rightarrow> ('e \<Rightarrow> string) \<Rightarrow> 'e list \<Rightarrow> string list" where
  "shown terminal code es = map (\<lambda>e. to_valid (code e)) (takeWhile (\<lambda>e. \<not> terminal e) es)"

definition pairs :: "('e \<Rightarrow> bool) \<Rightarrow> ('e \<Rightarrow> string) \<Rightarrow> 'e list \<Rightarrow> bool" where
  "pairs terminal outcome es \<longleftrightarrow> map_option outcome (find terminal es) = Some ''success''"

lemma to_valid_success: "to_valid s = ''success'' \<longleftrightarrow> s = ''success''"
  by (rule to_valid_ascii_iff) (simp add: byte_def)

lemma login_loop_qr: "\<exists>m. login_loop render d (map (\<lambda>e. (qr_Code e, qr_Terminal e, qr_Outcome e)) (qr_told es))
    = (concat (map render (shown qr_Terminal qr_Code es)) @ (if pairs qr_Terminal qr_Outcome es then d else ''''),
       Returned (if pairs qr_Terminal qr_Outcome es then None else Some m))"
  by (induction es) (auto simp: qr_end_def qr_code_def shown_def pairs_def to_valid_success)

lemma login_loop_pair: "\<exists>m. login_loop render d (map (\<lambda>e. (pe_Code e, pe_Terminal e, pe_Outcome e)) (pair_told es))
    = (concat (map render (shown pe_Terminal pe_Code es)) @ (if pairs pe_Terminal pe_Outcome es then d else ''''),
       Returned (if pairs pe_Terminal pe_Outcome es then None else Some m))"
  by (induction es) (auto simp: pair_end_def pair_code_def shown_def pairs_def to_valid_success)

text \<open>A process that did what it was asked, and one that failed: what it wrote, and status 0 or 1.\<close>

definition ends_as :: "process \<times> 'w \<Rightarrow> string \<Rightarrow> bool \<Rightarrow> 'w \<Rightarrow> bool" where
  "ends_as pw out ok w' \<longleftrightarrow> p_out (fst pw) = out \<and> p_status (fst pw) = (if ok then 0 else 1) \<and> snd pw = w'"

lemma main_Returned:
  "Execute draw uq serve send fl env cmd w = ((out, Returned (if ok then None else Some m)), w')
    \<Longrightarrow> ends_as (main draw uq serve send fl env cmd w) out ok w'"
  by (simp add: ends_as_def main_def)

lemma main_login_error:
  "Execute draw uq serve send fl env cmd w = (('''', login_error what e), w')
    \<Longrightarrow> ends_as (main draw uq serve send fl env cmd w) '''' False w'"
  by (cases e) (simp_all add: ends_as_def main_def login_error_def)

definition status_line :: "status \<Rightarrow> string" where
  "status_line st = (let text = (\<lambda>x. to_valid (case x of None \<Rightarrow> '''' | Some s \<Rightarrow> s))
     in if \<not> st_Connected st then ''not connected'' @ newline
        else ''connected as '' @ text (st_JID st) @ '' ('' @ text (st_PushName st) @ '') since ''
          @ text (map_option format_rfc3339 (st_Since st)) @ newline)"

lemma newDaemonClient_New:
  assumes "cl_token (newDaemonClient fl env) = token"
  obtains base where "newDaemonClient fl env = client_New base token"
  using assms by (auto simp: newDaemonClient_def Let_def client_New_fields)

lemma main_login_qr:
  fixes fl env S token mcp by_ext
  defines "send \<equiv> daemon S token mcp by_ext (cl_baseURL (newDaemonClient fl env))"
  assumes "token = '''' \<or> hd token \<noteq> CHR '' ''" "cl_token (newDaemonClient fl env) = token"
    and "\<And>es w'. svc_LoginQR S w = (Inr es, w') \<Longrightarrow> \<forall>e\<in>set es. fits (qr_Code e) \<and> fits (qr_Outcome e)"
  shows "case svc_LoginQR S w of
      (Inl e, w') \<Rightarrow> ends_as (main draw uq serve send fl env LoginQR w) '''' False w'
    | (Inr es, w') \<Rightarrow> (let ok = pairs qr_Terminal qr_Outcome es in
        ends_as (main draw uq serve send fl env LoginQR w) (concat (map (renderQR draw) (shown qr_Terminal qr_Code es))
          @ (if ok then newline @ ''logged in'' @ newline else '''')) ok w')"
proof -
  obtain base where c: "newDaemonClient fl env = client_New base token" by (rule newDaemonClient_New [OF assms(3)])
  have call: "client_LoginQR send (newDaemonClient fl env) w
      = (case svc_LoginQR S w of (Inl e, w') \<Rightarrow> (Inl (login_err e), w') | (Inr es, w') \<Rightarrow> (Inr (qr_told es), w'))"
    unfolding c send_def by (rule login_qr_daemon [OF assms(2,4)])
  obtain r w' where r: "svc_LoginQR S w = (r, w')" by fastforce
  show ?thesis
  proof (cases r)
    case (Inl e)
    then show ?thesis using call r by (simp add: main_login_error Execute_def loginQRCmd_def)
  next
    case (Inr es)
    obtain m where "login_loop (renderQR draw) (newline @ ''logged in'' @ newline) (map (\<lambda>e. (qr_Code e, qr_Terminal e, qr_Outcome e)) (qr_told es))
      = (concat (map (renderQR draw) (shown qr_Terminal qr_Code es)) @ (if pairs qr_Terminal qr_Outcome es then newline @ ''logged in'' @ newline else ''''),
         Returned (if pairs qr_Terminal qr_Outcome es then None else Some m))"
      using login_loop_qr by blast
    then show ?thesis using call r Inr
      unfolding Inr r by (simp only: prod.case sum.case Let_def) (intro main_Returned; simp add: Execute_def loginQRCmd_def)
  qed
qed

lemma main_login_phone:
  fixes fl env S token mcp by_ext
  defines "send \<equiv> daemon S token mcp by_ext (cl_baseURL (newDaemonClient fl env))"
  assumes "token = '''' \<or> hd token \<noteq> CHR '' ''" "cl_token (newDaemonClient fl env) = token" "IsValidPhoneNumber p"
    and "\<And>es w'. svc_LoginPhone S p w = (Inr es, w') \<Longrightarrow> \<forall>e\<in>set es. fits (pe_Code e) \<and> fits (pe_Outcome e)"
  shows "case svc_LoginPhone S p w of
      (Inl e, w') \<Rightarrow> ends_as (main draw uq serve send fl env (LoginPhone p) w) '''' False w'
    | (Inr es, w') \<Rightarrow> (let ok = pairs pe_Terminal pe_Outcome es in
        ends_as (main draw uq serve send fl env (LoginPhone p) w) (concat (map print_code (shown pe_Terminal pe_Code es))
          @ (if ok then ''logged in'' @ newline else '''')) ok w')"
proof -
  obtain base where c: "newDaemonClient fl env = client_New base token" by (rule newDaemonClient_New [OF assms(3)])
  have call: "client_LoginPhone uq send (newDaemonClient fl env) p w
      = (case svc_LoginPhone S p w of (Inl e, w') \<Rightarrow> (Inl (login_err e), w') | (Inr es, w') \<Rightarrow> (Inr (pair_told es), w'))"
    unfolding c send_def by (rule login_phone_daemon [OF assms(2,4,5)])
  obtain r w' where r: "svc_LoginPhone S p w = (r, w')" by fastforce
  show ?thesis
  proof (cases r)
    case (Inl e)
    then show ?thesis using call r assms(4) by (simp add: main_login_error Execute_def loginPhoneCmd_def)
  next
    case (Inr es)
    obtain m where "login_loop print_code (''logged in'' @ newline) (map (\<lambda>e. (pe_Code e, pe_Terminal e, pe_Outcome e)) (pair_told es))
      = (concat (map print_code (shown pe_Terminal pe_Code es)) @ (if pairs pe_Terminal pe_Outcome es then ''logged in'' @ newline else ''''),
         Returned (if pairs pe_Terminal pe_Outcome es then None else Some m))"
      using login_loop_pair by blast
    then show ?thesis using call r Inr assms(4)
      unfolding Inr r by (simp only: prod.case sum.case Let_def) (intro main_Returned; simp add: Execute_def loginPhoneCmd_def)
  qed
qed

lemma main_status_logout:
  fixes fl env S token mcp by_ext
  defines "send \<equiv> daemon S token mcp by_ext (cl_baseURL (newDaemonClient fl env))"
  assumes "token = '''' \<or> hd token \<noteq> CHR '' ''" "cl_token (newDaemonClient fl env) = token"
  shows "ends_as (main draw uq serve send fl env Status w) (status_line (svc_Status S w)) True w"
    and "case svc_Logout S w of
        (None, w') \<Rightarrow> ends_as (main draw uq serve send fl env Logout w) (''logged out'' @ newline) True w'
      | (Some e, w') \<Rightarrow> (let ok = is_err ENotLoggedIn e in
          ends_as (main draw uq serve send fl env Logout w) (if ok then ''not logged in'' @ newline else '''') ok w')"
proof -
  obtain base where c: "newDaemonClient fl env = client_New base token" by (rule newDaemonClient_New [OF assms(3)])
  note calls = client_mirrors [OF assms(2), where base = base and S = S and mcp = mcp and by_ext = by_ext and w = w,
    unfolded Let_def, folded c, folded send_def]
  show "ends_as (main draw uq serve send fl env Status w) (status_line (svc_Status S w)) True w"
    using calls by (simp add: ends_as_def main_def Execute_def statusCmd_def status_line_def Let_def)
  show "case svc_Logout S w of
        (None, w') \<Rightarrow> ends_as (main draw uq serve send fl env Logout w) (''logged out'' @ newline) True w'
      | (Some e, w') \<Rightarrow> (let ok = is_err ENotLoggedIn e in
          ends_as (main draw uq serve send fl env Logout w) (if ok then ''not logged in'' @ newline else '''') ok w')"
    using calls by (auto simp: ends_as_def main_def Execute_def logoutCmd_def Let_def split: prod.splits option.splits)
qed

text \<open>Property C35: a subcommand, run with the daemon's token against the daemon's router, does to the daemon what
  the service does. \<open>login\<close> shows each code of the service up to the first terminal event and exits with
  0 exactly if the outcome there is success; \<open>status\<close> prints the service's status and exits with 0;
  \<open>logout\<close> exits with 0 exactly if the service logged out or was not logged in.\<close>

theorem commands_end_to_end:
  assumes "token = '''' \<or> hd token \<noteq> CHR '' ''" "cl_token (newDaemonClient fl env) = token" "IsValidPhoneNumber p"
    and "\<And>es w'. svc_LoginQR S w = (Inr es, w') \<Longrightarrow> \<forall>e\<in>set es. fits (qr_Code e) \<and> fits (qr_Outcome e)"
    and "\<And>es w'. svc_LoginPhone S p w = (Inr es, w') \<Longrightarrow> \<forall>e\<in>set es. fits (pe_Code e) \<and> fits (pe_Outcome e)"
  shows "let run = (\<lambda>cmd. main draw uq serve (daemon S token mcp by_ext (cl_baseURL (newDaemonClient fl env))) fl env cmd w) in
     (case svc_LoginQR S w of
        (Inl e, w') \<Rightarrow> ends_as (run LoginQR) '''' False w'
      | (Inr es, w') \<Rightarrow> (let ok = pairs qr_Terminal qr_Outcome es in
          ends_as (run LoginQR) (concat (map (renderQR draw) (shown qr_Terminal qr_Code es))
            @ (if ok then newline @ ''logged in'' @ newline else '''')) ok w'))
   \<and> (case svc_LoginPhone S p w of
        (Inl e, w') \<Rightarrow> ends_as (run (LoginPhone p)) '''' False w'
      | (Inr es, w') \<Rightarrow> (let ok = pairs pe_Terminal pe_Outcome es in
          ends_as (run (LoginPhone p)) (concat (map print_code (shown pe_Terminal pe_Code es))
            @ (if ok then ''logged in'' @ newline else '''')) ok w'))
   \<and> ends_as (run Status) (status_line (svc_Status S w)) True w
   \<and> (case svc_Logout S w of
        (None, w') \<Rightarrow> ends_as (run Logout) (''logged out'' @ newline) True w'
      | (Some e, w') \<Rightarrow> (let ok = is_err ENotLoggedIn e in ends_as (run Logout) (if ok then ''not logged in'' @ newline else '''') ok w'))"
  unfolding Let_def
  by (intro conjI main_login_qr [unfolded Let_def] main_login_phone [unfolded Let_def] main_status_logout [unfolded Let_def])
    (erule assms(4) | erule assms(5) | rule assms)+


definition pairing_wa :: "nat waclient" where
  "pairing_wa = demo_wa\<lparr>wa_LoginQR := (\<lambda>n. (Inr [qr_code ''2@abc'', qr_end ''success''], n))\<rparr>"

abbreviation pairing_svc :: "(int conn, nat) svc" where
  "pairing_svc \<equiv> svc_New pairing_wa (sqlite_bundle demo_engine) ''/m'' demo_sha True"

theorem commands_end_to_end_witness:
  "ends_as (main (\<lambda>c. c) (\<lambda>s. s) (\<lambda>path. None) (daemon pairing_svc ''s3cret'' True (\<lambda>e. '''') ''http://127.0.0.1:8080'')
      \<lparr>fl_config = '''', fl_url = '''', fl_token = ''s3cret''\<rparr> (\<lambda>v. '''') LoginQR demo_lite)
    (renderQR (\<lambda>c. c) ''2@abc'' @ newline @ ''logged in'' @ newline) True demo_lite"
proof -
  let ?fl = "\<lparr>fl_config = '''', fl_url = '''', fl_token = ''s3cret''\<rparr>"
  have c: "newDaemonClient ?fl (\<lambda>v. '''') = \<lparr>cl_baseURL = ''http://127.0.0.1:8080'', cl_token = ''s3cret''\<rparr>"
    by (simp add: newDaemonClient_def client_New_def)
  have p: "IsValidPhoneNumber ''+27821234567''" by (simp add: IsValidPhoneNumber_def is_digit_def byte_def)
  have f: "fits ''''" "fits ''success''" "fits ''2@abc''" by (simp_all add: fits_def quote_str_def runes_ascii byte_def quote_rune_def)
  have login: "svc_LoginQR pairing_svc demo_lite = (Inr [qr_code ''2@abc'', qr_end ''success''], demo_lite)"
    by (simp add: svc_LoginQR_def on_wa_def pairing_wa_def svc_New_def)
  have qr: "\<And>es w'. svc_LoginQR pairing_svc demo_lite = (Inr es, w') \<Longrightarrow> \<forall>e\<in>set es. fits (qr_Code e) \<and> fits (qr_Outcome e)"
    by (auto simp: login f qr_code_def qr_end_def)
  have ph: "\<And>es w'. svc_LoginPhone pairing_svc ''+27821234567'' demo_lite = (Inr es, w') \<Longrightarrow> \<forall>e\<in>set es. fits (pe_Code e) \<and> fits (pe_Outcome e)"
    by (auto simp: svc_LoginPhone_def p on_wa_def pairing_wa_def demo_wa_def svc_New_def f)
  have ends: "shown qr_Terminal qr_Code [qr_code ''2@abc'', qr_end ''success''] = [''2@abc'']"
    "pairs qr_Terminal qr_Outcome [qr_code ''2@abc'', qr_end ''success'']"
    by (simp_all add: shown_def pairs_def qr_code_def qr_end_def to_valid_ascii byte_def)
  have t: "''s3cret'' = '''' \<or> hd ''s3cret'' \<noteq> CHR '' ''" by simp
  have k: "cl_token (newDaemonClient ?fl (\<lambda>v. '''')) = ''s3cret''" by (simp add: c)
  show ?thesis
    using commands_end_to_end [where S = pairing_svc and w = demo_lite and draw = "\<lambda>c. c" and uq = "\<lambda>s. s" and serve = "\<lambda>path. None" and mcp = True
        and by_ext = "\<lambda>e. ''''", OF t k p qr ph, unfolded Let_def]
    by (simp add: login ends c)
qed

end
