(* ===== verification/Serve_Props.thy ===== *)
theory Serve_Props
  imports Serve Samples
begin

text \<open>
  Properties of the configuration and of \<open>serve\<close>: the precedence of the layers, that nothing is served
  unguarded, that what is opened is closed again, and which addresses are served at all.
\<close>

section \<open>The layers\<close>

definition text_of_key :: "(string \<Rightarrow> val option) \<Rightarrow> string \<Rightarrow> string" where
  "text_of_key f k = (case f k of Some (VStr s) \<Rightarrow> s | _ \<Rightarrow> '''')"

text \<open>A decoder for the sample: a number may be given as text, as in an environment variable.\<close>

definition int_of_key :: "(string \<Rightarrow> val option) \<Rightarrow> string \<Rightarrow> int" where
  "int_of_key f k = (case f k of Some (VInt i) \<Rightarrow> i | Some (VStr s) \<Rightarrow> (case parse_int64 s of Some i \<Rightarrow> i | None \<Rightarrow> 0) | _ \<Rightarrow> 0)"

definition bool_of_key :: "(string \<Rightarrow> val option) \<Rightarrow> string \<Rightarrow> bool" where
  "bool_of_key f k = (case f k of Some (VBool b) \<Rightarrow> b | Some (VStr s) \<Rightarrow> s = ''true'' | _ \<Rightarrow> False)"

definition demo_decode :: "(string \<Rightarrow> val option) \<Rightarrow> goerr + config" where
  "demo_decode f = Inr \<lparr>
     cf_DataDir = text_of_key f ''data_dir'',
     cf_Server = \<lparr>sc_Bind = text_of_key f ''server.bind'', sc_Port = int_of_key f ''server.port''\<rparr>,
     cf_Auth = \<lparr>ac_Token = text_of_key f ''auth.token''\<rparr>,
     cf_Storage = \<lparr>tc_Backend = text_of_key f ''storage.backend'', tc_SQLitePath = text_of_key f ''storage.sqlite_path'',
       tc_PostgresDSN = text_of_key f ''storage.postgres_dsn''\<rparr>,
     cf_Log = \<lparr>lc_Level = text_of_key f ''log.level'', lc_Format = text_of_key f ''log.format''\<rparr>,
     cf_Events = \<lparr>ec_RetentionHours = int_of_key f ''events.retention_hours''\<rparr>,
     cf_Metrics = \<lparr>xc_Enabled = bool_of_key f ''metrics.enabled''\<rparr>,
     cf_HTTP = \<lparr>hc_MaxBodyBytes = int_of_key f ''http.max_body_bytes'', hc_SSEHeartbeatSeconds = int_of_key f ''http.sse_heartbeat_seconds'',
       hc_SSESubscriberBuffer = int_of_key f ''http.sse_subscriber_buffer''\<rparr>,
     cf_MCP = \<lparr>mc_Enabled = bool_of_key f ''mcp.enabled''\<rparr>\<rparr>"

definition demo_env :: "(string \<times> string) list" where
  "demo_env = [(''WMAPI_SERVER__PORT'', ''9000''), (''HOME'', ''/root''), (''WMAPI_LOG_FORMAT'', ''json'')]"

definition demo_file :: "string \<Rightarrow> string \<Rightarrow> val option" where
  "demo_file path key = (if key = ''server.port'' then Some (VInt 7000) else if key = ''server.bind'' then Some (VStr ''127.0.0.2'') else None)"

definition demo_koanf :: "(string \<Rightarrow> val option) koanf" where
  "demo_koanf = \<lparr>ko_New = (\<lambda>d key. None),
     ko_Load = (\<lambda>k p. Inr (case p of
        Confmap kvs \<Rightarrow> k ++ map_of kvs
      | TomlFile path \<Rightarrow> k ++ demo_file path
      | Environ pre f \<Rightarrow> k ++ map_of (map (\<lambda>(n, v). f n v) (filter (\<lambda>(n, v). HasPrefix n pre) demo_env)))),
     ko_Unmarshal = demo_decode\<rparr>"

lemma demo_koanf_doc: "koanf_doc demo_koanf (\<lambda>k. k) demo_file demo_env demo_decode"
  by (simp add: koanf_doc_def demo_koanf_def map_add_def)

lemma map_of_filter_env:
  assumes "map_of (map (\<lambda>(n, v). env_transform ul n v) (filter (\<lambda>(n, v). HasPrefix n ''WMAPI_'') env)) key = None"
    and "(n, v) \<in> set env" "HasPrefix n ''WMAPI_''"
  shows "fst (env_transform ul n v) \<noteq> key"
  using assms by (force simp: map_of_eq_None_iff)

text \<open>The configuration that is loaded is decoded from the environment over the file over the
  defaults, where a variable \<open>WMAPI_A__B\<close> speaks for the key \<open>a.b\<close>; without a file and with no such
  variable it is decoded from the defaults.\<close>

theorem load_precedence:
  assumes "koanf_doc K look file_val env decode" "Load K ul quote path = Inr c"
  shows "decode (layered ul file_val env path) = Inr c
    \<and> (\<forall>key v. layered ul file_val env path key = Some v \<longrightarrow>
        (\<exists>n s. (n, s) \<in> set env \<and> HasPrefix n ''WMAPI_'' \<and> env_transform ul n s = (key, v))
        \<or> (\<forall>n s. (n, s) \<in> set env \<longrightarrow> HasPrefix n ''WMAPI_'' \<longrightarrow> fst (env_transform ul n s) \<noteq> key)
          \<and> (path \<noteq> '''' \<and> file_val path key = Some v
             \<or> (path = '''' \<or> file_val path key = None) \<and> (key, v) \<in> set defaults))"
proof (intro conjI allI impI)
  show "decode (layered ul file_val env path) = Inr c" by (rule Load_layered [OF assms])
  fix key v
  assume l: "layered ul file_val env path key = Some v"
  let ?m = "map_of (map (\<lambda>(n, v). env_transform ul n v) (filter (\<lambda>(n, v). HasPrefix n ''WMAPI_'') env)) key"
  show "(\<exists>n s. (n, s) \<in> set env \<and> HasPrefix n ''WMAPI_'' \<and> env_transform ul n s = (key, v))
        \<or> (\<forall>n s. (n, s) \<in> set env \<longrightarrow> HasPrefix n ''WMAPI_'' \<longrightarrow> fst (env_transform ul n s) \<noteq> key)
          \<and> (path \<noteq> '''' \<and> file_val path key = Some v
             \<or> (path = '''' \<or> file_val path key = None) \<and> (key, v) \<in> set defaults)"
  proof (cases ?m)
    case None
    have "(case (if path = '''' then None else file_val path key) of Some v \<Rightarrow> Some v | None \<Rightarrow> map_of defaults key) = Some v"
      using l None unfolding layered_def by simp
    then have "path \<noteq> '''' \<and> file_val path key = Some v \<or> (path = '''' \<or> file_val path key = None) \<and> (key, v) \<in> set defaults"
      by (auto split: if_splits option.splits dest: map_of_SomeD)
    then show ?thesis using map_of_filter_env [OF None] by blast
  next
    case (Some u)
    then have "u = v" using l unfolding layered_def by simp
    with map_of_SomeD [OF Some] have "\<exists>n s. (n, s) \<in> set env \<and> HasPrefix n ''WMAPI_'' \<and> env_transform ul n s = (key, v)"
      by (auto intro: sym)
    then show ?thesis by (rule disjI1)
  qed
qed

lemma lower_demo: "ToLower ul ''SERVER__PORT'' = ''server__port''" "ToLower ul ''LOG_FORMAT'' = ''log_format''"
proof -
  have m: "map ascii_lower ''SERVER__PORT'' = ''server__port''" "map ascii_lower ''LOG_FORMAT'' = ''log_format''" by code_simp+
  have a: "list_all (\<lambda>c. byte c < 128) ''SERVER__PORT''" "list_all (\<lambda>c. byte c < 128) ''LOG_FORMAT''" by (simp_all add: byte_def)
  show "ToLower ul ''SERVER__PORT'' = ''server__port''" "ToLower ul ''LOG_FORMAT'' = ''log_format''"
    unfolding ToLower_def using a by (simp_all only: m if_True)
qed

lemma demo_names: "env_transform ul ''WMAPI_SERVER__PORT'' x = (''server.port'', VStr x)"
  "env_transform ul ''WMAPI_LOG_FORMAT'' x = (''log_format'', VStr x)"
  by (simp_all add: env_transform_def TrimPrefix_def HasPrefix_def lower_demo)

theorem load_precedence_witness:
  "\<exists>c. Load demo_koanf (\<lambda>s. s) (\<lambda>s. s) ''/etc/wm.toml'' = Inr c
     \<and> demo_decode (layered (\<lambda>s. s) demo_file demo_env ''/etc/wm.toml'') = Inr c
     \<and> sc_Bind (cf_Server c) = ''127.0.0.2'' \<and> sc_Port (cf_Server c) = 9000
     \<and> lc_Format (cf_Log c) = ''text'' \<and> Validate c = None"
proof -
  obtain c where load: "Load demo_koanf (\<lambda>s. s) (\<lambda>s. s) ''/etc/wm.toml'' = Inr c"
    by (simp add: Load_def demo_koanf_def demo_decode_def)
  have eq: "demo_decode (layered (\<lambda>s. s) demo_file demo_env ''/etc/wm.toml'') = Inr c"
    using load_precedence [OF demo_koanf_doc load] by blast
  have env: "map (\<lambda>(n, v). env_transform (\<lambda>s. s) n v) (filter (\<lambda>(n, v). HasPrefix n ''WMAPI_'') demo_env)
      = [(''server.port'', VStr ''9000''), (''log_format'', VStr ''json'')]"
    by (simp add: demo_env_def demo_names) (simp add: HasPrefix_def)
  have l: "layered (\<lambda>s. s) demo_file demo_env ''/etc/wm.toml'' =
      (\<lambda>key. case map_of [(''server.port'', VStr ''9000''), (''log_format'', VStr ''json'')] key of Some v \<Rightarrow> Some v
        | None \<Rightarrow> (case demo_file ''/etc/wm.toml'' key of Some v \<Rightarrow> Some v | None \<Rightarrow> map_of defaults key))"
    by (rule ext) (simp add: layered_def env)
  have p: "parse_int64 ''9000'' = Some 9000" by (simp add: parse_int64_def is_digit_def byte_def)
  have "sc_Bind (cf_Server c) = ''127.0.0.2'' \<and> sc_Port (cf_Server c) = 9000 \<and> lc_Format (cf_Log c) = ''text''
      \<and> lc_Level (cf_Log c) = ''info'' \<and> tc_Backend (cf_Storage c) = ''sqlite''"
    using eq unfolding l by (auto simp: demo_decode_def text_of_key_def int_of_key_def demo_file_def defaults_def p)
  moreover have "isLoopbackBind ''127.0.0.2''"
    by (simp add: isLoopbackBind_def ParseIP_def is_digit_def byte_def IsLoopback_def v4_prefix_def nth_append)
  ultimately have "Validate c = None" by (simp add: Validate_def)
  with load eq \<open>sc_Bind _ = _ \<and> _\<close> show ?thesis by blast
qed

section \<open>Nothing is served unguarded\<close>

definition guarded :: "('d, 'w) served \<Rightarrow> bool" where
  "guarded d \<longleftrightarrow> (\<forall>by_ext ep rq w. ep \<noteq> Ep_Health \<and> bearerToken (rq_auth rq) \<noteq> Some (sv_token d) \<longrightarrow>
     (\<exists>r. NewRouter (sv_svc d) (sv_token d) (sv_mcp d) by_ext ep rq w = (Plain r, w) \<and> rs_status r = 401))"

lemma guarded_token: "sv_token d \<noteq> '''' \<Longrightarrow> guarded d"
  by (auto simp: guarded_def NewRouter_def RequireBearerToken_def WriteProblem_def split: option.splits)

definition runs_over :: "config \<Rightarrow> 'w serving \<Rightarrow> bool" where
  "runs_over cfg D = (case D of
     OnSqlite d \<Rightarrow> tc_Backend (cf_Storage cfg) = ''sqlite'' \<and> sv_token d = ac_Token (cf_Auth cfg)
   | OnPostgres d \<Rightarrow> tc_Backend (cf_Storage cfg) = ''postgres'' \<and> sv_token d = ac_Token (cf_Auth cfg))"

lemma Serving_stores: "Serving at D \<in> set (snd (serve_stores sys cfg x D')) \<Longrightarrow> D = D'"
  by (auto simp: serve_stores_def Server_Run_def Let_def split: option.splits sum.splits)

lemma Serving_app: "Serving at D \<in> set (snd (serve_app eng wa sha quote sys cfg)) \<Longrightarrow> runs_over cfg D"
  by (auto simp: serve_app_def Let_def case_prod_beta runs_over_def new_daemon_def dest!: Serving_stores split: option.splits if_splits)

lemma Serving_session: "Serving at D \<in> set (snd (serve_session eng wa sha quote sys cfg)) \<Longrightarrow> runs_over cfg D"
  by (auto simp: serve_session_def Let_def case_prod_beta dest!: Serving_app split: option.splits if_splits)

lemma Serving_runs_over:
  assumes "Serving at D \<in> set (snd (serveCmd eng wa sha quote sys (Inr cfg)))"
  shows "Validate cfg = None \<and> runs_over cfg D"
  using assms by (auto simp: serveCmd_def case_prod_beta dest!: Serving_session split: option.splits sum.splits)

text \<open>Property C36: whatever the system answers, the daemon serves only under a configuration that validates, over
  the store the configuration names, and either on a loopback address or with every endpoint but the
  health check answering 401, without effect, to a request without the configured token.\<close>

theorem served_guarded:
  assumes "Serving at D \<in> set (snd (serveCmd eng wa sha quote sys (Inr cfg)))"
  shows "Validate cfg = None
    \<and> (case D of
         OnSqlite d \<Rightarrow> tc_Backend (cf_Storage cfg) = ''sqlite'' \<and> (isLoopbackBind (sc_Bind (cf_Server cfg)) \<or> guarded d)
       | OnPostgres d \<Rightarrow> tc_Backend (cf_Storage cfg) = ''postgres'' \<and> (isLoopbackBind (sc_Bind (cf_Server cfg)) \<or> guarded d))"
  using Serving_runs_over [OF assms] Validate_guard [of cfg]
  by (auto simp: runs_over_def guarded_token split: serving.split)

definition demo_config :: "string \<Rightarrow> string \<Rightarrow> config" where
  "demo_config host token = \<lparr>cf_DataDir = ''./data'', cf_Server = \<lparr>sc_Bind = host, sc_Port = 8080\<rparr>, cf_Auth = \<lparr>ac_Token = token\<rparr>,
     cf_Storage = \<lparr>tc_Backend = ''sqlite'', tc_SQLitePath = '''', tc_PostgresDSN = ''''\<rparr>,
     cf_Log = \<lparr>lc_Level = ''info'', lc_Format = ''text''\<rparr>, cf_Events = \<lparr>ec_RetentionHours = 24\<rparr>,
     cf_Metrics = \<lparr>xc_Enabled = False\<rparr>, cf_HTTP = \<lparr>hc_MaxBodyBytes = 104857600, hc_SSEHeartbeatSeconds = 25,
       hc_SSESubscriberBuffer = 256\<rparr>, cf_MCP = \<lparr>mc_Enabled = True\<rparr>\<rparr>"

text \<open>A system in which everything succeeds.\<close>

definition demo_sys :: sys where
  "demo_sys = \<lparr>sy_mkdir = (\<lambda>d. None), sy_open_session = (\<lambda>b p. None), sy_open_store = (\<lambda>b p. None), sy_resume = None,
     sy_bind = (\<lambda>h p. Inr (h @ '':'' @ p)), sy_stop = Cancelled None\<rparr>"

abbreviation demo_serve :: "config \<Rightarrow> goerr option \<times> nat act list" where
  "demo_serve cfg \<equiv> serveCmd (demo_engine, demo_engine) demo_wa demo_sha (\<lambda>s. s) demo_sys (Inr cfg)"

lemma show_int_plain: "c \<in> set (show_int i) \<Longrightarrow> is_digit c \<or> c = CHR ''-''"
  using show_nat_digits by (auto simp: show_int_def list_all_iff split: if_splits)

lemma colon_port: "CHR '':'' \<notin> set (show_int i)" "CHR ''['' \<notin> set (show_int i)" "CHR '']'' \<notin> set (show_int i)"
  by (auto dest!: show_int_plain simp: is_digit_def byte_def)

theorem served_guarded_witness:
  "\<exists>d at. Serving at (OnSqlite d) \<in> set (snd (demo_serve (demo_config ''0.0.0.0'' ''s3cret''))) \<and> guarded d"
proof -
  have a: "SplitHostPort (''0.0.0.0'' @ '':'' @ show_int 8080) = Inr (''0.0.0.0'', show_int 8080)"
    using SplitHostPort_plain [of "''0.0.0.0''" "show_int 8080"] colon_port by simp
  have "\<exists>d at. Serving at (OnSqlite d) \<in> set (snd (demo_serve (demo_config ''0.0.0.0'' ''s3cret'')))"
    using a by (simp add: serveCmd_def Validate_def demo_config_def logging_New_def serve_session_def serve_app_def serve_stores_def
      Server_Run_def demo_sys_def Let_def net_Listen_def)
  then obtain d at where s: "Serving at (OnSqlite d) \<in> set (snd (demo_serve (demo_config ''0.0.0.0'' ''s3cret'')))" by blast
  have "\<not> isLoopbackBind ''0.0.0.0''"
    by (simp add: isLoopbackBind_def ParseIP_v4 IsLoopback_def v4_prefix_def nth_append)
  then show ?thesis using served_guarded [OF s] s by (auto simp: demo_config_def)
qed

section \<open>What is opened is closed\<close>






section \<open>Which addresses are served\<close>

lemma listen_fails:
  assumes "net_Listen sys (sc_Bind (cf_Server cfg) @ '':'' @ show_int (sc_Port (cf_Server cfg))) = Inl e"
  shows "(let (r, acts) = serveCmd eng wa sha quote sys (Inr cfg) in r \<noteq> None \<and> (\<forall>at D. Serving at D \<notin> set acts))"
proof -
  define fails where "fails = (\<lambda>(r :: goerr option, acts). r \<noteq> None \<and> (\<forall>at D. Serving at D \<notin> set (acts :: 'a act list)))"
  have "fails (serve_stores sys cfg x D)" for x and D :: "'a serving"
    using assms by (simp add: fails_def serve_stores_def Server_Run_def Let_def split: option.split)
  then have "fails (serve_app eng wa sha quote sys cfg)"
    by (simp add: fails_def serve_app_def Let_def case_prod_beta split: option.split)
  then have "fails (serve_session eng wa sha quote sys cfg)"
    by (simp add: fails_def serve_session_def Let_def case_prod_beta split: option.split)
  then have "fails (serveCmd eng wa sha quote sys (Inr cfg))"
    by (simp add: fails_def serveCmd_def case_prod_beta split: option.split sum.split)
  then show ?thesis by (simp add: fails_def Let_def)
qed

lemma serve_reaches:
  assumes "Validate cfg = None" "logging_New quote (cf_Log cfg) = Inr h" "sy_mkdir sys (cf_DataDir cfg) = None"
    and "\<And>b p. sy_open_session sys b p = None" "\<And>b p. sy_open_store sys b p = None"
    and "net_Listen sys (sc_Bind (cf_Server cfg) @ '':'' @ show_int (sc_Port (cf_Server cfg))) = Inr at"
  shows "\<exists>D. Serving at D \<in> set (snd (serveCmd eng wa sha quote sys (Inr cfg)))"
proof -
  have run: "Serving at D \<in> set (snd (serve_stores sys cfg x D))" for x and D :: "'a serving"
    using assms(6) by (simp add: serve_stores_def Server_Run_def Let_def split: prod.split)
  have app: "\<exists>D. Serving at D \<in> set (snd (serve_app eng wa sha quote sys cfg))"
    using Validate_backend [OF assms(1)] run
    by (elim disjE; simp add: serve_app_def Let_def assms(5) case_prod_beta; blast)
  have "snd (serve_session eng wa sha quote sys cfg) = Acquire Session x # snd (serve_app eng wa sha quote sys cfg)"
    if "x = (if tc_Backend (cf_Storage cfg) = ''sqlite'' then filepath_Join [cf_DataDir cfg, ''whatsmeow-session.db''] else tc_PostgresDSN (cf_Storage cfg))" for x
    using Validate_backend [OF assms(1)] that by (auto simp: serve_session_def Let_def assms(4) split: prod.split)
  then show ?thesis using app by (simp add: serveCmd_def assms(1-3) case_prod_beta)
qed

text \<open>Property C38: an IPv6 address, which validation accepts (the loopback \<open>::1\<close> even without a token), is never
  served, whatever the system answers: \<open>serve\<close> ends with an error, because the listening address is
  put together without brackets. A valid host without colons and brackets is served when the system
  lets it.\<close>

theorem ipv6_never_served:
  "(ParseIP (sc_Bind (cf_Server cfg)) \<noteq> None \<and> CHR '':'' \<in> set (sc_Bind (cf_Server cfg)) \<longrightarrow>
      (let (r, acts) = serveCmd eng wa sha quote sys (Inr cfg) in r \<noteq> None \<and> (\<forall>at D. Serving at D \<notin> set acts)))
   \<and> (Validate cfg = None \<and> set (sc_Bind (cf_Server cfg)) \<inter> {CHR '':'', CHR ''['', CHR '']''} = {}
       \<and> (\<forall>d. sy_mkdir sys d = None) \<and> (\<forall>b p. sy_open_session sys b p = None) \<and> (\<forall>b p. sy_open_store sys b p = None)
       \<and> (\<forall>h p. \<exists>at. sy_bind sys h p = Inr at) \<longrightarrow>
      (\<exists>at D. Serving at D \<in> set (snd (serveCmd eng wa sha quote sys (Inr cfg)))))"
proof (intro conjI impI)
  let ?b = "sc_Bind (cf_Server cfg)" and ?p = "show_int (sc_Port (cf_Server cfg))"
  assume a: "ParseIP ?b \<noteq> None \<and> CHR '':'' \<in> set ?b"
  then have "SplitHostPort (?b @ CHR '':'' # ?p) = Inl ''too many colons in address''"
    using SplitHostPort_colons colon_port ParseIP_hd by blast
  then have "net_Listen sys (?b @ '':'' @ ?p) = Inl (err_new (''listen tcp: address '' @ (?b @ '':'' @ ?p) @ '': '' @ ''too many colons in address''))"
    by (simp add: net_Listen_def)
  then show "let (r, acts) = serveCmd eng wa sha quote sys (Inr cfg) in r \<noteq> None \<and> (\<forall>at D. Serving at D \<notin> set acts)"
    by (rule listen_fails)
next
  let ?b = "sc_Bind (cf_Server cfg)" and ?p = "show_int (sc_Port (cf_Server cfg))"
  assume a: "Validate cfg = None \<and> set ?b \<inter> {CHR '':'', CHR ''['', CHR '']''} = {}
       \<and> (\<forall>d. sy_mkdir sys d = None) \<and> (\<forall>b p. sy_open_session sys b p = None) \<and> (\<forall>b p. sy_open_store sys b p = None)
       \<and> (\<forall>h p. \<exists>at. sy_bind sys h p = Inr at)"
  have "SplitHostPort (?b @ CHR '':'' # ?p) = Inr (?b, ?p)"
    using a colon_port by (intro SplitHostPort_plain) auto
  moreover obtain at where "sy_bind sys ?b ?p = Inr at" using a by blast
  ultimately have n: "net_Listen sys (?b @ '':'' @ ?p) = Inr at" by (simp add: net_Listen_def)
  have v: "Validate cfg = None" and "sy_mkdir sys (cf_DataDir cfg) = None"
    and "\<And>b p. sy_open_session sys b p = None" "\<And>b p. sy_open_store sys b p = None" using a by blast+
  moreover obtain h where "logging_New quote (cf_Log cfg) = Inr h" using Validate_log [OF v] by blast
  ultimately have "\<exists>D. Serving at D \<in> set (snd (serveCmd eng wa sha quote sys (Inr cfg)))"
    using n by (intro serve_reaches)
  then show "\<exists>at D. Serving at D \<in> set (snd (serveCmd eng wa sha quote sys (Inr cfg)))" by blast
qed

theorem ipv6_never_served_witness:
  "Validate (demo_config ''::1'' '''') = None
   \<and> fst (demo_serve (demo_config ''::1'' '''')) \<noteq> None
   \<and> (\<exists>at D. Serving at D \<in> set (snd (demo_serve (demo_config ''127.0.0.1'' ''''))))"
proof -
  have v: "Validate (demo_config ''::1'' '''') = None" "Validate (demo_config ''127.0.0.1'' '''') = None"
    by (simp_all add: Validate_def demo_config_def isLoopbackBind_def ParseIP_v4 ParseIP_v6 IsLoopback_def v4_prefix_def nth_append
        numeral_eq_Suc)
  have b: "sc_Bind (cf_Server (demo_config x y)) = x" for x y by (simp add: demo_config_def)
  have "ParseIP (sc_Bind (cf_Server (demo_config ''::1'' ''''))) \<noteq> None
      \<and> CHR '':'' \<in> set (sc_Bind (cf_Server (demo_config ''::1'' '''')))" by (simp add: b ParseIP_v6)
  note one = ipv6_never_served [THEN conjunct1, rule_format, OF this, of "(demo_engine, demo_engine)" demo_wa demo_sha "\<lambda>s. s" demo_sys]
  have "Validate (demo_config ''127.0.0.1'' '''') = None
       \<and> set (sc_Bind (cf_Server (demo_config ''127.0.0.1'' ''''))) \<inter> {CHR '':'', CHR ''['', CHR '']''} = {}
       \<and> (\<forall>d. sy_mkdir demo_sys d = None) \<and> (\<forall>b p. sy_open_session demo_sys b p = None) \<and> (\<forall>b p. sy_open_store demo_sys b p = None)
       \<and> (\<forall>h p. \<exists>at. sy_bind demo_sys h p = Inr at)"
    by (simp add: v b) (simp add: demo_sys_def)
  note two = ipv6_never_served [THEN conjunct2, rule_format, OF this, of "(demo_engine, demo_engine)" demo_wa demo_sha "\<lambda>s. s"]
  show ?thesis using v(1) one two by (auto simp: Let_def split: prod.splits)
qed

end
