(* ===== verification/Store_Open.thy ===== *)
theory Store_Open
  imports Prelude
begin

text \<open>
  How the databases are opened: \<open>New\<close> and \<open>runMigrations\<close> of internal/store/sqlite/store.go and
  internal/store/postgres/store.go, and \<open>OpenSQLite\<close> and \<open>OpenPostgres\<close> of the WhatsApp adapter. What
  the driver, the migration library and the session library answer in one run is a record; a run
  gives its error and the handles it has opened and closed. The last section follows the connection
  pool of \<open>database/sql\<close>.
\<close>

section \<open>The application stores\<close>

datatype up = UpDone | UpNoChange | UpFailed goerr

record open_run =
  op_open :: "goerr option"
  op_ping :: "goerr option"
  op_source :: "goerr option"
  op_driver :: "goerr option"
  op_migrate :: "goerr option"
  op_up :: up

datatype db_act = DbOpen string | DbClose

definition sqlite_runMigrations :: "open_run \<Rightarrow> goerr option" where
  "sqlite_runMigrations o' = (case op_source o' of
     Some e \<Rightarrow> Some (wrapf ''iofs source'' e)
   | None \<Rightarrow> (case op_driver o' of
       Some e \<Rightarrow> Some (wrapf ''migrate sqlite driver'' e)
     | None \<Rightarrow> (case op_migrate o' of
         Some e \<Rightarrow> Some (wrapf ''migrate.NewWithInstance'' e)
       | None \<Rightarrow> (case op_up o' of UpFailed e \<Rightarrow> Some (wrapf ''migrate up'' e) | UpDone \<Rightarrow> None | UpNoChange \<Rightarrow> None))))"

definition pg_runMigrations :: "open_run \<Rightarrow> goerr option" where
  "pg_runMigrations o' = (case op_source o' of
     Some e \<Rightarrow> Some (wrapf ''migrations source'' e)
   | None \<Rightarrow> (case op_driver o' of
       Some e \<Rightarrow> Some (wrapf ''migrations driver'' e)
     | None \<Rightarrow> (case op_migrate o' of
         Some e \<Rightarrow> Some (wrapf ''migrations new'' e)
       | None \<Rightarrow> (case op_up o' of UpFailed e \<Rightarrow> Some (wrapf ''migrations up'' e) | UpDone \<Rightarrow> None | UpNoChange \<Rightarrow> None))))"

definition sqlite_dsn :: "string \<Rightarrow> string" where
  "sqlite_dsn path = ''file:'' @ path @ ''?_pragma=foreign_keys(1)&_pragma=journal_mode(WAL)''"

definition sqlite_New :: "open_run \<Rightarrow> string \<Rightarrow> goerr option \<times> db_act list" where
  "sqlite_New o' path =
     (let dsn = sqlite_dsn path in
      case op_open o' of
        Some e \<Rightarrow> (Some (wrapf ''sql.Open sqlite'' e), [])
      | None \<Rightarrow> (case op_ping o' of
          Some e \<Rightarrow> (Some (wrapf ''ping sqlite'' e), [DbOpen dsn, DbClose])
        | None \<Rightarrow> (case sqlite_runMigrations o' of
            Some e \<Rightarrow> (Some e, [DbOpen dsn, DbClose])
          | None \<Rightarrow> (None, [DbOpen dsn]))))"

definition pg_New :: "open_run \<Rightarrow> string \<Rightarrow> goerr option \<times> db_act list" where
  "pg_New o' dsn = (case op_open o' of
     Some e \<Rightarrow> (Some (wrapf ''sql.Open pgx'' e), [])
   | None \<Rightarrow> (case op_ping o' of
       Some e \<Rightarrow> (Some (wrapf ''ping postgres'' e), [DbOpen dsn, DbClose])
     | None \<Rightarrow> (case pg_runMigrations o' of
         Some e \<Rightarrow> (Some e, [DbOpen dsn, DbClose])
       | None \<Rightarrow> (None, [DbOpen dsn]))))"

section \<open>The connection pool\<close>

text \<open>
  A connection is known by its \<open>search_path\<close>. A statement takes the connection that was given back
  last, or opens a new one (with the path of the server, \<open>public\<close>) when none is idle; it gives it back
  unless two are idle already (\<open>MaxIdleConns\<close> is 2 by default).
\<close>

record pool =
  pl_idle :: "string list"

definition grab :: "pool \<Rightarrow> string \<times> pool" where
  "grab p = (case pl_idle p of [] \<Rightarrow> (''public'', p) | c # cs \<Rightarrow> (c, p\<lparr>pl_idle := cs\<rparr>))"

definition give_back :: "string \<Rightarrow> pool \<Rightarrow> pool" where
  "give_back c p = (if length (pl_idle p) < 2 then p\<lparr>pl_idle := c # pl_idle p\<rparr> else p)"

text \<open>A statement that sets the path changes the connection it runs on.\<close>

definition pool_exec :: "(string \<Rightarrow> string) \<Rightarrow> pool \<Rightarrow> pool" where
  "pool_exec f p = (let (c, p) = grab p in give_back (f c) p)"

section \<open>The session store\<close>

record session_run =
  so_open :: "goerr option"
  so_schema :: "goerr option"
  so_path :: "goerr option"
  so_upgrade :: "goerr option"

definition OpenSQLite :: "goerr option \<Rightarrow> string \<Rightarrow> goerr option \<times> db_act list" where
  "OpenSQLite sqlstore_New path = (case sqlstore_New of
     Some e \<Rightarrow> (Some (wrapf ''sqlstore sqlite'' e), [])
   | None \<Rightarrow> (None, [DbOpen (sqlite_dsn path)]))"

text \<open>The third component is the pool the container keeps; \<open>Upgrade\<close> runs its statements one after the other.\<close>

definition OpenPostgres :: "session_run \<Rightarrow> string \<Rightarrow> goerr option \<times> db_act list \<times> pool" where
  "OpenPostgres o' dsn =
     (let p = \<lparr>pl_idle = []\<rparr> in
      case so_open o' of
        Some e \<Rightarrow> (Some (wrapf ''open postgres'' e), [], p)
      | None \<Rightarrow> (case so_schema o' of
          Some e \<Rightarrow> (Some (wrapf ''create schema'' e), [DbOpen dsn], p)
        | None \<Rightarrow> (let p = pool_exec (\<lambda>c. c) p in case so_path o' of
            Some e \<Rightarrow> (Some (wrapf ''set search_path'' e), [DbOpen dsn], p)
          | None \<Rightarrow> (let p = pool_exec (\<lambda>c. ''whatsmeow_session, public'') p in case so_upgrade o' of
              Some e \<Rightarrow> (Some (wrapf ''sqlstore postgres upgrade'' e), [DbOpen dsn], p)
            | None \<Rightarrow> (None, [DbOpen dsn], p)))))"

section \<open>Properties\<close>

text \<open>Property C40: a store that cannot be opened and migrated leaves no handle open, and one that can leaves
  exactly one; a schema that is already current is no error.\<close>

theorem stores_open_or_closed:
  "(case sqlite_New o' path of
      (None, acts) \<Rightarrow> acts = [DbOpen (sqlite_dsn path)] | (Some e, acts) \<Rightarrow> acts \<in> {[], [DbOpen (sqlite_dsn path), DbClose]})
   \<and> (case pg_New o' dsn of (None, acts) \<Rightarrow> acts = [DbOpen dsn] | (Some e, acts) \<Rightarrow> acts \<in> {[], [DbOpen dsn, DbClose]})
   \<and> (fst (sqlite_New o' path) = None \<longleftrightarrow> op_open o' = None \<and> op_ping o' = None \<and> op_source o' = None \<and> op_driver o' = None
        \<and> op_migrate o' = None \<and> op_up o' \<in> {UpDone, UpNoChange})
   \<and> (fst (pg_New o' dsn) = None \<longleftrightarrow> fst (sqlite_New o' path) = None)"
  by (auto simp: sqlite_New_def pg_New_def sqlite_runMigrations_def pg_runMigrations_def Let_def split: option.split up.split)

text \<open>After a session store on Postgres has been opened, a statement that runs alone finds the
  session schema, but one that runs while another is in progress runs on a new connection that does
  not (the path was set on one connection of the pool); and a failed opening leaves the handle open.\<close>

theorem session_schema_on_one_connection:
  assumes "OpenPostgres o' dsn = (r, acts, p)"
  shows "(r = None \<longrightarrow> (let (c1, p1) = grab p; (c2, p2) = grab p1 in
       c1 = ''whatsmeow_session, public'' \<and> c2 = ''public''))
    \<and> (r \<noteq> None \<and> so_open o' = None \<longrightarrow> acts = [DbOpen dsn])"
  using assms
  by (auto simp: OpenPostgres_def pool_exec_def grab_def give_back_def Let_def split: option.splits)

theorem session_schema_on_one_connection_witness:
  "\<exists>p. OpenPostgres \<lparr>so_open = None, so_schema = None, so_path = None, so_upgrade = None\<rparr> ''postgres://db'' = (None, [DbOpen ''postgres://db''], p)
     \<and> fst (grab (snd (grab p))) = ''public''"
proof -
  let ?o = "\<lparr>so_open = None, so_schema = None, so_path = None, so_upgrade = None\<rparr>"
  obtain p where p: "OpenPostgres ?o ''postgres://db'' = (None, [DbOpen ''postgres://db''], p)"
    by (simp add: OpenPostgres_def Let_def)
  show ?thesis using p session_schema_on_one_connection [OF p] by (simp add: Let_def split: prod.splits)
qed

end
