(* ===== verification/Storesuite.thy ===== *)
theory Storesuite
  imports Store_Postgres
begin

text \<open>
  internal/store/storesuite: the conformance tests a store has to pass, over any store of the
  interface and any database state. A test is a boolean: \<open>require\<close> and \<open>assert\<close> both have to hold, and
  what follows a call is the continuation of the call. \<open>time.Now\<close> is a parameter, \<open>now i\<close> at its
  \<open>i\<close>-th call, and so is the hard deletion the dialect supplies.
\<close>

section \<open>Assertions\<close>

text \<open>\<open>require.NoError\<close> on a write, and on a call with a result.\<close>

definition no_error :: "goerr option \<times> 'd \<Rightarrow> ('d \<Rightarrow> bool) \<Rightarrow> bool" where
  "no_error r k = (case r of (None, d) \<Rightarrow> k d | (Some e, d) \<Rightarrow> False)"

definition got :: "(goerr + 'a) \<times> 'd \<Rightarrow> ('a \<Rightarrow> 'd \<Rightarrow> bool) \<Rightarrow> bool" where
  "got r k = (case r of (Inr x, d) \<Rightarrow> k x d | (Inl e, d) \<Rightarrow> False)"

text \<open>\<open>errors.Is(err, store.ErrNotFound)\<close>.\<close>

definition not_found :: "(goerr + 'a) \<times> 'd \<Rightarrow> bool" where
  "not_found r = (case fst r of Inl e \<Rightarrow> is_err ENotFound e | Inr x \<Rightarrow> False)"

fun no_errors :: "('d \<Rightarrow> goerr option \<times> 'd) list \<Rightarrow> 'd \<Rightarrow> ('d \<Rightarrow> bool) \<Rightarrow> bool" where
  "no_errors [] d k = k d"
| "no_errors (f # fs) d k = no_error (f d) (\<lambda>d. no_errors fs d k)"

text \<open>\<open>time.Date(y, m, d, h, mi, s, 0, time.UTC)\<close>.\<close>

definition days_of_civil :: "int \<Rightarrow> int \<Rightarrow> int \<Rightarrow> int" where
  "days_of_civil y m d =
     (let y = (if m \<le> 2 then y - 1 else y);
          doy = (153 * ((m + 9) mod 12) + 2) div 5 + d - 1;
          yoe = y mod 400
      in y div 400 * 146097 + (yoe * 365 + yoe div 4 - yoe div 100 + doy) - 719468)"

definition time_Date :: "int \<Rightarrow> int \<Rightarrow> int \<Rightarrow> int \<Rightarrow> int \<Rightarrow> int \<Rightarrow> time" where
  "time_Date y m d h mi s = time_of_unix (days_of_civil y m d * 86400 + h * 3600 + mi * 60 + s)"

text \<open>Composite literals: the fields that are not named are zero.\<close>

definition lit_message :: "string \<Rightarrow> string \<Rightarrow> string \<Rightarrow> time \<Rightarrow> string \<Rightarrow> string \<Rightarrow> message" where
  "lit_message i chat sender ts kind body = \<lparr>msg_ID = i, msg_ChatJID = chat, msg_SenderJID = sender, msg_Timestamp = ts,
     msg_Kind = kind, msg_Body = body, msg_ReplyTo = '''', msg_EditedAt = None, msg_DeletedAt = None, msg_RawMeta = ''''\<rparr>"

definition lit_contact :: "string \<Rightarrow> string \<Rightarrow> string \<Rightarrow> string \<Rightarrow> contact" where
  "lit_contact j p f b = \<lparr>con_JID = j, con_PushName = p, con_FullName = f, con_BusinessName = b\<rparr>"

definition jid_a :: string where "jid_a = ''a@s.whatsapp.net''"
definition jid_b :: string where "jid_b = ''b@s.whatsapp.net''"
definition jid_c :: string where "jid_c = ''c@s.whatsapp.net''"
definition jid_alice :: string where "jid_alice = ''alice@s.whatsapp.net''"
definition jid_bob :: string where "jid_bob = ''bob@s.whatsapp.net''"

section \<open>helpers.go, kv.go\<close>

definition seedChat :: "'d store_bundle \<Rightarrow> string \<Rightarrow> 'd \<Rightarrow> ('d \<Rightarrow> bool) \<Rightarrow> bool" where
  "seedChat b jid d = no_error (cst_Put (b_Chats b) ((new_chat jid ''user'')\<lparr>chat_Name := jid\<rparr>) d)"

definition RunKVSetGetDelete :: "'d kv_store \<Rightarrow> 'd \<Rightarrow> bool" where
  "RunKVSetGetDelete kv d =
     no_error (kst_Set kv ''k'' ''v'' d) (\<lambda>d.
     got (kst_Get kv ''k'' d) (\<lambda>x d. x = ''v'' \<and>
     no_error (kst_Delete kv ''k'' d) (\<lambda>d.
     not_found (kst_Get kv ''k'' d))))"

definition RunKVSetIsUpsert :: "'d kv_store \<Rightarrow> 'd \<Rightarrow> bool" where
  "RunKVSetIsUpsert kv d =
     no_error (kst_Set kv ''k'' ''old'' d) (\<lambda>d.
     no_error (kst_Set kv ''k'' ''new'' d) (\<lambda>d.
     got (kst_Get kv ''k'' d) (\<lambda>x d. x = ''new'')))"

definition RunKVDeleteAbsentIsNoop :: "'d kv_store \<Rightarrow> 'd \<Rightarrow> bool" where
  "RunKVDeleteAbsentIsNoop kv d = no_error (kst_Delete kv ''missing'' d) (\<lambda>d. True)"

section \<open>chats.go\<close>

definition RunChatPutGet :: "'d chat_store \<Rightarrow> 'd \<Rightarrow> bool" where
  "RunChatPutGet chats d =
     (let now = time_Date 2026 5 1 10 0 0;
          c = \<lparr>chat_JID = ''27821234567@s.whatsapp.net'', chat_Name = ''Alice'', chat_Kind = ''user'', chat_LastMsgAt = now,
            chat_UnreadCount = 3, chat_Archived = False\<rparr>
      in no_error (cst_Put chats c d) (\<lambda>d.
         got (cst_Get chats (chat_JID c) d) (\<lambda>x d.
           chat_JID x = chat_JID c \<and> chat_Name x = chat_Name c \<and> chat_Kind x = chat_Kind c
           \<and> chat_UnreadCount x = chat_UnreadCount c \<and> \<not> chat_Archived x \<and> chat_LastMsgAt x = now)))"

definition RunChatGetNotFound :: "'d chat_store \<Rightarrow> 'd \<Rightarrow> bool" where
  "RunChatGetNotFound chats d = not_found (cst_Get chats ''nope@s.whatsapp.net'' d)"

definition RunChatPutIsUpsert :: "'d chat_store \<Rightarrow> 'd \<Rightarrow> bool" where
  "RunChatPutIsUpsert chats d =
     (let jid = ''27821234567@s.whatsapp.net'' in
      no_error (cst_Put chats ((new_chat jid ''user'')\<lparr>chat_Name := ''old''\<rparr>) d) (\<lambda>d.
      no_error (cst_Put chats ((new_chat jid ''user'')\<lparr>chat_Name := ''new''\<rparr>) d) (\<lambda>d.
      got (cst_Get chats jid d) (\<lambda>x d. chat_Name x = ''new''))))"

definition RunChatList :: "'d chat_store \<Rightarrow> 'd \<Rightarrow> bool" where
  "RunChatList chats d =
     (let t1 = time_Date 2026 5 1 9 0 0; t2 = time_Date 2026 5 1 10 0 0; t3 = time_Date 2026 5 1 11 0 0 in
      no_error (cst_Put chats ((new_chat jid_a ''user'')\<lparr>chat_Name := ''A'', chat_LastMsgAt := t1\<rparr>) d) (\<lambda>d.
      no_error (cst_Put chats ((new_chat jid_b ''user'')\<lparr>chat_Name := ''B'', chat_LastMsgAt := t3\<rparr>) d) (\<lambda>d.
      no_error (cst_Put chats ((new_chat jid_c ''user'')\<lparr>chat_Name := ''C'', chat_LastMsgAt := t2, chat_Archived := True\<rparr>) d) (\<lambda>d.
      got (cst_List chats time_zero 100 False d) (\<lambda>x d. length x = 2 \<and> chat_JID (x ! 0) = jid_b \<and> chat_JID (x ! 1) = jid_a \<and>
      got (cst_List chats time_zero 100 True d) (\<lambda>x d. length x = 3 \<and>
      got (cst_List chats t3 100 False d) (\<lambda>x d. length x = 1 \<and> chat_JID (x ! 0) = jid_a \<and>
      got (cst_List chats time_zero 1 False d) (\<lambda>x d. length x = 1 \<and> chat_JID (x ! 0) = jid_b))))))))"

definition RunChatCount :: "'d chat_store \<Rightarrow> 'd \<Rightarrow> bool" where
  "RunChatCount chats d =
     got (cst_Count chats d) (\<lambda>n d. n = 0 \<and>
     no_error (cst_Put chats (new_chat jid_a ''user'') d) (\<lambda>d.
     no_error (cst_Put chats (new_chat jid_b ''user'') d) (\<lambda>d.
     got (cst_Count chats d) (\<lambda>n d. n = 2))))"

definition RunChatTotalUnread :: "'d chat_store \<Rightarrow> 'd \<Rightarrow> bool" where
  "RunChatTotalUnread chats d =
     got (cst_TotalUnread chats d) (\<lambda>n d. n = 0 \<and>
     no_error (cst_Put chats ((new_chat jid_a ''user'')\<lparr>chat_UnreadCount := 3\<rparr>) d) (\<lambda>d.
     no_error (cst_Put chats ((new_chat jid_b ''user'')\<lparr>chat_UnreadCount := 0\<rparr>) d) (\<lambda>d.
     no_error (cst_Put chats ((new_chat jid_c ''user'')\<lparr>chat_UnreadCount := 7\<rparr>) d) (\<lambda>d.
     got (cst_TotalUnread chats d) (\<lambda>n d. n = 10)))))"

definition RunChatSetArchived :: "'d chat_store \<Rightarrow> 'd \<Rightarrow> bool" where
  "RunChatSetArchived chats d =
     (let jid = ''x@s.whatsapp.net'' in
      no_error (cst_Put chats ((new_chat jid ''user'')\<lparr>chat_Name := ''X''\<rparr>) d) (\<lambda>d.
      no_error (cst_SetArchived chats jid True d) (\<lambda>d.
      got (cst_Get chats jid d) (\<lambda>x d. chat_Archived x \<and>
      no_error (cst_SetArchived chats jid False d) (\<lambda>d.
      got (cst_Get chats jid d) (\<lambda>x d. \<not> chat_Archived x))))))"

section \<open>contacts.go\<close>

definition RunContactPutGet :: "'d contact_store \<Rightarrow> 'd \<Rightarrow> bool" where
  "RunContactPutGet cs d =
     (let c = lit_contact ''1@s.whatsapp.net'' ''Alice'' ''Alice A.'' ''ACME'' in
      no_error (ost_Put cs c d) (\<lambda>d. got (ost_Get cs (con_JID c) d) (\<lambda>x d. x = c)))"

definition RunContactGetNotFound :: "'d contact_store \<Rightarrow> 'd \<Rightarrow> bool" where
  "RunContactGetNotFound cs d = not_found (ost_Get cs ''missing'' d)"

definition RunContactList :: "'d contact_store \<Rightarrow> 'd \<Rightarrow> bool" where
  "RunContactList cs d =
     no_error (ost_Put cs (lit_contact jid_b ''B'' '''' '''') d) (\<lambda>d.
     no_error (ost_Put cs (lit_contact jid_a ''A'' '''' '''') d) (\<lambda>d.
     got (ost_List cs d) (\<lambda>x d. length x = 2 \<and> con_JID (x ! 0) = jid_a \<and> con_JID (x ! 1) = jid_b)))"

definition RunContactCount :: "'d contact_store \<Rightarrow> 'd \<Rightarrow> bool" where
  "RunContactCount cs d =
     got (ost_Count cs d) (\<lambda>n d. n = 0 \<and>
     no_error (ost_Put cs (lit_contact jid_a ''A'' '''' '''') d) (\<lambda>d.
     no_error (ost_Put cs (lit_contact jid_b ''B'' '''' '''') d) (\<lambda>d.
     got (ost_Count cs d) (\<lambda>n d. n = 2))))"

definition RunContactSearch :: "'d contact_store \<Rightarrow> 'd \<Rightarrow> bool" where
  "RunContactSearch cs d =
     no_error (ost_Put cs (lit_contact ''1@s.whatsapp.net'' ''Alice'' ''Alice Anderson'' '''') d) (\<lambda>d.
     no_error (ost_Put cs (lit_contact ''2@s.whatsapp.net'' ''Bob'' '''' ''ACME Inc'') d) (\<lambda>d.
     no_error (ost_Put cs (lit_contact ''3@s.whatsapp.net'' ''carol'' '''' '''') d) (\<lambda>d.
     got (ost_Search cs ''ALICE'' 10 d) (\<lambda>x d. length x = 1 \<and> con_JID (x ! 0) = ''1@s.whatsapp.net'' \<and>
     got (ost_Search cs ''anderson'' 10 d) (\<lambda>x d. length x = 1 \<and> con_JID (x ! 0) = ''1@s.whatsapp.net'' \<and>
     got (ost_Search cs ''acme'' 10 d) (\<lambda>x d. length x = 1 \<and> con_JID (x ! 0) = ''2@s.whatsapp.net'' \<and>
     got (ost_Search cs ''o'' 2 d) (\<lambda>x d. length x \<le> 2 \<and>
     got (ost_Search cs ''zzzz'' 10 d) (\<lambda>x d. x = []))))))))"

definition RunContactPutIsUpsert :: "'d contact_store \<Rightarrow> 'd \<Rightarrow> bool" where
  "RunContactPutIsUpsert cs d =
     (let jid = ''x@s.whatsapp.net'' in
      no_error (ost_Put cs (lit_contact jid ''old'' '''' '''') d) (\<lambda>d.
      no_error (ost_Put cs (lit_contact jid ''new'' '''' '''') d) (\<lambda>d.
      got (ost_Get cs jid d) (\<lambda>x d. con_PushName x = ''new''))))"

section \<open>messages.go\<close>

definition RunMessagePutGet :: "'d store_bundle \<Rightarrow> 'd \<Rightarrow> bool" where
  "RunMessagePutGet b d =
     (let chat = ''27821234567@s.whatsapp.net''; ts = time_Date 2026 5 1 10 0 0; q = CHR 0x22;
          m = (lit_message ''MSG1'' chat chat ts ''text'' ''hello world'')\<lparr>msg_RawMeta :=
            ''{'' @ q # ''foo'' @ q # '':'' @ q # ''bar'' @ q # ''}''\<rparr>
      in seedChat b chat d (\<lambda>d.
         no_error (mst_Put (b_Messages b) m d) (\<lambda>d.
         got (mst_Get (b_Messages b) ''MSG1'' d) (\<lambda>x d.
           msg_ID x = msg_ID m \<and> msg_ChatJID x = msg_ChatJID m \<and> msg_Body x = msg_Body m \<and> msg_RawMeta x = msg_RawMeta m
           \<and> msg_Timestamp x = ts \<and> msg_EditedAt x = None \<and> msg_DeletedAt x = None))))"

definition RunMessageGetNotFound :: "'d message_store \<Rightarrow> 'd \<Rightarrow> bool" where
  "RunMessageGetNotFound messages d = not_found (mst_Get messages ''missing'' d)"

definition RunMessagePutRequiresExistingChat :: "(nat \<Rightarrow> time) \<Rightarrow> 'd message_store \<Rightarrow> 'd \<Rightarrow> bool" where
  "RunMessagePutRequiresExistingChat now messages d =
     (fst (mst_Put messages (lit_message ''x'' ''ghost@s.whatsapp.net'' ''ghost@s.whatsapp.net'' (now 0) ''text'' ''hi'') d) \<noteq> None)"

definition RunMessageListByChat :: "'d store_bundle \<Rightarrow> 'd \<Rightarrow> bool" where
  "RunMessageListByChat b d =
     (let chat = jid_c; mk = (\<lambda>i secs. lit_message i chat chat (time_of_unix secs) ''text'' i); M = b_Messages b in
      seedChat b chat d (\<lambda>d.
      no_errors (map (mst_Put M) [mk ''a'' 100, mk ''b'' 200, mk ''c'' 300, mk ''d'' 400]) d (\<lambda>d.
      got (mst_ListByChat M chat 2 time_zero d) (\<lambda>x d. length x = 2 \<and> msg_ID (x ! 0) = ''d'' \<and> msg_ID (x ! 1) = ''c'' \<and>
      got (mst_ListByChat M chat 10 (time_of_unix 300) d) (\<lambda>x d. length x = 2 \<and> msg_ID (x ! 0) = ''b'' \<and> msg_ID (x ! 1) = ''a'')))))"

definition RunMessageSearchFTS :: "(nat \<Rightarrow> time) \<Rightarrow> 'd store_bundle \<Rightarrow> 'd \<Rightarrow> bool" where
  "RunMessageSearchFTS now b d =
     (let chat = jid_c; M = b_Messages b in
      seedChat b chat d (\<lambda>d.
      no_errors (map (mst_Put M) [lit_message ''1'' chat chat (now 0) ''text'' ''the quick brown fox'',
        lit_message ''2'' chat chat (now 1) ''text'' ''lazy dog jumps'', lit_message ''3'' chat chat (now 2) ''text'' ''FOX hunts mice'']) d (\<lambda>d.
      got (mst_Search M ''fox'' 10 d) (\<lambda>x d. length x = 2 \<and>
        (let ids = [msg_ID (x ! 0), msg_ID (x ! 1)] in ''1'' \<in> set ids \<and> ''3'' \<in> set ids)))))"

definition RunMessageSoftDelete :: "'d store_bundle \<Rightarrow> 'd \<Rightarrow> bool" where
  "RunMessageSoftDelete b d =
     (let chat = jid_c; M = b_Messages b; when = time_Date 2026 5 1 12 0 0 in
      seedChat b chat d (\<lambda>d.
      no_error (mst_Put M (lit_message ''x'' chat chat (time_of_unix 100) ''text'' ''secret'') d) (\<lambda>d.
      no_error (mst_SoftDelete M ''x'' when d) (\<lambda>d.
      got (mst_Get M ''x'' d) (\<lambda>x d. msg_DeletedAt x = Some when \<and>
      got (mst_ListByChat M chat 10 time_zero d) (\<lambda>x d. x = []))))))"

definition RunMessagePutIsUpsert :: "'d store_bundle \<Rightarrow> 'd \<Rightarrow> bool" where
  "RunMessagePutIsUpsert b d =
     (let chat = jid_c; M = b_Messages b; ts = time_of_unix 1000 in
      seedChat b chat d (\<lambda>d.
      no_error (mst_Put M (lit_message ''M1'' chat chat ts ''text'' ''old body'') d) (\<lambda>d.
      no_error (mst_Put M (lit_message ''M1'' chat chat ts ''text'' ''new body'') d) (\<lambda>d.
      got (mst_Get M ''M1'' d) (\<lambda>x d. msg_Body x = ''new body'' \<and>
      got (mst_Search M ''old'' 10 d) (\<lambda>x d. x = [] \<and>
      got (mst_Search M ''new'' 10 d) (\<lambda>x d. length x = 1 \<and> msg_ID (x ! 0) = ''M1'')))))))"

definition RunMessageCount :: "'d store_bundle \<Rightarrow> 'd \<Rightarrow> bool" where
  "RunMessageCount b d =
     (let chat = jid_c; M = b_Messages b in
      seedChat b chat d (\<lambda>d.
      got (mst_Count M d) (\<lambda>n d. n = 0 \<and>
      no_error (mst_Put M (lit_message ''M1'' chat chat (time_of_unix 100) ''text'' ''a'') d) (\<lambda>d.
      no_error (mst_Put M (lit_message ''M2'' chat chat (time_of_unix 200) ''text'' ''b'') d) (\<lambda>d.
      got (mst_Count M d) (\<lambda>n d. n = 2 \<and>
      no_error (mst_SoftDelete M ''M1'' (time_of_unix 300) d) (\<lambda>d.
      got (mst_Count M d) (\<lambda>n d. n = 1))))))))"

definition RunMessageSearchExcludesSoftDeleted :: "'d store_bundle \<Rightarrow> 'd \<Rightarrow> bool" where
  "RunMessageSearchExcludesSoftDeleted b d =
     (let chat = jid_c; M = b_Messages b in
      seedChat b chat d (\<lambda>d.
      no_error (mst_Put M (lit_message ''M1'' chat chat (time_of_unix 1000) ''text'' ''findable'') d) (\<lambda>d.
      got (mst_Search M ''findable'' 10 d) (\<lambda>x d. length x = 1 \<and>
      no_error (mst_SoftDelete M ''M1'' (time_of_unix 2000) d) (\<lambda>d.
      got (mst_Search M ''findable'' 10 d) (\<lambda>x d. x = []))))))"

section \<open>media.go, reactions.go, receipts.go\<close>

text \<open>\<open>seedMessage\<close> names the chat; the seeds of the reaction and receipt tests do not.\<close>

definition seedMessage :: "'d store_bundle \<Rightarrow> string \<Rightarrow> string \<Rightarrow> 'd \<Rightarrow> ('d \<Rightarrow> bool) \<Rightarrow> bool" where
  "seedMessage b msgID chatJID d k = seedChat b chatJID d (\<lambda>d.
     no_error (mst_Put (b_Messages b) (lit_message msgID chatJID chatJID (time_of_unix 1000) ''image'' '''') d) k)"

definition seedMessageForReactions :: "'d store_bundle \<Rightarrow> string \<Rightarrow> string \<Rightarrow> 'd \<Rightarrow> ('d \<Rightarrow> bool) \<Rightarrow> bool" where
  "seedMessageForReactions b chatJID messageID d k =
     no_error (cst_Put (b_Chats b) (new_chat chatJID ''user'') d) (\<lambda>d.
     no_error (mst_Put (b_Messages b) (lit_message messageID chatJID chatJID (time_of_unix 1000) ''text'' ''hi'') d) k)"

definition seedMessageForReceipts :: "'d store_bundle \<Rightarrow> string \<Rightarrow> string \<Rightarrow> 'd \<Rightarrow> ('d \<Rightarrow> bool) \<Rightarrow> bool" where
  "seedMessageForReceipts b chatJID messageID d k =
     no_error (cst_Put (b_Chats b) (new_chat chatJID ''user'') d) (\<lambda>d.
     no_error (mst_Put (b_Messages b) (lit_message messageID chatJID chatJID (time_of_unix 1000) ''text'' ''hi'') d) k)"

definition RunMediaPutGet :: "'d store_bundle \<Rightarrow> 'd \<Rightarrow> bool" where
  "RunMediaPutGet b d =
     (let mr = \<lparr>med_MessageID = ''M1'', med_MIME = ''image/jpeg'', med_Size = 4242, med_SHA256 = ''abcdef123'',
            med_Path = ''/data/media/M1.jpg''\<rparr> in
      seedMessage b ''M1'' jid_c d (\<lambda>d.
      no_error (dst_Put (b_Media b) mr d) (\<lambda>d.
      got (dst_GetByMessageID (b_Media b) ''M1'' d) (\<lambda>x d. x = mr))))"

definition RunMediaGetNotFound :: "'d media_store \<Rightarrow> 'd \<Rightarrow> bool" where
  "RunMediaGetNotFound media d = not_found (dst_GetByMessageID media ''missing'' d)"

definition RunMediaCascadesOnMessageDelete :: "(string \<Rightarrow> 'd \<Rightarrow> 'd) \<Rightarrow> 'd store_bundle \<Rightarrow> 'd \<Rightarrow> bool" where
  "RunMediaCascadesOnMessageDelete hardDelete b d =
     seedMessage b ''M1'' jid_c d (\<lambda>d.
     no_error (dst_Put (b_Media b) \<lparr>med_MessageID = ''M1'', med_MIME = ''image/jpeg'', med_Size = 1, med_SHA256 = ''x'', med_Path = ''/p''\<rparr> d) (\<lambda>d.
     not_found (dst_GetByMessageID (b_Media b) ''M1'' (hardDelete ''M1'' d))))"

definition thumbs_up :: string where "thumbs_up = [CHR 0xF0, CHR 0x9F, CHR 0x91, CHR 0x8D]"
definition heart :: string where "heart = [CHR 0xE2, CHR 0x9D, CHR 0xA4, CHR 0xEF, CHR 0xB8, CHR 0x8F]"

definition lit_reaction :: "string \<Rightarrow> string \<Rightarrow> string \<Rightarrow> time \<Rightarrow> reaction" where
  "lit_reaction i s e t = \<lparr>rea_MessageID = i, rea_SenderJID = s, rea_Emoji = e, rea_Timestamp = t\<rparr>"

definition RunReactionPutGetList :: "'d store_bundle \<Rightarrow> 'd \<Rightarrow> bool" where
  "RunReactionPutGetList b d =
     (let R = b_Reactions b; now = time_Date 2026 5 7 12 0 0 in
      seedMessageForReactions b jid_c ''M1'' d (\<lambda>d.
      no_error (rst_Put R (lit_reaction ''M1'' jid_alice thumbs_up now) d) (\<lambda>d.
      no_error (rst_Put R (lit_reaction ''M1'' jid_bob heart now) d) (\<lambda>d.
      got (rst_ListByMessageID R ''M1'' d) (\<lambda>x d. length x = 2
        \<and> rea_SenderJID (x ! 0) = jid_alice \<and> rea_Emoji (x ! 0) = thumbs_up
        \<and> rea_SenderJID (x ! 1) = jid_bob \<and> rea_Emoji (x ! 1) = heart \<and> rea_Timestamp (x ! 0) = now)))))"

definition RunReactionPutIsUpsert :: "'d store_bundle \<Rightarrow> 'd \<Rightarrow> bool" where
  "RunReactionPutIsUpsert b d =
     (let R = b_Reactions b in
      seedMessageForReactions b jid_c ''M1'' d (\<lambda>d.
      no_error (rst_Put R (lit_reaction ''M1'' jid_alice thumbs_up (time_of_unix 1000)) d) (\<lambda>d.
      no_error (rst_Put R (lit_reaction ''M1'' jid_alice heart (time_of_unix 2000)) d) (\<lambda>d.
      got (rst_ListByMessageID R ''M1'' d) (\<lambda>x d. length x = 1 \<and> rea_Emoji (x ! 0) = heart \<and> rea_Timestamp (x ! 0) = time_of_unix 2000)))))"

definition RunReactionDelete :: "(nat \<Rightarrow> time) \<Rightarrow> 'd store_bundle \<Rightarrow> 'd \<Rightarrow> bool" where
  "RunReactionDelete now b d =
     (let R = b_Reactions b in
      seedMessageForReactions b jid_c ''M1'' d (\<lambda>d.
      no_error (rst_Put R (lit_reaction ''M1'' jid_alice thumbs_up (now 0)) d) (\<lambda>d.
      no_error (rst_Delete R ''M1'' jid_alice d) (\<lambda>d.
      got (rst_ListByMessageID R ''M1'' d) (\<lambda>x d. x = [] \<and>
      no_error (rst_Delete R ''M1'' ''nobody@s.whatsapp.net'' d) (\<lambda>d. True))))))"

definition RunReactionListEmpty :: "'d reaction_store \<Rightarrow> 'd \<Rightarrow> bool" where
  "RunReactionListEmpty reactions d = got (rst_ListByMessageID reactions ''no-such-message'' d) (\<lambda>x d. x = [])"

definition RunReactionFKCascade :: "(nat \<Rightarrow> time) \<Rightarrow> (string \<Rightarrow> 'd \<Rightarrow> 'd) \<Rightarrow> 'd store_bundle \<Rightarrow> 'd \<Rightarrow> bool" where
  "RunReactionFKCascade now hardDelete b d =
     (let R = b_Reactions b in
      seedMessageForReactions b jid_c ''M1'' d (\<lambda>d.
      no_error (rst_Put R (lit_reaction ''M1'' jid_alice thumbs_up (now 0)) d) (\<lambda>d.
      got (rst_ListByMessageID R ''M1'' (hardDelete ''M1'' d)) (\<lambda>x d. x = []))))"

definition lit_receipt :: "string \<Rightarrow> string \<Rightarrow> string \<Rightarrow> time \<Rightarrow> receipt" where
  "lit_receipt i r ty t = \<lparr>rec_MessageID = i, rec_ReaderJID = r, rec_Type = ty, rec_Timestamp = t\<rparr>"

definition RunReceiptPutGetList :: "'d store_bundle \<Rightarrow> 'd \<Rightarrow> bool" where
  "RunReceiptPutGetList b d =
     (let P = b_Receipts b; now = time_Date 2026 5 7 12 0 0 in
      seedMessageForReceipts b jid_c ''M1'' d (\<lambda>d.
      no_error (pst_Put P (lit_receipt ''M1'' jid_alice ''delivered'' now) d) (\<lambda>d.
      no_error (pst_Put P (lit_receipt ''M1'' jid_alice ''read'' now) d) (\<lambda>d.
      no_error (pst_Put P (lit_receipt ''M1'' jid_bob ''delivered'' now) d) (\<lambda>d.
      got (pst_ListByMessageID P ''M1'' d) (\<lambda>x d. length x = 3
        \<and> rec_ReaderJID (x ! 0) = jid_alice \<and> rec_Type (x ! 0) = ''delivered''
        \<and> rec_ReaderJID (x ! 1) = jid_alice \<and> rec_Type (x ! 1) = ''read'' \<and> rec_ReaderJID (x ! 2) = jid_bob))))))"

definition RunReceiptPutIsUpsert :: "'d store_bundle \<Rightarrow> 'd \<Rightarrow> bool" where
  "RunReceiptPutIsUpsert b d =
     (let P = b_Receipts b in
      seedMessageForReceipts b jid_c ''M1'' d (\<lambda>d.
      no_error (pst_Put P (lit_receipt ''M1'' jid_alice ''read'' (time_of_unix 1000)) d) (\<lambda>d.
      no_error (pst_Put P (lit_receipt ''M1'' jid_alice ''read'' (time_of_unix 2000)) d) (\<lambda>d.
      got (pst_ListByMessageID P ''M1'' d) (\<lambda>x d. length x = 1 \<and> rec_Timestamp (x ! 0) = time_of_unix 2000)))))"

definition RunReceiptListEmpty :: "'d receipt_store \<Rightarrow> 'd \<Rightarrow> bool" where
  "RunReceiptListEmpty receipts d = got (pst_ListByMessageID receipts ''no-such-message'' d) (\<lambda>x d. x = [])"

definition RunReceiptFKCascade :: "(nat \<Rightarrow> time) \<Rightarrow> (string \<Rightarrow> 'd \<Rightarrow> 'd) \<Rightarrow> 'd store_bundle \<Rightarrow> 'd \<Rightarrow> bool" where
  "RunReceiptFKCascade now hardDelete b d =
     (let P = b_Receipts b in
      seedMessageForReceipts b jid_c ''M1'' d (\<lambda>d.
      no_error (pst_Put P (lit_receipt ''M1'' jid_alice ''read'' (now 0)) d) (\<lambda>d.
      got (pst_ListByMessageID P ''M1'' (hardDelete ''M1'' d)) (\<lambda>x d. x = []))))"

section \<open>events_log.go\<close>

definition lit_event :: "time \<Rightarrow> string \<Rightarrow> string \<Rightarrow> event_log_entry" where
  "lit_event t ty p = \<lparr>ev_Seq = 0, ev_Time = t, ev_Type = ty, ev_Payload = p\<rparr>"

definition RunEventsAppendMonotonic :: "(nat \<Rightarrow> time) \<Rightarrow> 'd events_log \<Rightarrow> 'd \<Rightarrow> bool" where
  "RunEventsAppendMonotonic now ev d =
     (let e = (\<lambda>n. lit_event (now 0) ''wa.msg'' (''{'' @ CHR 0x22 # ''a'' @ CHR 0x22 # '':'' @ n @ ''}'')) in
      got (est_Append ev (e ''1'') d) (\<lambda>s1 d.
      got (est_Append ev (e ''2'') d) (\<lambda>s2 d.
      got (est_Append ev (e ''3'') d) (\<lambda>s3 d. s1 = 1 \<and> s2 = 2 \<and> s3 = 3))))"

fun append_times :: "nat \<Rightarrow> 'd events_log \<Rightarrow> event_log_entry \<Rightarrow> 'd \<Rightarrow> ('d \<Rightarrow> bool) \<Rightarrow> bool" where
  "append_times 0 ev e d k = k d"
| "append_times (Suc n) ev e d k = got (est_Append ev e d) (\<lambda>s d. append_times n ev e d k)"

definition RunEventsSinceSeq :: "(nat \<Rightarrow> time) \<Rightarrow> 'd events_log \<Rightarrow> 'd \<Rightarrow> bool" where
  "RunEventsSinceSeq now ev d =
     append_times 5 ev (lit_event (now 0) ''x'' '''') d (\<lambda>d.
     got (est_SinceSeq ev 2 10 d) (\<lambda>x d. length x = 3 \<and> ev_Seq (x ! 0) = 3 \<and> ev_Seq (x ! 2) = 5 \<and>
     got (est_SinceSeq ev 0 2 d) (\<lambda>x d. length x = 2 \<and> ev_Seq (x ! 0) = 1 \<and> ev_Seq (x ! 1) = 2)))"

section \<open>postgres/testutil.go\<close>

text \<open>\<open>DELETE FROM messages WHERE id = $1\<close>: the rows that refer to the message go with it (ON DELETE CASCADE).\<close>

definition delete_message :: "string \<Rightarrow> 'b db \<Rightarrow> 'b db" where
  "delete_message i d = d\<lparr>t_messages := filter (\<lambda>r. mr_id r \<noteq> i) (t_messages d),
     t_media := filter (\<lambda>r. dr_message_id r \<noteq> i) (t_media d),
     t_reactions := filter (\<lambda>r. rr_message_id r \<noteq> i) (t_reactions d),
     t_receipts := filter (\<lambda>r. pr_message_id r \<noteq> i) (t_receipts d)\<rparr>"

definition HardDeleteMessage :: "string \<Rightarrow> 'b conn \<Rightarrow> 'b conn" where
  "HardDeleteMessage i c = c\<lparr>c_db := delete_message i (c_db c)\<rparr>"

section \<open>The suite\<close>

definition passes_contacts_chats :: "'d store_bundle \<Rightarrow> 'd \<Rightarrow> bool" where
  "passes_contacts_chats b d \<longleftrightarrow>
     RunChatPutGet (b_Chats b) d \<and> RunChatGetNotFound (b_Chats b) d \<and> RunChatPutIsUpsert (b_Chats b) d
   \<and> RunChatList (b_Chats b) d \<and> RunChatCount (b_Chats b) d \<and> RunChatTotalUnread (b_Chats b) d \<and> RunChatSetArchived (b_Chats b) d
   \<and> RunContactPutGet (b_Contacts b) d \<and> RunContactGetNotFound (b_Contacts b) d \<and> RunContactList (b_Contacts b) d
   \<and> RunContactCount (b_Contacts b) d \<and> RunContactSearch (b_Contacts b) d \<and> RunContactPutIsUpsert (b_Contacts b) d
   \<and> RunKVSetGetDelete (b_KV b) d \<and> RunKVSetIsUpsert (b_KV b) d \<and> RunKVDeleteAbsentIsNoop (b_KV b) d"

definition passes_messages :: "(nat \<Rightarrow> time) \<Rightarrow> 'd store_bundle \<Rightarrow> 'd \<Rightarrow> bool" where
  "passes_messages now b d \<longleftrightarrow>
     RunMessagePutGet b d \<and> RunMessageGetNotFound (b_Messages b) d \<and> RunMessagePutRequiresExistingChat now (b_Messages b) d
   \<and> RunMessageListByChat b d \<and> RunMessageSearchFTS now b d \<and> RunMessageSoftDelete b d \<and> RunMessagePutIsUpsert b d
   \<and> RunMessageCount b d \<and> RunMessageSearchExcludesSoftDeleted b d"

definition passes_attached :: "(nat \<Rightarrow> time) \<Rightarrow> (string \<Rightarrow> 'd \<Rightarrow> 'd) \<Rightarrow> 'd store_bundle \<Rightarrow> 'd \<Rightarrow> bool" where
  "passes_attached now hardDelete b d \<longleftrightarrow>
     RunMediaPutGet b d \<and> RunMediaGetNotFound (b_Media b) d \<and> RunMediaCascadesOnMessageDelete hardDelete b d
   \<and> RunReactionPutGetList b d \<and> RunReactionPutIsUpsert b d \<and> RunReactionDelete now b d
   \<and> RunReactionListEmpty (b_Reactions b) d \<and> RunReactionFKCascade now hardDelete b d
   \<and> RunReceiptPutGetList b d \<and> RunReceiptPutIsUpsert b d \<and> RunReceiptListEmpty (b_Receipts b) d
   \<and> RunReceiptFKCascade now hardDelete b d
   \<and> RunEventsAppendMonotonic now (b_Events b) d \<and> RunEventsSinceSeq now (b_Events b) d"

definition conforms :: "(nat \<Rightarrow> time) \<Rightarrow> (string \<Rightarrow> 'd \<Rightarrow> 'd) \<Rightarrow> 'd store_bundle \<Rightarrow> 'd \<Rightarrow> bool" where
  "conforms now hardDelete b d \<longleftrightarrow> passes_contacts_chats b d \<and> passes_messages now b d \<and> passes_attached now hardDelete b d"

end
