(* ===== verification/Storesuite_Props.thy ===== *)
theory Storesuite_Props
  imports Storesuite Samples
begin

text \<open>
  Both dialects pass the conformance suite of internal/store/storesuite, for every engine that
  behaves as documented.
\<close>

section \<open>What the tests rely on of the engines\<close>

definition letter :: "char \<Rightarrow> bool" where
  "letter c \<longleftrightarrow> 97 \<le> byte c \<and> byte c \<le> 122"

fun words_from :: "string \<Rightarrow> string \<Rightarrow> string list" where
  "words_from w [] = [rev w]"
| "words_from w (c # cs) = (if c = CHR '' '' then rev w # words_from [] cs else words_from (c # w) cs)"

text \<open>
  Full-text search for one lower-case word finds it in a text of letters and blanks whatever the case
  (both tokenizers fold case and neither stems); texts that begin with different lower-case letters
  are collated by these; \<open>lower\<close> lowers ASCII; TIMESTAMPTZ keeps whole microseconds.
\<close>

definition finds_words :: "engine \<Rightarrow> bool" where
  "finds_words eng \<longleftrightarrow> (\<forall>q. q \<noteq> [] \<and> list_all letter q \<longrightarrow> (\<exists>m. eng_fts eng q = Inr m
     \<and> (\<forall>b. list_all (\<lambda>c. letter c \<or> c = CHR '' '') (map ascii_lower b) \<longrightarrow>
          (m (Some b) = None \<longleftrightarrow> q \<notin> set (words_from [] (map ascii_lower b))))))"

definition engine_doc :: "engine \<Rightarrow> bool" where
  "engine_doc eng \<longleftrightarrow> engine_ok eng \<and> finds_words eng
     \<and> (\<forall>c d s t. letter c \<and> letter d \<and> byte c < byte d \<longrightarrow> eng_collate eng (c # s) < eng_collate eng (d # t))
     \<and> (\<forall>s. list_all (\<lambda>c. byte c < 128) s \<longrightarrow> eng_lower eng s = map ascii_lower s)
     \<and> (\<forall>t. t mod 1000 = 0 \<longrightarrow> eng_ts eng t = t)"

section \<open>Calls that meet no fault\<close>

definition at :: "'b db \<Rightarrow> 'b conn" where
  "at d = \<lparr>c_db = d, c_faults = []\<rparr>"

lemma c_db_at [simp]: "c_db (at d) = d" by (simp add: at_def)

lemma exec_at: "no_error (exec ctx f (at d)) k = (case f d of Inl m \<Rightarrow> False | Inr d' \<Rightarrow> k (at d'))"
  by (simp add: exec_def next_fault_def no_error_def at_def split: sum.split)

lemma exec_fails: "fst (exec ctx f (at d)) = None \<longleftrightarrow> \<not> isl (f d)"
  by (simp add: exec_def next_fault_def at_def split: sum.split)

lemma exec_id_at: "got (exec_id ctx f (at d)) k = (case f d of (i, d') \<Rightarrow> k i (at d'))"
  by (simp add: exec_id_def next_fault_def got_def at_def split: prod.split)

lemma query_row_at: "got (query_row ctx f (at d)) k = (case f d of None \<Rightarrow> False | Some x \<Rightarrow> k x (at d))"
  "not_found (query_row ctx f (at d)) = (f d = None)"
  by (simp_all add: query_row_def next_fault_def got_def not_found_def at_def ErrNotFound_def split: option.split)

lemma query_val_at: "got (query_val ctx f (at d)) k = k (f d) (at d)"
  by (simp add: query_val_def query_row_at)

lemma query_rows_at: "got (query_rows ctx f (at d)) k = (case f d of Inl m \<Rightarrow> False | Inr xs \<Rightarrow> k xs (at d))"
  by (simp add: query_rows_def next_fault_def got_def at_def split: sum.split)

lemmas calls = exec_at exec_fails exec_id_at query_row_at query_val_at query_rows_at

lemmas statements = upsert_chat_def upsert_message_def upsert_contact_def upsert_media_def upsert_reaction_def upsert_receipt_def
  upsert_kv_def delete_kv_def delete_reaction_def update_archived_def update_deleted_at_def insert_event_def
  chat_exists_def message_exists_def empty_db_def

lemma dates: "time_Date 2026 5 1 9 0 0 = time_of_unix 1777626000" "time_Date 2026 5 1 10 0 0 = time_of_unix 1777629600"
  "time_Date 2026 5 1 11 0 0 = time_of_unix 1777633200" "time_Date 2026 5 1 12 0 0 = time_of_unix 1777636800"
  "time_Date 2026 5 7 12 0 0 = time_of_unix 1778155200"
  by (simp_all add: time_Date_def days_of_civil_def Let_def)

lemma jid_order: "jid_a < jid_b" "jid_alice < jid_bob" "''delivered'' < ''read''"
  by (simp_all add: jid_a_def jid_b_def jid_alice_def jid_bob_def)

lemma is_zero: "IsZero time_zero" "IsZero (time_of_unix s) \<longleftrightarrow> s = - 62135596800"
  by (simp_all add: IsZero_def time_zero_def time_of_unix_def nanos_def)

lemma unix_less: "time_of_unix s < time_of_unix s' \<longleftrightarrow> s < s'"
  using nanos_pos by (simp add: time_of_unix_def)

lemmas literals = Let_def dates is_zero unix_less new_chat_def lit_message_def lit_contact_def lit_reaction_def lit_receipt_def lit_event_def
  jid_a_def jid_b_def jid_c_def jid_alice_def jid_bob_def sql_limit_def chat_order_def

section \<open>SQLite\<close>

lemmas sqlite_ops = sqlite_bundle_def ChatStore_Put_def ChatStore_Get_def ChatStore_List_def ChatStore_SetArchived_def
  ChatStore_Count_def ChatStore_TotalUnread_def chat_args_def scanChat_def
  ContactStore_Put_def ContactStore_Get_def ContactStore_List_def ContactStore_Search_def ContactStore_Count_def
  contact_args_def scanContact_def nullableString_def
  KVStore_Get_def KVStore_Set_def KVStore_Delete_def boolToInt_def unixOrNil_def unixToTime_def

lemma suite_sqlite_chats: "RunChatPutGet (b_Chats (sqlite_bundle eng)) (at empty_db)"
  "RunChatGetNotFound (b_Chats (sqlite_bundle eng)) (at empty_db)"
  "RunChatPutIsUpsert (b_Chats (sqlite_bundle eng)) (at empty_db)"
  "RunChatCount (b_Chats (sqlite_bundle eng)) (at empty_db)"
  "RunChatTotalUnread (b_Chats (sqlite_bundle eng)) (at empty_db)"
  "RunChatSetArchived (b_Chats (sqlite_bundle eng)) (at empty_db)"
  by (simp_all add: RunChatPutGet_def RunChatGetNotFound_def RunChatPutIsUpsert_def RunChatCount_def RunChatTotalUnread_def
      RunChatSetArchived_def sqlite_ops calls statements literals)

lemma suite_sqlite_chat_list: "RunChatList (b_Chats (sqlite_bundle eng)) (at empty_db)"
  by (simp add: RunChatList_def sqlite_ops calls statements literals)

lemma suite_sqlite_contacts: "RunContactPutGet (b_Contacts (sqlite_bundle eng)) (at empty_db)"
  "RunContactGetNotFound (b_Contacts (sqlite_bundle eng)) (at empty_db)"
  "RunContactList (b_Contacts (sqlite_bundle eng)) (at empty_db)"
  "RunContactCount (b_Contacts (sqlite_bundle eng)) (at empty_db)"
  "RunContactPutIsUpsert (b_Contacts (sqlite_bundle eng)) (at empty_db)"
  by (simp_all add: RunContactPutGet_def RunContactGetNotFound_def RunContactList_def RunContactCount_def RunContactPutIsUpsert_def
      sqlite_ops calls statements literals)

lemma suite_sqlite_kv: "RunKVSetGetDelete (b_KV (sqlite_bundle eng)) (at empty_db)"
  "RunKVSetIsUpsert (b_KV (sqlite_bundle eng)) (at empty_db)" "RunKVDeleteAbsentIsNoop (b_KV (sqlite_bundle eng)) (at empty_db)"
  by (simp_all add: RunKVSetGetDelete_def RunKVSetIsUpsert_def RunKVDeleteAbsentIsNoop_def sqlite_ops calls statements)

lemma lower_letters: "ascii_lower CHR ''A'' = CHR ''a''" "ascii_lower CHR ''B'' = CHR ''b''" "ascii_lower CHR ''C'' = CHR ''c''"
  "ascii_lower CHR ''E'' = CHR ''e''" "ascii_lower CHR ''F'' = CHR ''f''" "ascii_lower CHR ''I'' = CHR ''i''"
  "ascii_lower CHR ''L'' = CHR ''l''" "ascii_lower CHR ''M'' = CHR ''m''" "ascii_lower CHR ''O'' = CHR ''o''"
  "ascii_lower CHR ''X'' = CHR ''x''"
  by code_simp+

lemma lower_kept: "\<not> (65 \<le> byte c \<and> byte c \<le> 90) \<Longrightarrow> ascii_lower c = c"
  by (simp only: ascii_lower_def if_False)

lemmas lowering = lower_letters lower_kept byte_def ToLower_def code_points_def runes_ascii

lemma suite_sqlite_contact_search: "RunContactSearch (b_Contacts (sqlite_bundle eng)) (at empty_db)"
  by (simp add: RunContactSearch_def sqlite_ops calls statements literals contact_matches_def lowering null_string_def)

section \<open>Scans\<close>

lemma scan_Nil: "engine_ok eng \<Longrightarrow> eng_scan eng [] = []"
  using engine_ok_def [of eng] by (metis mset_zero_iff_right mset.simps(1))

lemma scan_one: "engine_ok eng \<Longrightarrow> eng_scan eng [a] = [a]"
proof -
  assume "engine_ok eng"
  then have "mset (eng_scan eng [a]) = {#a#}" by (simp add: engine_ok_def)
  then show ?thesis by (simp add: mset_single_iff_right)
qed

lemma scan_two: "engine_ok eng \<Longrightarrow> eng_scan eng [a, b] = [a, b] \<or> eng_scan eng [a, b] = [b, a]"
proof -
  assume "engine_ok eng"
  then have m: "mset (eng_scan eng [a, b]) = {#a, b#}" by (simp add: engine_ok_def)
  then have "length (eng_scan eng [a, b]) = 2" by (metis size_mset size_add_mset size_empty Suc_1 One_nat_def)
  then obtain x y where "eng_scan eng [a, b] = [x, y]" by (auto simp: length_Suc_conv numeral_2_eq_2)
  with m show ?thesis by (auto simp: add_eq_conv_ex)
qed

text \<open>Under distinct keys the order of the scan does not show.\<close>

lemma scan_sort:
  assumes "engine_ok eng" "distinct (map f xs)"
  shows "sort_key f (eng_scan eng xs) = sort_key f xs"
proof -
  have m: "mset (eng_scan eng xs) = mset xs" using assms(1) by (simp add: engine_ok_def)
  have sets: "set (eng_scan eng xs) = set xs" by (rule set_eng_scan [OF assms(1)])
  have d: "distinct (map f (sort_key f (eng_scan eng xs)))" "distinct (map f (sort_key f xs))"
    using assms(2) m by (metis mset_eq_imp_distinct_iff mset_map mset_sort)+
  have "map f (sort_key f (eng_scan eng xs)) = map f (sort_key f xs)"
    by (rule sorted_distinct_set_unique) (simp_all add: d sets)
  moreover have "inj_on f (set (sort_key f (eng_scan eng xs)) \<union> set (sort_key f xs))"
    using assms(2) sets by (simp add: distinct_map)
  ultimately show ?thesis by (metis map_inj_on)
qed

lemmas message_ops = MessageStore_Put_def MessageStore_Get_def MessageStore_ListByChat_def MessageStore_Search_def
  MessageStore_SoftDelete_def MessageStore_Count_def message_args_def scanMessage_def ptrUnix_def

lemma suite_sqlite_messages:
  assumes "engine_ok eng"
  shows "RunMessagePutGet (sqlite_bundle eng) (at empty_db)"
    "RunMessageGetNotFound (b_Messages (sqlite_bundle eng)) (at empty_db)"
    "RunMessagePutRequiresExistingChat now (b_Messages (sqlite_bundle eng)) (at empty_db)"
    "RunMessageSoftDelete (sqlite_bundle eng) (at empty_db)"
    "RunMessageCount (sqlite_bundle eng) (at empty_db)"
  using assms
  by (simp_all add: RunMessagePutGet_def RunMessageGetNotFound_def RunMessagePutRequiresExistingChat_def RunMessageSoftDelete_def
      RunMessageCount_def seedChat_def sqlite_ops message_ops calls statements literals scan_Nil scan_one)

lemma suite_sqlite_message_list:
  assumes "engine_ok eng"
  shows "RunMessageListByChat (sqlite_bundle eng) (at empty_db)"
  using assms
  by (simp add: RunMessageListByChat_def seedChat_def sqlite_ops message_ops calls statements literals scan_sort)

section \<open>Full-text search\<close>

lemma fts_word:
  assumes "engine_doc eng" "q \<noteq> []" "list_all letter q"
  obtains m where "eng_fts eng q = Inr m"
    "\<And>b. list_all (\<lambda>c. letter c \<or> c = CHR '' '') (map ascii_lower b) \<Longrightarrow>
       (m (Some b) = None) = (q \<notin> set (words_from [] (map ascii_lower b)))"
proof -
  have "finds_words eng" using assms(1) by (simp add: engine_doc_def)
  from this [unfolded finds_words_def, THEN spec [of _ q], THEN mp] assms(2,3) that show thesis by metis
qed

lemmas reading_words = letter_def lower_letters lower_kept byte_def

lemma doc_ok: "engine_doc eng \<Longrightarrow> engine_ok eng"
  by (simp add: engine_doc_def)

text \<open>The queries of the tests, on the bodies of the tests.\<close>

lemma test_queries:
  assumes "engine_doc eng"
  obtains m old new f where "eng_fts eng ''fox'' = Inr m" "m (Some ''the quick brown fox'') \<noteq> None"
    "m (Some ''lazy dog jumps'') = None" "m (Some ''FOX hunts mice'') \<noteq> None"
    "eng_fts eng ''old'' = Inr old" "old (Some ''new body'') = None"
    "eng_fts eng ''new'' = Inr new" "new (Some ''new body'') \<noteq> None"
    "eng_fts eng ''findable'' = Inr f" "f (Some ''findable'') \<noteq> None"
proof -
  have q: "\<exists>m. eng_fts eng q = Inr m \<and> (\<forall>b. list_all (\<lambda>c. letter c \<or> c = CHR '' '') (map ascii_lower b) \<longrightarrow>
       (m (Some b) = None) = (q \<notin> set (words_from [] (map ascii_lower b))))" if "q \<noteq> []" "list_all letter q" for q
    by (rule fts_word [OF assms that]) blast
  have "list_all letter ''fox''" "list_all letter ''old''" "list_all letter ''new''" "list_all letter ''findable''"
    by (simp_all add: letter_def byte_def)
  from q [OF _ this(1)] q [OF _ this(2)] q [OF _ this(3)] q [OF _ this(4)] obtain m old new f where
    e: "eng_fts eng ''fox'' = Inr m" "eng_fts eng ''old'' = Inr old" "eng_fts eng ''new'' = Inr new" "eng_fts eng ''findable'' = Inr f" and
    w: "\<And>b. list_all (\<lambda>c. letter c \<or> c = CHR '' '') (map ascii_lower b) \<Longrightarrow>
       (m (Some b) = None) = (''fox'' \<notin> set (words_from [] (map ascii_lower b)))"
      "\<And>b. list_all (\<lambda>c. letter c \<or> c = CHR '' '') (map ascii_lower b) \<Longrightarrow>
       (old (Some b) = None) = (''old'' \<notin> set (words_from [] (map ascii_lower b)))"
      "\<And>b. list_all (\<lambda>c. letter c \<or> c = CHR '' '') (map ascii_lower b) \<Longrightarrow>
       (new (Some b) = None) = (''new'' \<notin> set (words_from [] (map ascii_lower b)))"
      "\<And>b. list_all (\<lambda>c. letter c \<or> c = CHR '' '') (map ascii_lower b) \<Longrightarrow>
       (f (Some b) = None) = (''findable'' \<notin> set (words_from [] (map ascii_lower b)))"
    by blast
  show thesis by (rule that [OF e(1) _ _ _ e(2) _ e(3) _ e(4)]; subst w; simp add: reading_words)
qed

lemma suite_sqlite_search:
  assumes doc: "engine_doc eng"
  shows "RunMessageSearchFTS now (sqlite_bundle eng) (at empty_db)"
    "RunMessagePutIsUpsert (sqlite_bundle eng) (at empty_db)"
    "RunMessageSearchExcludesSoftDeleted (sqlite_bundle eng) (at empty_db)"
proof -
  obtain m old new f where q: "eng_fts eng ''fox'' = Inr m" "m (Some ''the quick brown fox'') \<noteq> None"
    "m (Some ''lazy dog jumps'') = None" "m (Some ''FOX hunts mice'') \<noteq> None"
    "eng_fts eng ''old'' = Inr old" "old (Some ''new body'') = None"
    "eng_fts eng ''new'' = Inr new" "new (Some ''new body'') \<noteq> None"
    "eng_fts eng ''findable'' = Inr f" "f (Some ''findable'') \<noteq> None" by (rule test_queries [OF doc])
  let ?r = "\<lambda>i t b. \<lparr>mr_id = i, mr_chat_jid = ''c@s.whatsapp.net'', mr_sender_jid = ''c@s.whatsapp.net'', mr_ts = t, mr_kind = ''text'',
     mr_body = Some b, mr_reply_to = None, mr_edited_at = None, mr_deleted_at = None, mr_raw_meta = None\<rparr>"
  let ?a = "?r ''1'' (Unix (now 0)) ''the quick brown fox''" and ?b = "?r ''3'' (Unix (now 2)) ''FOX hunts mice''"
  from scan_two [OF doc_ok [OF doc], of ?a ?b] show "RunMessageSearchFTS now (sqlite_bundle eng) (at empty_db)"
    by (elim disjE) (simp_all add: RunMessageSearchFTS_def seedChat_def sqlite_ops message_ops calls statements literals q)
  show "RunMessagePutIsUpsert (sqlite_bundle eng) (at empty_db)" "RunMessageSearchExcludesSoftDeleted (sqlite_bundle eng) (at empty_db)"
    using doc_ok [OF doc] q
    by (simp_all add: RunMessagePutIsUpsert_def RunMessageSearchExcludesSoftDeleted_def seedChat_def sqlite_ops message_ops calls
        statements literals scan_Nil scan_one)
qed

lemmas attached_ops = MediaStore_Put_def MediaStore_GetByMessageID_def ReactionStore_Put_def ReactionStore_Delete_def
  ReactionStore_ListByMessageID_def ReceiptStore_Put_def ReceiptStore_ListByMessageID_def EventsLog_Append_def EventsLog_SinceSeq_def
  bind_media_def scan_media_def bind_reaction_def scan_reaction_def bind_receipt_def scan_receipt_def scan_event_def
  rr_key_def pr_key_def delete_message_def seedMessage_def seedMessageForReactions_def
  seedMessageForReceipts_def seedChat_def thumbs_up_def heart_def

lemma hard_delete_at: "HardDeleteMessage i (at d) = at (delete_message i d)"
  by (simp add: HardDeleteMessage_def at_def)

lemma suite_sqlite_attached:
  "RunMediaPutGet (sqlite_bundle eng) (at empty_db)"
  "RunMediaGetNotFound (b_Media (sqlite_bundle eng)) (at empty_db)"
  "RunMediaCascadesOnMessageDelete HardDeleteMessage (sqlite_bundle eng) (at empty_db)"
  "RunReactionPutGetList (sqlite_bundle eng) (at empty_db)"
  "RunReactionPutIsUpsert (sqlite_bundle eng) (at empty_db)"
  "RunReactionDelete now (sqlite_bundle eng) (at empty_db)"
  "RunReactionListEmpty (b_Reactions (sqlite_bundle eng)) (at empty_db)"
  "RunReactionFKCascade now HardDeleteMessage (sqlite_bundle eng) (at empty_db)"
  "RunReceiptPutGetList (sqlite_bundle eng) (at empty_db)"
  "RunReceiptPutIsUpsert (sqlite_bundle eng) (at empty_db)"
  "RunReceiptListEmpty (b_Receipts (sqlite_bundle eng)) (at empty_db)"
  "RunReceiptFKCascade now HardDeleteMessage (sqlite_bundle eng) (at empty_db)"
  by (simp_all add: RunMediaPutGet_def RunMediaGetNotFound_def RunMediaCascadesOnMessageDelete_def RunReactionPutGetList_def
      RunReactionPutIsUpsert_def RunReactionDelete_def RunReactionListEmpty_def RunReactionFKCascade_def RunReceiptPutGetList_def
      RunReceiptPutIsUpsert_def RunReceiptListEmpty_def RunReceiptFKCascade_def
      hard_delete_at attached_ops sqlite_ops message_ops calls statements literals)

lemma append_five: "append_times 5 ev e d k = append_times (Suc (Suc (Suc (Suc (Suc 0))))) ev e d k"
  by (simp add: numeral_eq_Suc)

lemma suite_sqlite_events:
  "RunEventsAppendMonotonic now (b_Events (sqlite_bundle eng)) (at empty_db)"
  "RunEventsSinceSeq now (b_Events (sqlite_bundle eng)) (at empty_db)"
  by (simp_all add: RunEventsAppendMonotonic_def RunEventsSinceSeq_def append_five attached_ops sqlite_ops calls statements literals)

section \<open>Postgres\<close>

lemma doc_ts: "engine_doc eng \<Longrightarrow> eng_ts eng (time_of_unix s) = time_of_unix s"
proof -
  assume "engine_doc eng"
  moreover have "time_of_unix s mod 1000 = 0" by (simp add: time_of_unix_def nanos_def)
  ultimately show ?thesis by (simp add: engine_doc_def)
qed

lemma doc_lower: "engine_doc eng \<Longrightarrow> list_all (\<lambda>c. byte c < 128) s \<Longrightarrow> eng_lower eng s = map ascii_lower s"
  by (simp add: engine_doc_def)

lemma doc_collate:
  assumes "engine_doc eng" "letter c" "letter d" "byte c < byte d"
  shows "pg_order eng (c # s) < pg_order eng (d # t)" "pg_order eng (c # s) \<le> pg_order eng (d # t)"
    "\<not> pg_order eng (d # t) < pg_order eng (c # s)" "\<not> pg_order eng (d # t) \<le> pg_order eng (c # s)"
proof -
  have "\<forall>c d s t. letter c \<and> letter d \<and> byte c < byte d \<longrightarrow> eng_collate eng (c # s) < eng_collate eng (d # t)"
    using assms(1) by (simp add: engine_doc_def)
  then have "eng_collate eng (c # s) < eng_collate eng (d # t)" using assms(2-4) by blast
  then show l: "pg_order eng (c # s) < pg_order eng (d # t)" by (simp add: pg_order_def)
  then show "pg_order eng (c # s) \<le> pg_order eng (d # t)" by simp
  from l show "\<not> pg_order eng (d # t) < pg_order eng (c # s)" by (simp add: not_less)
  from l show "\<not> pg_order eng (d # t) \<le> pg_order eng (c # s)" by (simp add: not_le)
qed

lemmas pg_ops = postgres_bundle_def pg_ChatStore_Put_def pg_ChatStore_Get_def pg_ChatStore_List_def pg_ChatStore_SetArchived_def
  pg_ChatStore_Count_def pg_ChatStore_TotalUnread_def pg_chat_args_def pg_scanChat_def int4_range_def timeOrNil_def UTC_def pg_limit_def
  pg_ContactStore_Put_def pg_ContactStore_Get_def pg_ContactStore_List_def pg_ContactStore_Search_def pg_ContactStore_Count_def
  pg_contact_args_def pg_scanContact_def pg_nullableString_def pg_contact_matches_def
  pg_KVStore_Get_def pg_KVStore_Set_def pg_KVStore_Delete_def

lemma suite_pg_chats:
  assumes "engine_doc eng"
  shows "RunChatPutGet (b_Chats (postgres_bundle eng)) (at empty_db)"
    "RunChatGetNotFound (b_Chats (postgres_bundle eng)) (at empty_db)"
    "RunChatPutIsUpsert (b_Chats (postgres_bundle eng)) (at empty_db)"
    "RunChatCount (b_Chats (postgres_bundle eng)) (at empty_db)"
    "RunChatTotalUnread (b_Chats (postgres_bundle eng)) (at empty_db)"
    "RunChatSetArchived (b_Chats (postgres_bundle eng)) (at empty_db)"
    "RunChatList (b_Chats (postgres_bundle eng)) (at empty_db)"
  using doc_ts [OF assms]
  by (simp_all add: RunChatPutGet_def RunChatGetNotFound_def RunChatPutIsUpsert_def RunChatCount_def RunChatTotalUnread_def
      RunChatSetArchived_def RunChatList_def pg_ops calls statements literals)

lemma suite_pg_contacts:
  assumes "engine_doc eng"
  shows "RunContactPutGet (b_Contacts (postgres_bundle eng)) (at empty_db)"
    "RunContactGetNotFound (b_Contacts (postgres_bundle eng)) (at empty_db)"
    "RunContactList (b_Contacts (postgres_bundle eng)) (at empty_db)"
    "RunContactCount (b_Contacts (postgres_bundle eng)) (at empty_db)"
    "RunContactPutIsUpsert (b_Contacts (postgres_bundle eng)) (at empty_db)"
    "RunContactSearch (b_Contacts (postgres_bundle eng)) (at empty_db)"
  by (simp_all add: RunContactPutGet_def RunContactGetNotFound_def RunContactList_def RunContactCount_def RunContactPutIsUpsert_def
      RunContactSearch_def pg_ops calls statements literals lowering null_string_def letter_def doc_collate [OF assms] doc_lower [OF assms])

lemma suite_pg_kv: "RunKVSetGetDelete (b_KV (postgres_bundle eng)) (at empty_db)"
  "RunKVSetIsUpsert (b_KV (postgres_bundle eng)) (at empty_db)" "RunKVDeleteAbsentIsNoop (b_KV (postgres_bundle eng)) (at empty_db)"
  by (simp_all add: RunKVSetGetDelete_def RunKVSetIsUpsert_def RunKVDeleteAbsentIsNoop_def pg_ops calls statements)

lemmas pg_message_ops = pg_MessageStore_Put_def pg_MessageStore_Get_def pg_MessageStore_ListByChat_def pg_MessageStore_Search_def
  pg_MessageStore_SoftDelete_def pg_MessageStore_Count_def pg_message_args_def pg_scanMessage_def ptrTimeOrNil_def

lemma suite_pg_messages:
  assumes "engine_doc eng"
  shows "RunMessagePutGet (postgres_bundle eng) (at empty_db)"
    "RunMessageGetNotFound (b_Messages (postgres_bundle eng)) (at empty_db)"
    "RunMessagePutRequiresExistingChat now (b_Messages (postgres_bundle eng)) (at empty_db)"
    "RunMessageSoftDelete (postgres_bundle eng) (at empty_db)"
    "RunMessageCount (postgres_bundle eng) (at empty_db)"
    "RunMessageListByChat (postgres_bundle eng) (at empty_db)"
  using doc_ok [OF assms] doc_ts [OF assms]
  by (simp_all add: RunMessagePutGet_def RunMessageGetNotFound_def RunMessagePutRequiresExistingChat_def RunMessageSoftDelete_def
      RunMessageCount_def RunMessageListByChat_def seedChat_def pg_ops pg_message_ops calls statements literals scan_Nil scan_one scan_sort)

lemma suite_pg_search:
  assumes doc: "engine_doc eng"
  shows "RunMessageSearchFTS now (postgres_bundle eng) (at empty_db)"
    "RunMessagePutIsUpsert (postgres_bundle eng) (at empty_db)"
    "RunMessageSearchExcludesSoftDeleted (postgres_bundle eng) (at empty_db)"
proof -
  obtain m old new f where q: "eng_fts eng ''fox'' = Inr m" "m (Some ''the quick brown fox'') \<noteq> None"
    "m (Some ''lazy dog jumps'') = None" "m (Some ''FOX hunts mice'') \<noteq> None"
    "eng_fts eng ''old'' = Inr old" "old (Some ''new body'') = None"
    "eng_fts eng ''new'' = Inr new" "new (Some ''new body'') \<noteq> None"
    "eng_fts eng ''findable'' = Inr f" "f (Some ''findable'') \<noteq> None" by (rule test_queries [OF doc])
  let ?r = "\<lambda>i t b. \<lparr>mr_id = i, mr_chat_jid = ''c@s.whatsapp.net'', mr_sender_jid = ''c@s.whatsapp.net'', mr_ts = eng_ts eng t,
     mr_kind = ''text'', mr_body = Some b, mr_reply_to = None, mr_edited_at = None, mr_deleted_at = None, mr_raw_meta = None\<rparr>"
  let ?a = "?r ''1'' (now 0) ''the quick brown fox''" and ?b = "?r ''3'' (now 2) ''FOX hunts mice''"
  from scan_two [OF doc_ok [OF doc], of ?a ?b] show "RunMessageSearchFTS now (postgres_bundle eng) (at empty_db)"
    by (elim disjE) (simp_all add: RunMessageSearchFTS_def seedChat_def pg_ops pg_message_ops calls statements literals q)
  show "RunMessagePutIsUpsert (postgres_bundle eng) (at empty_db)" "RunMessageSearchExcludesSoftDeleted (postgres_bundle eng) (at empty_db)"
    using doc_ok [OF doc] q
    by (simp_all add: RunMessagePutIsUpsert_def RunMessageSearchExcludesSoftDeleted_def seedChat_def pg_ops pg_message_ops calls
        statements literals scan_Nil scan_one doc_ts [OF doc])
qed

lemmas pg_attached_ops = pg_MediaStore_Put_def pg_MediaStore_GetByMessageID_def pg_ReactionStore_Put_def pg_ReactionStore_Delete_def
  pg_ReactionStore_ListByMessageID_def pg_ReceiptStore_Put_def pg_ReceiptStore_ListByMessageID_def pg_EventsLog_Append_def
  pg_EventsLog_SinceSeq_def

lemma suite_pg_attached:
  assumes doc: "engine_doc eng"
  shows "RunMediaPutGet (postgres_bundle eng) (at empty_db)"
    "RunMediaGetNotFound (b_Media (postgres_bundle eng)) (at empty_db)"
    "RunMediaCascadesOnMessageDelete HardDeleteMessage (postgres_bundle eng) (at empty_db)"
    "RunReactionPutGetList (postgres_bundle eng) (at empty_db)"
    "RunReactionPutIsUpsert (postgres_bundle eng) (at empty_db)"
    "RunReactionDelete now (postgres_bundle eng) (at empty_db)"
    "RunReactionListEmpty (b_Reactions (postgres_bundle eng)) (at empty_db)"
    "RunReactionFKCascade now HardDeleteMessage (postgres_bundle eng) (at empty_db)"
    "RunReceiptPutGetList (postgres_bundle eng) (at empty_db)"
    "RunReceiptPutIsUpsert (postgres_bundle eng) (at empty_db)"
    "RunReceiptListEmpty (b_Receipts (postgres_bundle eng)) (at empty_db)"
    "RunReceiptFKCascade now HardDeleteMessage (postgres_bundle eng) (at empty_db)"
  by (simp_all add: RunMediaPutGet_def RunMediaGetNotFound_def RunMediaCascadesOnMessageDelete_def RunReactionPutGetList_def
      RunReactionPutIsUpsert_def RunReactionDelete_def RunReactionListEmpty_def RunReactionFKCascade_def RunReceiptPutGetList_def
      RunReceiptPutIsUpsert_def RunReceiptListEmpty_def RunReceiptFKCascade_def
      hard_delete_at attached_ops pg_attached_ops pg_ops pg_message_ops calls statements literals doc_ts [OF doc]
      letter_def byte_def doc_collate [OF doc])

lemma suite_pg_events:
  "RunEventsAppendMonotonic now (b_Events (postgres_bundle eng)) (at empty_db)"
  "RunEventsSinceSeq now (b_Events (postgres_bundle eng)) (at empty_db)"
  by (simp_all add: RunEventsAppendMonotonic_def RunEventsSinceSeq_def append_five attached_ops pg_attached_ops pg_ops calls
      statements literals)

section \<open>Conformance\<close>

text \<open>Property C39: a fresh SQLite store and a fresh Postgres store pass every test of the conformance suite, for
  every clock and every engine with the documented behaviour.\<close>

theorem stores_conform:
  assumes "engine_doc eng"
  shows "conforms now HardDeleteMessage (sqlite_bundle eng) (at empty_db)
       \<and> conforms now HardDeleteMessage (postgres_bundle eng) (at empty_db)"
  unfolding conforms_def passes_contacts_chats_def passes_messages_def passes_attached_def
  by (intro conjI; rule suite_sqlite_chats suite_sqlite_chat_list suite_sqlite_contacts suite_sqlite_contact_search suite_sqlite_kv
    suite_sqlite_messages [OF doc_ok [OF assms]] suite_sqlite_message_list [OF doc_ok [OF assms]] suite_sqlite_search [OF assms]
    suite_sqlite_attached suite_sqlite_events
    suite_pg_chats [OF assms] suite_pg_contacts [OF assms] suite_pg_kv suite_pg_messages [OF assms] suite_pg_search [OF assms]
    suite_pg_attached [OF assms] suite_pg_events)

text \<open>An engine that behaves as documented: it finds words, and lowers and collates as bytes.\<close>

definition demo_words :: engine where
  "demo_words = demo_engine\<lparr>eng_fts := (\<lambda>q. Inr (\<lambda>b. case b of None \<Rightarrow> None
       | Some t \<Rightarrow> if q \<in> set (words_from [] (map ascii_lower t)) then Some 0 else None)),
     eng_lower := map ascii_lower\<rparr>"

lemma byte_less: "byte c < byte d \<Longrightarrow> c < d"
  by (simp add: less_char_def byte_def)

theorem stores_conform_witness:
  "engine_doc demo_words \<and> conforms (\<lambda>i. time_of_unix 1778155200) HardDeleteMessage (sqlite_bundle demo_words) (at empty_db)"
proof -
  have "finds_words demo_words" by (simp add: finds_words_def demo_words_def)
  moreover have "engine_ok demo_words" by (simp add: engine_ok_def demo_words_def demo_engine_def)
  ultimately have doc: "engine_doc demo_words"
    by (auto simp: engine_doc_def byte_less demo_words_def demo_engine_def)
  then show ?thesis using stores_conform [OF doc] by blast
qed

end
