(* ===== verification/Fts.thy ===== *)
theory Fts
  imports Store_Sqlite "HOL-Library.Multiset"
begin

text \<open>
  The full-text index of internal/store/migrations/sqlite/0001\_init.up.sql: the table \<open>messages_fts\<close> keeps no
  text of its own (content='messages'), the three triggers keep it in step with \<open>messages\<close>, and the
  search of internal/store/sqlite/messages.go joins the two on the rowid. Here a row of \<open>messages\<close> carries its rowid
  and the index is the list of its entries; \<open>Store_Sqlite\<close> searches the bodies themselves, and the
  lemmas below show that the join finds the same rows.
\<close>

section \<open>The index and its triggers\<close>

type_synonym fts_index = "(nat \<times> string option) list"
type_synonym rowid_rows = "(nat \<times> message_row) list"

text \<open>The two forms of \<open>INSERT INTO messages_fts\<close>; the second takes back the entry of that row and body.\<close>

definition fts_insert :: "nat \<Rightarrow> string option \<Rightarrow> fts_index \<Rightarrow> fts_index" where
  "fts_insert i body idx = idx @ [(i, body)]"

definition fts_delete :: "nat \<Rightarrow> string option \<Rightarrow> fts_index \<Rightarrow> fts_index" where
  "fts_delete i body idx = remove1 (i, body) idx"

definition messages_ai :: "nat \<times> message_row \<Rightarrow> fts_index \<Rightarrow> fts_index" where
  "messages_ai new idx = fts_insert (fst new) (mr_body (snd new)) idx"

definition messages_ad :: "nat \<times> message_row \<Rightarrow> fts_index \<Rightarrow> fts_index" where
  "messages_ad old idx = fts_delete (fst old) (mr_body (snd old)) idx"

definition messages_au :: "nat \<times> message_row \<Rightarrow> nat \<times> message_row \<Rightarrow> fts_index \<Rightarrow> fts_index" where
  "messages_au old new idx =
     fts_insert (fst new) (mr_body (snd new)) (fts_delete (fst old) (mr_body (snd old)) idx)"

section \<open>The statements on messages, with their triggers\<close>

text \<open>An UPDATE goes through the rows; the rowid stays.\<close>

fun update_rows :: "(message_row \<Rightarrow> bool) \<Rightarrow> (message_row \<Rightarrow> message_row) \<Rightarrow> rowid_rows \<times> fts_index \<Rightarrow> rowid_rows \<times> fts_index" where
  "update_rows hit g ([], idx) = ([], idx)"
| "update_rows hit g ((i, x) # rows, idx) =
     (let new = (i, if hit x then g x else x);
          (rows', idx') = update_rows hit g (rows, if hit x then messages_au (i, x) new idx else idx)
      in (new # rows', idx'))"

definition next_rowid :: "rowid_rows \<Rightarrow> nat" where
  "next_rowid rows = Suc (fold max (map fst rows) 0)"

text \<open>\<open>INSERT ... ON CONFLICT(id) DO UPDATE\<close>: a conflict fires the update trigger, not the insert trigger.\<close>

definition put_row :: "message_row \<Rightarrow> rowid_rows \<times> fts_index \<Rightarrow> rowid_rows \<times> fts_index" where
  "put_row r st = (if mr_id r \<in> mr_id ` snd ` set (fst st) then update_rows (\<lambda>x. mr_id x = mr_id r) (\<lambda>_. r) st
     else let new = (next_rowid (fst st), r) in (fst st @ [new], messages_ai new (snd st)))"

definition soft_delete_row :: "string \<Rightarrow> int \<Rightarrow> rowid_rows \<times> fts_index \<Rightarrow> rowid_rows \<times> fts_index" where
  "soft_delete_row i t = update_rows (\<lambda>x. mr_id x = i) (\<lambda>x. x\<lparr>mr_deleted_at := Some t\<rparr>)"

text \<open>
  \<open>FROM messages_fts f JOIN messages m ON m.rowid = f.rowid WHERE messages_fts MATCH ? AND m.deleted_at IS
  NULL\<close>, for the query that \<open>match\<close> stands for.
\<close>

definition fts_join :: "(string option \<Rightarrow> int option) \<Rightarrow> rowid_rows \<times> fts_index \<Rightarrow> message_row list" where
  "fts_join match st = concat (map (\<lambda>f. map snd (filter (\<lambda>m. fst m = fst f \<and> mr_deleted_at (snd m) = None) (fst st)))
     (filter (\<lambda>f. match (snd f) \<noteq> None) (snd st)))"

section \<open>The index is in step\<close>

definition entry :: "nat \<times> message_row \<Rightarrow> nat \<times> string option" where
  "entry m = (fst m, mr_body (snd m))"

definition index_ok :: "rowid_rows \<times> fts_index \<Rightarrow> bool" where
  "index_ok st \<longleftrightarrow> distinct (map fst (fst st)) \<and> mset (snd st) = mset (map entry (fst st))"

lemma messages_au_mset:
  assumes "mset idx = A + {#entry old#}"
  shows "mset (messages_au old new idx) = A + {#entry new#}"
  using assms by (simp add: messages_au_def fts_insert_def fts_delete_def mset_remove1 flip: entry_def)

lemma update_rows_spec:
  assumes "mset idx = A + mset (map entry rows)" "update_rows hit g (rows, idx) = (rows', idx')"
  shows "map fst rows' = map fst rows \<and> map snd rows' = map (\<lambda>x. if hit x then g x else x) (map snd rows)
    \<and> mset idx' = A + mset (map entry rows')"
  using assms
proof (induction rows arbitrary: idx A rows' idx')
  case (Cons m rows)
  obtain i x where m: "m = (i, x)" by fastforce
  let ?new = "(i, if hit x then g x else x)"
  let ?idx = "if hit x then messages_au (i, x) ?new idx else idx"
  obtain rs ix where r: "update_rows hit g (rows, ?idx) = (rs, ix)" by fastforce
  have "mset idx = (A + mset (map entry rows)) + {#entry (i, x)#}" using Cons.prems(1) m by simp
  then have "mset ?idx = (A + {#entry ?new#}) + mset (map entry rows)"
    using messages_au_mset [of idx "A + mset (map entry rows)" "(i, x)" ?new] by (cases "hit x") simp_all
  from Cons.IH [OF this r] show ?case using Cons.prems(2) r m by (auto simp: Let_def)
qed simp

lemma update_rows_ok:
  assumes "index_ok st"
  shows "index_ok (update_rows hit g st)"
    "map snd (fst (update_rows hit g st)) = map (\<lambda>x. if hit x then g x else x) (map snd (fst st))"
  using assms update_rows_spec [of "snd st" "{#}" "fst st" hit g "fst (update_rows hit g st)" "snd (update_rows hit g st)"]
  by (simp_all add: index_ok_def)

lemma le_fold_max: "(a :: nat) \<le> fold max xs a \<and> (\<forall>x\<in>set xs. x \<le> fold max xs a)"
proof (induction xs arbitrary: a)
  case (Cons x xs)
  then show ?case using Cons.IH [of "max x a"] by (auto intro: order_trans [OF max.cobounded1] order_trans [OF max.cobounded2])
qed simp

lemma next_rowid_new: "next_rowid rows \<notin> set (map fst rows)"
  using le_fold_max [of 0 "map fst rows"] by (auto simp: next_rowid_def dest!: bspec)

lemma upsert_present:
  "keyed key xs \<Longrightarrow> key r \<in> key ` set xs \<Longrightarrow> upsert key r xs = map (\<lambda>x. if key x = key r then r else x) xs"
proof (induction xs)
  case (Cons x xs)
  show ?case
  proof (cases "key x = key r")
    case True
    then have "key y \<noteq> key r" if "y \<in> set xs" for y
      using Cons.prems(1) that by (metis distinct.simps(2) image_eqI keyed_def list.set_map list.simps(9))
    then have "map (\<lambda>x. if key x = key r then r else x) xs = xs" by (simp add: map_idI)
    then show ?thesis using True by simp
  qed (use Cons in \<open>auto simp: keyed_def\<close>)
qed simp

lemma upsert_absent: "key r \<notin> key ` set xs \<Longrightarrow> upsert key r xs = xs @ [r]"
  by (induction xs) auto

lemma put_row_ok:
  assumes "index_ok st" "keyed mr_id (map snd (fst st))"
  shows "index_ok (put_row r st)" "map snd (fst (put_row r st)) = upsert mr_id r (map snd (fst st))"
  using assms update_rows_ok [of st] next_rowid_new [of "fst st"] upsert_present [of mr_id "map snd (fst st)" r]
    upsert_absent [of mr_id r "map snd (fst st)"]
  by (auto simp: put_row_def Let_def index_ok_def messages_ai_def fts_insert_def entry_def image_image)

lemma soft_delete_row_ok:
  assumes "index_ok st"
  shows "index_ok (soft_delete_row i t st)"
    "map snd (fst (soft_delete_row i t st)) = map (\<lambda>r. if mr_id r = i then r\<lparr>mr_deleted_at := Some t\<rparr> else r) (map snd (fst st))"
  unfolding soft_delete_row_def using update_rows_ok [OF assms] by simp_all

section \<open>The join finds the matching rows\<close>

lemma filter_rowid:
  "distinct (map fst rows) \<Longrightarrow> m \<in> set rows \<Longrightarrow>
   filter (\<lambda>m'. fst m' = fst m \<and> Q (snd m')) rows = (if Q (snd m) then [m] else [])"
proof (induction rows)
  case (Cons a rows)
  show ?case
  proof (cases "a = m")
    case True
    then have "\<forall>y\<in>set rows. fst y \<noteq> fst m" using Cons.prems(1) by (metis distinct.simps(2) image_eqI list.set_map list.simps(9))
    then have "filter (\<lambda>m'. fst m' = fst m \<and> Q (snd m')) rows = []" by (simp add: filter_empty_conv)
    then show ?thesis using True by simp
  next
    case False
    then show ?thesis using Cons by force
  qed
qed simp

lemma concat_rows:
  assumes "distinct (map fst rows)" "set ms \<subseteq> set rows"
  shows "concat (map (\<lambda>f. map snd (filter (\<lambda>m. fst m = fst f \<and> Q (snd m)) rows)) (filter (\<lambda>f. P (snd f)) (map entry ms)))
    = filter (\<lambda>r. P (mr_body r) \<and> Q r) (map snd ms)"
  using assms(2)
proof (induction ms)
  case (Cons m ms)
  then show ?case using filter_rowid [OF assms(1), of m Q] by (auto simp: entry_def)
qed simp

lemma mset_concat_filter: "mset xs = mset ys \<Longrightarrow> mset (concat (map h (filter P xs))) = mset (concat (map h (filter P ys)))"
proof -
  assume "mset xs = mset ys"
  then have "mset (map (mset \<circ> h) (filter P xs)) = mset (map (mset \<circ> h) (filter P ys))" by simp
  then show ?thesis by (simp add: mset_concat flip: sum_mset_sum_list)
qed

lemma fts_join_mset:
  assumes "index_ok st"
  shows "mset (fts_join match st) = mset (filter (\<lambda>r. match (mr_body r) \<noteq> None \<and> mr_deleted_at r = None) (map snd (fst st)))"
proof -
  have "mset (fts_join match st) = mset (fts_join match (fst st, map entry (fst st)))"
    using assms unfolding fts_join_def index_ok_def fst_conv snd_conv by (intro mset_concat_filter) simp
  also have "fts_join match (fst st, map entry (fst st))
      = filter (\<lambda>r. match (mr_body r) \<noteq> None \<and> mr_deleted_at r = None) (map snd (fst st))"
    unfolding fts_join_def fst_conv snd_conv
    using concat_rows [of "fst st" "fst st" "\<lambda>r. mr_deleted_at r = None" "\<lambda>b. match b \<noteq> None"] assms
    by (simp add: index_ok_def)
  finally show ?thesis .
qed

section \<open>Runs of the store with its index\<close>

text \<open>
  A store and, beside it, the rows of \<open>messages\<close> with their rowids and the index. A statement that fails
  fires no trigger; the operations that do not write \<open>messages\<close> fire none.
\<close>

inductive indexed_step :: "engine \<Rightarrow> int conn \<times> rowid_rows \<times> fts_index \<Rightarrow> int conn \<times> rowid_rows \<times> fts_index \<Rightarrow> bool" for eng where
  put: "MessageStore_Put eng m c = (r, c') \<Longrightarrow> indexed_step eng (c, st) (c', if r = None then put_row (message_args m) st else st)"
| soft_delete: "MessageStore_SoftDelete i t c = (r, c') \<Longrightarrow>
    indexed_step eng (c, st) (c', if r = None then soft_delete_row i (Unix t) st else st)"
| other: "t_messages (c_db c') = t_messages (c_db c) \<Longrightarrow> indexed_step eng (c, st) (c', st)"

definition indexed_ok :: "int conn \<times> rowid_rows \<times> fts_index \<Rightarrow> bool" where
  "indexed_ok x \<longleftrightarrow> map snd (fst (snd x)) = t_messages (c_db (fst x)) \<and> keyed mr_id (t_messages (c_db (fst x))) \<and> index_ok (snd x)"

lemma indexed_start: "t_messages (c_db c) = [] \<Longrightarrow> indexed_ok (c, [], [])"
  by (simp add: indexed_ok_def index_ok_def)

lemma indexed_step_ok: "indexed_step eng x y \<Longrightarrow> indexed_ok x \<Longrightarrow> indexed_ok y"
proof (induction rule: indexed_step.induct)
  case (put m c r c' st)
  have ok: "index_ok st" "keyed mr_id (map snd (fst st))" "map snd (fst st) = t_messages (c_db c)"
    using put(2) by (simp_all add: indexed_ok_def)
  from put(1) [unfolded MessageStore_Put_def] show ?case
  proof (cases rule: exec_cases)
    case (ok d)
    have "t_messages d = upsert mr_id (message_args m) (t_messages (c_db c))"
      using ok(2) by (auto simp: upsert_message_def split: if_splits)
    then show ?thesis using put_row_ok [OF \<open>index_ok st\<close> \<open>keyed mr_id _\<close>, of "message_args m"] put(2) ok(1,3)
      by (simp add: indexed_ok_def)
  qed (use put(2) in \<open>simp add: indexed_ok_def\<close>)
next
  case (soft_delete i t c r c' st)
  from soft_delete(1) [unfolded MessageStore_SoftDelete_def] show ?case
  proof (cases rule: exec_cases)
    case (ok d)
    then have "t_messages d = map (\<lambda>r. if mr_id r = i then r\<lparr>mr_deleted_at := Some (Unix t)\<rparr> else r) (t_messages (c_db c))"
      by (auto simp: update_deleted_at_def)
    moreover have "keyed mr_id (t_messages d)"
      unfolding calculation by (subst keyed_map_key) (use soft_delete(2) in \<open>simp_all add: indexed_ok_def\<close>)
    ultimately show ?thesis using soft_delete_row_ok [of st i "Unix t"] soft_delete(2) ok(1,3)
      by (simp add: indexed_ok_def del: map_map)
  qed (use soft_delete(2) in \<open>simp add: indexed_ok_def\<close>)
qed (simp add: indexed_ok_def)

lemma indexed_run_ok: "(indexed_step eng)\<^sup>*\<^sup>* x y \<Longrightarrow> indexed_ok x \<Longrightarrow> indexed_ok y"
  by (induction rule: rtranclp_induct) (auto intro: indexed_step_ok)

end
