(* ===== verification/Fts_Props.thy ===== *)
theory Fts_Props
  imports Fts Samples
begin

text \<open>
  The search of the SQLite store through its full-text index: the index never goes out of step with
  the messages, so the join of the query finds the rows that \<open>Store_Sqlite\<close> selects.
\<close>

lemma query_rows_cong: "f (c_db c) = g (c_db c) \<Longrightarrow> query_rows ctx f c = query_rows ctx g c"
  by (auto simp: query_rows_def dest: next_faultE(1) split: prod.split option.split fault.split)

text \<open>Property C18: from an empty table of messages, and whatever is stored, edited, marked as deleted or fails in
  between, the triggers keep the full-text index in step: the search of the store is the join of the
  index with the messages on the rowid, sorted by time and cut at the limit; no message is missed,
  found twice or found by a body it no longer has.\<close>

theorem search_by_index:
  assumes "(indexed_step eng)\<^sup>*\<^sup>* (c0, [], []) (c, st)" and "t_messages (c_db c0) = []"
    and "engine_ok eng" and "eng_fts eng q = Inr match"
  shows "\<exists>hits. mset hits = mset (fts_join match st)
    \<and> MessageStore_Search eng q l c
        = query_rows ''messages search'' (\<lambda>d. Inr (map scanMessage (sql_limit l (sort_key (\<lambda>r. - mr_ts r) hits)))) c"
proof (intro exI conjI)
  have ok: "index_ok st" "map snd (fst st) = t_messages (c_db c)"
    using indexed_run_ok [OF assms(1) indexed_start [OF assms(2)]] by (simp_all add: indexed_ok_def)
  let ?hits = "eng_scan eng (filter (\<lambda>r. match (mr_body r) \<noteq> None \<and> mr_deleted_at r = None) (t_messages (c_db c)))"
  show "mset ?hits = mset (fts_join match st)"
    using assms(3) fts_join_mset [OF ok(1), of match] ok(2) by (simp add: engine_ok_def)
  show "MessageStore_Search eng q l c
      = query_rows ''messages search'' (\<lambda>d. Inr (map scanMessage (sql_limit l (sort_key (\<lambda>r. - mr_ts r) ?hits)))) c"
    unfolding MessageStore_Search_def by (rule query_rows_cong) (simp add: assms(4))
qed

text \<open>A message is stored, edited and found by its new body only.\<close>

definition fresh_conn :: "int conn" where
  "fresh_conn = \<lparr>c_db = empty_db\<lparr>t_chats := [demo_chat_row 0 1]\<rparr>, c_faults = []\<rparr>"

definition demo_text :: "string \<Rightarrow> message" where
  "demo_text b = new_message ''A1'' demo_peer demo_peer (time_of_unix 1700000000) ''text'' b ''''"

theorem search_by_index_witness:
  "\<exists>c st hits. (indexed_step demo_engine)\<^sup>*\<^sup>* (fresh_conn, [], []) (c, st)
     \<and> fts_join (\<lambda>b. if b = Some ''old'' then Some 0 else None) st = []
     \<and> mset hits = {#message_args (demo_text ''new'')#}
     \<and> MessageStore_Search demo_engine ''new'' 10 c
        = query_rows ''messages search'' (\<lambda>d. Inr (map scanMessage (sql_limit 10 (sort_key (\<lambda>r. - mr_ts r) hits)))) c"
proof -
  obtain r1 c1 where 1: "MessageStore_Put demo_engine (demo_text ''old'') fresh_conn = (r1, c1)" by fastforce
  obtain r2 c2 where 2: "MessageStore_Put demo_engine (demo_text ''new'') c1 = (r2, c2)" by fastforce
  have r: "r1 = None" "r2 = None"
    using 1 2 by (auto simp: MessageStore_Put_def exec_def next_fault_def fresh_conn_def upsert_message_def chat_exists_def
        demo_chat_row_def message_args_def demo_text_def new_message_def empty_db_def)
  let ?st1 = "put_row (message_args (demo_text ''old'')) ([], [])"
  let ?st = "put_row (message_args (demo_text ''new'')) ?st1"
  have st: "?st = ([(1, message_args (demo_text ''new''))], [(1, Some ''new'')])"
    by (simp add: put_row_def next_rowid_def messages_ai_def messages_au_def fts_insert_def fts_delete_def message_args_def
        demo_text_def new_message_def nullableString_def)
  have s1: "indexed_step demo_engine (fresh_conn, [], []) (c1, ?st1)"
    using indexed_step.put [OF 1, of "([], [])"] r(1) by simp
  have s2: "indexed_step demo_engine (c1, ?st1) (c2, ?st)"
    using indexed_step.put [OF 2, of ?st1] r(2) by simp
  have run: "(indexed_step demo_engine)\<^sup>*\<^sup>* (fresh_conn, [], []) (c2, ?st)"
    using s1 s2 by (meson r_into_rtranclp rtranclp.rtrancl_into_rtrancl)
  have "t_messages (c_db fresh_conn) = []" by (simp add: fresh_conn_def empty_db_def)
  moreover have "eng_fts demo_engine ''new'' = Inr (\<lambda>b. if b = Some ''new'' then Some 0 else None)" by (simp add: demo_engine_def)
  ultimately have found: "\<exists>hits. mset hits = mset (fts_join (\<lambda>b. if b = Some ''new'' then Some 0 else None) ?st)
     \<and> MessageStore_Search demo_engine ''new'' 10 c2
        = query_rows ''messages search'' (\<lambda>d. Inr (map scanMessage (sql_limit 10 (sort_key (\<lambda>r. - mr_ts r) hits)))) c2"
    by (intro search_by_index [OF run] demo_engine_ok)
  have "mr_deleted_at (message_args (demo_text ''new'')) = None"
    by (simp add: message_args_def demo_text_def new_message_def ptrUnix_def)
  then have j: "fts_join (\<lambda>b. if b = Some ''new'' then Some 0 else None) ?st = [message_args (demo_text ''new'')]"
    "fts_join (\<lambda>b. if b = Some ''old'' then Some 0 else None) ?st = []"
    unfolding st by (simp_all add: fts_join_def)
  show ?thesis using run found j(2) unfolding j(1) by (metis mset.simps(1,2) add_mset_add_single)
qed

end
