(* ===== verification/Races.thy ===== *)
theory Races
  imports Samples
begin

text \<open>
  Two operations on the row of one chat at once. The chat row is read, changed and written back in
  separate calls, and nothing holds a lock in between: an inbound message is handled on a goroutine of
  the WhatsApp library while a request marks another message of the chat as read. Here the handling of
  an inbound message is cut after its read of the chat row.
\<close>

section \<open>An inbound message in two halves\<close>

definition incoming_take :: "('d, 'w) svc \<Rightarrow> incoming_message \<Rightarrow> ('d, 'w) world \<Rightarrow> chat \<times> ('d, 'w) world" where
  "incoming_take S msg w =
     (let w = (if in_PushName msg \<noteq> '''' then
                 warn_if ''upsert contact on incoming failed'' (on_db (ost_Put (b_Contacts (s_bundle S))
                   \<lparr>con_JID = in_SenderJID msg, con_PushName = in_PushName msg, con_FullName = '''',
                    con_BusinessName = ''''\<rparr>) w)
               else w)
      in case on_db (cst_Get (b_Chats (s_bundle S)) (in_ChatJID msg)) w of (r, w) \<Rightarrow>
         let chat = (case r of Inl e \<Rightarrow> new_chat (in_ChatJID msg) (in_ChatKind msg) | Inr c \<Rightarrow> c);
             chat = chat\<lparr>chat_LastMsgAt := in_Timestamp msg, chat_UnreadCount := chat_UnreadCount chat + 1\<rparr>
         in (if chat_Kind chat = '''' then chat\<lparr>chat_Kind := in_ChatKind msg\<rparr> else chat, w))"

definition incoming_rest :: "('d, 'w) svc \<Rightarrow> incoming_message \<Rightarrow> chat \<Rightarrow> ('d, 'w) world \<Rightarrow> ('d, 'w) world" where
  "incoming_rest S msg chat w =
     (let w = warn_if ''upsert chat on incoming failed'' (on_db (cst_Put (b_Chats (s_bundle S)) chat) w)
      in case on_db (mst_Put (b_Messages (s_bundle S)) (new_message (in_ID msg) (in_ChatJID msg)
                  (in_SenderJID msg) (in_Timestamp msg) (in_Kind msg) (in_Body msg) '''')) w of
              (Some e, w) \<Rightarrow> warn ''persist incoming message failed'' w
            | (None, w) \<Rightarrow>
                let w = (case in_MediaDownloader msg of None \<Rightarrow> w
                         | Some d \<Rightarrow> w\<lparr>w_tasks := w_tasks w @ [(in_ID msg, d)]\<rparr>)
                in emit_json S ''message.received'' (BuildMessageReceivedPayload msg media_zero) w)"

lemma incoming_plain_split: "incoming_plain S msg w = (case incoming_take S msg w of (chat, w1) \<Rightarrow> incoming_rest S msg chat w1)"
  by (simp add: incoming_plain_def incoming_take_def incoming_rest_def Let_def split: prod.split)

section \<open>Each half on a database that does not fail\<close>

context use_cases
begin

lemma good_calm: "good w w' \<Longrightarrow> W_ok w \<Longrightarrow> calm (w_db w) \<Longrightarrow> W_ok w' \<and> calm (w_db w')"
  by (simp add: good_def)

lemma incoming_take_calm:
  assumes "W_ok w" "calm (w_db w)" "v_chats (view (w_db w)) (in_ChatJID m) = Some c"
  obtains w1 where "incoming_take S m w = (chat_after m (view (w_db w)), w1)" "W_ok w1" "calm (w_db w1)"
    "v_chats (view (w_db w1)) = v_chats (view (w_db w))" "v_messages (view (w_db w1)) = v_messages (view (w_db w))"
    "w_wa w1 = w_wa w"
proof -
  let ?co = "\<lparr>con_JID = in_SenderJID m, con_PushName = in_PushName m, con_FullName = [], con_BusinessName = []\<rparr>"
  define w0 where "w0 = (if in_PushName m \<noteq> [] then warn_if ''upsert contact on incoming failed''
      (on_db (ost_Put (b_Contacts B) ?co) w) else w)"
  have inv: "dinv (w_db w)" using assms(1) by (simp add: world_ok_def)
  obtain d where put: "on_db (ost_Put (b_Contacts B) ?co) w = (None, w\<lparr>w_db := d\<rparr>)" and d: "view d = abs_put_contact ?co (view (w_db w))"
    using calm_write [OF contact_put inv assms(2)] by blast
  have "good w w0" unfolding w0_def by (assumption | rule good_rules | simp)+
  note w0 = good_calm [OF this assms(1,2)]
  have same: "v_chats (view (w_db w0)) = v_chats (view (w_db w))" "v_messages (view (w_db w0)) = v_messages (view (w_db w))"
      "w_wa w0 = w_wa w"
    using put d by (simp_all add: w0_def warn_if_def abs_put_contact_def)
  obtain d1 where get: "on_db (cst_Get (b_Chats B) (in_ChatJID m)) w0 = (Inr c, w0\<lparr>w_db := d1\<rparr>)"
    and d1: "dinv d1" "calm d1" "view d1 = view (w_db w0)"
    using calm_read [OF chat_get [of "in_ChatJID m"], of w0] w0 same(1) assms(3) by (auto simp: world_ok_def)
  have "incoming_take S m w = (chat_after m (view (w_db w)), w0\<lparr>w_db := d1\<rparr>)"
    unfolding incoming_take_def S_bundle w0_def [symmetric] Let_def [of w0] get
    using assms(3) by (simp add: chat_after_def Let_def)
  then show ?thesis using that [of "w0\<lparr>w_db := d1\<rparr>"] w0 d1 same by (simp add: world_ok_def)
qed

lemma incoming_rest_calm:
  assumes "W_ok w" "calm (w_db w)" "chat_ok chat" "chat_JID chat = in_ChatJID m"
  shows "v_chats (view (w_db (incoming_rest S m chat w))) = (v_chats (view (w_db w)))(in_ChatJID m \<mapsto> norm_chat nt chat)"
    and "v_messages (view (w_db (incoming_rest S m chat w)))
      = (v_messages (view (w_db w)))(in_ID m \<mapsto> norm_message nt nopt (message_of m))"
proof -
  have inv: "dinv (w_db w)" "bc_ok (w_bc w)" using assms(1) by (auto simp: world_ok_def)
  obtain d1 where p1: "on_db (cst_Put (b_Chats B) chat) w = (None, w\<lparr>w_db := d1\<rparr>)"
    and d1: "dinv d1" "calm d1" "view d1 = abs_put_chat nt chat (view (w_db w))"
    using calm_write [OF chat_put inv(1) assms(2)] assms(3) by blast
  have np: "v_chats (view (w_db (w\<lparr>w_db := d1\<rparr>))) (msg_ChatJID (message_of m)) \<noteq> None"
    using d1(3) assms(4) by (simp add: abs_put_chat_def message_of_def new_message_def)
  obtain d2 where p2: "on_db (mst_Put (b_Messages B) (message_of m)) (w\<lparr>w_db := d1\<rparr>) = (None, w\<lparr>w_db := d2\<rparr>)"
    and d2: "dinv d2" "calm d2" "view d2 = abs_put_message nt nopt (message_of m) (view d1)"
    using calm_write [OF message_put _ _ np] d1(1,2) by simp metis
  define w2 where "w2 = (case in_MediaDownloader m of None \<Rightarrow> w\<lparr>w_db := d2\<rparr>
      | Some d \<Rightarrow> (w\<lparr>w_db := d2\<rparr>)\<lparr>w_tasks := w_tasks (w\<lparr>w_db := d2\<rparr>) @ [(in_ID m, d)]\<rparr>)"
  have w2: "w_db w2 = d2" "w_bc w2 = w_bc w" by (simp_all add: w2_def split: option.split)
  have eq: "incoming_rest S m chat w = emit_json S ''message.received'' (BuildMessageReceivedPayload m media_zero) w2"
    unfolding incoming_rest_def S_bundle p1 warn_if_def prod.case option.case Let_def p2 [unfolded message_of_def] w2_def ..
  obtain d3 b where "emit_json S ''message.received'' (BuildMessageReceivedPayload m media_zero) w2
      = w2\<lparr>w_db := d3, w_bc := b, w_tick := Suc (w_tick w2)\<rparr>"
    and d3: "view d3 = abs_emit nt (w_clock w2 (w_tick w2)) ''message.received'' (BuildMessageReceivedPayload m media_zero) (view d2)"
    using emit_calm [of w2] d2(1,2) inv(2) w2 by metis
  then have "w_db (incoming_rest S m chat w) = d3" unfolding eq by simp
  then show "v_chats (view (w_db (incoming_rest S m chat w))) = (v_chats (view (w_db w)))(in_ChatJID m \<mapsto> norm_chat nt chat)"
    "v_messages (view (w_db (incoming_rest S m chat w)))
      = (v_messages (view (w_db w)))(in_ID m \<mapsto> norm_message nt nopt (message_of m))"
    using d3 d2(3) d1(3) assms(4)
    by (simp_all add: abs_emit_def abs_append_def abs_put_message_def abs_put_chat_def message_of_def new_message_def)
qed

text \<open>Marking a message of the chat as read, at any time.\<close>

lemma mark_lowers:
  assumes "W_ok w" "calm (w_db w)" and m: "v_messages (view (w_db w)) i = Some m" "TrimSpace i \<noteq> []"
    and s: "\<And>y t. fst (wa_MarkRead (s_wa S) (msg_ChatJID m) (msg_SenderJID m) i t y) = None"
    and c: "v_chats (view (w_db w)) (msg_ChatJID m) = Some c" "0 < chat_UnreadCount c"
      "chat_ok (c\<lparr>chat_UnreadCount := chat_UnreadCount c - 1\<rparr>)"
  obtains w' where "snd (MarkMessageRead S i w) = w'" "W_ok w'" "calm (w_db w')"
    "v_chats (view (w_db w')) (msg_ChatJID m) = Some (norm_chat nt (c\<lparr>chat_UnreadCount := chat_UnreadCount c - 1\<rparr>))"
    "v_messages (view (w_db w')) = v_messages (view (w_db w))"
proof -
  obtain x where x: "wa_MarkRead (s_wa S) (msg_ChatJID m) (msg_SenderJID m) i (w_clock w (w_tick w)) (w_wa w) = (None, x)"
    using s by (metis prod.exhaust_sel)
  have j: "chat_JID c = msg_ChatJID m"
    using assms(1) c(1) inv_view_ok by (auto simp: world_ok_def view_ok_def)
  obtain d where d: "MarkMessageRead S i w = (None, w\<lparr>w_wa := x, w_tick := Suc (w_tick w), w_db := d\<rparr>)"
    "view d = abs_put_chat nt (c\<lparr>chat_UnreadCount := chat_UnreadCount c - 1\<rparr>) (view (w_db w))"
    using MarkMessageRead_calm [OF assms(1,2) m x c(1,3)] c(2) by metis
  show ?thesis
    using that good_calm [OF good_MarkMessageRead assms(1,2), of i] d j by (simp add: abs_put_chat_def)
qed

text \<open>The count of the chat after both, in the three orders.\<close>

abbreviation unread :: "string \<Rightarrow> ('d, 'w) world \<Rightarrow> int option" where
  "unread j w \<equiv> map_option chat_UnreadCount (v_chats (view (w_db w)) j)"

lemma rest_count:
  assumes w0: "W_ok w0" "v_chats (view (w_db w0)) (in_ChatJID msg) = Some k"
    and w: "W_ok w" "calm (w_db w)" and cok: "\<And>c. chat_ok c"
  obtains c' where "v_chats (view (w_db (incoming_rest S msg (chat_after msg (view (w_db w0))) w))) (in_ChatJID msg) = Some c'"
    "chat_UnreadCount c' = chat_UnreadCount k + 1"
proof -
  have "chat_JID (chat_after msg (view (w_db w0))) = in_ChatJID msg"
    "chat_UnreadCount (chat_after msg (view (w_db w0))) = chat_UnreadCount k + 1"
    using w0 inv_view_ok by (auto simp: world_ok_def view_ok_def chat_after_def)
  then show ?thesis using incoming_rest_calm(1) [OF w cok] that by (simp add: norm_chat_def)
qed

lemma unread_orders:
  assumes w: "W_ok w" "calm (w_db w)" and cok: "\<And>c. chat_ok c"
    and m: "v_messages (view (w_db w)) i = Some m" "TrimSpace i \<noteq> []" "in_ID msg \<noteq> i" "in_ChatJID msg = msg_ChatJID m"
    and s: "\<And>y t. fst (wa_MarkRead (s_wa S) (msg_ChatJID m) (msg_SenderJID m) i t y) = None"
    and c: "v_chats (view (w_db w)) (msg_ChatJID m) = Some c" "0 < chat_UnreadCount c"
  shows crossed_unread: "unread (msg_ChatJID m)
      (case incoming_take S msg w of (chat, w1) \<Rightarrow> incoming_rest S msg chat (snd (MarkMessageRead S i w1))) = Some (chat_UnreadCount c + 1)"
    and mark_first_unread: "unread (msg_ChatJID m) (incoming_plain S msg (snd (MarkMessageRead S i w))) = Some (chat_UnreadCount c)"
    and incoming_first_unread: "unread (msg_ChatJID m) (snd (MarkMessageRead S i (incoming_plain S msg w))) = Some (chat_UnreadCount c)"
proof -
  let ?j = "msg_ChatJID m"
  obtain w1 where t: "incoming_take S msg w = (chat_after msg (view (w_db w)), w1)" "W_ok w1" "calm (w_db w1)"
    "v_chats (view (w_db w1)) = v_chats (view (w_db w))" "v_messages (view (w_db w1)) = v_messages (view (w_db w))"
    using incoming_take_calm [OF w] m(4) c(1) by metis
  obtain w2 where w2: "snd (MarkMessageRead S i w1) = w2" "W_ok w2" "calm (w_db w2)"
    using mark_lowers [OF t(2,3) _ m(2) s, of c] m(1) c cok t(4,5) by metis
  note k = rest_count [OF w(1), of msg, unfolded m(4), OF c(1)]
  show "unread ?j (case incoming_take S msg w of (chat, w1) \<Rightarrow> incoming_rest S msg chat (snd (MarkMessageRead S i w1)))
      = Some (chat_UnreadCount c + 1)"
    unfolding t(1) prod.case w2(1) using k [OF w2(2,3) cok] by (metis option.simps(9))
  obtain w3 c3 where w3: "snd (MarkMessageRead S i w) = w3" "W_ok w3" "calm (w_db w3)" "v_chats (view (w_db w3)) ?j = Some c3"
    "chat_UnreadCount c3 = chat_UnreadCount c - 1"
    by (rule mark_lowers [OF w m(1,2) s c cok]) (simp add: norm_chat_def)
  obtain w4 where "incoming_take S msg w3 = (chat_after msg (view (w_db w3)), w4)" "W_ok w4" "calm (w_db w4)"
    using incoming_take_calm [OF w3(2,3)] m(4) w3(4) by metis
  then show "unread ?j (incoming_plain S msg (snd (MarkMessageRead S i w))) = Some (chat_UnreadCount c)"
    using rest_count [OF w3(2), of msg, unfolded m(4), OF w3(4) _ _ cok] w3(5) unfolding w3(1) incoming_plain_split
    by (metis (no_types, lifting) diff_add_cancel option.simps(9) prod.case)
  let ?w5 = "incoming_plain S msg w"
  have eq: "?w5 = incoming_rest S msg (chat_after msg (view (w_db w))) w1" by (simp add: incoming_plain_split t(1))
  obtain c5 where c5: "v_chats (view (w_db ?w5)) ?j = Some c5" "chat_UnreadCount c5 = chat_UnreadCount c + 1"
    using k [OF t(2,3) cok] unfolding eq by metis
  have jid: "chat_JID (chat_after msg (view (w_db w))) = in_ChatJID msg"
    using w(1) c(1) m(4) inv_view_ok by (auto simp: world_ok_def view_ok_def chat_after_def)
  have m5: "v_messages (view (w_db ?w5)) i = Some m"
    using incoming_rest_calm(2) [OF t(2,3) cok jid] t(5) m(1,3) unfolding eq by simp
  have "W_ok ?w5 \<and> calm (w_db ?w5)" using good_calm [OF good_incoming_plain w] .
  moreover have "0 < chat_UnreadCount c5" using c5(2) c(2) by simp
  ultimately obtain w6 where "snd (MarkMessageRead S i ?w5) = w6"
    "v_chats (view (w_db w6)) ?j = Some (norm_chat nt (c5\<lparr>chat_UnreadCount := chat_UnreadCount c5 - 1\<rparr>))"
    using mark_lowers [OF _ _ m5 m(2) s c5(1) _ cok] by metis
  then show "unread ?j (snd (MarkMessageRead S i ?w5)) = Some (chat_UnreadCount c)"
    using c5(2) by (simp add: norm_chat_def)
qed

end

section \<open>A lost update\<close>

abbreviation unread_of :: "string \<Rightarrow> (int conn, 'w) world \<Rightarrow> int option" where
  "unread_of j w \<equiv> map_option chat_UnreadCount (v_chats (sqlite_view (w_db w)) j)"

text \<open>Property C24: over SQLite that does not fail, marking a message of a chat as read while an inbound message of
  that chat is between its read and its write of the chat row is lost: the count ends one higher than
  before, where the two operations one after the other, in either order, leave it as it was.\<close>

theorem mark_read_lost:
  assumes "world_ok (conn_inv eng) sqlite_view w" "quiet (w_db w)"
    and "v_messages (sqlite_view (w_db w)) i = Some m" "TrimSpace i \<noteq> []" "in_ID msg \<noteq> i"
    and "\<And>y t. fst (wa_MarkRead wa (msg_ChatJID m) (msg_SenderJID m) i t y) = None"
    and "in_ChatJID msg = msg_ChatJID m"
    and "v_chats (sqlite_view (w_db w)) (msg_ChatJID m) = Some c" "0 < chat_UnreadCount c"
  shows "let S = svc_New wa (sqlite_bundle eng) root sha live; mark = (\<lambda>w. snd (MarkMessageRead S i w))
    in unread_of (msg_ChatJID m) (case incoming_take S msg w of (chat, w1) \<Rightarrow> incoming_rest S msg chat (mark w1)) = Some (chat_UnreadCount c + 1)
     \<and> unread_of (msg_ChatJID m) (incoming_plain S msg (mark w)) = Some (chat_UnreadCount c)
     \<and> unread_of (msg_ChatJID m) (mark (incoming_plain S msg w)) = Some (chat_UnreadCount c)"
proof -
  let ?S = "svc_New wa (sqlite_bundle eng) root sha live"
  have s: "\<And>y t. fst (wa_MarkRead (s_wa ?S) (msg_ChatJID m) (msg_SenderJID m) i t y) = None"
    using assms(6) by (simp add: svc_New_def)
  show ?thesis
    unfolding Let_def using svc_sqlite.unread_orders [OF assms(1,2) TrueI assms(3,4,5,7) s assms(8,9)] by blast
qed

definition demo_more :: incoming_message where
  "demo_more = \<lparr>in_ID = ''A3'', in_ChatJID = demo_peer, in_ChatKind = ''user'', in_SenderJID = demo_peer,
     in_Timestamp = time_of_unix 1700000050, in_Kind = ''text'', in_Body = ''again'', in_PushName = ''Peer'',
     in_MediaDownloader = None, in_EditOfID = '''', in_RevokeOfID = '''', in_ReactionTargetID = '''',
     in_ReactionEmoji = ''''\<rparr>"

theorem mark_read_lost_witness:
  "unread_of demo_peer (case incoming_take demo_svc demo_more demo_lite of
     (chat, w1) \<Rightarrow> incoming_rest demo_svc demo_more chat (snd (MarkMessageRead demo_svc ''A1'' w1))) = Some 2"
proof -
  have s: "fst (wa_MarkRead demo_wa (msg_ChatJID (demo_message ''A1'' demo_peer 1700000000))
      (msg_SenderJID (demo_message ''A1'' demo_peer 1700000000)) ''A1'' t y) = None" for t y
    by (simp add: demo_wa_def)
  have c: "v_chats (sqlite_view (w_db demo_lite)) (msg_ChatJID (demo_message ''A1'' demo_peer 1700000000)) = Some demo_chat"
    "0 < chat_UnreadCount demo_chat" "chat_UnreadCount demo_chat = 1" by (simp_all add: demo_chat_def)
  have m: "in_ID demo_more \<noteq> ''A1''" "in_ChatJID demo_more = msg_ChatJID (demo_message ''A1'' demo_peer 1700000000)"
    by (simp_all add: demo_more_def)
  show ?thesis
    using mark_read_lost [OF demo_lite_ok demo_quiet demo_lite_rows(2) demo_ids_A1 m(1) s m(2) c(1,2), of "''/m''" demo_sha True] c(3)
    by (simp add: Let_def)
qed

end
