(* ===== verification/Daemon.thy ===== *)
theory Daemon
  imports Event_Stream Adapter_Daemon Mcp_Messages
begin

text \<open>
  The running daemon: the HTTP router with its bearer gate, the MCP tools behind it, the events of the
  WhatsApp library, the ends of the login goroutines, the pending downloads and any number of event
  streams, as one step relation over the open streams and the world. Every request is shown to be a
  run of the service, and every stream of a run of the daemon to be a run of \<open>stream_step\<close>, so that
  what is proved of one stream beside the service holds of all of them beside the whole daemon.
\<close>

section \<open>Requests are runs of the service\<close>

abbreviation runs :: "('d, 'w) svc \<Rightarrow> ('d, 'w) world \<Rightarrow> ('d, 'w) world \<Rightarrow> bool" where
  "runs S \<equiv> (svc_step S)\<^sup>*\<^sup>*"

lemma runs_refl: "runs S w w"
  by simp

lemma runs_step: "runs S w0 w \<Longrightarrow> svc_step S w w' \<Longrightarrow> runs S w0 w'"
  by (rule rtranclp.rtrancl_into_rtrancl)

lemma runs_on_fs:
  assumes "\<And>f. fs_files (snd (q f)) = fs_files f"
  shows "svc_step S w (snd (on_fs q w))"
proof -
  have "snd (on_fs q w) = w\<lparr>w_fs := snd (q (w_fs w))\<rparr>" by (simp add: on_fs_def split: prod.split)
  then show ?thesis using svc_step.ReadFile [of "snd (q (w_fs w))" w S] assms by simp
qed

text \<open>A handler calls the service once and replies: one rule per construct of its body.\<close>

lemma runs_pair: "runs S w0 w \<Longrightarrow> runs S w0 (snd (r, w))"
  by simp

lemma runs_if: "(c \<Longrightarrow> runs S w0 (snd a)) \<Longrightarrow> (\<not> c \<Longrightarrow> runs S w0 (snd b)) \<Longrightarrow> runs S w0 (snd (if c then a else b))"
  by simp

lemma runs_sum:
  "(\<And>e. r = Inl e \<Longrightarrow> runs S w0 (snd (f e))) \<Longrightarrow> (\<And>x. r = Inr x \<Longrightarrow> runs S w0 (snd (g x)))
   \<Longrightarrow> runs S w0 (snd (case_sum f g r))"
  by (simp split: sum.split)

lemma runs_option:
  "(r = None \<Longrightarrow> runs S w0 (snd a)) \<Longrightarrow> (\<And>x. r = Some x \<Longrightarrow> runs S w0 (snd (f x)))
   \<Longrightarrow> runs S w0 (snd (case_option a f r))"
  by (simp split: option.split)

lemma runs_call:
  assumes "svc_step S w (snd c)" "\<And>r w1. runs S w w1 \<Longrightarrow> runs S w (snd (K r w1))"
  shows "runs S w (snd (case_prod K c))"
  using assms(2) [of "snd c" "fst c"] assms(1) by (simp add: case_prod_beta r_into_rtranclp)

lemma runs_args: "(\<And>a b. runs S w0 (snd (K a b))) \<Longrightarrow> runs S w0 (snd (case_prod K p))"
  by (simp split: prod.split)

lemmas runs_rules = runs_pair runs_if runs_sum runs_option runs_refl
  runs_call [OF svc_step.LoginQR] runs_call [OF svc_step.LoginPhone] runs_call [OF svc_step.Logout]
  runs_call [OF svc_step.SendText] runs_call [OF svc_step.SendMedia] runs_call [OF svc_step.ListChats]
  runs_call [OF svc_step.GetChat] runs_call [OF svc_step.ListMessages] runs_call [OF svc_step.SearchMessages]
  runs_call [OF svc_step.ListContacts] runs_call [OF svc_step.SearchContacts] runs_call [OF svc_step.Stats]
  runs_call [OF svc_step.EditMessage] runs_call [OF svc_step.DeleteMessage]
  runs_call [OF svc_step.SendReaction] runs_call [OF svc_step.ListReactions] runs_call [OF svc_step.MarkMessageRead]
  runs_call [OF svc_step.SendTyping] runs_call [OF svc_step.ListReceipts] runs_call [OF svc_step.CreateGroup]
  runs_call [OF svc_step.ListGroupMembers] runs_call [OF svc_step.UpdateGroupMembers] runs_call [OF svc_step.LeaveGroup]

lemma os_Open_files: "fs_files (snd (os_Open p f)) = fs_files f"
  by (auto simp: os_Open_def fs_fault_def split: prod.splits option.splits list.splits)

lemma runs_GetMedia: "runs S w (snd (GetMediaHandler S i w))"
proof -
  obtain r w1 where g: "GetMediaRef S i w = (r, w1)" by fastforce
  have 1: "runs S w w1" using svc_step.GetMediaRef [of S w i] g by (simp add: r_into_rtranclp)
  have 2: "runs S w (snd (on_fs (os_Open p) w1))" for p
    by (rule runs_step [OF 1 runs_on_fs]) (rule os_Open_files)
  show ?thesis
  proof (cases r)
    case (Inl e)
    then show ?thesis using 1 g by (simp add: GetMediaHandler_def)
  next
    case (Inr ref)
    then show ?thesis using 2 [of "med_Path ref"] g
      by (auto simp: GetMediaHandler_def split: prod.split sum.split)
  qed
qed

lemma handlers_run:
  "runs S w (snd (StatusHandler S w))" "runs S w (snd (StatsHandler S w))"
  "runs S w (snd (ListChatsHandler S rq w))" "runs S w (snd (GetChatHandler S j w))"
  "runs S w (snd (ListMessagesByChatHandler S j rq w))" "runs S w (snd (SearchMessagesHandler S rq w))"
  "runs S w (snd (ListContactsHandler S w))" "runs S w (snd (SearchContactsHandler S rq w))"
  unfolding StatusHandler_def StatsHandler_def ListChatsHandler_def GetChatHandler_def ListMessagesByChatHandler_def
    SearchMessagesHandler_def ListContactsHandler_def SearchContactsHandler_def Let_def
  by (assumption | rule runs_rules)+

lemma handlers_run_write:
  "runs S w (snd (SendTextHandler S rq w))" "runs S w (snd (EditMessageHandler S i rq w))"
  "runs S w (snd (DeleteMessageHandler S i w))" "runs S w (snd (SendMediaHandler S by_ext rq w))"
  "runs S w (snd (SendReactionHandler S i rq w))" "runs S w (snd (ListReactionsHandler S i w))"
  "runs S w (snd (MarkReadHandler S i w))" "runs S w (snd (ListReceiptsHandler S i w))"
  "runs S w (snd (SendTypingHandler S j rq w))"
  unfolding SendTextHandler_def EditMessageHandler_def DeleteMessageHandler_def SendMediaHandler_def SendReactionHandler_def
    ListReactionsHandler_def MarkReadHandler_def ListReceiptsHandler_def SendTypingHandler_def Let_def
  by (assumption | rule runs_rules | rule runs_args)+

lemma handlers_run_groups:
  "runs S w (snd (CreateGroupHandler S rq w))" "runs S w (snd (ListGroupMembersHandler S j w))"
  "runs S w (snd (UpdateGroupMembersHandler S j rq w))" "runs S w (snd (LeaveGroupHandler S j w))"
  "runs S w (snd (LoginQRHandler S w))" "runs S w (snd (LoginPhoneHandler S rq w))" "runs S w (snd (LogoutHandler S w))"
  unfolding CreateGroupHandler_def ListGroupMembersHandler_def UpdateGroupMembersHandler_def LeaveGroupHandler_def
    LoginQRHandler_def LoginPhoneHandler_def LogoutHandler_def Let_def
  by (assumption | rule runs_rules | rule runs_args)+

lemma runs_handle: "runs S w (snd (handle S mcp by_ext ep rq w))"
  by (cases ep)
    (simp_all add: handle_def case_prod_beta handlers_run handlers_run_write handlers_run_groups runs_GetMedia split: sum.split)

lemma runs_NewRouter: "runs S w (snd (NewRouter S token mcp by_ext ep rq w))"
  by (simp add: NewRouter_def runs_handle split: option.split)

section \<open>Tools are runs of the service\<close>

lemma runs_mapErr: "runs S w0 w \<Longrightarrow> runs S w0 (snd (mapErr e w))"
  using svc_step.Log [of S w "''mcp tool error''"] runs_step [of S w0 w] by (simp add: mapErr_def)

lemma runs_reply: "svc_step S w (snd r) \<Longrightarrow> runs S w (snd (reply f r))"
  unfolding reply_def by (rule runs_call) (assumption | rule runs_rules runs_mapErr)+

lemma runs_reply_ok: "svc_step S w (snd r) \<Longrightarrow> runs S w (snd (reply_ok r))"
  unfolding reply_ok_def by (rule runs_call) (assumption | rule runs_rules runs_mapErr)+

lemmas runs_tools = runs_pair runs_sum runs_option runs_refl runs_reply [OF svc_step.Stats] runs_reply [OF svc_step.ListChats]
  runs_reply [OF svc_step.GetChat] runs_reply [OF svc_step.ListContacts] runs_reply [OF svc_step.SearchContacts]
  runs_reply [OF svc_step.ListMessages] runs_reply [OF svc_step.SearchMessages] runs_reply [OF svc_step.ListReactions]
  runs_reply [OF svc_step.ListReceipts] runs_reply [OF svc_step.GetMediaRef] runs_reply [OF svc_step.SendText]
  runs_reply [OF svc_step.SendMedia] runs_reply [OF svc_step.EditMessage] runs_reply_ok [OF svc_step.DeleteMessage]
  runs_reply_ok [OF svc_step.SendReaction] runs_reply_ok [OF svc_step.MarkMessageRead] runs_reply_ok [OF svc_step.SendTyping]
  runs_reply_ok [OF svc_step.Logout] runs_reply [OF svc_step.CreateGroup] runs_reply [OF svc_step.ListGroupMembers]
  runs_reply [OF svc_step.UpdateGroupMembers] runs_reply_ok [OF svc_step.LeaveGroup]

lemma runs_login_tools: "runs S w (snd (wa_login_qr S g w))" "runs S w (snd (wa_login_phone S i g w))"
  unfolding wa_login_qr_def wa_login_phone_def by (assumption | rule runs_rules runs_mapErr)+

lemma runs_newServer: "runs S w (snd (newServer S quote c w))"
proof -
  note defs = wa_status_def wa_stats_def wa_list_chats_def wa_get_chat_def wa_list_contacts_def wa_search_contacts_def
    wa_list_messages_def wa_search_messages_def wa_list_reactions_def wa_list_receipts_def wa_get_media_def wa_send_text_def
    wa_send_media_def wa_edit_message_def wa_delete_message_def wa_react_def wa_mark_read_def wa_typing_def wa_logout_def
    wa_create_group_def wa_list_group_members_def wa_update_group_members_def wa_leave_group_def Let_def
  show ?thesis
    by (cases c; simp only: newServer.simps snd_outcome runs_login_tools; unfold defs) (rule runs_tools)+
qed

section \<open>The steps of the daemon\<close>

text \<open>
  What one stream does of its own: a turn of the replay; then, of the \<open>select\<close> of the live loop, a receive,
  a tick of the heartbeat where one is configured, or the end of the request's context.
\<close>

inductive own_step :: "('d, 'w) svc \<Rightarrow> int \<Rightarrow> session \<times> ('d, 'w) world \<Rightarrow> session \<times> ('d, 'w) world \<Rightarrow> bool" for S heartbeat where
  replays: "sm_phase sm = Replay \<Longrightarrow> own_step S heartbeat (sm, w) (stream_replay S sm w)"
| receives: "sm_phase sm = Live \<Longrightarrow> stream_recv sm w = Some x \<Longrightarrow> own_step S heartbeat (sm, w) x"
| pings: "sm_phase sm = Live \<Longrightarrow> 0 < heartbeat \<Longrightarrow> own_step S heartbeat (sm, w) (sm\<lparr>sm_out := sm_out sm @ [Ping]\<rparr>, w)"
| leaves: "sm_phase sm = Live \<Longrightarrow> own_step S heartbeat (sm, w) (stream_return sm w)"

lemma own_stream: "own_step S heartbeat x y \<Longrightarrow> stream_step S x y"
  by (induction rule: own_step.induct) (simp_all add: stream_step.replay stream_step.recv stream_step.ping stream_step.gone)

text \<open>
  The state is the list of the streams that were opened and the world. \<open>token\<close>, \<open>heartbeat\<close>, \<open>mcp\<close>
  and \<open>by_ext\<close> are the parameters of the router, \<open>quote\<close> that of the tools, \<open>L\<close> the WhatsApp library. A stream is opened
  while the counter of the subscribers, a 64-bit word, has not wrapped.
\<close>

inductive daemon_step :: "('d, 'c adapter) svc \<Rightarrow> ('j, 'c) wa_lib \<Rightarrow> string \<Rightarrow> int \<Rightarrow> bool \<Rightarrow> (string \<Rightarrow> string) \<Rightarrow> (string \<Rightarrow> string)
    \<Rightarrow> session list \<times> ('d, 'c adapter) world \<Rightarrow> session list \<times> ('d, 'c adapter) world \<Rightarrow> bool"
  for S L token heartbeat mcp by_ext quote where
  http: "NewRouter S token mcp by_ext ep rq w = (Plain r, w') \<Longrightarrow> daemon_step S L token heartbeat mcp by_ext quote (sms, w) (sms, w')"
| connect: "NewRouter S token mcp by_ext ep rq w = (EventStream n, w1) \<Longrightarrow> id_room (w_bc w1)
    \<Longrightarrow> stream_open S n w1 = (sm, w') \<Longrightarrow> daemon_step S L token heartbeat mcp by_ext quote (sms, w) (sms @ [sm], w')"
| tool: "NewRouter S token mcp by_ext ep rq w = (McpTransport, w1)
    \<Longrightarrow> daemon_step S L token heartbeat mcp by_ext quote (sms, w) (sms, snd (newServer S quote c w1))"
| event: "daemon_step S L token heartbeat mcp by_ext quote (sms, w) (sms, wa_event S L now ev w)"
| library: "daemon_step S L token heartbeat mcp by_ext quote (sms, w) (sms, w\<lparr>w_wa := (w_wa w)\<lparr>ad_lib := c\<rparr>\<rparr>)"
| qr_done: "daemon_step S L token heartbeat mcp by_ext quote (sms, w) (sms, w\<lparr>w_wa := LoginQR_done (w_wa w)\<rparr>)"
| phone_done: "daemon_step S L token heartbeat mcp by_ext quote (sms, w) (sms, w\<lparr>w_wa := LoginPhone_done (w_wa w)\<rparr>)"
| download: "daemon_step S L token heartbeat mcp by_ext quote (sms, w) (sms, run_task S k w)"
| stream: "i < length sms \<Longrightarrow> own_step S heartbeat (sms ! i, w) (sm, w')
    \<Longrightarrow> daemon_step S L token heartbeat mcp by_ext quote (sms, w) (sms[i := sm], w')"

text \<open>
  Three shapes: a run of the service, a run and a new stream, a step of one stream.
\<close>

inductive system_step :: "('d, 'w) svc \<Rightarrow> int \<Rightarrow> session list \<times> ('d, 'w) world \<Rightarrow> session list \<times> ('d, 'w) world \<Rightarrow> bool" for S heartbeat where
  service: "runs S w w' \<Longrightarrow> system_step S heartbeat (sms, w) (sms, w')"
| opened: "runs S w w1 \<Longrightarrow> id_room (w_bc w1) \<Longrightarrow> stream_open S n w1 = (sm, w') \<Longrightarrow> system_step S heartbeat (sms, w) (sms @ [sm], w')"
| client: "i < length sms \<Longrightarrow> own_step S heartbeat (sms ! i, w) (sm, w') \<Longrightarrow> system_step S heartbeat (sms, w) (sms[i := sm], w')"

lemma daemon_system:
  assumes "daemon_step S L token heartbeat mcp by_ext quote x y"
  shows "system_step S heartbeat x y"
  using assms
proof (cases rule: daemon_step.cases)
  case (http ep rq w r w' sms)
  then show ?thesis using system_step.service [of S w w' heartbeat sms] runs_NewRouter [of S w token mcp by_ext ep rq] by simp
next
  case (connect ep rq w n w1 sm w' sms)
  then show ?thesis using system_step.opened [of S w w1 n sm w' heartbeat sms] runs_NewRouter [of S w token mcp by_ext ep rq] by simp
next
  case (tool ep rq w w1 sms c)
  then have "runs S w w1" using runs_NewRouter [of S w token mcp by_ext ep rq] by simp
  then have "runs S w (snd (newServer S quote c w1))" using runs_newServer by (rule rtranclp_trans)
  then show ?thesis using tool system_step.service by blast
next
  case (event sms w now ev)
  then show ?thesis using system_step.service [OF wa_event_run] by simp
next
  case (stream i sms w sm w')
  then show ?thesis using system_step.client by blast
qed (simp_all add: system_step.service r_into_rtranclp svc_step.WhatsApp svc_step.Download)

lemma daemon_system_run:
  "(daemon_step S L token heartbeat mcp by_ext quote)\<^sup>*\<^sup>* x y \<Longrightarrow> (system_step S heartbeat)\<^sup>*\<^sup>* x y"
  by (induction rule: rtranclp_induct) (auto intro: rtranclp.rtrancl_into_rtrancl daemon_system)

section \<open>Every stream beside the others\<close>

lemma publish_all_chans:
  "bc_ok b \<Longrightarrow> publish_all es b = Some b' \<Longrightarrow> length (bc_chans b') = length (bc_chans b)"
proof (induction es arbitrary: b)
  case (Cons e es)
  obtain b1 where b1: "Publish e b = Some b1" "bc_ok b1" by (rule bc_ok_Publish [OF Cons.prems(1)])
  have "length (bc_chans b1) = length (bc_chans b)" using Publish_spec [OF Cons.prems(1), of e] b1(1) by auto
  then show ?case using Cons.IH [OF b1(2)] Cons.prems(2) b1(1) by simp
qed simp

lemma runs_streams: "runs S w w' \<Longrightarrow> (stream_step S)\<^sup>*\<^sup>* (sm, w) (sm, w')"
  by (induction rule: rtranclp_induct) (auto intro: rtranclp.rtrancl_into_rtrancl stream_step.daemon)

lemma own_step_chan: "own_step S heartbeat x y \<Longrightarrow> sm_chan (fst y) = sm_chan (fst x)"
  by (induction rule: own_step.induct)
    (auto simp: stream_replay_def stream_recv_def stream_return_def split: prod.splits sum.splits option.splits received.splits)

text \<open>The departure of another stream.\<close>

lemma return_other:
  assumes "bc_ok (w_bc w)"
  shows "stream_step S (t, w) (t, snd (stream_return sm w))"
proof -
  obtain b where b: "Unsubscribe (sm_id sm) (w_bc w) = Some b" using bc_ok_Unsubscribe [OF assms] by metis
  then show ?thesis using stream_step.other_leaves [OF b, of S t] by (simp add: stream_return_def)
qed

context use_cases
begin

text \<open>A step of one stream, seen by another one.\<close>

lemma own_other:
  assumes "own_step S heartbeat (sm, w) (sm', w')" and W: "W_ok w"
    and c: "sm_chan sm \<noteq> sm_chan t" "sm_chan sm < length (bc_chans (w_bc w))"
  shows "(stream_step S)\<^sup>*\<^sup>* (t, w) (t, w')"
proof -
  have ret: "(stream_step S)\<^sup>*\<^sup>* (t, w) (t, snd (stream_return u w))" for u
    using return_other [of w S t u] W by (simp add: world_ok_def r_into_rtranclp)
  from assms(1) show ?thesis
  proof (cases rule: own_step.cases)
    case replays
    obtain r w1 where e: "on_db (est_SinceSeq (b_Events B) (sm_last sm) replayBatch) w = (r, w1)" by fastforce
    then have st: "svc_step S w w1"
      using svc_step.ReadLog [of replayBatch S w "sm_last sm"] by (simp add: replayBatch_def)
    then have s1: "stream_step S (t, w) (t, w1)" by (rule stream_step.daemon)
    have "bc_ok (w_bc w1)" using step_good [OF st] W by (simp add: good_def world_ok_def)
    then have s2: "stream_step S (t, w1) (t, snd (stream_return sm w1))" by (rule return_other)
    show ?thesis
    proof (cases r)
      case (Inl x)
      then have "w' = snd (stream_return sm w1)" using replays e by (simp add: stream_replay_def) (metis snd_conv)
      then show ?thesis using s1 s2 by (meson r_into_rtranclp rtranclp.rtrancl_into_rtrancl)
    next
      case (Inr x)
      then have "w' = w1" using replays e by (simp add: stream_replay_def)
      then show ?thesis using s1 by blast
    qed
  next
    case receives
    then obtain y b where y: "Receive (sm_chan sm) (w_bc w) = Some (y, b)"
      by (auto simp: stream_recv_def split: option.splits)
    show ?thesis
    proof (cases y)
      case (Got ev)
      then have "w' = w\<lparr>w_bc := b\<rparr>" using receives y by (auto simp: stream_recv_def)
      then show ?thesis using stream_step.other_receives [OF c(1,2) y, of S] by blast
    next
      case Closed
      then have "w' = snd (stream_return (sm\<lparr>sm_out := sm_out sm @ [Lagged]\<rparr>) w)"
        using receives y by (cases "stream_return (sm\<lparr>sm_out := sm_out sm @ [Lagged]\<rparr>) w") (simp add: stream_recv_def)
      then show ?thesis using ret by simp
    qed
  next
    case leaves
    then have "w' = snd (stream_return sm w)" by (metis snd_conv)
    then show ?thesis using ret by simp
  qed simp
qed

text \<open>The channels of the broadcaster are never given back: those of the open streams stay apart.\<close>

definition system_ok :: "session list \<times> ('d, 'w) world \<Rightarrow> bool" where
  "system_ok x \<longleftrightarrow> W_ok (snd x) \<and> distinct (map sm_chan (fst x))
     \<and> (\<forall>sm\<in>set (fst x). sm_chan sm < length (bc_chans (w_bc (snd x)))
          \<and> stream_ok sm (v_log (view (w_db (snd x)))) (w_bc (snd x)))"

lemma system_session: "system_ok (sms, w) \<Longrightarrow> i < length sms \<Longrightarrow> session_ok (sms ! i, w)"
  by (simp add: system_ok_def session_ok_def)

lemma return_chans: "W_ok w \<Longrightarrow> length (bc_chans (w_bc (snd (stream_return sm w)))) = length (bc_chans (w_bc w))"
  using bc_ok_Unsubscribe [of "w_bc w" "sm_id sm"] by (force simp: stream_return_def world_ok_def)

lemma runs_chans:
  assumes live "runs S w w'" "W_ok w"
  shows "length (bc_chans (w_bc w')) = length (bc_chans (w_bc w))"
proof -
  obtain new where "publish_all (map event_of new) (w_bc w) = Some (w_bc w')"
    using run_in_step [OF assms(2,3)] assms(1) by (auto simp: in_step_def)
  then show ?thesis using publish_all_chans assms(3) by (auto simp: world_ok_def)
qed

lemma own_chans:
  assumes live and "own_step S heartbeat (sm, w) (sm', w')" "session_ok (sm, w)"
  shows "length (bc_chans (w_bc w')) = length (bc_chans (w_bc w))"
  using assms(2)
proof (cases rule: own_step.cases)
  case replays
  obtain r w1 where e: "on_db (est_SinceSeq (b_Events B) (sm_last sm) replayBatch) w = (r, w1)" by fastforce
  then have "runs S w w1"
    using svc_step.ReadLog [of replayBatch S w "sm_last sm"] by (simp add: replayBatch_def r_into_rtranclp)
  moreover have "W_ok w" using assms(3) by (simp add: session_ok_def)
  ultimately have "W_ok w1" "length (bc_chans (w_bc w1)) = length (bc_chans (w_bc w))"
    using runs_chans [OF assms(1)] run_world_ok by blast+
  moreover have "w' = w1 \<or> w' = snd (stream_return sm w1)"
    using replays e by (cases r) (simp_all add: stream_replay_def, metis snd_conv)
  ultimately show ?thesis using return_chans [of w1 sm] by auto
next
  case receives
  have W: "W_ok w" using assms(3) by (simp add: session_ok_def)
  have a: "sm_chan sm < length (bc_chans (w_bc w))" using assms(3) receives by (simp add: session_ok_def stream_ok_def chan_view_def)
  obtain y b where y: "Receive (sm_chan sm) (w_bc w) = Some (y, b)" using receives by (auto simp: stream_recv_def split: option.splits)
  show ?thesis
  proof (cases y)
    case (Got ev)
    then show ?thesis using receives y W bc_ok_Receive(2) [OF _ a] by (auto simp: stream_recv_def world_ok_def)
  next
    case Closed
    then have "w' = snd (stream_return (sm\<lparr>sm_out := sm_out sm @ [Lagged]\<rparr>) w)"
      using receives y by (cases "stream_return (sm\<lparr>sm_out := sm_out sm @ [Lagged]\<rparr>) w") (simp add: stream_recv_def)
    then show ?thesis using return_chans [OF W] by simp
  qed
next
  case leaves
  then have "w' = snd (stream_return sm w)" by (metis snd_conv)
  then show ?thesis using return_chans [of w sm] assms(3) by (simp add: session_ok_def)
qed simp

lemma open_chan:
  assumes "stream_open S n w = (sm, w')"
  shows "sm_chan sm = length (bc_chans (w_bc w))" "length (bc_chans (w_bc w')) = Suc (length (bc_chans (w_bc w)))"
    "w' = w\<lparr>w_bc := snd (Subscribe (w_bc w))\<rparr>"
  using assms by (auto simp: stream_open_def Subscribe_def Let_def)

text \<open>A run of the system is, for every stream that is open, a run of that stream beside the service.\<close>

lemma system_streams:
  assumes "system_step S heartbeat (sms, w) (sms', w')" "system_ok (sms, w)" "i < length sms"
  shows "(stream_step S)\<^sup>*\<^sup>* (sms ! i, w) (sms' ! i, w')"
  using assms(1)
proof (cases rule: system_step.cases)
  case service
  then show ?thesis using runs_streams by blast
next
  case (opened w1 n sm)
  have "stream_step S (t, w1) (t, w')" for t
    using stream_step.other_subscribes [OF opened(3), of S t] open_chan(3) [OF opened(4)] by simp
  then show ?thesis
    using runs_streams [OF opened(2), of "sms ! i"] opened(1) assms(3) by (simp add: nth_append rtranclp.rtrancl_into_rtrancl)
next
  case (client j sm)
  have W: "W_ok w" and len: "sm_chan (sms ! j) < length (bc_chans (w_bc w))"
    using assms(2) client(2) by (simp_all add: system_ok_def)
  show ?thesis
  proof (cases "i = j")
    case True
    then show ?thesis using own_stream [OF client(3)] client(1,2) by (simp add: r_into_rtranclp)
  next
    case False
    then have "sm_chan (sms ! j) \<noteq> sm_chan (sms ! i)"
      using assms(2,3) client(2) by (auto simp: system_ok_def distinct_conv_nth)
    from own_other [OF client(3) W this len] show ?thesis using client(1) False by simp
  qed
qed

lemma system_step_ok:
  assumes live and step: "system_step S heartbeat (sms, w) (sms', w')" and ok: "system_ok (sms, w)"
  shows "system_ok (sms', w')"
proof -
  have W: "W_ok w" using ok by (simp add: system_ok_def)
  have old: "session_ok (sms' ! i, w')" if "i < length sms" for i
    using session_run [OF assms(1) system_streams [OF step ok that] system_session [OF ok that]] .
  show ?thesis
    using step
  proof (cases rule: system_step.cases)
    case service
    then show ?thesis
      using ok old run_world_ok [OF service(2) W] runs_chans [OF assms(1) service(2) W]
      by (auto simp: system_ok_def session_ok_def in_set_conv_nth)
  next
    case (opened w1 n sm)
    have W1: "W_ok w1" and len: "length (bc_chans (w_bc w1)) = length (bc_chans (w_bc w))"
      using run_world_ok [OF opened(2) W] runs_chans [OF assms(1) opened(2) W] by simp_all
    have "session_ok (sm, w')" using session_open [OF W1 opened(3), of n] opened(4) by simp
    then show ?thesis
      using ok old opened(1) open_chan(1,2) [OF opened(4)] len
      by (fastforce simp: system_ok_def session_ok_def in_set_conv_nth nth_append)
  next
    case (client i sm)
    have "sm_chan sm = sm_chan (sms ! i)" using own_step_chan [OF client(3)] by simp
    then have chans: "map sm_chan (sms[i := sm]) = map sm_chan sms" by (simp add: map_update list_update_same_conv client(2))
    have "length (bc_chans (w_bc w')) = length (bc_chans (w_bc w))"
      using own_chans [OF assms(1) client(3) system_session [OF ok client(2)]] .
    moreover have "W_ok w'" using old [OF client(2)] by (simp add: session_ok_def)
    moreover have "sm_chan (sms' ! j) < length (bc_chans (w_bc w))" if "j < length sms" for j
    proof -
      have "map sm_chan sms' ! j = map sm_chan sms ! j" using chans client(1) by simp
      then show ?thesis using ok that client(1) by (simp add: system_ok_def)
    qed
    ultimately show ?thesis
      using ok old client(1) chans by (auto simp: system_ok_def session_ok_def in_set_conv_nth)
  qed
qed

lemma system_run_ok:
  assumes live and "(system_step S heartbeat)\<^sup>*\<^sup>* x y" "system_ok x"
  shows "system_ok y"
  using assms(2,3)
proof (induction rule: rtranclp_induct)
  case (step y z)
  then show ?case using system_step_ok [OF assms(1), of heartbeat "fst y" "snd y" "fst z" "snd z"] by simp
qed simp

lemma system_start: "W_ok w \<Longrightarrow> system_ok ([], w)"
  by (simp add: system_ok_def)

text \<open>So every client has been sent the log after its cursor, each entry once and in order.\<close>

lemma system_frames:
  assumes "system_ok (sms, w)" "sm \<in> set sms"
  shows "log_frames sm = map event_frame (entries_between (sm_from sm) (sm_last sm) (v_log (view (w_db w))))"
  using assms by (auto simp: system_ok_def stream_ok_def)

end

end
