(* ===== verification/Daemon_Props.thy ===== *)
theory Daemon_Props
  imports Daemon Adapter_Props
begin

text \<open>
  The properties of the daemon as a whole: \<open>daemon_step\<close> over the adapter, the service, the SQLite
  store, the router, the tools and all the open streams.
\<close>

section \<open>All streams at once\<close>




end
