(* ===== verification/Access_Log.thy ===== *)
theory Access_Log
  imports Http_Handlers
begin

text \<open>
  The access log of transport/http/router.go: the middleware around every route, outside the bearer
  gate, so that a refused request is logged too. The request id (chi's \<open>RequestID\<close>), the path as
  net/http parsed it and the two readings of the monotonic clock are given.
\<close>

record access =
  al_method :: string
  al_path :: string
  al_status :: nat
  al_bytes :: nat
  al_duration_ms :: int
  al_request_id :: string

text \<open>
  The line is written when the handler returns: for a plain reply that is now, a stream and the MCP
  transport return later.
\<close>

definition slogRequests :: "string \<Rightarrow> string \<Rightarrow> string \<Rightarrow> time \<Rightarrow> time \<Rightarrow> ('s \<Rightarrow> reply \<times> 's) \<Rightarrow> 's \<Rightarrow> (reply \<times> access list) \<times> 's" where
  "slogRequests method path req_id start now next s =
     (let (r, s) = next s
      in ((r, case r of
           Plain rs \<Rightarrow> [\<lparr>al_method = method, al_path = path, al_status = rs_status rs, al_bytes = length (rs_body rs),
             al_duration_ms = (now - start) div 1000000, al_request_id = req_id\<rparr>]
         | _ \<Rightarrow> []), s))"

text \<open>The middleware does not touch the reply or the daemon.\<close>

lemma slogRequests_transparent:
  "(case slogRequests method path req_id start now next s of ((r, ls), s') \<Rightarrow> (r, s')) = next s"
  by (simp add: slogRequests_def split: prod.split)

text \<open>
  A request the bearer gate refuses leaves one line, with status 401; what was presented as a token is
  not in it.
\<close>

lemma refused_is_logged:
  assumes "token \<noteq> ''''" "bearerToken (rq_auth rq) \<noteq> Some token" "ep \<noteq> Ep_Health"
  shows "\<exists>r. slogRequests (fst (route ep)) path req_id start now (NewRouter S token mcp by_ext ep rq) w = ((Plain r,
     [\<lparr>al_method = fst (route ep), al_path = path, al_status = 401,
       al_bytes = length (rs_body (WriteProblem 401 ''auth.unauthorized''
         (if bearerToken (rq_auth rq) = None then ''missing bearer token'' else ''invalid bearer token''))),
       al_duration_ms = (now - start) div 1000000, al_request_id = req_id\<rparr>]), w)"
  using assms by (auto simp: slogRequests_def NewRouter_def RequireBearerToken_def WriteProblem_def split: option.splits)

end
