(* ===== verification/Spec2Isabelle.thy ===== *)
theory Spec2Isabelle
  imports Service_Props Message_Props Inbound_Props Http_Props Media_Props Stream_Props Adapter_Props Login_Props Mcp_Props Transports Commands Serve_Props Store_Open Storesuite_Props Fts_Props Races Daemon_Props Access_Log
begin

text \<open>
  whatsmeow-api is a daemon that holds one WhatsApp account (through the whatsmeow library), keeps a
  cache of chats, messages, contacts, media, reactions and receipts in SQLite or Postgres, and offers
  it over HTTP, a stream of server-sent events and MCP tools; the same binary is its command line.
  This development models the Go code of the repository, component by component, and proves what
  makes it correct. Each definition that stands for code has the name of the Go function where
  Isabelle allows it, with a prefix where two packages share a name (\<open>pg_\<close> for the Postgres store,
  \<open>svc_\<close> for the service, \<open>wa_\<close> for a tool, \<open>adapter_\<close>, \<open>client_\<close>).

  \<^bold>\<open>The parts and how they interact.\<close> The adapter (internal/waclient) turns calls of the service into
  calls of whatsmeow and whatsmeow's events into inbound messages, receipts and changes of the
  connection. The service (internal/service) holds the use cases: it calls the adapter, writes the
  store bundle (internal/store), and emits every change as an event that is appended to the log of
  the store and published to the subscribers of the broadcaster (internal/transport/sse). The HTTP
  handlers and the MCP tools (internal/transport) decode requests, call the service and encode
  replies; the event stream replays the log and then follows its subscription. The client
  (internal/client) calls the HTTP interface for the command line (cmd/whatsmeow-api), whose \<open>serve\<close>
  assembles all of it from the configuration (internal/config).

  \<^bold>\<open>Conventions.\<close> A Go error is its message and the sentinel it wraps (\<open>goerr\<close>); a function that returns
  a value and an error returns \<open>goerr + 'a\<close>, one that returns an error only \<open>goerr option\<close>, and a panic
  is a field of the state. State is passed explicitly: a database connection (\<open>conn\<close>) is its tables
  and a script of the faults of its next calls, a file system likewise, and a \<open>world\<close> is the running
  daemon: database, client, files, broadcaster, clock, warnings and pending downloads. A theorem that
  says ``whatever fails'' is over every script; \<open>quiet\<close> says that no call fails. Texts are byte strings
  (UTF-8 where Go decodes it), times are nanoseconds since 1970, Go's \<open>int\<close> is \<open>int\<close> where nothing can
  overflow, the ids of the subscribers are 64-bit words.

  \<^bold>\<open>Theories, sources and lemmas.\<close>
  \<^item> \<open>Prelude\<close>: errors, keyed lists (\<open>upsert\<close>, \<open>find_key\<close>), the generic lemmas behind every table.
    \<open>Go_Strings\<close>, \<open>Go_Time\<close>, \<open>Go_Json\<close>, \<open>Go_Json_Strings\<close>, \<open>Go_Json_Parse\<close>, \<open>Go_Base64\<close>, \<open>Go_Net\<close>: what the code uses
    of Go's standard library, with its round trips (\<open>parse_marshal\<close>: what \<open>Marshal\<close> writes is read back).
  \<^item> \<open>Domain\<close> (store/store.go, waclient/waclient.go): rows, sentinels, the interface of the client.
    \<open>Sql\<close> (store/migrations): tables, keys, foreign keys, statements, faults and the invariant \<open>db_ok\<close>.
  \<^item> \<open>Store_Api\<close> (store/store.go): the interfaces as records of functions, the abstract store \<open>store_view\<close>
    and the locales that state what each operation does to it (\<open>chat_laws\<close> to \<open>bundle_laws\<close>).
    \<open>Store_Codec\<close> proves the laws once for the statements both dialects send; \<open>Store_Sqlite\<close> and
    \<open>Store_Postgres\<close> (store/sqlite, store/postgres) are the operations, and interpret the locales: each
    dialect refines the abstract store. \<open>Fts\<close> is the full-text index of SQLite with its triggers, kept in
    step with the messages by every statement, and the join of the search (\<open>Fts_Props\<close>: it finds what
    \<open>Store_Sqlite\<close> selects). \<open>Store_Open\<close> is how the databases are opened. \<open>Storesuite\<close>
    (store/storesuite) has the conformance tests of the repository as booleans; \<open>Storesuite_Props\<close> shows
    that both dialects pass them.
  \<^item> \<open>Mediastore\<close> (mediastore/mediastore.go): content-addressed files over a file system that may fail.
    \<open>Broadcaster\<close> (transport/sse/broadcaster.go): channels on a heap, subscribers in a map; its
    invariant, and that a subscriber sees a prefix of what was published.
  \<^item> \<open>Events\<close> (service/events.go): payloads, emitter and the \<open>world\<close>. \<open>Service\<close> (service/service.go): every use
    case and inbound handler over any bundle and client. \<open>Service_Laws\<close> proves in the locale \<open>use_cases\<close>
    that each of them keeps the invariant; \<open>Service_Spec\<close> states what handling an inbound message
    means on the abstract store and that the code refines it; \<open>Service_Effects\<close> has the functional
    behaviour of the sends, edits, deletions and listings. \<open>Races\<close> cuts the handling of an inbound
    message at its read of the chat row and sets a request in between. \<open>Samples\<close> is a concrete daemon for the examples.
  \<^item> \<open>Http_Wire\<close>, \<open>Http_Handlers\<close> (transport/http): requests, responses, one definition per handler, the
    router and its bearer gate; \<open>Access_Log\<close> is the middleware around them. \<open>Event_Stream\<close> (transport/http/events.go): one stream as a state machine
    beside the daemon, with reachability and its invariant.
  \<^item> \<open>Mcp\<close>, \<open>Mcp_Messages\<close> (transport/mcp): every tool, its input and output, and the table of tools.
    \<open>Transports\<close> says which request carries the arguments of which tool call and compares the two.
  \<^item> \<open>Adapter\<close>, \<open>Adapter_Login\<close>, \<open>Adapter_Daemon\<close> (waclient/whatsmeow\_adapter.go): the adapter over the
    library as a record of functions, the two login goroutines as step relations, and the wiring of
    the adapter's events to the service.
  \<^item> \<open>Daemon\<close>: all of it running: router, tools, library events, ends of logins, downloads and any number
    of open streams as one step relation (\<open>daemon_step\<close>). Every request is a run of the service, and a
    run of the daemon is, for each stream, a run of that stream beside the service, so what
    \<open>Event_Stream\<close> proves of one holds of all (\<open>Daemon_Props\<close>).
  \<^item> \<open>Client\<close> (client/client.go): requests and the reader of server-sent events. \<open>Commands\<close> (login.go, logout.go,
    status.go, main.go of the command line): the subcommands, what their process prints and its exit
    status, run against the daemon's router. \<open>Config\<close> (config/config.go, logging/logging.go), \<open>Serve\<close>
    (serve.go, transport/http/server.go): loading, validation, assembly, start and shutdown.
  \<^item> The properties are in the theories named \<open>..._Props\<close>, grouped by subject, and in \<open>Store_Open\<close>,
    \<open>Transports\<close>, \<open>Races\<close> and \<open>Commands\<close>; each is the instance of lemmas of its component at the model's own definitions, followed by its example.

  \<^bold>\<open>What the properties show.\<close> The store stays well formed over every run of the daemon, through
  service and adapter; the log is what was published, and every stream sends each event after its
  cursor exactly once, whatever requests, tools, events and other streams run beside it; a search
  finds what is stored now; requests do what they say and nothing else, and are refused as
  documented; without the token nothing is served; a tool and the request with its arguments agree;
  the client and its commands give what the service gave; logins are single, and where they can block; what is opened
  is closed. Where the code does not do what it
  means to, the property states what it does: a first message that is not kept, crossed emissions
  that are lost, a mark as read lost beside an inbound message, a login that can block, an IPv6 address that is never served.

  \<^bold>\<open>Parameters.\<close> What is not in the repository is an argument of the definitions: the whatsmeow library
  (\<open>wa_lib\<close>), what SQL engines leave open (\<open>engine\<close>: order of ties, full-text search, collation,
  precision of times), the SHA-256 digest, Unicode lower-casing off ASCII, MIME types by file
  extension, the configuration library (\<open>koanf\<close>), the HTTP transport of the client, the answers of the
  operating system to \<open>serve\<close>. What a theorem relies on of them is a named hypothesis: \<open>engine_ok\<close>,
  \<open>engine_doc\<close>, \<open>koanf_doc\<close>.

  \<^bold>\<open>Bounds and termination.\<close> No definition takes fuel: the loops of the code that end are recursive
  functions, with a measure where the recursion is not structural (the JSON reader is bounded by
  \<open>maxNestingDepth\<close>, the line scanner by its input, the groups of an IPv6 address by the sixteen bytes
  of the address); the loops that need not end (the stream, the login goroutines) are step relations
  with reachability. That the QR goroutine ends while it is read is \<open>qr_ends\<close>.

  \<^bold>\<open>Not modelled.\<close> The path matching of the router package (\<open>endpoint\<close> is the chosen route) and the
  multipart parser (a request carries the parsed form); the library that
  applies the SQL migrations; the goroutine scheduling inside one
  request (a request or an inbound event is one step, except in \<open>Races\<close>; the stream, the broadcaster, the logins and the
  pending downloads interleave); cancelled contexts, except in the logins and the stream; the parser
  of the command-line flags and the drawing of the QR code; the container that the Postgres tests
  start; internal/media, which is a package comment.
\<close>

end
